(* ===== verification/Graph_Prelude.thy ===== *)
theory Graph_Prelude
  imports Main "HOL-Library.AList" "HOL-Library.List_Lexorder" "HOL-Library.Char_ord"
begin

text \<open>
  What every component of the development shares: Rust's \<open>Result\<close> as a sum
  (\<open>Inl\<close> the error, \<open>Inr\<close> the value) with the loop \<open>for x in xs { f(x)?; }\<close>,
  decimal rendering of \<open>usize\<close> values for the \<open>format!\<close> messages, the string
  operations of the standard library the code calls, hash maps as association
  lists with distinct keys (the list order stands for the unspecified iteration
  order), B-tree maps as association lists sorted by key, and the removal of
  duplicates that keeps first occurrences.
\<close>

named_theorems result_simps \<open>equations of the Result combinators\<close>
named_theorems hash_map_simps \<open>lookup laws of the association-list hash maps\<close>
named_theorems lock_simps \<open>facts that resolve a lock acquisition\<close>

section \<open>Result\<close>

definition bind_result :: "'e + 'a \<Rightarrow> ('a \<Rightarrow> 'e + 'b) \<Rightarrow> 'e + 'b" where
  "bind_result r f = (case r of Inl e \<Rightarrow> Inl e | Inr x \<Rightarrow> f x)"

lemma bind_result_simps [simp, result_simps]:
  "bind_result (Inl e) f = Inl e"
  "bind_result (Inr x) f = f x"
  by (simp_all add: bind_result_def)

lemma bind_result_Inr_iff:
  "bind_result r f = Inr y \<longleftrightarrow> (\<exists>x. r = Inr x \<and> f x = Inr y)"
  by (cases r) auto

text \<open>\<open>for x in xs { acc = f(acc, x)?; }\<close>: the loop stops at the first error.\<close>

fun try_fold :: "('a \<Rightarrow> 'b \<Rightarrow> 'e + 'b) \<Rightarrow> 'a list \<Rightarrow> 'b \<Rightarrow> 'e + 'b" where
  "try_fold f [] acc = Inr acc"
| "try_fold f (x # xs) acc = (case f x acc of Inl e \<Rightarrow> Inl e | Inr acc' \<Rightarrow> try_fold f xs acc')"

lemma try_fold_append:
  "try_fold f (xs @ ys) acc = bind_result (try_fold f xs acc) (try_fold f ys)"
  by (induction xs arbitrary: acc) (auto split: sum.splits)

lemma try_fold_invariant:
  assumes "try_fold f xs acc = Inr acc'" and "P acc"
    and "\<And>x a a'. x \<in> set xs \<Longrightarrow> P a \<Longrightarrow> f x a = Inr a' \<Longrightarrow> P a'"
  shows "P acc'"
  using assms
proof (induction xs arbitrary: acc)
  case Nil
  then show ?case by simp
next
  case (Cons x xs)
  from Cons.prems(1) obtain a where a: "f x acc = Inr a" "try_fold f xs a = Inr acc'"
    by (auto split: sum.splits)
  have "P a" using Cons.prems(3) [OF _ Cons.prems(2) a(1)] by simp
  with a(2) show ?case using Cons.prems(3) by (intro Cons.IH) auto
qed

text \<open>A loop whose body never fails is a fold.\<close>

lemma try_fold_total:
  "(\<And>x a. x \<in> set xs \<Longrightarrow> f x a = Inr (g x a)) \<Longrightarrow> try_fold f xs acc = Inr (fold g xs acc)"
  by (induction xs arbitrary: acc) auto

section \<open>Strings\<close>

fun digit_char :: "nat \<Rightarrow> char" where
  "digit_char d = char_of (48 + d)"

fun show_nat :: "nat \<Rightarrow> string" where
  "show_nat n = (if n < 10 then [digit_char n] else show_nat (n div 10) @ [digit_char (n mod 10)])"

declare show_nat.simps [simp del]

lemma show_nat_nonempty [simp]: "show_nat n \<noteq> []"
  by (subst show_nat.simps) simp

text \<open>\<open>'{s}'\<close> in a format string.\<close>

definition quoted :: "string \<Rightarrow> string" where
  "quoted s = [CHR 0x27] @ s @ [CHR 0x27]"

text \<open>\<open>str::split(c)\<close>: the segments between separators, at least one.\<close>

fun split_on :: "char \<Rightarrow> string \<Rightarrow> string list" where
  "split_on c [] = [[]]"
| "split_on c (x # xs) =
     (if x = c then [] # split_on c xs
      else (case split_on c xs of [] \<Rightarrow> [[x]] | s # ss \<Rightarrow> (x # s) # ss))"

lemma split_on_nonempty [simp]: "split_on c s \<noteq> []"
  by (induction s) (auto split: list.splits)

text \<open>\<open>[String]::join(sep)\<close>.\<close>

fun join_with :: "string \<Rightarrow> string list \<Rightarrow> string" where
  "join_with sep [] = []"
| "join_with sep [s] = s"
| "join_with sep (s # t # ss) = s @ sep @ join_with sep (t # ss)"

lemma join_split_on: "join_with [c] (split_on c s) = s"
proof (induction s)
  case Nil
  then show ?case by simp
next
  case (Cons x xs)
  obtain t ts where "split_on c xs = t # ts"
    by (cases "split_on c xs") auto
  with Cons show ?case by (cases ts) auto
qed

text \<open>\<open>str::trim().is_empty()\<close> on the ASCII white space of the code's inputs.\<close>

definition is_space :: "char \<Rightarrow> bool" where
  "is_space c \<longleftrightarrow> c \<in> set [CHR '' '', CHR 0x09, CHR 0x0A, CHR 0x0B, CHR 0x0C, CHR 0x0D]"

definition blank :: "string \<Rightarrow> bool" where
  "blank s \<longleftrightarrow> list_all is_space s"

text \<open>\<open>str::contains\<close>.\<close>

fun starts_with :: "string \<Rightarrow> string \<Rightarrow> bool" where
  "starts_with s [] = True"
| "starts_with [] (p # ps) = False"
| "starts_with (c # cs) (p # ps) = (c = p \<and> starts_with cs ps)"

fun contains_str :: "string \<Rightarrow> string \<Rightarrow> bool" where
  "contains_str [] p = (p = [])"
| "contains_str (c # cs) p = (starts_with (c # cs) p \<or> contains_str cs p)"

lemma starts_with_iff: "starts_with s p \<longleftrightarrow> (\<exists>t. s = p @ t)"
  by (induction s p rule: starts_with.induct) auto

lemma contains_str_iff: "contains_str s p \<longleftrightarrow> (\<exists>u v. s = u @ p @ v)"
proof (induction s)
  case Nil
  then show ?case by simp
next
  case (Cons c cs)
  have "contains_str (c # cs) p \<longleftrightarrow> (\<exists>t. c # cs = p @ t) \<or> (\<exists>u v. cs = u @ p @ v)"
    using Cons.IH by (auto simp: starts_with_iff)
  also have "\<dots> \<longleftrightarrow> (\<exists>u v. c # cs = u @ p @ v)"
  proof
    assume "(\<exists>t. c # cs = p @ t) \<or> (\<exists>u v. cs = u @ p @ v)"
    then show "\<exists>u v. c # cs = u @ p @ v"
      by (metis append_Cons append_Nil)
  next
    assume "\<exists>u v. c # cs = u @ p @ v"
    then obtain u v where uv: "c # cs = u @ p @ v" by blast
    then show "(\<exists>t. c # cs = p @ t) \<or> (\<exists>u v. cs = u @ p @ v)"
      by (cases u) auto
  qed
  finally show ?case .
qed

text \<open>\<open>to_lowercase\<close> and \<open>to_ascii_lowercase\<close> on ASCII text.\<close>

definition lower_char :: "char \<Rightarrow> char" where
  "lower_char c = (if of_char c \<ge> (65 :: nat) \<and> of_char c \<le> (90 :: nat)
     then char_of (of_char c + (32 :: nat)) else c)"

definition to_lower :: "string \<Rightarrow> string" where
  "to_lower s = map lower_char s"

section \<open>Hash maps\<close>

text \<open>
  A Rust \<open>HashMap\<close> is a list of key-value pairs with distinct keys. \<open>AList.update\<close>
  is \<open>insert\<close>, \<open>AList.delete\<close> is \<open>remove\<close>, \<open>map_of\<close> is \<open>get\<close>. The order of the list
  is the iteration order, which Rust leaves open: results that could depend on it
  are stated up to \<open>map_of\<close>.
\<close>

type_synonym ('k, 'v) hash_map = "('k \<times> 'v) list"

definition hm_wf :: "('k, 'v) hash_map \<Rightarrow> bool" where
  "hm_wf m \<longleftrightarrow> distinct (map fst m)"

definition contains_key :: "('k, 'v) hash_map \<Rightarrow> 'k \<Rightarrow> bool" where
  "contains_key m k \<longleftrightarrow> map_of m k \<noteq> None"

lemma hm_wf_Nil [simp]: "hm_wf []"
  by (simp add: hm_wf_def)

lemma hm_wf_update [simp]: "hm_wf m \<Longrightarrow> hm_wf (AList.update k v m)"
  by (simp add: hm_wf_def distinct_update)

lemma hm_wf_delete [simp]: "hm_wf m \<Longrightarrow> hm_wf (AList.delete k m)"
  by (simp add: hm_wf_def distinct_delete)

lemma map_of_update [simp, hash_map_simps]:
  "map_of (AList.update k v m) = (map_of m)(k \<mapsto> v)"
  by (rule update_conv')

lemma map_of_delete [simp, hash_map_simps]:
  "map_of (AList.delete k m) = (map_of m)(k := None)"
  by (rule delete_conv')

lemma contains_key_iff: "contains_key m k \<longleftrightarrow> k \<in> fst ` set m"
  by (simp add: contains_key_def map_of_eq_None_iff)

lemma length_update:
  "length (AList.update k v m) = (if contains_key m k then length m else Suc (length m))"
  by (induction m) (auto simp: contains_key_def)

lemma update_absent: "\<not> contains_key m k \<Longrightarrow> AList.update k v m = m @ [(k, v)]"
  by (induction m) (auto simp: contains_key_def split: if_splits)

lemma set_update_subset: "set (AList.update k v m) \<subseteq> insert (k, v) (set m)"
  by (induction m) auto

lemma map_of_fold_update:
  "map_of (fold (\<lambda>(k, v). AList.update k v) kvs m) = map_of m ++ map_of (rev kvs)"
proof (induction kvs arbitrary: m)
  case Nil
  then show ?case by simp
next
  case (Cons kv kvs)
  then show ?case by (cases kv) (simp add: map_add_def fun_eq_iff split: option.splits)
qed

section \<open>B-tree maps\<close>

text \<open>
  A \<open>BTreeMap\<close>, and the \<open>serde_json::Map\<close> of a JSON object, is a list of pairs in
  strictly increasing key order; iteration follows the list.
\<close>

fun bt_insert :: "'k::linorder \<Rightarrow> 'v \<Rightarrow> ('k \<times> 'v) list \<Rightarrow> ('k \<times> 'v) list" where
  "bt_insert k v [] = [(k, v)]"
| "bt_insert k v ((k', v') # m) =
     (if k < k' then (k, v) # (k', v') # m
      else if k = k' then (k, v) # m
      else (k', v') # bt_insert k v m)"

definition bt_wf :: "('k::linorder \<times> 'v) list \<Rightarrow> bool" where
  "bt_wf m \<longleftrightarrow> sorted_wrt (<) (map fst m)"

lemma bt_wf_Nil [simp]: "bt_wf []"
  by (simp add: bt_wf_def)

lemma set_keys_bt_insert: "fst ` set (bt_insert k v m) = insert k (fst ` set m)"
  by (induction k v m rule: bt_insert.induct) auto

lemma bt_wf_insert [simp]: "bt_wf m \<Longrightarrow> bt_wf (bt_insert k v m)"
  unfolding bt_wf_def
proof (induction k v m rule: bt_insert.induct)
  case (1 k v)
  then show ?case by simp
next
  case (2 k v k' v' m)
  from "2.prems" have tail: "sorted_wrt (<) (map fst m)" by simp
  show ?case
  proof (cases "k < k' \<or> k = k'")
    case True
    with "2.prems" show ?thesis by auto
  next
    case False
    then have "k' < k" by (meson not_less_iff_gr_or_eq)
    moreover have "sorted_wrt (<) (map fst (bt_insert k v m))"
      using "2.IH" tail False by auto
    moreover have "\<forall>x \<in> fst ` set (bt_insert k v m). k' < x"
      using "2.prems" \<open>k' < k\<close> by (auto simp: set_keys_bt_insert)
    ultimately show ?thesis by auto
  qed
qed

lemma bt_wf_distinct: "bt_wf m \<Longrightarrow> distinct (map fst m)"
  unfolding bt_wf_def using strict_sorted_iff by blast

lemma map_of_bt_insert:
  "bt_wf m \<Longrightarrow> map_of (bt_insert k v m) = (map_of m)(k \<mapsto> v)"
proof (induction k v m rule: bt_insert.induct)
  case (1 k v)
  then show ?case by simp
next
  case (2 k v k' v' m)
  from "2.prems" have "bt_wf m" by (simp add: bt_wf_def)
  then show ?case using "2.IH" by (auto simp: fun_eq_iff)
qed

lemma bt_wf_map_of_inject:
  assumes "bt_wf m" "bt_wf m'" "map_of m = map_of m'"
  shows "m = m'"
proof (rule map_sorted_distinct_set_unique [where f = fst])
  have "set m = set m'"
    using assms by (metis bt_wf_distinct map_of_inject_set)
  then show "set m = set m'" .
  show "inj_on fst (set m \<union> set m')"
    using \<open>set m = set m'\<close> bt_wf_distinct [OF assms(1)] by (simp add: distinct_map)
qed (use assms in \<open>auto simp: bt_wf_def strict_sorted_iff\<close>)

section \<open>Keeping first occurrences\<close>

text \<open>
  The idiom \<open>let mut seen = HashSet::new(); xs.retain(|x| seen.insert(x.clone()))\<close>.
\<close>

fun retain_unseen :: "'a list \<Rightarrow> 'a list \<Rightarrow> 'a list" where
  "retain_unseen seen [] = []"
| "retain_unseen seen (x # xs) =
     (if x \<in> set seen then retain_unseen seen xs else x # retain_unseen (x # seen) xs)"

lemma set_retain_unseen: "set (retain_unseen seen xs) = set xs - set seen"
  by (induction seen xs rule: retain_unseen.induct) auto

lemma distinct_retain_unseen: "distinct (retain_unseen seen xs)"
  by (induction seen xs rule: retain_unseen.induct) (auto simp: set_retain_unseen)

lemma retain_unseen_distinct:
  "distinct xs \<Longrightarrow> set xs \<inter> set seen = {} \<Longrightarrow> retain_unseen seen xs = xs"
  by (induction seen xs rule: retain_unseen.induct) auto

end
