(* ===== verification/Json_Value.thy ===== *)
theory Json_Value
  imports Complex_Main Graph_Prelude "HOL-Library.Word" "HOL-Library.Log_Nat"
begin

text \<open>
  The JSON values (\<open>serde_json::Value\<close>) that the state, the reducers and the joins
  work on, with the accessors the code calls, and the \<open>f64\<close> arithmetic it does on
  JSON numbers. A JSON object is a B-tree map (the crate is built without
  \<open>preserve_order\<close>), so its entries are sorted by key. A finite \<open>f64\<close> is the
  rational it stands for (both zeros are \<open>0\<close>, which \<open>==\<close> does not distinguish);
  an operation rounds its exact result to 53 bits, ties to even, and \<open>None\<close>
  is an overflow to infinity, which \<open>json!\<close> turns into \<open>Null\<close>.
\<close>

section \<open>IEEE 754 binary64 rounding\<close>

type_synonym f64 = rat

definition pow2 :: "int \<Rightarrow> rat" where
  "pow2 e = (if 0 \<le> e then 2 ^ nat e else 1 / 2 ^ nat (- e))"

text \<open>The exponent \<open>e\<close> with \<open>2\<^sup>e \<le> x < 2\<^sup>e\<^sup>+\<^sup>1\<close>, for positive \<open>x\<close>.\<close>

definition ilog2 :: "rat \<Rightarrow> int" where
  "ilog2 x = (let (n, d) = quotient_of x; e = bitlen n - bitlen d
     in if pow2 e \<le> x then e else e - 1)"

definition round_half_even :: "rat \<Rightarrow> int" where
  "round_half_even x = (let f = \<lfloor>x\<rfloor>; r = x - of_int f in
     if r < 1 / 2 then f else if 1 / 2 < r then f + 1 else if even f then f else f + 1)"

definition f64_round :: "rat \<Rightarrow> f64 option" where
  "f64_round x = (if x = 0 then Some 0 else
     (let q = max (ilog2 \<bar>x\<bar> - 52) (- 1074);
          y = of_int (round_half_even (x / pow2 q)) * pow2 q
      in if 2 ^ 1024 \<le> \<bar>y\<bar> then None else Some y))"

lemma pow2_pos [simp]: "0 < pow2 e"
  by (simp add: pow2_def)

lemma pow2_neg_inverse: "e \<le> 0 \<Longrightarrow> pow2 e = 1 / of_int (2 ^ nat (- e))"
  by (simp add: pow2_def)

lemma round_half_even_of_int [simp]: "round_half_even (of_int n) = n"
  by (simp add: round_half_even_def)

lemma quotient_of_nat [simp]: "quotient_of (of_int n) = (n, 1)"
  by (metis quotient_of_int Rat.of_int_def)

lemma ilog2_of_int_le:
  assumes "0 < n" and "n < 2 ^ k"
  shows "ilog2 (of_int n) < int k"
proof -
  have "bitlen n \<le> int k"
    using assms by (simp add: bitlen_le_iff_power)
  moreover have "bitlen 1 = 1"
    by (simp add: compute_bitlen)
  ultimately show ?thesis by (simp add: ilog2_def Let_def)
qed

text \<open>An integer of at most 53 bits is a \<open>f64\<close> exactly.\<close>

lemma f64_round_small_int:
  assumes "\<bar>n\<bar> < 2 ^ 53"
  shows "f64_round (of_int n) = Some (of_int n)"
proof (cases "n = 0")
  case True
  then show ?thesis by (simp add: f64_round_def)
next
  case False
  define q where "q = max (ilog2 \<bar>rat_of_int n\<bar> - 52) (- 1074)"
  have "ilog2 \<bar>rat_of_int n\<bar> < 53"
    using ilog2_of_int_le [of "\<bar>n\<bar>" 53] False assms by simp
  then have "q \<le> 0" by (simp add: q_def)
  then have scaled: "rat_of_int n / pow2 q = rat_of_int (n * 2 ^ nat (- q))"
    by (simp add: pow2_neg_inverse)
  have "rat_of_int (round_half_even (rat_of_int n / pow2 q)) * pow2 q = rat_of_int n"
    unfolding scaled round_half_even_of_int
    using \<open>q \<le> 0\<close> by (simp add: pow2_neg_inverse)
  moreover have "\<bar>rat_of_int n\<bar> < 2 ^ 1024"
  proof -
    have "\<bar>rat_of_int n\<bar> < 2 ^ 53"
      using assms by (metis of_int_abs of_int_less_iff of_int_numeral of_int_power)
    also have "(2::rat) ^ 53 \<le> 2 ^ 1024" by (rule power_increasing) auto
    finally show ?thesis .
  qed
  ultimately show ?thesis
    using False by (simp add: f64_round_def q_def Let_def)
qed

section \<open>Values\<close>

text \<open>\<open>serde_json::Number\<close>: an unsigned, a negative or a floating point number.\<close>

datatype number = PosInt "64 word" | NegInt int | Float f64

datatype "value" =
    Null
  | Bool bool
  | Number number
  | String string
  | Array "value list"
  | Object "(string \<times> value) list"

type_synonym json_map = "(string \<times> value) list"

definition number_as_f64 :: "number \<Rightarrow> f64 option" where
  "number_as_f64 n = (case n of
     PosInt w \<Rightarrow> f64_round (of_int (uint w))
   | NegInt i \<Rightarrow> f64_round (of_int i)
   | Float r \<Rightarrow> Some r)"

text \<open>\<open>json!(x)\<close> for a floating point \<open>x\<close>: no JSON number is infinite.\<close>

definition json_f64 :: "f64 option \<Rightarrow> value" where
  "json_f64 x = (case x of Some r \<Rightarrow> Number (Float r) | None \<Rightarrow> Null)"

definition f64_add :: "f64 \<Rightarrow> f64 \<Rightarrow> f64 option" where
  "f64_add a b = f64_round (a + b)"

definition json_u64 :: "nat \<Rightarrow> value" where
  "json_u64 n = Number (PosInt (of_nat n))"

fun is_null :: "value \<Rightarrow> bool" where
  "is_null Null = True"
| "is_null v = False"

fun is_object :: "value \<Rightarrow> bool" where
  "is_object (Object m) = True"
| "is_object v = False"

fun as_bool :: "value \<Rightarrow> bool option" where
  "as_bool (Bool b) = Some b"
| "as_bool v = None"

fun as_str :: "value \<Rightarrow> string option" where
  "as_str (String s) = Some s"
| "as_str v = None"

fun as_array :: "value \<Rightarrow> value list option" where
  "as_array (Array xs) = Some xs"
| "as_array v = None"

fun as_object :: "value \<Rightarrow> json_map option" where
  "as_object (Object m) = Some m"
| "as_object v = None"

fun as_u64 :: "value \<Rightarrow> nat option" where
  "as_u64 (Number (PosInt w)) = Some (unat w)"
| "as_u64 v = None"

fun as_f64 :: "value \<Rightarrow> f64 option" where
  "as_f64 (Number n) = number_as_f64 n"
| "as_f64 v = None"

text \<open>\<open>Value::get(key)\<close> with a string key: only an object has members.\<close>

fun get_key :: "value \<Rightarrow> string \<Rightarrow> value option" where
  "get_key (Object m) k = map_of m k"
| "get_key v k = None"

text \<open>Every object of a value has its entries in strictly increasing key order.\<close>

fun json_wf :: "value \<Rightarrow> bool" where
  "json_wf (Array xs) = list_all json_wf xs"
| "json_wf (Object m) = (bt_wf m \<and> list_all (\<lambda>kv. json_wf (snd kv)) m)"
| "json_wf v = True"

definition json_object :: "(string \<times> value) list \<Rightarrow> value" where
  "json_object kvs = Object (fold (\<lambda>(k, v). bt_insert k v) kvs [])"

lemma fold_bt_insert_wf: "bt_wf m \<Longrightarrow> bt_wf (fold (\<lambda>(k, v). bt_insert k v) kvs m)"
  by (induction kvs arbitrary: m) auto

lemma map_of_fold_bt_insert:
  "bt_wf m \<Longrightarrow> map_of (fold (\<lambda>(k, v). bt_insert k v) kvs m) = map_of m ++ map_of (rev kvs)"
proof (induction kvs arbitrary: m)
  case Nil
  then show ?case by simp
next
  case (Cons kv kvs)
  then show ?case
    by (cases kv) (simp add: map_of_bt_insert map_add_def fun_eq_iff split: option.splits)
qed

lemma map_of_rev: "distinct (map fst kvs) \<Longrightarrow> map_of (rev kvs) = map_of kvs"
  by (rule map_of_inject_set [THEN iffD2]) (auto simp: rev_map [symmetric])

lemma get_key_json_object:
  "distinct (map fst kvs) \<Longrightarrow> get_key (json_object kvs) k = map_of kvs k"
  by (simp add: json_object_def map_of_fold_bt_insert map_of_rev)

lemma set_bt_insert_subset: "set (bt_insert k v m) \<subseteq> insert (k, v) (set m)"
  by (induction k v m rule: bt_insert.induct) auto

end
