(* ===== verification/Graph_Error.thy ===== *)
theory Graph_Error
  imports Json_Value
begin

text \<open>
  \<open>agent-graph/src/error.rs\<close>: the error type every operation of the engine returns,
  the stable discriminant \<open>kind\<close>, and the \<open>Display\<close> text, which the engine stores
  in the checkpoint store (\<open>fail_run\<close>, \<open>fail_attempt\<close>) and wraps into
  \<open>CheckpointStore\<close> errors. The payloads of the two foreign errors
  (\<open>serde_json::Error\<close>, \<open>rusqlite::Error\<close>) are their display texts.
\<close>

datatype checkpoint_store_operation =
  CreateRun | RecordAttempt | CompleteAttempt | FailAttempt | SaveStateSnapshot
| CompleteRun | FailRun

fun operation_text :: "checkpoint_store_operation \<Rightarrow> string" where
  "operation_text CreateRun = ''create run''"
| "operation_text RecordAttempt = ''record attempt''"
| "operation_text CompleteAttempt = ''complete attempt''"
| "operation_text FailAttempt = ''fail attempt''"
| "operation_text SaveStateSnapshot = ''save state snapshot''"
| "operation_text CompleteRun = ''complete run''"
| "operation_text FailRun = ''fail run''"

datatype graph_error =
    NodeNotFound string
  | RoutingError string
  | StateError string
  | MaxIterationsExceeded nat nat
  | CycleDetected "string list"
  | CheckpointError string
  | CheckpointStore checkpoint_store_operation string
  | CheckpointMismatch string string
  | RunNotFound string
  | AttemptNotFound string
  | AttemptRunMismatch string string string
  | InvalidTransition string
  | TerminalStateConflict string
  | ExecutionError string
  | InterruptError string "value option"
  | PayloadError string
  | Cancelled
  | SerializationError string
  | DatabaseError string
  | Other string

fun error_kind :: "graph_error \<Rightarrow> string" where
  "error_kind (NodeNotFound _) = ''node_not_found''"
| "error_kind (RoutingError _) = ''routing''"
| "error_kind (StateError _) = ''state''"
| "error_kind (MaxIterationsExceeded _ _) = ''max_iterations''"
| "error_kind (CycleDetected _) = ''cycle_detected''"
| "error_kind (CheckpointError _) = ''checkpoint''"
| "error_kind (CheckpointStore _ _) = ''checkpoint_store''"
| "error_kind (CheckpointMismatch _ _) = ''checkpoint_mismatch''"
| "error_kind (RunNotFound _) = ''run_not_found''"
| "error_kind (AttemptNotFound _) = ''attempt_not_found''"
| "error_kind (AttemptRunMismatch _ _ _) = ''attempt_run_mismatch''"
| "error_kind (InvalidTransition _) = ''invalid_transition''"
| "error_kind (TerminalStateConflict _) = ''terminal_state_conflict''"
| "error_kind (ExecutionError _) = ''execution''"
| "error_kind (InterruptError _ _) = ''interrupt''"
| "error_kind (PayloadError _) = ''payload''"
| "error_kind Cancelled = ''cancelled''"
| "error_kind (SerializationError _) = ''serialization''"
| "error_kind (DatabaseError _) = ''database''"
| "error_kind (Other _) = ''other''"

text \<open>Rust's \<open>Debug\<close> of a \<open>Vec<String>\<close> (ASCII escapes), for \<open>{path:?}\<close>.\<close>

definition debug_char :: "char \<Rightarrow> string" where
  "debug_char c = (if c = CHR 0x22 then [CHR 0x5C, CHR 0x22]
     else if c = CHR 0x5C then [CHR 0x5C, CHR 0x5C]
     else if c = CHR 0x0A then [CHR 0x5C, CHR ''n'']
     else if c = CHR 0x0D then [CHR 0x5C, CHR ''r'']
     else if c = CHR 0x09 then [CHR 0x5C, CHR ''t'']
     else [c])"

definition debug_string :: "string \<Rightarrow> string" where
  "debug_string s = [CHR 0x22] @ concat (map debug_char s) @ [CHR 0x22]"

definition debug_strings :: "string list \<Rightarrow> string" where
  "debug_strings ss = ''['' @ join_with '', '' (map debug_string ss) @ '']''"

fun error_text :: "graph_error \<Rightarrow> string" where
  "error_text (NodeNotFound s) = ''Node not found: '' @ s"
| "error_text (RoutingError s) = ''Routing error: '' @ s"
| "error_text (StateError s) = ''State error: '' @ s"
| "error_text (MaxIterationsExceeded c m) =
     ''Max iterations exceeded: '' @ show_nat c @ ''/'' @ show_nat m"
| "error_text (CycleDetected p) = ''Cycle detected: '' @ debug_strings p"
| "error_text (CheckpointError s) = ''Checkpoint error: '' @ s"
| "error_text (CheckpointStore op m) =
     ''Checkpoint store failed to '' @ operation_text op @ '': '' @ m"
| "error_text (CheckpointMismatch e a) =
     ''Checkpoint graph mismatch: expected hash '' @ quoted e @ '', got '' @ quoted a"
| "error_text (RunNotFound s) = ''run not found: '' @ s"
| "error_text (AttemptNotFound s) = ''attempt not found: '' @ s"
| "error_text (AttemptRunMismatch i e a) =
     ''attempt '' @ quoted i @ '' belongs to run '' @ quoted a @ '', not '' @ quoted e"
| "error_text (InvalidTransition s) = ''invalid checkpoint transition: '' @ s"
| "error_text (TerminalStateConflict s) = ''terminal state conflict for run '' @ quoted s"
| "error_text (ExecutionError s) = ''Execution error: '' @ s"
| "error_text (InterruptError n _) = ''Interrupt at node '' @ quoted n"
| "error_text (PayloadError s) = ''Payload error: '' @ s"
| "error_text Cancelled = ''Cancelled''"
| "error_text (SerializationError s) = ''Serialization error: '' @ s"
| "error_text (DatabaseError s) = ''Database error: '' @ s"
| "error_text (Other s) = s"

type_synonym 'a result = "graph_error + 'a"

text \<open>\<open>engine.rs::checkpoint_store_error\<close>.\<close>

definition checkpoint_store_error ::
    "checkpoint_store_operation \<Rightarrow> graph_error \<Rightarrow> graph_error" where
  "checkpoint_store_error op e = CheckpointStore op (error_text e)"

definition interrupt :: "string \<Rightarrow> value option \<Rightarrow> graph_error" where
  "interrupt node v = InterruptError node v"

definition is_interrupt :: "graph_error \<Rightarrow> bool" where
  "is_interrupt e = (case e of InterruptError _ _ \<Rightarrow> True | _ \<Rightarrow> False)"

lemma checkpoint_store_error_not_interrupt [simp]:
  "\<not> is_interrupt (checkpoint_store_error op e)"
  "checkpoint_store_error op e \<noteq> Cancelled"
  "checkpoint_store_error op e \<noteq> InterruptError n v"
  "checkpoint_store_error op e \<noteq> CycleDetected p"
  by (simp_all add: is_interrupt_def checkpoint_store_error_def)

end
