(* ===== verification/Reducers.thy ===== *)
theory Reducers
  imports Graph_Error
begin

text \<open>
  \<open>agent-graph/src/reducer.rs\<close>: the reducers that combine the old and the new value
  of a state key. A reducer (\<open>dyn Reducer\<close>) is the function its \<open>reduce\<close> method
  computes. The locale states what a fold of updates relies on: some measure of
  the value (the list of collected items, the last value, the sum) grows by the
  contribution of each update; it is interpreted on the reducers of the code.
\<close>

type_synonym reducer = "value \<Rightarrow> value \<Rightarrow> value result"

section \<open>The reducers\<close>

definition last_write_wins :: reducer where
  "last_write_wins current update = Inr update"

fun append_reduce :: "value \<Rightarrow> value \<Rightarrow> value" where
  "append_reduce Null (Array upd) = Array upd"
| "append_reduce Null val = Array [val]"
| "append_reduce (Array cur) (Array upd) = Array (cur @ upd)"
| "append_reduce (Array cur) val = Array (cur @ [val])"
| "append_reduce current (Array upd) = Array (current # upd)"
| "append_reduce current update = Array [current, update]"

definition append_reducer :: reducer where
  "append_reducer current update = Inr (append_reduce current update)"

definition add_reducer :: reducer where
  "add_reducer current update =
     bind_result
       (case current of
          Number n \<Rightarrow> Inr (case number_as_f64 n of Some a \<Rightarrow> a | None \<Rightarrow> 0)
        | Null \<Rightarrow> Inr 0
        | _ \<Rightarrow> Inl (StateError ''AddReducer: current value must be a number''))
       (\<lambda>a. bind_result
         (case update of
            Number n \<Rightarrow> (case number_as_f64 n of Some b \<Rightarrow> Inr b
              | None \<Rightarrow> Inl (StateError ''AddReducer: cannot convert update to f64''))
          | _ \<Rightarrow> Inl (StateError ''AddReducer: update value must be a number''))
         (\<lambda>b. Inr (json_f64 (f64_add a b))))"

text \<open>
  \<open>MergeReducer::reduce\<close> and its loop over the update's entries; the recursion
  descends into the update.
\<close>

fun merge_reduce :: "value \<Rightarrow> value \<Rightarrow> value"
  and merge_entries :: "json_map \<Rightarrow> json_map \<Rightarrow> json_map" where
  "merge_reduce (Object cur) (Object upd) = Object (merge_entries cur upd)"
| "merge_reduce current update = update"
| "merge_entries acc [] = acc"
| "merge_entries acc ((k, v) # upd) =
     merge_entries
       (case map_of acc k of
          Some existing \<Rightarrow>
            (if is_object existing \<and> is_object v then bt_insert k (merge_reduce existing v) acc
             else bt_insert k v acc)
        | None \<Rightarrow> bt_insert k v acc)
       upd"

definition merge_reducer :: reducer where
  "merge_reducer current update = Inr (merge_reduce current update)"

definition fn_reducer :: "(value \<Rightarrow> value \<Rightarrow> value result) \<Rightarrow> reducer" where
  "fn_reducer func = (\<lambda>current update. func current update)"

section \<open>Folding updates\<close>

text \<open>The loop of \<open>merge_parallel_states\<close> over the values of one key.\<close>

definition reduce_all :: "reducer \<Rightarrow> value list \<Rightarrow> value \<Rightarrow> value result" where
  "reduce_all r vs base = try_fold (\<lambda>v current. r current v) vs base"

lemma reduce_all_simps [simp]:
  "reduce_all r [] base = Inr base"
  "reduce_all r (v # vs) base = bind_result (r base v) (reduce_all r vs)"
  by (auto simp: reduce_all_def bind_result_def split: sum.splits)

locale accumulating_reducer =
  fixes reduce :: reducer
    and total :: "value \<Rightarrow> 'm"
    and contribution :: "value \<Rightarrow> 'm"
    and combine :: "'m \<Rightarrow> 'm \<Rightarrow> 'm"
    and exact :: "value \<Rightarrow> value \<Rightarrow> bool"
  assumes reduce_total:
    "exact current update \<Longrightarrow> reduce current update = Inr v \<Longrightarrow>
     total v = combine (total current) (contribution update)"
begin

fun exact_run :: "value list \<Rightarrow> value \<Rightarrow> bool" where
  "exact_run [] base = True"
| "exact_run (v # vs) base =
     (exact base v \<and> (\<forall>w. reduce base v = Inr w \<longrightarrow> exact_run vs w))"

lemma reduce_all_total:
  "exact_run vs base \<Longrightarrow> reduce_all reduce vs base = Inr v \<Longrightarrow>
   total v = foldl combine (total base) (map contribution vs)"
proof (induction vs arbitrary: base)
  case Nil
  then show ?case by simp
next
  case (Cons u us)
  from Cons.prems(2) obtain w where w: "reduce base u = Inr w" "reduce_all reduce us w = Inr v"
    by (auto simp: bind_result_Inr_iff)
  from Cons.prems(1) have "exact base u" and "exact_run us w"
    using w(1) by simp_all
  then have "total v = foldl combine (total w) (map contribution us)"
    using Cons.IH w(2) by blast
  also have "total w = combine (total base) (contribution u)"
    using \<open>exact base u\<close> w(1) by (rule reduce_total)
  finally show ?case by simp
qed

end

text \<open>The items an append collects: from the current value, and from an update.\<close>

fun held_items :: "value \<Rightarrow> value list" where
  "held_items Null = []"
| "held_items (Array xs) = xs"
| "held_items v = [v]"

fun update_items :: "value \<Rightarrow> value list" where
  "update_items (Array xs) = xs"
| "update_items v = [v]"

lemma append_reduce_eq: "append_reduce c u = Array (held_items c @ update_items u)"
  by (induction c u rule: append_reduce.induct) simp_all

interpretation append: accumulating_reducer append_reducer held_items update_items "(@)" "\<lambda>_ _. True"
  by unfold_locales (auto simp: append_reducer_def append_reduce_eq)

interpretation last_write: accumulating_reducer last_write_wins id id "\<lambda>_ b. b" "\<lambda>_ _. True"
  by unfold_locales (auto simp: last_write_wins_def)

text \<open>What a JSON value counts for in a sum, and when an addition is exact.\<close>

definition amount :: "value \<Rightarrow> rat" where
  "amount v = (case v of Number n \<Rightarrow> (case number_as_f64 n of Some a \<Rightarrow> a | None \<Rightarrow> 0) | _ \<Rightarrow> 0)"

definition exact_sum :: "value \<Rightarrow> value \<Rightarrow> bool" where
  "exact_sum c u \<longleftrightarrow> f64_add (amount c) (amount u) = Some (amount c + amount u)"

lemma add_reducer_amount:
  assumes "add_reducer c u = Inr v"
  shows "v = json_f64 (f64_add (amount c) (amount u))"
  using assms
  by (auto simp: add_reducer_def amount_def bind_result_Inr_iff
      split: "value.splits" option.splits)

interpretation sum: accumulating_reducer add_reducer amount amount "(+)" exact_sum
proof unfold_locales
  fix c u v
  assume "exact_sum c u" "add_reducer c u = Inr v"
  then show "amount v = amount c + amount u"
    by (auto dest!: add_reducer_amount
        simp: exact_sum_def json_f64_def amount_def number_as_f64_def split: option.splits)
qed

lemma append_exact_run [simp]: "append.exact_run vs base"
  by (induction vs arbitrary: base) auto

lemma last_write_exact_run [simp]: "last_write.exact_run vs base"
  by (induction vs arbitrary: base) auto

lemma reduce_all_append:
  "reduce_all append_reducer vs base =
   Inr (if vs = [] then base else Array (held_items base @ concat (map update_items vs)))"
proof (induction vs arbitrary: base)
  case Nil
  then show ?case by simp
next
  case (Cons v vs)
  have "append_reducer base v = Inr (Array (held_items base @ update_items v))"
    by (simp add: append_reducer_def append_reduce_eq)
  then show ?case by (simp add: Cons.IH)
qed

lemma reduce_all_last_write:
  "reduce_all last_write_wins vs base = Inr (last (base # vs))"
  by (induction vs arbitrary: base) (simp_all add: last_write_wins_def)

section \<open>Deep merge\<close>

lemma merge_entries_wf: "bt_wf acc \<Longrightarrow> bt_wf (merge_entries acc upd)"
proof (induction upd arbitrary: acc)
  case Nil
  then show ?case by simp
next
  case (Cons kv upd)
  then show ?case by (cases kv) (auto split: option.splits)
qed

text \<open>The value a merge leaves at one key.\<close>

definition merged_entry :: "value option \<Rightarrow> value option \<Rightarrow> value option" where
  "merged_entry old new = (case new of None \<Rightarrow> old
     | Some v \<Rightarrow> (case old of None \<Rightarrow> Some v | Some e \<Rightarrow> Some (merge_reduce e v)))"

lemma merge_reduce_cases:
  "merge_reduce e v = (if is_object e \<and> is_object v then merge_reduce e v else v)"
  by (cases e; cases v) simp_all

lemma map_of_merge_entries:
  assumes "bt_wf acc" and "distinct (map fst upd)"
  shows "map_of (merge_entries acc upd) k = merged_entry (map_of acc k) (map_of upd k)"
  using assms
proof (induction upd arbitrary: acc)
  case Nil
  then show ?case by (simp add: merged_entry_def)
next
  case (Cons kv upd)
  obtain k' v where kv: "kv = (k', v)" by (cases kv)
  define acc' where "acc' = (case map_of acc k' of
      Some e \<Rightarrow> (if is_object e \<and> is_object v then bt_insert k' (merge_reduce e v) acc
                  else bt_insert k' v acc)
    | None \<Rightarrow> bt_insert k' v acc)"
  have wf: "bt_wf acc'"
    using Cons.prems(1) by (auto simp: acc'_def split: option.splits)
  have look: "map_of acc' = (map_of acc)(k' := merged_entry (map_of acc k') (Some v))"
  proof (cases "map_of acc k'")
    case None
    then show ?thesis
      using Cons.prems(1) by (simp add: acc'_def merged_entry_def map_of_bt_insert)
  next
    case (Some e)
    then show ?thesis
      using Cons.prems(1) merge_reduce_cases [of e v]
      by (simp add: acc'_def merged_entry_def map_of_bt_insert split: if_splits)
  qed
  have fresh: "map_of upd k' = None"
    using Cons.prems(2) by (simp add: kv map_of_eq_None_iff)
  have "merge_entries acc (kv # upd) = merge_entries acc' upd"
    by (simp add: kv acc'_def)
  then have "map_of (merge_entries acc (kv # upd)) k =
      merged_entry (map_of acc' k) (map_of upd k)"
    using Cons.IH [OF wf] Cons.prems(2) by simp
  then show ?case
    using fresh by (cases "k = k'") (simp_all add: kv look merged_entry_def)
qed

end
