(* ===== verification/Agent_State.thy ===== *)
theory Agent_State
  imports Reducers
begin

text \<open>
  \<open>agent-graph/src/state.rs\<close>: the shared key-value state, its resource limits, its
  history and its optimistic transactions. The state is passed explicitly. The three
  \<open>RwLock\<close>s are fields that say whether another holder keeps the lock for the whole
  \<open>lock_timeout\<close>: an acquisition then fails the way the code makes it fail (an error,
  an empty export, a mutation silently skipped). The parameter \<open>sz\<close> is the length of
  \<open>serde_json::to_vec\<close> of a value, a third-party function.
\<close>

section \<open>Limits and data\<close>

record state_limits =
  max_keys :: nat
  max_value_bytes :: nat
  max_history_len :: nat
  lock_timeout_ms :: nat

definition default_limits :: state_limits where
  "default_limits = \<lparr>max_keys = 10000, max_value_bytes = 1048576, max_history_len = 100,
     lock_timeout_ms = 5000\<rparr>"

datatype lock = Free | ReadHeld | WriteHeld

definition can_read :: "lock \<Rightarrow> bool" where
  "can_read l \<longleftrightarrow> l \<noteq> WriteHeld"

definition can_write :: "lock \<Rightarrow> bool" where
  "can_write l \<longleftrightarrow> l = Free"

lemma can_Free [simp, lock_simps]: "can_read Free" "can_write Free"
  by (simp_all add: can_read_def can_write_def)

lemma can_write_read [simp, lock_simps]: "can_write l \<Longrightarrow> can_read l"
  by (simp add: can_read_def can_write_def)

type_synonym state_map = "(string, value) hash_map"

record state_snapshot =
  snap_timestamp :: nat
  snap_data :: state_map

record agent_state =
  st_data :: state_map
  st_history :: "state_snapshot list"
  st_reducers :: "(string, reducer) hash_map"
  st_limits :: state_limits
  st_version :: "64 word"
  st_data_lock :: lock
  st_history_lock :: lock
  st_reducers_lock :: lock

definition with_data_and_limits :: "state_map \<Rightarrow> state_limits \<Rightarrow> agent_state" where
  "with_data_and_limits data limits =
     \<lparr>st_data = data, st_history = [], st_reducers = [], st_limits = limits, st_version = 0,
      st_data_lock = Free, st_history_lock = Free, st_reducers_lock = Free\<rparr>"

definition with_data :: "state_map \<Rightarrow> agent_state" where
  "with_data data = with_data_and_limits data default_limits"

definition with_limits :: "state_limits \<Rightarrow> agent_state" where
  "with_limits limits = with_data_and_limits [] limits"

definition new_state :: agent_state where
  "new_state = with_limits default_limits"

section \<open>Lock acquisition\<close>

definition timed_out :: "string \<Rightarrow> agent_state \<Rightarrow> graph_error" where
  "timed_out what s = StateError (''Timed out acquiring '' @ what @ '' lock after ''
     @ show_nat (lock_timeout_ms (st_limits s)) @ '' ms'')"

definition read_data :: "agent_state \<Rightarrow> state_map result" where
  "read_data s = (if can_read (st_data_lock s) then Inr (st_data s)
     else Inl (timed_out ''state read'' s))"

definition write_data :: "agent_state \<Rightarrow> state_map result" where
  "write_data s = (if can_write (st_data_lock s) then Inr (st_data s)
     else Inl (timed_out ''state write'' s))"

definition read_history :: "agent_state \<Rightarrow> state_snapshot list result" where
  "read_history s = (if can_read (st_history_lock s) then Inr (st_history s)
     else Inl (timed_out ''state history read'' s))"

definition write_history :: "agent_state \<Rightarrow> state_snapshot list result" where
  "write_history s = (if can_write (st_history_lock s) then Inr (st_history s)
     else Inl (timed_out ''state history write'' s))"

definition read_reducers :: "agent_state \<Rightarrow> (string, reducer) hash_map result" where
  "read_reducers s = (if can_read (st_reducers_lock s) then Inr (st_reducers s)
     else Inl (timed_out ''reducer read'' s))"

definition write_reducers :: "agent_state \<Rightarrow> (string, reducer) hash_map result" where
  "write_reducers s = (if can_write (st_reducers_lock s) then Inr (st_reducers s)
     else Inl (timed_out ''reducer write'' s))"

section \<open>Validation\<close>

definition validate_value_size ::
    "(value \<Rightarrow> nat) \<Rightarrow> agent_state \<Rightarrow> string \<Rightarrow> value \<Rightarrow> unit result" where
  "validate_value_size sz s key v =
     (if max_value_bytes (st_limits s) < sz v
      then Inl (StateError (''Value for key '' @ quoted key @ '' exceeds max size: ''
        @ show_nat (sz v) @ '' > '' @ show_nat (max_value_bytes (st_limits s)) @ '' bytes''))
      else Inr ())"

definition serialize_value ::
    "(value \<Rightarrow> nat) \<Rightarrow> agent_state \<Rightarrow> string \<Rightarrow> value \<Rightarrow> value result" where
  "serialize_value sz s key v = bind_result (validate_value_size sz s key v) (\<lambda>_. Inr v)"

definition validate_insert ::
    "(value \<Rightarrow> nat) \<Rightarrow> agent_state \<Rightarrow> state_map \<Rightarrow> string \<Rightarrow> value \<Rightarrow> unit result" where
  "validate_insert sz s data key v =
     bind_result (validate_value_size sz s key v) (\<lambda>_.
       if \<not> contains_key data key \<and> max_keys (st_limits s) \<le> length data
       then Inl (StateError (''State key limit exceeded: '' @ show_nat (length data + 1)
         @ '' >= '' @ show_nat (max_keys (st_limits s))))
       else Inr ())"

definition validate_state_map ::
    "(value \<Rightarrow> nat) \<Rightarrow> agent_state \<Rightarrow> state_map \<Rightarrow> unit result" where
  "validate_state_map sz s data =
     (if max_keys (st_limits s) < length data
      then Inl (StateError (''State key limit exceeded: '' @ show_nat (length data)
        @ '' > '' @ show_nat (max_keys (st_limits s))))
      else try_fold (\<lambda>(key, v) _. validate_value_size sz s key v) data ())"

section \<open>Operations\<close>

text \<open>Every mutation of the data increments the \<open>AtomicU64\<close> version.\<close>

definition store_data :: "agent_state \<Rightarrow> state_map \<Rightarrow> agent_state" where
  "store_data s data = s\<lparr>st_data := data, st_version := st_version s + 1\<rparr>"

definition get :: "(value \<Rightarrow> string + 'a) \<Rightarrow> agent_state \<Rightarrow> string \<Rightarrow> 'a result" where
  "get decode s key = bind_result (read_data s) (\<lambda>data. case map_of data key of
       None \<Rightarrow> Inl (StateError (''Key not found: '' @ key))
     | Some v \<Rightarrow> (case decode v of
           Inl e \<Rightarrow> Inl (StateError (''Failed to deserialize '' @ key @ '': '' @ e))
         | Inr x \<Rightarrow> Inr x))"

definition get_opt :: "(value \<Rightarrow> string + 'a) \<Rightarrow> agent_state \<Rightarrow> string \<Rightarrow> 'a option result" where
  "get_opt decode s key = bind_result (read_data s) (\<lambda>data. case map_of data key of
       None \<Rightarrow> Inr None
     | Some v \<Rightarrow> (case decode v of Inl e \<Rightarrow> Inl (SerializationError e) | Inr x \<Rightarrow> Inr (Some x)))"

text \<open>\<open>get_opt::<Value>\<close>: decoding a value as a value is the identity.\<close>

abbreviation get_opt_value :: "agent_state \<Rightarrow> string \<Rightarrow> value option result" where
  "get_opt_value \<equiv> get_opt Inr"

definition reduce_value_if_needed ::
    "agent_state \<Rightarrow> string \<Rightarrow> value \<Rightarrow> value \<Rightarrow> value result" where
  "reduce_value_if_needed s key cur v = bind_result (read_reducers s)
     (\<lambda>reducers. case map_of reducers key of Some r \<Rightarrow> r cur v | None \<Rightarrow> Inr v)"

definition apply_reducer :: "agent_state \<Rightarrow> string \<Rightarrow> value \<Rightarrow> value \<Rightarrow> value result" where
  "apply_reducer s key cur v = bind_result (read_reducers s)
     (\<lambda>reducers. case map_of reducers key of Some r \<Rightarrow> r cur v | None \<Rightarrow> Inr v)"

text \<open>
  \<open>set\<close> holds the read lock while it looks the old value up, releases it, reduces, and
  only then takes the write lock: two phases, between which another holder of the
  same state may write.
\<close>

definition set_prepare ::
    "(value \<Rightarrow> nat) \<Rightarrow> agent_state \<Rightarrow> string \<Rightarrow> value \<Rightarrow> value result" where
  "set_prepare sz s key v =
     bind_result (serialize_value sz s key v) (\<lambda>json.
     bind_result (read_data s) (\<lambda>data.
       case map_of data key of
         Some existing \<Rightarrow> reduce_value_if_needed s key existing json
       | None \<Rightarrow> Inr json))"

definition set_raw ::
    "(value \<Rightarrow> nat) \<Rightarrow> string \<Rightarrow> value \<Rightarrow> agent_state \<Rightarrow> agent_state result" where
  "set_raw sz key v s =
     bind_result (write_data s) (\<lambda>data.
     bind_result (validate_insert sz s data key v) (\<lambda>_.
       Inr (store_data s (AList.update key v data))))"

definition set_state ::
    "(value \<Rightarrow> nat) \<Rightarrow> string \<Rightarrow> value \<Rightarrow> agent_state \<Rightarrow> agent_state result" where
  "set_state sz key v s =
     bind_result (set_prepare sz s key v) (\<lambda>next_value. set_raw sz key next_value s)"

definition update_state_key ::
    "(value \<Rightarrow> nat) \<Rightarrow> (value \<Rightarrow> string + 'a) \<Rightarrow> ('a \<Rightarrow> value) \<Rightarrow> ('a \<Rightarrow> 'a) \<Rightarrow> string
      \<Rightarrow> agent_state \<Rightarrow> agent_state result" where
  "update_state_key sz decode encode f key s =
     bind_result (write_data s) (\<lambda>data. case map_of data key of
         None \<Rightarrow> Inr s
       | Some v \<Rightarrow> (case decode v of
             Inl e \<Rightarrow> Inl (SerializationError e)
           | Inr x \<Rightarrow> bind_result (serialize_value sz s key (encode (f x))) (\<lambda>updated.
               bind_result (validate_insert sz s data key updated) (\<lambda>_.
                 Inr (store_data s (AList.update key updated data))))))"

definition contains :: "agent_state \<Rightarrow> string \<Rightarrow> bool" where
  "contains s key = (case read_data s of Inr data \<Rightarrow> contains_key data key | Inl _ \<Rightarrow> False)"

definition remove_key :: "string \<Rightarrow> agent_state \<Rightarrow> value option \<times> agent_state" where
  "remove_key key s = (case write_data s of
       Inl _ \<Rightarrow> (None, s)
     | Inr data \<Rightarrow> (case map_of data key of
           None \<Rightarrow> (None, s)
         | Some v \<Rightarrow> (Some v, store_data s (AList.delete key data))))"

definition keys :: "agent_state \<Rightarrow> string list" where
  "keys s = (case read_data s of Inr data \<Rightarrow> map fst data | Inl _ \<Rightarrow> [])"

definition export :: "agent_state \<Rightarrow> state_map" where
  "export s = (case read_data s of Inr data \<Rightarrow> data | Inl _ \<Rightarrow> [])"

definition snapshot :: "nat \<Rightarrow> agent_state \<Rightarrow> state_snapshot" where
  "snapshot now s = \<lparr>snap_timestamp = now,
     snap_data = (case read_data s of Inr data \<Rightarrow> data | Inl _ \<Rightarrow> [])\<rparr>"

definition save_to_history :: "nat \<Rightarrow> agent_state \<Rightarrow> agent_state" where
  "save_to_history now s = (case write_history s of
       Inl _ \<Rightarrow> s
     | Inr history \<Rightarrow>
         let kept = (if max_history_len (st_limits s) \<le> length history \<and> history \<noteq> []
                     then tl history else history)
         in s\<lparr>st_history := kept @ [snapshot now s]\<rparr>)"

definition replace_data :: "(value \<Rightarrow> nat) \<Rightarrow> state_map \<Rightarrow> agent_state \<Rightarrow> agent_state" where
  "replace_data sz data s = (case validate_state_map sz s data of
       Inl _ \<Rightarrow> s
     | Inr _ \<Rightarrow> (case write_data s of Inl _ \<Rightarrow> s | Inr _ \<Rightarrow> store_data s data))"

definition restore :: "(value \<Rightarrow> nat) \<Rightarrow> state_snapshot \<Rightarrow> agent_state \<Rightarrow> agent_state" where
  "restore sz snap s = replace_data sz (snap_data snap) s"

definition get_history :: "agent_state \<Rightarrow> state_snapshot list" where
  "get_history s = (case read_history s of Inr h \<Rightarrow> h | Inl _ \<Rightarrow> [])"

definition register_reducer :: "string \<Rightarrow> reducer \<Rightarrow> agent_state \<Rightarrow> agent_state" where
  "register_reducer key r s = (case write_reducers s of
       Inl _ \<Rightarrow> s
     | Inr reducers \<Rightarrow> s\<lparr>st_reducers := AList.update key r reducers\<rparr>)"

text \<open>
  \<open>fork\<close> copies the data into storage of its own; the reducer registry stays shared
  (\<open>Arc\<close>), which the engine's model keeps by handing the registry back.
\<close>

definition fork :: "agent_state \<Rightarrow> agent_state" where
  "fork s = s\<lparr>st_data := export s, st_history := [], st_version := 0,
     st_data_lock := Free, st_history_lock := Free\<rparr>"

section \<open>Transactions\<close>

record state_transaction =
  tx_working :: state_map
  tx_snapshot_version :: "64 word"

definition transaction :: "agent_state \<Rightarrow> state_transaction" where
  "transaction s = \<lparr>tx_working = export s, tx_snapshot_version = st_version s\<rparr>"

definition tx_get ::
    "(value \<Rightarrow> string + 'a) \<Rightarrow> state_transaction \<Rightarrow> string \<Rightarrow> 'a result" where
  "tx_get decode tx key = (case map_of (tx_working tx) key of
       None \<Rightarrow> Inl (StateError (''Key not found: '' @ key))
     | Some v \<Rightarrow> (case decode v of
           Inl e \<Rightarrow> Inl (StateError (''Failed to deserialize '' @ key @ '': '' @ e))
         | Inr x \<Rightarrow> Inr x))"

definition tx_set ::
    "(value \<Rightarrow> nat) \<Rightarrow> agent_state \<Rightarrow> string \<Rightarrow> value \<Rightarrow> state_transaction
      \<Rightarrow> state_transaction result" where
  "tx_set sz s key v tx =
     bind_result (serialize_value sz s key v) (\<lambda>json.
     bind_result (case map_of (tx_working tx) key of
         Some existing \<Rightarrow> reduce_value_if_needed s key existing json
       | None \<Rightarrow> Inr json) (\<lambda>next_value.
     bind_result (validate_insert sz s (tx_working tx) key next_value) (\<lambda>_.
       Inr (tx\<lparr>tx_working := AList.update key next_value (tx_working tx)\<rparr>))))"

definition commit ::
    "(value \<Rightarrow> nat) \<Rightarrow> state_transaction \<Rightarrow> agent_state \<Rightarrow> unit result \<times> agent_state" where
  "commit sz tx s =
     (if st_version s \<noteq> tx_snapshot_version tx
      then (Inl (StateError ''Transaction conflict: state was modified concurrently''), s)
      else (Inr (), replace_data sz (tx_working tx) s))"

definition rollback :: "state_transaction \<Rightarrow> agent_state \<Rightarrow> agent_state" where
  "rollback tx s = s"

end
