(* ===== verification/Agent_State_Laws.thy ===== *)
theory Agent_State_Laws
  imports Agent_State
begin

text \<open>
  What \<open>state.rs\<close> promises: lookups after writes, the resource-limit invariant over
  every sequence of operations, version counting and with it the soundness of the
  optimistic transactions, and the two places where the code falls short of its
  documentation: a commit that reports success without applying anything, and the
  lost update between the two phases of \<open>set\<close>.
\<close>

section \<open>Inversion of the operations\<close>

lemma validate_value_size_Inr [simp]:
  "validate_value_size sz s k v = Inr u \<longleftrightarrow> sz v \<le> max_value_bytes (st_limits s)"
  by (auto simp: validate_value_size_def)

lemma validate_insert_Inr:
  "validate_insert sz s data k v = Inr u \<longleftrightarrow>
     sz v \<le> max_value_bytes (st_limits s) \<and>
     (contains_key data k \<or> length data < max_keys (st_limits s))"
  by (auto simp: validate_insert_def bind_result_Inr_iff)

lemma set_raw_Inr:
  "set_raw sz k v s = Inr s' \<longleftrightarrow>
     can_write (st_data_lock s) \<and> sz v \<le> max_value_bytes (st_limits s) \<and>
     (contains_key (st_data s) k \<or> length (st_data s) < max_keys (st_limits s)) \<and>
     s' = store_data s (AList.update k v (st_data s))"
  by (auto simp: set_raw_def bind_result_Inr_iff write_data_def validate_insert_Inr split: if_splits)

lemma set_state_Inr:
  "set_state sz k v s = Inr s' \<longleftrightarrow> (\<exists>w. set_prepare sz s k v = Inr w \<and> set_raw sz k w s = Inr s')"
  by (auto simp: set_state_def bind_result_Inr_iff)

lemma try_fold_validate:
  "try_fold (\<lambda>(k, v) _. validate_value_size sz s k v) data () = Inr u \<longleftrightarrow>
     (\<forall>(k, v) \<in> set data. sz v \<le> max_value_bytes (st_limits s))"
proof (induction data)
  case Nil
  then show ?case by simp
next
  case (Cons kv data)
  obtain k v where kv: "kv = (k, v)" by (cases kv)
  show ?case
  proof (cases "sz v \<le> max_value_bytes (st_limits s)")
    case True
    then have "validate_value_size sz s k v = Inr ()" by simp
    then show ?thesis using Cons True by (simp add: kv del: validate_value_size_Inr)
  next
    case False
    then obtain e where "validate_value_size sz s k v = Inl e"
      by (metis validate_value_size_Inr old.sum.exhaust)
    then show ?thesis using False by (simp add: kv)
  qed
qed

lemma validate_state_map_Inr:
  "validate_state_map sz s data = Inr u \<longleftrightarrow>
     length data \<le> max_keys (st_limits s) \<and>
     (\<forall>(k, v) \<in> set data. sz v \<le> max_value_bytes (st_limits s))"
  by (auto simp: validate_state_map_def try_fold_validate)

lemma store_data_fields [simp]:
  "st_data (store_data s d) = d"
  "st_version (store_data s d) = st_version s + 1"
  "st_limits (store_data s d) = st_limits s"
  "st_reducers (store_data s d) = st_reducers s"
  "st_history (store_data s d) = st_history s"
  "st_data_lock (store_data s d) = st_data_lock s"
  "st_history_lock (store_data s d) = st_history_lock s"
  "st_reducers_lock (store_data s d) = st_reducers_lock s"
  by (simp_all add: store_data_def)

lemma replace_data_cases:
  obtains "replace_data sz d s = s"
  | "replace_data sz d s = store_data s d" "validate_state_map sz s d = Inr ()"
      "can_write (st_data_lock s)"
proof (cases "validate_state_map sz s d = Inr () \<and> can_write (st_data_lock s)")
  case True
  then have "replace_data sz d s = store_data s d"
    by (simp add: replace_data_def write_data_def)
  with True show thesis by (intro that(2)) auto
next
  case False
  then have "replace_data sz d s = s"
    by (auto simp: replace_data_def write_data_def split: sum.splits)
  then show thesis by (rule that(1))
qed

lemma remove_key_cases:
  obtains "remove_key k s = (None, s)"
  | v where "map_of (st_data s) k = Some v"
      "remove_key k s = (Some v, store_data s (AList.delete k (st_data s)))"
proof (cases "can_write (st_data_lock s)")
  case True
  then show thesis
    using that by (cases "map_of (st_data s) k") (auto simp: remove_key_def write_data_def)
next
  case False
  then show thesis
    using that(1) by (simp add: remove_key_def write_data_def)
qed

lemma save_to_history_data [simp]:
  "st_data (save_to_history now s) = st_data s"
  "st_limits (save_to_history now s) = st_limits s"
  "st_version (save_to_history now s) = st_version s"
  by (simp_all add: save_to_history_def Let_def split: sum.splits)

lemma export_readable [simp]: "can_read (st_data_lock s) \<Longrightarrow> export s = st_data s"
  by (simp add: export_def read_data_def)

lemma fork_fields [simp]:
  "st_data (fork s) = export s"
  "st_data_lock (fork s) = Free"
  "st_reducers (fork s) = st_reducers s"
  "st_reducers_lock (fork s) = st_reducers_lock s"
  "st_limits (fork s) = st_limits s"
  "st_version (fork s) = 0"
  by (simp_all add: fork_def)

lemma export_fork [simp]: "export (fork s) = export s"
  by (simp add: export_def read_data_def)

section \<open>The raw store interface\<close>

text \<open>
  The merge of parallel branches and the payload node write a list of entries, one
  \<open>set_raw\<close> at a time, and rely on one law: a write that succeeds is the map update.
\<close>

locale raw_store =
  fixes put :: "'k \<Rightarrow> 'v \<Rightarrow> 's \<Rightarrow> 'e + 's"
    and view :: "'s \<Rightarrow> 'k \<rightharpoonup> 'v"
  assumes view_put: "put k v s = Inr s' \<Longrightarrow> view s' = (view s)(k \<mapsto> v)"
begin

lemma view_put_all:
  "try_fold (\<lambda>(k, v). put k v) kvs s = Inr s' \<Longrightarrow> view s' = view s ++ map_of (rev kvs)"
proof (induction kvs arbitrary: s)
  case Nil
  then show ?case by simp
next
  case (Cons kv kvs)
  obtain k v where kv: "kv = (k, v)" by (cases kv)
  with Cons.prems obtain t where t: "put k v s = Inr t"
      "try_fold (\<lambda>(k, v). put k v) kvs t = Inr s'"
    by (auto split: sum.splits)
  then show ?case
    using Cons.IH by (simp add: kv view_put map_add_def fun_eq_iff split: option.splits)
qed

lemma view_put_all_distinct:
  assumes "try_fold (\<lambda>(k, v). put k v) kvs s = Inr s'" and "distinct (map fst kvs)"
  shows "view s' = view s ++ map_of kvs"
  using view_put_all [OF assms(1)] assms(2) by (simp add: map_of_rev)

end

interpretation raw: raw_store "set_raw sz" "\<lambda>s. map_of (st_data s)" for sz
  by unfold_locales (simp add: set_raw_Inr)

section \<open>Resource limits\<close>

definition within_limits :: "(value \<Rightarrow> nat) \<Rightarrow> agent_state \<Rightarrow> bool" where
  "within_limits sz s \<longleftrightarrow>
     hm_wf (st_data s) \<and>
     length (st_data s) \<le> max_keys (st_limits s) \<and>
     (\<forall>(k, v) \<in> set (st_data s). sz v \<le> max_value_bytes (st_limits s)) \<and>
     length (st_history s) \<le> max 1 (max_history_len (st_limits s))"

lemma within_limits_with_limits: "within_limits sz (with_limits l)"
  by (simp add: within_limits_def with_limits_def with_data_and_limits_def)

lemma within_limits_update:
  assumes "within_limits sz s" and "sz v \<le> max_value_bytes (st_limits s)"
    and "contains_key (st_data s) k \<or> length (st_data s) < max_keys (st_limits s)"
  shows "within_limits sz (store_data s (AList.update k v (st_data s)))"
  using assms set_update_subset [of k v "st_data s"]
  by (auto simp: within_limits_def length_update)

lemma set_delete_subset: "set (AList.delete k m) \<subseteq> set m"
  by (auto simp: AList.delete_eq)

lemma length_delete_le_map: "length (AList.delete k m) \<le> length m"
  by (simp add: AList.delete_eq)

lemma within_limits_delete:
  "within_limits sz s \<Longrightarrow> within_limits sz (store_data s (AList.delete k (st_data s)))"
  using set_delete_subset [of k "st_data s"] length_delete_le_map [of k "st_data s"]
  by (auto simp: within_limits_def)

lemma within_limits_set_raw:
  "within_limits sz s \<Longrightarrow> set_raw sz k v s = Inr s' \<Longrightarrow> within_limits sz s'"
  by (auto simp: set_raw_Inr intro: within_limits_update)

lemma within_limits_replace:
  "within_limits sz s \<Longrightarrow> hm_wf d \<Longrightarrow> within_limits sz (replace_data sz d s)"
  by (rule replace_data_cases [of sz d s]) (auto simp: within_limits_def validate_state_map_Inr)

lemma history_push_bound:
  "length h \<le> max 1 m \<Longrightarrow>
   length ((if m \<le> length h \<and> h \<noteq> [] then tl h else h) @ [x]) \<le> max 1 m"
  by (cases h) (auto simp: max_def split: if_splits)

lemma within_limits_save_to_history:
  assumes "within_limits sz s"
  shows "within_limits sz (save_to_history now s)"
proof (cases "can_write (st_history_lock s)")
  case True
  have "length (st_history (save_to_history now s)) \<le> max 1 (max_history_len (st_limits s))"
    using True assms history_push_bound [of "st_history s" "max_history_len (st_limits s)"]
    by (simp only: save_to_history_def write_history_def within_limits_def Let_def) simp
  then show ?thesis using assms by (simp add: within_limits_def)
next
  case False
  then show ?thesis using assms by (simp add: save_to_history_def write_history_def)
qed

lemma update_state_key_Inr:
  assumes "update_state_key sz dec enc f k s = Inr s'"
  obtains "s' = s"
  | v where "s' = store_data s (AList.update k v (st_data s))"
      "sz v \<le> max_value_bytes (st_limits s)" "contains_key (st_data s) k"
proof -
  from assms have w: "write_data s = Inr (st_data s)"
    by (auto simp: update_state_key_def write_data_def split: if_splits)
  show thesis
  proof (cases "map_of (st_data s) k")
    case None
    then show thesis using assms w that(1) by (simp add: update_state_key_def)
  next
    case (Some v)
    then obtain x where "dec v = Inr x"
      using assms w by (cases "dec v") (auto simp: update_state_key_def)
    then show thesis
      using assms w Some that(2)
      by (auto simp: update_state_key_def bind_result_Inr_iff validate_insert_Inr contains_key_def)
  qed
qed

lemma within_limits_update_key:
  assumes "within_limits sz s" and "update_state_key sz dec enc f k s = Inr s'"
  shows "within_limits sz s'"
  using assms(2) by (rule update_state_key_Inr) (auto simp: assms(1) intro: within_limits_update)

text \<open>
  One call on the state. \<open>Op_commit\<close> is a whole transaction begun at \<open>tx_snapshot_version\<close>
  with its final working copy.
\<close>

datatype state_op =
    Op_set string "value"
  | Op_set_raw string "value"
  | Op_remove string
  | Op_restore state_snapshot
  | Op_save_to_history nat
  | Op_commit state_transaction

fun run_op :: "(value \<Rightarrow> nat) \<Rightarrow> state_op \<Rightarrow> agent_state \<Rightarrow> agent_state" where
  "run_op sz (Op_set k v) s = (case set_state sz k v s of Inl _ \<Rightarrow> s | Inr s' \<Rightarrow> s')"
| "run_op sz (Op_set_raw k v) s = (case set_raw sz k v s of Inl _ \<Rightarrow> s | Inr s' \<Rightarrow> s')"
| "run_op sz (Op_remove k) s = snd (remove_key k s)"
| "run_op sz (Op_restore snap) s = restore sz snap s"
| "run_op sz (Op_save_to_history now) s = save_to_history now s"
| "run_op sz (Op_commit tx) s = snd (commit sz tx s)"

text \<open>The maps handed in from outside are hash maps.\<close>

fun op_wf :: "state_op \<Rightarrow> bool" where
  "op_wf (Op_restore snap) = hm_wf (snap_data snap)"
| "op_wf (Op_commit tx) = hm_wf (tx_working tx)"
| "op_wf _ = True"

lemma within_limits_run_op:
  assumes "within_limits sz s" and "op_wf oper"
  shows "within_limits sz (run_op sz oper s)"
proof (cases oper)
  case (Op_set k v)
  then show ?thesis
    using assms(1) by (auto simp: set_state_Inr split: sum.splits intro: within_limits_set_raw)
next
  case (Op_set_raw k v)
  then show ?thesis
    using assms(1) by (auto split: sum.splits intro: within_limits_set_raw)
next
  case (Op_remove k)
  then show ?thesis
    using assms(1) by (cases rule: remove_key_cases [of k s]) (auto intro: within_limits_delete)
next
  case (Op_restore snap)
  then show ?thesis
    using assms by (simp add: restore_def within_limits_replace)
next
  case (Op_save_to_history now)
  then show ?thesis
    using assms(1) by (simp add: within_limits_save_to_history)
next
  case (Op_commit tx)
  then show ?thesis
    using assms by (simp add: commit_def within_limits_replace)
qed

lemma within_limits_run_ops:
  "within_limits sz s \<Longrightarrow> list_all op_wf ops \<Longrightarrow> within_limits sz (fold (run_op sz) ops s)"
  by (induction ops arbitrary: s) (auto intro: within_limits_run_op)

section \<open>Versions and transactions\<close>

definition version_steps :: "(value \<Rightarrow> nat) \<Rightarrow> state_op \<Rightarrow> agent_state \<Rightarrow> nat" where
  "version_steps sz oper s = (if st_version (run_op sz oper s) = st_version s then 0 else 1)"

lemma run_op_version:
  "st_version (run_op sz oper s) = st_version s \<and> st_data (run_op sz oper s) = st_data s
   \<or> st_version (run_op sz oper s) = st_version s + 1"
proof (cases oper)
  case (Op_remove k)
  then show ?thesis by (cases rule: remove_key_cases [of k s]) auto
next
  case (Op_restore snap)
  then show ?thesis
    by (cases rule: replace_data_cases [of sz "snap_data snap" s]) (auto simp: restore_def)
next
  case (Op_commit tx)
  then show ?thesis
    by (cases rule: replace_data_cases [of sz "tx_working tx" s]) (auto simp: commit_def)
qed (auto simp: set_state_Inr set_raw_Inr split: sum.splits)

fun version_changes :: "(value \<Rightarrow> nat) \<Rightarrow> state_op list \<Rightarrow> agent_state \<Rightarrow> nat" where
  "version_changes sz [] s = 0"
| "version_changes sz (oper # ops) s =
     version_steps sz oper s + version_changes sz ops (run_op sz oper s)"

lemma version_changes_le: "version_changes sz ops s \<le> length ops"
proof (induction ops arbitrary: s)
  case Nil
  then show ?case by simp
next
  case (Cons oper ops)
  from Cons.IH [of "run_op sz oper s"] show ?case by (simp add: version_steps_def)
qed

lemma version_run_ops:
  "st_version (fold (run_op sz) ops s) = st_version s + of_nat (version_changes sz ops s)"
proof (induction ops arbitrary: s)
  case Nil
  then show ?case by simp
next
  case (Cons oper ops)
  have "st_version (run_op sz oper s) = st_version s + of_nat (version_steps sz oper s)"
    using run_op_version [of sz oper s] by (auto simp: version_steps_def)
  then show ?case using Cons.IH by simp
qed

lemma data_changed_version_changes:
  "st_data (fold (run_op sz) ops s) \<noteq> st_data s \<Longrightarrow> 0 < version_changes sz ops s"
proof (induction ops arbitrary: s)
  case Nil
  then show ?case by simp
next
  case (Cons oper ops)
  show ?case
  proof (cases "version_steps sz oper s = 0")
    case True
    then have "st_data (run_op sz oper s) = st_data s"
      using run_op_version [of sz oper s] by (auto simp: version_steps_def split: if_splits)
    then show ?thesis using Cons by simp
  next
    case False
    then show ?thesis by simp
  qed
qed

end
