(* ===== verification/State_Properties.thy ===== *)
theory State_Properties
  imports Agent_State_Laws
begin

text \<open>
  The properties of \<open>state.rs\<close> and \<open>reducer.rs\<close>.
\<close>





text \<open>
  A commit at the right version always reports success, but it applies the working
  copy only when the copy fits the limits and the write lock can be had; otherwise the
  transaction is dropped and the state is unchanged.
\<close>

theorem commit_reports_success_even_when_dropped:
  "commit sz ((transaction s)\<lparr>tx_working := d\<rparr>) s =
    (Inr (),
     if length d \<le> max_keys (st_limits s)
        \<and> list_all (\<lambda>(k, v). sz v \<le> max_value_bytes (st_limits s)) d
        \<and> can_write (st_data_lock s)
     then s\<lparr>st_data := d, st_version := st_version s + 1\<rparr> else s)"
proof -
  have "(validate_state_map sz s d = Inr ()) \<longleftrightarrow> length d \<le> max_keys (st_limits s)
      \<and> list_all (\<lambda>(k, v). sz v \<le> max_value_bytes (st_limits s)) d"
    by (auto simp: validate_state_map_Inr list_all_iff)
  then show ?thesis
    by (cases "validate_state_map sz s d")
      (auto simp: commit_def transaction_def replace_data_def write_data_def store_data_def)
qed

text \<open>
  \<open>set\<close> is not atomic: when two \<open>set\<close> calls on a key with the append reducer both read
  before either writes, both succeed and the items of the first are lost.
\<close>

theorem interleaved_sets_lose_an_update:
  assumes "map_of (st_reducers s) k = Some append_reducer" and "map_of (st_data s) k = Some base"
    and "set_prepare sz s k a = Inr va" and "set_prepare sz s k b = Inr vb"
    and "set_raw sz k va s = Inr s1" and "set_raw sz k vb s1 = Inr s2"
  shows "map_of (st_data s2) k = Some (Array (held_items base @ update_items b))"
proof -
  have "vb = append_reduce base b"
    using assms(1,2,4)
    by (auto simp: set_prepare_def serialize_value_def bind_result_Inr_iff read_data_def
        reduce_value_if_needed_def read_reducers_def append_reducer_def split: if_splits)
  then show ?thesis
    using raw.view_put [OF assms(6)] by (simp add: append_reduce_eq)
qed

theorem interleaved_sets_lose_an_update_witness:
  "let s = register_reducer ''k'' append_reducer (with_data [(''k'', Array [])]);
       s1 = store_data s [(''k'', Array [Bool True])]
   in map_of (st_data (store_data s1 [(''k'', Array [Bool False])])) ''k''
      = Some (Array [Bool False])"
  unfolding Let_def
  using interleaved_sets_lose_an_update [where sz = "\<lambda>_. 1" and k = "''k''" and base = "Array []"
      and a = "Bool True" and b = "Bool False" and va = "Array [Bool True]"
      and vb = "Array [Bool False]"
      and s = "register_reducer ''k'' append_reducer (with_data [(''k'', Array [])])"
      and ?s1.0 = "store_data (register_reducer ''k'' append_reducer (with_data [(''k'', Array [])]))
        [(''k'', Array [Bool True])]"
      and ?s2.0 = "store_data (store_data (register_reducer ''k'' append_reducer
        (with_data [(''k'', Array [])])) [(''k'', Array [Bool True])]) [(''k'', Array [Bool False])]"]
  by (simp add: register_reducer_def write_reducers_def with_data_def with_data_and_limits_def
      default_limits_def set_prepare_def serialize_value_def validate_value_size_def
      read_data_def reduce_value_if_needed_def read_reducers_def append_reducer_def
      set_raw_def write_data_def validate_insert_def contains_key_def store_data_def)

text \<open>
  Taken one after the other, \<open>set\<close> calls on a present key fold its reducer over the
  values from the stored one, and touch no other key.
\<close>

theorem sequential_sets_fold_the_reducer:
  assumes "try_fold (\<lambda>v. set_state sz k v) vs s = Inr s'"
    and "map_of (st_reducers s) k = Some r" and "map_of (st_data s) k = Some base"
  shows "\<exists>v. reduce_all r vs base = Inr v
    \<and> map_of (st_data s') = (map_of (st_data s))(k \<mapsto> v)"
  using assms
proof (induction vs arbitrary: s base)
  case Nil
  then show ?case by (auto simp: fun_eq_iff)
next
  case (Cons u us)
  from Cons.prems(1) obtain t where t: "set_state sz k u s = Inr t"
    and rest: "try_fold (\<lambda>v. set_state sz k v) us t = Inr s'"
    by (auto split: sum.splits)
  from t obtain w where w: "set_prepare sz s k u = Inr w" "set_raw sz k w s = Inr t"
    by (auto simp: set_state_Inr)
  have red: "r base u = Inr w"
    using w(1) Cons.prems(2,3)
    by (auto simp: set_prepare_def serialize_value_def bind_result_Inr_iff read_data_def
        reduce_value_if_needed_def read_reducers_def split: if_splits)
  have data: "map_of (st_data t) = (map_of (st_data s))(k \<mapsto> w)"
    using w(2) by (rule raw.view_put)
  have "map_of (st_reducers t) k = Some r"
    using w(2) Cons.prems(2) by (auto simp: set_raw_Inr)
  from Cons.IH [OF rest this] data red show ?case by (auto simp: fun_eq_iff)
qed

theorem sequential_sets_fold_the_reducer_witness:
  "\<exists>v. reduce_all append_reducer [Bool True, Bool False] (Array []) = Inr v
    \<and> map_of (st_data (store_data (store_data
        (register_reducer ''k'' append_reducer (with_data [(''k'', Array [])]))
        [(''k'', Array [Bool True])]) [(''k'', Array [Bool True, Bool False])]))
      = (map_of (st_data (register_reducer ''k'' append_reducer
          (with_data [(''k'', Array [])]))))(''k'' \<mapsto> v)"
  by (rule sequential_sets_fold_the_reducer [where sz = "\<lambda>_. 1"])
    (simp_all add: register_reducer_def write_reducers_def with_data_def with_data_and_limits_def
      default_limits_def set_state_def set_prepare_def serialize_value_def validate_value_size_def
      read_data_def reduce_value_if_needed_def read_reducers_def append_reducer_def
      set_raw_def write_data_def validate_insert_def contains_key_def store_data_def)

text \<open>
  The merge reducer is a deep merge: at every key of the result stands the old entry,
  the new entry, or, when both exist, their merge by the same rule.
\<close>

theorem deep_merge_lookup:
  assumes "bt_wf cur" and "distinct (map fst upd)"
    and "merge_reducer (Object cur) (Object upd) = Inr v"
  shows "get_key v k = merged_entry (map_of cur k) (map_of upd k)"
  using assms by (auto simp: merge_reducer_def map_of_merge_entries)

theorem deep_merge_lookup_witness:
  "get_key (Object [(''a'', Object [(''x'', Null), (''y'', Bool True)])]) ''a'' =
     merged_entry (Some (Object [(''x'', Null)])) (Some (Object [(''y'', Bool True)]))"
  using deep_merge_lookup [of "[(''a'', Object [(''x'', Null)])]"
      "[(''a'', Object [(''y'', Bool True)])]"
      "Object [(''a'', Object [(''x'', Null), (''y'', Bool True)])]" "''a''"]
  by (simp add: bt_wf_def merge_reducer_def)

lemma add_step:
  assumes "number_as_f64 n = Some (of_nat b)" and "b + m < 2 ^ 53"
  shows "add_reducer (Number n) (json_u64 m) = Inr (Number (Float (of_nat (b + m))))"
proof -
  have "uint (of_nat m :: 64 word) = int m"
    using assms(2) by (simp add: uint_nat unat_of_nat take_bit_nat_eq_self)
  then have m: "number_as_f64 (PosInt (of_nat m)) = Some (of_nat m)"
    using f64_round_small_int [of "int m"] assms(2) by (simp add: number_as_f64_def)
  have "f64_add (of_nat b) (of_nat m) = Some (of_nat (b + m))"
    using f64_round_small_int [of "int (b + m)"] assms(2) by (simp add: f64_add_def)
  then show ?thesis
    using assms(1) m by (simp add: add_reducer_def json_u64_def json_f64_def)
qed

text \<open>
  The add reducer sums natural numbers exactly, although it computes in floating
  point, as long as the total stays below \<open>2 ^ 53\<close>.
\<close>

theorem natural_sums_are_exact:
  assumes "b + sum_list ns < 2 ^ 53"
  shows "\<exists>v. reduce_all add_reducer (map json_u64 ns) (json_u64 b) = Inr v
    \<and> amount v = of_nat (b + sum_list ns)"
proof -
  have "\<exists>v. reduce_all add_reducer (map json_u64 ns) (Number n) = Inr v
      \<and> amount v = of_nat (b + sum_list ns)"
    if "number_as_f64 n = Some (of_nat b)" "b + sum_list ns < 2 ^ 53" for n b
    using that
  proof (induction ns arbitrary: n b)
    case Nil
    then show ?case by (simp add: amount_def)
  next
    case (Cons m ns)
    have "number_as_f64 (Float (of_nat (b + m))) = Some (of_nat (b + m))"
      by (simp add: number_as_f64_def)
    from Cons.IH [OF this] Cons.prems show ?case
      using add_step [OF Cons.prems(1), of m] by (simp add: add.assoc)
  qed
  moreover have "number_as_f64 (PosInt (of_nat b)) = Some (of_nat b)"
  proof -
    have "uint (of_nat b :: 64 word) = int b"
      using assms by (simp add: uint_nat unat_of_nat take_bit_nat_eq_self)
    then show ?thesis
      using f64_round_small_int [of "int b"] assms by (simp add: number_as_f64_def)
  qed
  ultimately show ?thesis using assms by (simp add: json_u64_def)
qed

theorem natural_sums_are_exact_witness:
  "\<exists>v. reduce_all add_reducer (map json_u64 [5, 7]) (json_u64 10) = Inr v
    \<and> amount v = of_nat (10 + sum_list [5, 7])"
  by (rule natural_sums_are_exact) simp

end
