(* ===== verification/Run_Config.thy ===== *)
theory Run_Config
  imports Graph_Error
begin

text \<open>
  The configuration records of \<open>agent-graph/src\<close>: \<open>config.rs\<close> (run configuration),
  \<open>interrupt.rs\<close> (interrupt points, checkpoint data), \<open>retry.rs\<close> (retry policies and
  their backoff) and \<open>command.rs\<close> (what a node hands back). Durations are in
  nanoseconds.
\<close>

section \<open>Run configuration (config.rs)\<close>

text \<open>\<open>stack_ids::TraceCtx\<close> is third-party; only its identity is kept.\<close>

type_synonym trace_ctx = string

record graph_config =
  cfg_thread_id :: "string option"
  cfg_trace_id :: "string option"
  cfg_trace_ctx :: "trace_ctx option"
  cfg_recursion_limit :: nat
  cfg_max_parallelism :: nat
  cfg_tags :: "string list"
  cfg_metadata :: "(string, value) hash_map"
  cfg_configurable :: "(string, value) hash_map"

definition default_config :: graph_config where
  "default_config = \<lparr>cfg_thread_id = None, cfg_trace_id = None, cfg_trace_ctx = None,
     cfg_recursion_limit = 100, cfg_max_parallelism = 8, cfg_tags = [],
     cfg_metadata = [], cfg_configurable = []\<rparr>"

definition with_thread_id :: "string \<Rightarrow> graph_config \<Rightarrow> graph_config" where
  "with_thread_id i c = c\<lparr>cfg_thread_id := Some i\<rparr>"

definition with_recursion_limit :: "nat \<Rightarrow> graph_config \<Rightarrow> graph_config" where
  "with_recursion_limit n c = c\<lparr>cfg_recursion_limit := n\<rparr>"

definition with_tag :: "string \<Rightarrow> graph_config \<Rightarrow> graph_config" where
  "with_tag t c = c\<lparr>cfg_tags := cfg_tags c @ [t]\<rparr>"

definition with_metadata :: "string \<Rightarrow> value \<Rightarrow> graph_config \<Rightarrow> graph_config" where
  "with_metadata k v c = c\<lparr>cfg_metadata := AList.update k v (cfg_metadata c)\<rparr>"

definition with_configurable :: "string \<Rightarrow> value \<Rightarrow> graph_config \<Rightarrow> graph_config" where
  "with_configurable k v c = c\<lparr>cfg_configurable := AList.update k v (cfg_configurable c)\<rparr>"

definition with_trace_id :: "string \<Rightarrow> graph_config \<Rightarrow> graph_config" where
  "with_trace_id i c = c\<lparr>cfg_trace_id := Some i\<rparr>"

definition with_max_parallelism :: "nat \<Rightarrow> graph_config \<Rightarrow> graph_config" where
  "with_max_parallelism n c = c\<lparr>cfg_max_parallelism := max 1 (min n 32)\<rparr>"

text \<open>The legacy text of a trace context, and the reverse, are \<open>stack_ids\<close> functions.\<close>

definition resolve_trace_ctx ::
    "(string \<Rightarrow> trace_ctx) \<Rightarrow> trace_ctx \<Rightarrow> graph_config \<Rightarrow> trace_ctx" where
  "resolve_trace_ctx from_legacy generated c = (case cfg_trace_ctx c of
       Some ctx \<Rightarrow> ctx
     | None \<Rightarrow> (case cfg_trace_id c of Some i \<Rightarrow> from_legacy i | None \<Rightarrow> generated))"

definition with_trace_ctx ::
    "(trace_ctx \<Rightarrow> string) \<Rightarrow> trace_ctx \<Rightarrow> graph_config \<Rightarrow> graph_config" where
  "with_trace_ctx to_legacy ctx c =
     c\<lparr>cfg_trace_id := Some (to_legacy ctx), cfg_trace_ctx := Some ctx\<rparr>"

section \<open>Interrupt points (interrupt.rs)\<close>

record interrupt_config =
  interrupt_before :: "string list"
  interrupt_after :: "string list"

definition new_interrupt_config :: interrupt_config where
  "new_interrupt_config = \<lparr>interrupt_before = [], interrupt_after = []\<rparr>"

definition before :: "string \<Rightarrow> interrupt_config \<Rightarrow> interrupt_config" where
  "before n c = c\<lparr>interrupt_before := interrupt_before c @ [n]\<rparr>"

definition after :: "string \<Rightarrow> interrupt_config \<Rightarrow> interrupt_config" where
  "after n c = c\<lparr>interrupt_after := interrupt_after c @ [n]\<rparr>"

definition should_interrupt_before :: "interrupt_config \<Rightarrow> string \<Rightarrow> bool" where
  "should_interrupt_before c n = list_ex (\<lambda>m. m = n) (interrupt_before c)"

definition should_interrupt_after :: "interrupt_config \<Rightarrow> string \<Rightarrow> bool" where
  "should_interrupt_after c n = list_ex (\<lambda>m. m = n) (interrupt_after c)"

definition interrupt_config_is_empty :: "interrupt_config \<Rightarrow> bool" where
  "interrupt_config_is_empty c \<longleftrightarrow> interrupt_before c = [] \<and> interrupt_after c = []"

record interrupt_checkpoint =
  resume_node :: string
  resume_before :: bool
  icp_iteration :: nat
  icp_active_nodes :: "string list"
  icp_graph_hash :: "string option"

lemma should_interrupt_iff:
  "should_interrupt_before c n \<longleftrightarrow> n \<in> set (interrupt_before c)"
  "should_interrupt_after c n \<longleftrightarrow> n \<in> set (interrupt_after c)"
  by (auto simp: should_interrupt_before_def should_interrupt_after_def list_ex_iff)

section \<open>Retry policies (retry.rs)\<close>

record retry_policy =
  max_attempts :: nat
  initial_interval :: nat
  backoff_factor :: f64
  max_interval :: nat
  jitter :: bool
  retry_on :: "(graph_error \<Rightarrow> bool) option"

definition default_retry :: retry_policy where
  "default_retry = \<lparr>max_attempts = 3, initial_interval = 1000000000, backoff_factor = 2,
     max_interval = 60000000000, jitter = True, retry_on = None\<rparr>"

definition with_max_attempts :: "nat \<Rightarrow> retry_policy \<Rightarrow> retry_policy" where
  "with_max_attempts n p = p\<lparr>max_attempts := n\<rparr>"

definition with_initial_interval :: "nat \<Rightarrow> retry_policy \<Rightarrow> retry_policy" where
  "with_initial_interval d p = p\<lparr>initial_interval := d\<rparr>"

definition with_backoff_factor :: "f64 \<Rightarrow> retry_policy \<Rightarrow> retry_policy" where
  "with_backoff_factor f p = p\<lparr>backoff_factor := f\<rparr>"

definition with_max_interval :: "nat \<Rightarrow> retry_policy \<Rightarrow> retry_policy" where
  "with_max_interval d p = p\<lparr>max_interval := d\<rparr>"

definition with_jitter :: "bool \<Rightarrow> retry_policy \<Rightarrow> retry_policy" where
  "with_jitter j p = p\<lparr>jitter := j\<rparr>"

definition with_retry_on :: "(graph_error \<Rightarrow> bool) \<Rightarrow> retry_policy \<Rightarrow> retry_policy" where
  "with_retry_on f p = p\<lparr>retry_on := Some f\<rparr>"

definition should_retry :: "retry_policy \<Rightarrow> graph_error \<Rightarrow> bool" where
  "should_retry p e = (case retry_on p of Some f \<Rightarrow> f e | None \<Rightarrow> True)"

text \<open>
  Floating point results that need not be finite: \<open>pow_int\<close> and the products may overflow,
  and zero times infinity is no number. \<open>pow_int\<close> is a parameter: its precision is
  unspecified by the standard library.
\<close>

datatype xf64 = Finite f64 | Infinite bool | Not_a_number

definition xf64_of :: "bool \<Rightarrow> f64 option \<Rightarrow> xf64" where
  "xf64_of negative r = (case r of Some x \<Rightarrow> Finite x | None \<Rightarrow> Infinite negative)"

fun xf64_mul :: "f64 \<Rightarrow> xf64 \<Rightarrow> xf64" where
  "xf64_mul a (Finite b) = xf64_of (a * b < 0) (f64_round (a * b))"
| "xf64_mul a (Infinite neg) =
     (if a = 0 then Not_a_number else Infinite (if a < 0 then \<not> neg else neg))"
| "xf64_mul a Not_a_number = Not_a_number"

text \<open>\<open>f64::min\<close> against a finite bound: the number wins over NaN.\<close>

fun xf64_min :: "xf64 \<Rightarrow> f64 \<Rightarrow> xf64" where
  "xf64_min (Finite a) b = Finite (min a b)"
| "xf64_min (Infinite neg) b = (if neg then Infinite neg else Finite b)"
| "xf64_min Not_a_number b = Finite b"

definition rounded :: "rat \<Rightarrow> f64" where
  "rounded x = (case f64_round x of Some y \<Rightarrow> y | None \<Rightarrow> x)"

definition as_secs_f64 :: "nat \<Rightarrow> f64" where
  "as_secs_f64 d = rounded (rounded (of_nat (d div 1000000000))
     + rounded (rounded (of_nat (d mod 1000000000)) / 1000000000))"

text \<open>
  \<open>Duration::from_secs_f64\<close> rounds to the nanosecond and panics (\<open>None\<close>) on a negative,
  non-finite or too large number of seconds.
\<close>

fun from_secs_f64 :: "xf64 \<Rightarrow> nat option" where
  "from_secs_f64 (Finite x) =
     (if x < 0 \<or> 2 ^ 64 \<le> x then None else Some (nat (round_half_even (x * 1000000000))))"
| "from_secs_f64 _ = None"

text \<open>\<open>jitter_factor\<close>, from the hash of the system time and the thread id.\<close>

definition jitter_factor :: "64 word \<Rightarrow> f64" where
  "jitter_factor hash = rounded (1 / 2 + rounded
     (rounded (rounded (of_int (uint hash)) / rounded (2 ^ 64 - 1)) * (1 / 2)))"

definition delay_for_attempt ::
    "(f64 \<Rightarrow> int \<Rightarrow> xf64) \<Rightarrow> 64 word \<Rightarrow> retry_policy \<Rightarrow> nat \<Rightarrow> nat option" where
  "delay_for_attempt pow_int hash p attempt =
     (let base = xf64_mul (as_secs_f64 (initial_interval p))
            (pow_int (backoff_factor p) (sint (of_nat attempt :: 32 word)));
          capped = xf64_min base (as_secs_f64 (max_interval p))
      in if jitter p
         then from_secs_f64 (xf64_mul (jitter_factor hash) capped)
         else from_secs_f64 capped)"

lemma round_half_even_cases: "round_half_even x = \<lfloor>x\<rfloor> \<or> round_half_even x = \<lfloor>x\<rfloor> + 1"
  by (auto simp: round_half_even_def Let_def)

lemma round_half_even_mono:
  assumes "x \<le> y"
  shows "round_half_even x \<le> round_half_even y"
proof (cases "\<lfloor>x\<rfloor> = \<lfloor>y\<rfloor>")
  case True
  then show ?thesis
    using assms by (auto simp: round_half_even_def Let_def)
next
  case False
  then have "\<lfloor>x\<rfloor> + 1 \<le> \<lfloor>y\<rfloor>"
    using floor_mono [OF assms] by linarith
  then show ?thesis
    using round_half_even_cases [of x] round_half_even_cases [of y] by linarith
qed

section \<open>Commands (command.rs)\<close>

record send_op =
  send_node :: string
  send_state :: "(string, value) hash_map"

datatype navigation =
    Goto_node string
  | Goto_nodes "string list"
  | Goto_end
  | Goto_send "send_op list"
  | Goto_default

record command =
  cmd_update :: "(string, value) hash_map option"
  cmd_goto :: navigation

datatype node_output = Node_done | Node_command command

definition command_goto :: "string \<Rightarrow> command" where
  "command_goto n = \<lparr>cmd_update = None, cmd_goto = Goto_node n\<rparr>"

definition command_end :: command where
  "command_end = \<lparr>cmd_update = None, cmd_goto = Goto_end\<rparr>"

definition command_update :: "(string, value) hash_map \<Rightarrow> command" where
  "command_update u = \<lparr>cmd_update = Some u, cmd_goto = Goto_default\<rparr>"

definition command_with_update :: "(string, value) hash_map \<Rightarrow> command \<Rightarrow> command" where
  "command_with_update u c = c\<lparr>cmd_update := Some u\<rparr>"

definition command_with_goto :: "navigation \<Rightarrow> command \<Rightarrow> command" where
  "command_with_goto g c = c\<lparr>cmd_goto := g\<rparr>"

definition output_goto :: "string \<Rightarrow> node_output" where
  "output_goto n = Node_command (command_goto n)"

definition output_end :: node_output where
  "output_end = Node_command command_end"

end
