(* ===== verification/Graph_Events.thy ===== *)
theory Graph_Events
  imports Run_Config "HOL-Library.Sublist"
begin

text \<open>
  \<open>event_sink.rs\<close> and \<open>stream.rs\<close>: the structured events of a run, the legacy stream
  events, and the sinks. The engine's model keeps the list of the events it emits; a
  sink consumes that list one event at a time. A bounded channel whose receiver reads
  at its own pace is a transition system, and what the receiver sees is a subsequence
  of the translated events.
\<close>

section \<open>Events\<close>

text \<open>The identifiers are third-party newtypes around strings.\<close>

type_synonym attempt_id = string
type_synonym trial_id = string

datatype node_outcome_kind = Outcome_success | Outcome_failed | Outcome_interrupted

text \<open>The three fields every variant of \<open>GraphEvent\<close> carries.\<close>

record event_header =
  ev_run_id :: string
  ev_trace_id :: string
  ev_trace_ctx :: "trace_ctx option"

datatype graph_event =
    RunStart event_header "string option"
  | RunEnd event_header
  | NodeStart event_header string "32 word" "attempt_id option" "trial_id option"
  | NodeEnd event_header string node_outcome_kind "attempt_id option" "trial_id option"
  | Token event_header string string
  | CheckpointWritten event_header string
  | InterruptRaised event_header string string "value"
  | StateUpdate event_header string "(string, value) hash_map"
  | SuperstepStart event_header nat "string list"
  | SuperstepEnd event_header nat
  | ParallelCancellation event_header bool

datatype stream_event =
    Stream_graph_start "string option"
  | Stream_graph_end "string option"
  | Stream_node_start string
  | Stream_node_end string
  | Stream_state_update string "(string, value) hash_map"
  | Stream_superstep_start nat "string list"
  | Stream_superstep_end nat
  | Stream_interrupt string "value option"
  | Stream_custom "value"

datatype stream_mode = Mode_values | Mode_updates | Mode_events

definition default_stream_mode :: stream_mode where
  "default_stream_mode = Mode_events"

section \<open>Translation to the legacy stream\<close>

definition token_object :: "string \<Rightarrow> string \<Rightarrow> string \<Rightarrow> value" where
  "token_object run_id node token = json_object
     [(''type'', String ''token''), (''run_id'', String run_id),
      (''node'', String node), (''token'', String token)]"

fun stream_of :: "graph_event \<Rightarrow> stream_event option" where
  "stream_of (RunStart _ name) = Some (Stream_graph_start name)"
| "stream_of (RunEnd _) = Some (Stream_graph_end None)"
| "stream_of (NodeStart _ n _ _ _) = Some (Stream_node_start n)"
| "stream_of (NodeEnd _ n _ _ _) = Some (Stream_node_end n)"
| "stream_of (Token h n t) = Some (Stream_custom (token_object (ev_run_id h) n t))"
| "stream_of (InterruptRaised _ n _ payload) = Some (Stream_interrupt n (Some payload))"
| "stream_of (StateUpdate _ n u) = Some (Stream_state_update n u)"
| "stream_of (SuperstepStart _ i ns) = Some (Stream_superstep_start i ns)"
| "stream_of (SuperstepEnd _ i) = Some (Stream_superstep_end i)"
| "stream_of (ParallelCancellation _ _) = None"
| "stream_of (CheckpointWritten _ _) = None"

section \<open>Sinks\<close>

text \<open>A \<open>tokio::sync::mpsc\<close> channel: the queue, its capacity, and whether the receiver lives.\<close>

record channel =
  ch_capacity :: nat
  ch_queue :: "stream_event list"
  ch_open :: bool

definition stream_channel :: channel where
  "stream_channel = \<lparr>ch_capacity = 256, ch_queue = [], ch_open = True\<rparr>"

definition try_send :: "stream_event \<Rightarrow> channel \<Rightarrow> channel" where
  "try_send e c = (if ch_open c \<and> length (ch_queue c) < ch_capacity c
     then c\<lparr>ch_queue := ch_queue c @ [e]\<rparr> else c)"

definition channel_emit :: "graph_event \<Rightarrow> channel \<Rightarrow> channel" where
  "channel_emit e c = (case stream_of e of None \<Rightarrow> c | Some s \<Rightarrow> try_send s c)"

text \<open>
  The callback of a \<open>CallbackEventSink\<close> is the user's: a function on what it captures.
\<close>

datatype 'c event_sink =
    Noop_sink
  | Channel_sink channel
  | Callback_sink 'c
  | Composite_sink "'c event_sink list"

fun emit_to :: "(graph_event \<Rightarrow> 'c \<Rightarrow> 'c) \<Rightarrow> graph_event \<Rightarrow> 'c event_sink \<Rightarrow> 'c event_sink" where
  "emit_to cb e Noop_sink = Noop_sink"
| "emit_to cb e (Channel_sink c) = Channel_sink (channel_emit e c)"
| "emit_to cb e (Callback_sink x) = Callback_sink (cb e x)"
| "emit_to cb e (Composite_sink sinks) = Composite_sink (map (emit_to cb e) sinks)"

text \<open>\<open>graph.rs::resolve_event_sink\<close>.\<close>

definition resolve_event_sink ::
    "'c event_sink option \<Rightarrow> channel option \<Rightarrow> 'c event_sink" where
  "resolve_event_sink configured stream_tx = (case stream_tx of
       Some tx \<Rightarrow> (case configured of
           Some sink \<Rightarrow> Composite_sink [sink, Channel_sink tx]
         | None \<Rightarrow> Channel_sink tx)
     | None \<Rightarrow> (case configured of Some sink \<Rightarrow> sink | None \<Rightarrow> Noop_sink))"

lemma fold_emit_composite:
  "fold (emit_to cb) es (Composite_sink sinks) = Composite_sink (map (fold (emit_to cb) es) sinks)"
  by (induction es arbitrary: sinks) (simp_all add: comp_def)

lemma fold_emit_channel:
  "fold (emit_to cb) es (Channel_sink c) = Channel_sink (fold channel_emit es c)"
  by (induction es arbitrary: c) simp_all

lemma fold_emit_callback:
  "fold (emit_to cb) es (Callback_sink x) = Callback_sink (fold cb es x)"
  by (induction es arbitrary: x) simp_all

section \<open>A receiver that reads at its own pace\<close>

text \<open>
  A state of the system: the channel, what was received, and (for the proofs) what was
  emitted. The receiver may read or be dropped between any two events.
\<close>

record stream_system =
  sys_channel :: channel
  sys_received :: "stream_event list"
  sys_emitted :: "graph_event list"

inductive stream_step :: "stream_system \<Rightarrow> stream_system \<Rightarrow> bool" where
  step_emit: "stream_step s (s\<lparr>sys_channel := channel_emit e (sys_channel s),
    sys_emitted := sys_emitted s @ [e]\<rparr>)"
| step_recv: "ch_open (sys_channel s) \<Longrightarrow> ch_queue (sys_channel s) = x # q \<Longrightarrow>
    stream_step s (s\<lparr>sys_channel := (sys_channel s)\<lparr>ch_queue := q\<rparr>,
      sys_received := sys_received s @ [x]\<rparr>)"
| step_close: "stream_step s (s\<lparr>sys_channel := (sys_channel s)\<lparr>ch_open := False, ch_queue := []\<rparr>\<rparr>)"

definition stream_start :: stream_system where
  "stream_start = \<lparr>sys_channel = stream_channel, sys_received = [], sys_emitted = []\<rparr>"

definition translated :: "graph_event list \<Rightarrow> stream_event list" where
  "translated es = List.map_filter stream_of es"

lemma translated_snoc:
  "translated (es @ [e]) = translated es @ (case stream_of e of None \<Rightarrow> [] | Some s \<Rightarrow> [s])"
  by (simp add: translated_def List.map_filter_def split: option.splits)

text \<open>Capacity is respected, and what was or will be received is in emission order.\<close>

definition stream_ok :: "stream_system \<Rightarrow> bool" where
  "stream_ok s \<longleftrightarrow>
     length (ch_queue (sys_channel s)) \<le> ch_capacity (sys_channel s) \<and>
     ch_capacity (sys_channel s) = 256 \<and>
     subseq (sys_received s @ ch_queue (sys_channel s)) (translated (sys_emitted s))"

lemma subseq_drop_tail: "subseq (xs @ ys) zs \<Longrightarrow> subseq xs zs"
  by (rule subseq_order.trans [of xs "xs @ ys" zs]) (simp_all add: prefix_imp_subseq)

lemma stream_ok_emit:
  assumes "stream_ok s"
  shows "stream_ok (s\<lparr>sys_channel := channel_emit e (sys_channel s),
    sys_emitted := sys_emitted s @ [e]\<rparr>)"
proof (cases "stream_of e")
  case None
  then show ?thesis using assms by (simp add: stream_ok_def channel_emit_def translated_snoc)
next
  case (Some x)
  let ?q = "sys_received s @ ch_queue (sys_channel s)"
  have sub: "subseq ?q (translated (sys_emitted s))"
    using assms by (simp add: stream_ok_def)
  have keep: "subseq ?q (translated (sys_emitted s) @ [x])"
    using list_emb_append_mono [OF sub, of "[]" "[x]"] by (simp del: append_assoc)
  have grow: "subseq (?q @ [x]) (translated (sys_emitted s) @ [x])"
    using list_emb_append_mono [OF sub, of "[x]" "[x]"] by simp
  show ?thesis
    using assms keep grow Some
    by (auto simp: stream_ok_def channel_emit_def try_send_def translated_snoc)
qed

lemma stream_ok_step:
  assumes "stream_step s t" and "stream_ok s"
  shows "stream_ok t"
  using assms(1)
proof cases
  case (step_emit e)
  then show ?thesis using stream_ok_emit [OF assms(2)] by simp
next
  case (step_recv x q)
  then show ?thesis using assms(2) by (simp add: stream_ok_def)
next
  case step_close
  then show ?thesis using assms(2) subseq_drop_tail by (auto simp: stream_ok_def)
qed

lemma stream_ok_start: "stream_ok stream_start"
  by (simp add: stream_ok_def stream_start_def stream_channel_def translated_def
      List.map_filter_def)

lemma stream_ok_reachable: "stream_step\<^sup>*\<^sup>* stream_start s \<Longrightarrow> stream_ok s"
  by (induction rule: rtranclp_induct) (blast intro: stream_ok_start stream_ok_step)+

end
