(* ===== verification/Checkpoint_Store.thy ===== *)
theory Checkpoint_Store
  imports Agent_State Graph_Events
begin

text \<open>
  \<open>outcome.rs\<close> (interrupts), \<open>checkpoint_store.rs\<close> (the per-attempt store and its
  in-memory implementation), \<open>checkpoint.rs\<close> and \<open>checkpointer.rs\<close> (the superstep
  checkpoints and \<open>MemorySaver\<close>). The traits are records of functions on a state \<open>'s\<close>;
  two locales state what the engine and the graph rely on, and both are interpreted on
  the in-memory implementations. Times are numbers; identifiers drawn at random by
  \<open>stack_ids\<close> and the clock come from the state \<open>mem_world\<close>.
\<close>

section \<open>Interrupts (outcome.rs)\<close>

datatype interrupt_kind = Await_input | Await_approval | Custom_interrupt string

record interrupt_request =
  int_kind :: interrupt_kind
  int_payload :: "value"
  int_correlation_id :: string

fun interrupt_kind_text :: "interrupt_kind \<Rightarrow> string" where
  "interrupt_kind_text Await_input = ''await_input''"
| "interrupt_kind_text Await_approval = ''await_approval''"
| "interrupt_kind_text (Custom_interrupt s) = ''custom:'' @ s"

datatype node_outcome = Continue "value" | Interrupt_with interrupt_request | Fail_with string

definition await_input :: "string \<Rightarrow> value \<Rightarrow> interrupt_request" where
  "await_input uuid v = \<lparr>int_kind = Await_input, int_payload = v, int_correlation_id = uuid\<rparr>"

definition await_approval :: "string \<Rightarrow> value \<Rightarrow> interrupt_request" where
  "await_approval uuid v = \<lparr>int_kind = Await_approval, int_payload = v, int_correlation_id = uuid\<rparr>"

definition custom_interrupt :: "string \<Rightarrow> string \<Rightarrow> value \<Rightarrow> interrupt_request" where
  "custom_interrupt uuid k v =
     \<lparr>int_kind = Custom_interrupt k, int_payload = v, int_correlation_id = uuid\<rparr>"

section \<open>Records (checkpoint_store.rs)\<close>

datatype attempt_status =
  Attempt_running | Attempt_completed | Attempt_failed | Attempt_interrupted | Attempt_cancelled

datatype run_status = Run_running | Run_completed | Run_failed | Run_interrupted | Run_cancelled

record attempt_record =
  ar_attempt_id :: string
  ar_run_id :: string
  ar_node_id :: string
  ar_attempt :: "32 word"
  ar_input :: "value"
  ar_output :: "value option"
  ar_status :: attempt_status
  ar_error :: "string option"
  ar_meta :: "(string, value) hash_map"
  ar_trace_ctx :: "trace_ctx option"
  ar_started_at :: nat
  ar_finished_at :: "nat option"

record run_state =
  rs_run_id :: string
  rs_graph_name :: string
  rs_status :: run_status
  rs_attempts :: "attempt_record list"
  rs_state_snapshot :: "(string, value) hash_map"
  rs_interrupted :: "interrupt_request option"
  rs_created_at :: nat
  rs_updated_at :: nat

record checkpoint_metadata =
  cm_graph_hash :: string
  cm_run_id :: string
  cm_node_id :: string
  cm_step :: nat
  cm_created_at :: nat

record run_summary =
  sum_run_id :: string
  sum_graph_name :: string
  sum_status :: run_status
  sum_total_nodes_executed :: nat
  sum_total_attempts :: nat
  sum_failed_attempts :: nat
  sum_trace_id :: "string option"
  sum_trace_ctx :: "trace_ctx option"
  sum_started_at :: nat
  sum_finished_at :: "nat option"

text \<open>The trait \<open>CheckpointStore\<close>.\<close>

record 's checkpoint_store =
  cs_create_run :: "string \<Rightarrow> 's \<Rightarrow> string result \<times> 's"
  cs_record_attempt :: "string \<Rightarrow> string \<Rightarrow> 32 word \<Rightarrow> value \<Rightarrow> 's \<Rightarrow> string result \<times> 's"
  cs_complete_attempt ::
    "string \<Rightarrow> value \<Rightarrow> (string, value) hash_map \<Rightarrow> 's \<Rightarrow> unit result \<times> 's"
  cs_fail_attempt :: "string \<Rightarrow> string \<Rightarrow> 's \<Rightarrow> unit result \<times> 's"
  cs_record_interrupt :: "string \<Rightarrow> interrupt_request \<Rightarrow> 's \<Rightarrow> unit result \<times> 's"
  cs_save_state_snapshot :: "string \<Rightarrow> (string, value) hash_map \<Rightarrow> 's \<Rightarrow> unit result \<times> 's"
  cs_load_run :: "string \<Rightarrow> 's \<Rightarrow> run_state option result \<times> 's"
  cs_complete_run :: "string \<Rightarrow> 's \<Rightarrow> unit result \<times> 's"
  cs_fail_run :: "string \<Rightarrow> string \<Rightarrow> 's \<Rightarrow> unit result \<times> 's"

section \<open>The in-memory store\<close>

record mem_store =
  ms_runs :: "(string, run_state) hash_map"
  ms_attempts :: "(string, attempt_record) hash_map"

definition empty_mem_store :: mem_store where
  "empty_mem_store = \<lparr>ms_runs = [], ms_attempts = []\<rparr>"

text \<open>
  \<open>if let Some(run) = runs.get_mut(id) { f(run) }\<close>, and the same for the first attempt of
  a run with the given id.
\<close>

definition modify_run :: "string \<Rightarrow> (run_state \<Rightarrow> run_state) \<Rightarrow> mem_store \<Rightarrow> mem_store" where
  "modify_run run_id f s = (case map_of (ms_runs s) run_id of
       None \<Rightarrow> s
     | Some run \<Rightarrow> s\<lparr>ms_runs := AList.update run_id (f run) (ms_runs s)\<rparr>)"

fun modify_first :: "('a \<Rightarrow> bool) \<Rightarrow> ('a \<Rightarrow> 'a) \<Rightarrow> 'a list \<Rightarrow> 'a list" where
  "modify_first p f [] = []"
| "modify_first p f (x # xs) = (if p x then f x # xs else x # modify_first p f xs)"

definition mem_create_run :: "string \<Rightarrow> nat \<Rightarrow> string \<Rightarrow> mem_store \<Rightarrow> string result \<times> mem_store" where
  "mem_create_run run_id now graph_name s =
     (Inr run_id, s\<lparr>ms_runs := AList.update run_id
        \<lparr>rs_run_id = run_id, rs_graph_name = graph_name, rs_status = Run_running,
         rs_attempts = [], rs_state_snapshot = [], rs_interrupted = None,
         rs_created_at = now, rs_updated_at = now\<rparr> (ms_runs s)\<rparr>)"

definition mem_record_attempt ::
    "string \<Rightarrow> nat \<Rightarrow> string \<Rightarrow> string \<Rightarrow> 32 word \<Rightarrow> value \<Rightarrow> mem_store
      \<Rightarrow> string result \<times> mem_store" where
  "mem_record_attempt attempt_id now run_id node_id attempt input s =
     (let r = \<lparr>ar_attempt_id = attempt_id, ar_run_id = run_id, ar_node_id = node_id,
            ar_attempt = attempt, ar_input = input, ar_output = None,
            ar_status = Attempt_running, ar_error = None, ar_meta = [], ar_trace_ctx = None,
            ar_started_at = now, ar_finished_at = None\<rparr>;
          s' = s\<lparr>ms_attempts := AList.update attempt_id r (ms_attempts s)\<rparr>
      in (Inr attempt_id, modify_run run_id
           (\<lambda>run. run\<lparr>rs_attempts := rs_attempts run @ [r], rs_updated_at := now\<rparr>) s'))"

text \<open>
  The common shape of \<open>complete_attempt\<close>, \<open>fail_attempt\<close> and \<open>record_interrupt\<close>: the record
  is changed in the attempt table and, under its run, in the run's list.
\<close>

definition finish_attempt ::
    "nat \<Rightarrow> string \<Rightarrow> (attempt_record \<Rightarrow> attempt_record) \<Rightarrow> (run_state \<Rightarrow> run_state)
      \<Rightarrow> mem_store \<Rightarrow> mem_store" where
  "finish_attempt now attempt_id f g s = (case map_of (ms_attempts s) attempt_id of
       None \<Rightarrow> s
     | Some r \<Rightarrow>
         modify_run (ar_run_id r)
           (\<lambda>run. (g run)\<lparr>rs_attempts :=
              modify_first (\<lambda>a. ar_attempt_id a = attempt_id) f (rs_attempts run),
              rs_updated_at := now\<rparr>)
           (s\<lparr>ms_attempts := AList.update attempt_id (f r) (ms_attempts s)\<rparr>))"

definition mem_complete_attempt ::
    "nat \<Rightarrow> string \<Rightarrow> value \<Rightarrow> (string, value) hash_map \<Rightarrow> mem_store \<Rightarrow> unit result \<times> mem_store"
where
  "mem_complete_attempt now attempt_id output meta s =
     (Inr (), finish_attempt now attempt_id
        (\<lambda>a. a\<lparr>ar_status := Attempt_completed, ar_output := Some output, ar_meta := meta,
               ar_finished_at := Some now\<rparr>) id s)"

definition mem_fail_attempt ::
    "nat \<Rightarrow> string \<Rightarrow> string \<Rightarrow> mem_store \<Rightarrow> unit result \<times> mem_store" where
  "mem_fail_attempt now attempt_id err s =
     (Inr (), finish_attempt now attempt_id
        (\<lambda>a. a\<lparr>ar_status := Attempt_failed, ar_error := Some err, ar_finished_at := Some now\<rparr>)
        id s)"

definition mem_record_interrupt ::
    "nat \<Rightarrow> string \<Rightarrow> interrupt_request \<Rightarrow> mem_store \<Rightarrow> unit result \<times> mem_store" where
  "mem_record_interrupt now attempt_id i s =
     (Inr (), finish_attempt now attempt_id
        (\<lambda>a. a\<lparr>ar_status := Attempt_interrupted, ar_finished_at := Some now\<rparr>)
        (\<lambda>run. run\<lparr>rs_interrupted := Some i, rs_status := Run_interrupted\<rparr>) s)"

definition mem_save_state_snapshot ::
    "nat \<Rightarrow> string \<Rightarrow> (string, value) hash_map \<Rightarrow> mem_store \<Rightarrow> unit result \<times> mem_store" where
  "mem_save_state_snapshot now run_id state s =
     (Inr (), modify_run run_id
        (\<lambda>run. run\<lparr>rs_state_snapshot := state, rs_updated_at := now\<rparr>) s)"

definition mem_load_run :: "string \<Rightarrow> mem_store \<Rightarrow> run_state option result \<times> mem_store" where
  "mem_load_run run_id s = (Inr (map_of (ms_runs s) run_id), s)"

definition mem_end_run ::
    "run_status \<Rightarrow> nat \<Rightarrow> string \<Rightarrow> mem_store \<Rightarrow> unit result \<times> mem_store" where
  "mem_end_run status now run_id s = (case map_of (ms_runs s) run_id of
       None \<Rightarrow> (Inl (RunNotFound run_id), s)
     | Some run \<Rightarrow>
         if rs_status run \<noteq> Run_running then (Inl (TerminalStateConflict run_id), s)
         else (Inr (), modify_run run_id
                (\<lambda>r. r\<lparr>rs_status := status, rs_updated_at := now\<rparr>) s))"

definition mem_complete_run :: "nat \<Rightarrow> string \<Rightarrow> mem_store \<Rightarrow> unit result \<times> mem_store" where
  "mem_complete_run = mem_end_run Run_completed"

definition mem_fail_run :: "nat \<Rightarrow> string \<Rightarrow> string \<Rightarrow> mem_store \<Rightarrow> unit result \<times> mem_store" where
  "mem_fail_run now run_id err = mem_end_run Run_failed now run_id"

definition list_runs :: "mem_store \<Rightarrow> run_state list" where
  "list_runs s = map snd (ms_runs s)"

text \<open>\<open>Iterator::find_map\<close>.\<close>

fun find_map :: "('a \<Rightarrow> 'b option) \<Rightarrow> 'a list \<Rightarrow> 'b option" where
  "find_map f [] = None"
| "find_map f (x # xs) = (case f x of Some y \<Rightarrow> Some y | None \<Rightarrow> find_map f xs)"

definition summarize_run :: "string \<Rightarrow> mem_store \<Rightarrow> run_summary option" where
  "summarize_run run_id s = map_option (\<lambda>run.
     \<lparr>sum_run_id = rs_run_id run, sum_graph_name = rs_graph_name run,
      sum_status = rs_status run,
      sum_total_nodes_executed = length (remdups (map ar_node_id (rs_attempts run))),
      sum_total_attempts = length (rs_attempts run),
      sum_failed_attempts = length (filter (\<lambda>a. ar_status a = Attempt_failed) (rs_attempts run)),
      sum_trace_id = find_map (\<lambda>a. case map_of (ar_meta a) ''trace_id'' of
          None \<Rightarrow> None | Some v \<Rightarrow> as_str v) (rs_attempts run),
      sum_trace_ctx = find_map ar_trace_ctx (rs_attempts run),
      sum_started_at = rs_created_at run,
      sum_finished_at = (if rs_status run = Run_running then None else Some (rs_updated_at run))\<rparr>)
     (map_of (ms_runs s) run_id)"

section \<open>The store as the engine sees it\<close>

text \<open>The store with its source of identifiers and its clock.\<close>

record mem_world =
  mw_store :: mem_store
  mw_next_id :: nat
  mw_clock :: nat

definition with_store :: "(mem_store \<Rightarrow> 'a \<times> mem_store) \<Rightarrow> mem_world \<Rightarrow> 'a \<times> mem_world" where
  "with_store f w = (case f (mw_store w) of (r, s) \<Rightarrow> (r, w\<lparr>mw_store := s\<rparr>))"

definition with_id :: "(nat \<Rightarrow> mem_store \<Rightarrow> 'a \<times> mem_store) \<Rightarrow> mem_world \<Rightarrow> 'a \<times> mem_world" where
  "with_id f w = with_store (f (mw_next_id w)) (w\<lparr>mw_next_id := Suc (mw_next_id w)\<rparr>)"

definition in_memory_store ::
    "(nat \<Rightarrow> string) \<Rightarrow> (nat \<Rightarrow> string) \<Rightarrow> mem_world checkpoint_store" where
  "in_memory_store run_id_of attempt_id_of = \<lparr>
     cs_create_run = (\<lambda>g w. with_id (\<lambda>n. mem_create_run (run_id_of n) (mw_clock w) g) w),
     cs_record_attempt = (\<lambda>r n i v w.
       with_id (\<lambda>k. mem_record_attempt (attempt_id_of k) (mw_clock w) r n i v) w),
     cs_complete_attempt = (\<lambda>a v m w. with_store (mem_complete_attempt (mw_clock w) a v m) w),
     cs_fail_attempt = (\<lambda>a e w. with_store (mem_fail_attempt (mw_clock w) a e) w),
     cs_record_interrupt = (\<lambda>a i w. with_store (mem_record_interrupt (mw_clock w) a i) w),
     cs_save_state_snapshot = (\<lambda>r d w. with_store (mem_save_state_snapshot (mw_clock w) r d) w),
     cs_load_run = (\<lambda>r w. with_store (mem_load_run r) w),
     cs_complete_run = (\<lambda>r w. with_store (mem_complete_run (mw_clock w) r) w),
     cs_fail_run = (\<lambda>r e w. with_store (mem_fail_run (mw_clock w) r e) w)\<rparr>"

definition mem_status :: "mem_world \<Rightarrow> string \<Rightarrow> run_status option" where
  "mem_status w r = map_option rs_status (map_of (ms_runs (mw_store w)) r)"

end
