(* ===== verification/Run_Ledger.thy ===== *)
theory Run_Ledger
  imports Checkpoint_Store
begin

text \<open>
  The contract of a checkpoint store about the status of runs, stated as a locale over
  the trait \<open>CheckpointStore\<close>, the client's lemma that a finished run stays finished
  whatever the engine calls next, and the interpretation on \<open>InMemoryCheckpointStore\<close>.
\<close>

section \<open>The calls the engine makes\<close>

datatype store_call =
    Call_create_run string
  | Call_record_attempt string string "32 word" "value"
  | Call_complete_attempt string "value" "(string, value) hash_map"
  | Call_fail_attempt string string
  | Call_save_state_snapshot string "(string, value) hash_map"
  | Call_complete_run string
  | Call_fail_run string string

fun run_call :: "'s checkpoint_store \<Rightarrow> store_call \<Rightarrow> 's \<Rightarrow> 's" where
  "run_call st (Call_create_run g) s = snd (cs_create_run st g s)"
| "run_call st (Call_record_attempt r n i v) s = snd (cs_record_attempt st r n i v s)"
| "run_call st (Call_complete_attempt a v m) s = snd (cs_complete_attempt st a v m s)"
| "run_call st (Call_fail_attempt a e) s = snd (cs_fail_attempt st a e s)"
| "run_call st (Call_save_state_snapshot r d) s = snd (cs_save_state_snapshot st r d s)"
| "run_call st (Call_complete_run r) s = snd (cs_complete_run st r s)"
| "run_call st (Call_fail_run r e) s = snd (cs_fail_run st r e s)"

locale run_ledger =
  fixes store :: "'s checkpoint_store"
    and status :: "'s \<Rightarrow> string \<Rightarrow> run_status option"
    and reserved :: "'s \<Rightarrow> string \<Rightarrow> bool"
  assumes create_run_ok:
      "cs_create_run store g s = (Inr r, s') \<Longrightarrow> status s' = (status s)(r \<mapsto> Run_running)"
    and create_run_err: "cs_create_run store g s = (Inl e, s') \<Longrightarrow> status s' = status s"
    and create_run_fresh:
      "reserved s q \<Longrightarrow> cs_create_run store g s = (Inr r, s') \<Longrightarrow> r \<noteq> q"
    and complete_run_ok:
      "cs_complete_run store r s = (Inr u, s') \<Longrightarrow>
       status s r = Some Run_running \<and> status s' = (status s)(r \<mapsto> Run_completed)"
    and complete_run_err: "cs_complete_run store r s = (Inl e, s') \<Longrightarrow> status s' = status s"
    and fail_run_ok:
      "cs_fail_run store r m s = (Inr u, s') \<Longrightarrow>
       status s r = Some Run_running \<and> status s' = (status s)(r \<mapsto> Run_failed)"
    and fail_run_err: "cs_fail_run store r m s = (Inl e, s') \<Longrightarrow> status s' = status s"
    and record_attempt_status: "status (snd (cs_record_attempt store r n i v s)) = status s"
    and complete_attempt_status: "status (snd (cs_complete_attempt store a v md s)) = status s"
    and fail_attempt_status: "status (snd (cs_fail_attempt store a m s)) = status s"
    and save_state_snapshot_status:
      "status (snd (cs_save_state_snapshot store r d s)) = status s"
    and reserved_call: "reserved s q \<Longrightarrow> reserved (run_call store c s) q"
begin

lemmas attempt_calls_status =
  record_attempt_status complete_attempt_status fail_attempt_status save_state_snapshot_status

lemma create_run_status:
  assumes "reserved s q"
  shows "status (snd (cs_create_run store g s)) q = status s q"
proof (cases "cs_create_run store g s")
  case (Pair x s')
  show ?thesis
  proof (cases x)
    case (Inl e)
    then show ?thesis using Pair create_run_err by simp
  next
    case (Inr r)
    then have "r \<noteq> q" using Pair assms create_run_fresh by blast
    then show ?thesis using Pair Inr create_run_ok by simp
  qed
qed

lemma complete_run_status:
  "status (snd (cs_complete_run store r s)) q =
     (if fst (cs_complete_run store r s) = Inr () \<and> q = r then Some Run_completed else status s q)"
proof (cases "cs_complete_run store r s")
  case (Pair x s')
  then show ?thesis
    using complete_run_ok [of r s _ s'] complete_run_err [of r s _ s'] by (cases x) auto
qed

lemma fail_run_status:
  "status (snd (cs_fail_run store r m s)) q =
     (if fst (cs_fail_run store r m s) = Inr () \<and> q = r then Some Run_failed else status s q)"
proof (cases "cs_fail_run store r m s")
  case (Pair x s')
  then show ?thesis
    using fail_run_ok [of r m s _ s'] fail_run_err [of r m s _ s'] by (cases x) auto
qed

lemma end_run_ok_running:
  "fst (cs_complete_run store r s) = Inr () \<Longrightarrow> status s r = Some Run_running"
  "fst (cs_fail_run store r m s) = Inr () \<Longrightarrow> status s r = Some Run_running"
  using complete_run_ok fail_run_ok by (metis prod.collapse)+

lemma finished_call:
  assumes "reserved s q" and "status s q = Some st" and "st \<noteq> Run_running"
  shows "status (run_call store c s) q = Some st"
proof (cases c)
  case (Call_create_run g)
  then show ?thesis using assms by (simp add: create_run_status)
next
  case (Call_complete_run r)
  then show ?thesis
    using assms end_run_ok_running(1) [of r s] by (auto simp: complete_run_status)
next
  case (Call_fail_run r m)
  then show ?thesis
    using assms end_run_ok_running(2) [of r m s] by (auto simp: fail_run_status)
qed (use assms attempt_calls_status in simp_all)

lemma finished_forever:
  "reserved s q \<Longrightarrow> status s q = Some st \<Longrightarrow> st \<noteq> Run_running \<Longrightarrow>
   status (fold (run_call store) cs s) q = Some st"
  by (induction cs arbitrary: s) (simp_all add: finished_call reserved_call)

end

section \<open>The in-memory store keeps the contract\<close>

text \<open>Identifiers drawn from now on differ from \<open>r\<close>.\<close>

definition mem_reserved :: "(nat \<Rightarrow> string) \<Rightarrow> mem_world \<Rightarrow> string \<Rightarrow> bool" where
  "mem_reserved run_id_of w r \<longleftrightarrow> (\<forall>n \<ge> mw_next_id w. run_id_of n \<noteq> r)"

lemma map_of_modify_run [simp]:
  "map_of (ms_runs (modify_run r f s)) q =
     (if q = r then map_option f (map_of (ms_runs s) q) else map_of (ms_runs s) q)"
  by (auto simp: modify_run_def split: option.splits)

lemma map_of_finish_attempt:
  assumes "\<And>run. rs_status (g run) = rs_status run"
  shows "map_option rs_status (map_of (ms_runs (finish_attempt now a f g s)) q) =
         map_option rs_status (map_of (ms_runs s) q)"
  using assms
  by (cases "map_of (ms_attempts s) a"; cases "map_of (ms_runs s) q")
    (auto simp: finish_attempt_def)

lemmas in_memory_defs = in_memory_store_def with_store_def with_id_def mem_status_def
  mem_create_run_def mem_record_attempt_def mem_complete_attempt_def mem_fail_attempt_def
  mem_save_state_snapshot_def mem_complete_run_def mem_fail_run_def mem_end_run_def Let_def

lemma next_id_with_store [simp]: "mw_next_id (snd (with_store f w)) = mw_next_id w"
  by (simp add: with_store_def split: prod.splits)

lemma next_id_with_id [simp]: "mw_next_id (snd (with_id f w)) = Suc (mw_next_id w)"
  by (simp add: with_id_def)

lemma mem_end_run_status:
  assumes "mem_end_run st now r s = (x, s')"
  shows "x = Inr () \<and> map_option rs_status (map_of (ms_runs s) r) = Some Run_running \<and>
      (\<forall>q. map_option rs_status (map_of (ms_runs s') q) =
        (if q = r then Some st else map_option rs_status (map_of (ms_runs s) q)))
    \<or> (\<exists>e. x = Inl e) \<and> s' = s"
  using assms
  by (cases "map_of (ms_runs s) r") (auto simp: mem_end_run_def split: if_splits)

interpretation mem: run_ledger "in_memory_store f g" mem_status "mem_reserved f" for f g
proof unfold_locales
  fix r s u s'
  assume "cs_complete_run (in_memory_store f g) r s = (Inr u, s')"
  then show "mem_status s r = Some Run_running \<and> mem_status s' = (mem_status s)(r \<mapsto> Run_completed)"
    using mem_end_run_status [of Run_completed "mw_clock s" r "mw_store s"]
    by (fastforce simp: in_memory_store_def with_store_def mem_complete_run_def mem_status_def
        split: prod.splits)
next
  fix r s e s'
  assume "cs_complete_run (in_memory_store f g) r s = (Inl e, s')"
  then show "mem_status s' = mem_status s"
    using mem_end_run_status [of Run_completed "mw_clock s" r "mw_store s"]
    by (fastforce simp: in_memory_store_def with_store_def mem_complete_run_def mem_status_def
        split: prod.splits)
next
  fix r m s u s'
  assume "cs_fail_run (in_memory_store f g) r m s = (Inr u, s')"
  then show "mem_status s r = Some Run_running \<and> mem_status s' = (mem_status s)(r \<mapsto> Run_failed)"
    using mem_end_run_status [of Run_failed "mw_clock s" r "mw_store s"]
    by (fastforce simp: in_memory_store_def with_store_def mem_fail_run_def mem_status_def
        split: prod.splits)
next
  fix r m s e s'
  assume "cs_fail_run (in_memory_store f g) r m s = (Inl e, s')"
  then show "mem_status s' = mem_status s"
    using mem_end_run_status [of Run_failed "mw_clock s" r "mw_store s"]
    by (fastforce simp: in_memory_store_def with_store_def mem_fail_run_def mem_status_def
        split: prod.splits)
next
  fix a v md s
  show "mem_status (snd (cs_complete_attempt (in_memory_store f g) a v md s)) = mem_status s"
    by (simp add: in_memory_store_def with_store_def mem_complete_attempt_def mem_status_def
        map_of_finish_attempt fun_eq_iff)
next
  fix a m s
  show "mem_status (snd (cs_fail_attempt (in_memory_store f g) a m s)) = mem_status s"
    by (simp add: in_memory_store_def with_store_def mem_fail_attempt_def mem_status_def
        map_of_finish_attempt fun_eq_iff)
next
  fix s q c
  assume "mem_reserved f s q"
  then show "mem_reserved f (run_call (in_memory_store f g) c s) q"
    by (cases c) (auto simp: mem_reserved_def in_memory_store_def)
qed (auto simp: in_memory_defs mem_reserved_def fun_eq_iff option.map_comp comp_def)

end
