(* ===== verification/Checkpoint_Saver.thy ===== *)
theory Checkpoint_Saver
  imports Checkpoint_Store
begin

text \<open>
  \<open>checkpoint.rs::Checkpoint\<close> and \<open>checkpointer.rs\<close>: the trait \<open>CheckpointSaver\<close> as a
  record of functions on a state \<open>'s\<close>, its contract as a locale (a thread's history is
  append-only until it is cleared, \<open>load\<close> is its last entry), and \<open>MemorySaver\<close>, which
  interprets it.
\<close>

record checkpoint =
  cp_execution_id :: string
  cp_timestamp :: nat
  cp_current_node :: string
  cp_iteration :: nat
  cp_state :: state_snapshot
  cp_step_number :: nat
  cp_active_nodes :: "string list"

record 's checkpoint_saver =
  cps_save :: "checkpoint \<Rightarrow> 's \<Rightarrow> unit result \<times> 's"
  cps_load :: "string \<Rightarrow> 's \<Rightarrow> checkpoint option result \<times> 's"
  cps_load_history :: "string \<Rightarrow> 's \<Rightarrow> checkpoint list result \<times> 's"
  cps_clear :: "string \<Rightarrow> 's \<Rightarrow> unit result \<times> 's"

section \<open>MemorySaver\<close>

type_synonym memory_saver = "(string, checkpoint list) hash_map"

text \<open>\<open>HashMap::get(..).unwrap_or_default()\<close> on a map of vectors.\<close>

definition thread_history :: "memory_saver \<Rightarrow> string \<Rightarrow> checkpoint list" where
  "thread_history m t = (case map_of m t of Some h \<Rightarrow> h | None \<Rightarrow> [])"

definition memory_save :: "checkpoint \<Rightarrow> memory_saver \<Rightarrow> unit result \<times> memory_saver" where
  "memory_save cp m = (Inr (), AList.update (cp_execution_id cp)
     (thread_history m (cp_execution_id cp) @ [cp]) m)"

definition memory_load :: "string \<Rightarrow> memory_saver \<Rightarrow> checkpoint option result \<times> memory_saver"
where
  "memory_load t m = (Inr (case map_of m t of
       None \<Rightarrow> None
     | Some h \<Rightarrow> if h = [] then None else Some (last h)), m)"

definition memory_load_history ::
    "string \<Rightarrow> memory_saver \<Rightarrow> checkpoint list result \<times> memory_saver" where
  "memory_load_history t m = (Inr (thread_history m t), m)"

definition memory_clear :: "string \<Rightarrow> memory_saver \<Rightarrow> unit result \<times> memory_saver" where
  "memory_clear t m = (Inr (), AList.delete t m)"

definition memory_checkpointer :: "memory_saver checkpoint_saver" where
  "memory_checkpointer = \<lparr>cps_save = memory_save, cps_load = memory_load,
     cps_load_history = memory_load_history, cps_clear = memory_clear\<rparr>"

section \<open>The contract\<close>

locale thread_checkpoints =
  fixes saver :: "'s checkpoint_saver"
    and trail :: "'s \<Rightarrow> string \<Rightarrow> checkpoint list"
  assumes save_ok: "cps_save saver cp s = (Inr u, s') \<Longrightarrow>
      trail s' = (trail s)(cp_execution_id cp := trail s (cp_execution_id cp) @ [cp])"
    and save_err: "cps_save saver cp s = (Inl e, s') \<Longrightarrow> trail s' = trail s"
    and load_ok: "cps_load saver t s = (Inr r, s') \<Longrightarrow>
      r = (if trail s t = [] then None else Some (last (trail s t))) \<and> trail s' = trail s"
    and load_err: "cps_load saver t s = (Inl e, s') \<Longrightarrow> trail s' = trail s"
    and load_history_ok: "cps_load_history saver t s = (Inr h, s') \<Longrightarrow>
      h = trail s t \<and> trail s' = trail s"
    and clear_ok: "cps_clear saver t s = (Inr u, s') \<Longrightarrow> trail s' = (trail s)(t := [])"
begin

text \<open>A save that succeeds is what the next load returns; other threads are untouched.\<close>

lemma load_after_save:
  assumes "cps_save saver cp s = (Inr u, s')" and "cps_load saver t s' = (Inr r, s'')"
  shows "r = (if t = cp_execution_id cp then Some cp
    else if trail s t = [] then None else Some (last (trail s t)))"
  using save_ok [OF assms(1)] load_ok [OF assms(2)] by auto

lemma history_after_save:
  assumes "cps_save saver cp s = (Inr u, s')" and "cps_load_history saver t s' = (Inr h, s'')"
  shows "h = trail s t @ (if t = cp_execution_id cp then [cp] else [])"
  using save_ok [OF assms(1)] load_history_ok [OF assms(2)] by auto

text \<open>
  A list of saves whose results are ignored, as the engine makes them, only ever appends
  to the trails.
\<close>

lemma trail_extends:
  "\<exists>ext. trail (fold (\<lambda>cp s. snd (cps_save saver cp s)) cps s) t = trail s t @ ext \<and>
     set ext \<subseteq> {cp \<in> set cps. cp_execution_id cp = t}"
proof (induction cps arbitrary: s)
  case Nil
  then show ?case by simp
next
  case (Cons cp cps)
  obtain r s' where step: "cps_save saver cp s = (r, s')" by (cases "cps_save saver cp s")
  obtain ext where ext: "trail (fold (\<lambda>cp s. snd (cps_save saver cp s)) cps s') t
      = trail s' t @ ext" "set ext \<subseteq> {cp \<in> set cps. cp_execution_id cp = t}"
    using Cons.IH by blast
  show ?case
  proof (cases r)
    case (Inl e)
    then have "trail s' = trail s" using step save_err by simp
    then show ?thesis using ext step by auto
  next
    case (Inr u)
    then have *: "trail s' = (trail s)(cp_execution_id cp := trail s (cp_execution_id cp) @ [cp])"
      using step save_ok by simp
    show ?thesis
    proof (cases "cp_execution_id cp = t")
      case True
      then show ?thesis
        using ext step * by (intro exI [of _ "cp # ext"]) auto
    next
      case False
      then show ?thesis
        using ext step * by (intro exI [of _ ext]) auto
    qed
  qed
qed

end

interpretation memory: thread_checkpoints memory_checkpointer thread_history
  by unfold_locales
    (auto simp: memory_checkpointer_def memory_save_def memory_load_def memory_load_history_def
      memory_clear_def thread_history_def fun_eq_iff split: option.splits)

end
