(* ===== verification/Agent_Graph.thy ===== *)
theory Agent_Graph
  imports Agent_State_Laws Checkpoint_Saver "HOL-Library.Multiset"
begin

text \<open>
  \<open>node.rs\<close>, \<open>executor.rs\<close>, \<open>router.rs\<close>, \<open>edge.rs\<close>, \<open>builder.rs\<close> and the part of
  \<open>graph.rs\<close> that does not execute: the graph and its builder, build validation, the
  Mermaid rendering, the topology hash, and the state kept in a checkpointer. User code
  (nodes, routers, executors) and the implementations of the two traits act on a world
  \<open>'w\<close>; what the engine takes from third-party crates, the clock and the async runtime is
  the record \<open>env\<close>.
\<close>

section \<open>User code\<close>

text \<open>
  A node runs on a handle of the state, which it may change, also when it fails.
\<close>

type_synonym 'w node =
  "agent_state \<Rightarrow> graph_config \<Rightarrow> 'w \<Rightarrow> node_output result \<times> agent_state \<times> 'w"

record node_execution_context =
  nec_run_id :: string
  nec_node_id :: string
  nec_attempt_id :: attempt_id
  nec_trial_id :: trial_id
  nec_retry_ordinal :: nat

definition fn_node :: "'w node \<Rightarrow> 'w node" where
  "fn_node func = (\<lambda>state config. func state config)"

text \<open>
  An executor is given by its \<open>execute_node_with_context\<close>; \<open>legacy_executor\<close> is the default
  of the trait, which ignores the context.
\<close>

type_synonym 'w executor = "'w node \<Rightarrow> node_execution_context \<Rightarrow> 'w node"

definition legacy_executor :: "('w node \<Rightarrow> 'w node) \<Rightarrow> 'w executor" where
  "legacy_executor execute_node node ctx = execute_node node"

definition in_process_executor :: "'w executor" where
  "in_process_executor = legacy_executor (\<lambda>node. node)"

datatype router_output = Next "string option" | Fan_out "string list"

definition router_output_of_option :: "string option \<Rightarrow> router_output" where
  "router_output_of_option opt = Next opt"

definition router_output_of_string :: "string \<Rightarrow> router_output" where
  "router_output_of_string s = Next (Some s)"

definition router_output_of_list :: "string list \<Rightarrow> router_output" where
  "router_output_of_list v = Fan_out v"

record 'w routing_function =
  rt_route :: "agent_state \<Rightarrow> graph_config \<Rightarrow> 'w \<Rightarrow> router_output result \<times> agent_state \<times> 'w"
  rt_semantic_digest :: string

datatype 'w edge_type = Normal string | Conditional "'w routing_function"

section \<open>Environment\<close>

text \<open>
  \<open>env_size\<close> is \<open>serde_json::to_vec(..).len()\<close>; \<open>env_hash\<close> is the hexadecimal
  \<open>DefaultHasher\<close> value of a sequence of hashed strings; identifiers and trace contexts
  are \<open>stack_ids\<close>. \<open>env_poll_cancel\<close> loads the cancellation flag, which other threads
  set. \<open>env_pick\<close> says which of the running branches of a \<open>JoinSet\<close> finishes next,
  \<open>env_panic\<close> whether its task panics (the \<open>JoinError\<close> text), and \<open>env_abort\<close> what
  aborted branches emitted and did before they stopped.
\<close>

record 'w env =
  env_size :: "value \<Rightarrow> nat"
  env_hash :: "string list \<Rightarrow> string"
  env_now :: "'w \<Rightarrow> nat"
  env_new_run_id :: "'w \<Rightarrow> string \<times> 'w"
  env_new_attempt_id :: "'w \<Rightarrow> attempt_id \<times> 'w"
  env_new_trial_id :: "'w \<Rightarrow> trial_id \<times> 'w"
  env_new_trace_ctx :: "'w \<Rightarrow> trace_ctx"
  env_legacy_trace_id :: "trace_ctx \<Rightarrow> string"
  env_from_legacy :: "string \<Rightarrow> trace_ctx"
  env_poll_cancel :: "'w \<Rightarrow> bool \<times> 'w"
  env_sleep :: "nat \<Rightarrow> 'w \<Rightarrow> 'w"
  env_pow :: "f64 \<Rightarrow> int \<Rightarrow> xf64"
  env_jitter_hash :: "'w \<Rightarrow> 64 word"
  env_pick :: "string list \<Rightarrow> 'w \<Rightarrow> nat"
  env_panic :: "string \<Rightarrow> 'w \<Rightarrow> string option"
  env_abort :: "string list \<Rightarrow> 'w \<Rightarrow> graph_event list \<times> 'w"

section \<open>The graph and its builder\<close>

definition START :: string where "START = ''__start__''"
definition END :: string where "END = ''__end__''"

text \<open>The configured event sink consumes the event log of a run and is not a field here.\<close>

record 'w agent_graph =
  g_nodes :: "(string, 'w node) hash_map"
  g_edges :: "(string, 'w edge_type list) hash_map"
  g_max_iterations :: nat
  g_enable_cycle_detection :: bool
  g_retry_policies :: "(string, retry_policy) hash_map"
  g_interrupt_config :: "interrupt_config option"
  g_checkpointer :: "'w checkpoint_saver option"
  g_checkpoint_store :: "'w checkpoint_store option"
  g_reducers :: "(string \<times> reducer) list"
  g_graph_name :: "string option"
  g_executor :: "'w executor option"

text \<open>The builder has the fields of the graph.\<close>

type_synonym 'w graph_builder = "'w agent_graph"

definition builder :: "'w graph_builder" where
  "builder = \<lparr>g_nodes = [], g_edges = [], g_max_iterations = 100,
     g_enable_cycle_detection = True, g_retry_policies = [], g_interrupt_config = None,
     g_checkpointer = None, g_checkpoint_store = None, g_reducers = [], g_graph_name = None,
     g_executor = None\<rparr>"

definition with_name :: "string \<Rightarrow> 'w graph_builder \<Rightarrow> 'w graph_builder" where
  "with_name n b = b\<lparr>g_graph_name := Some n\<rparr>"

definition add_node :: "string \<Rightarrow> 'w node \<Rightarrow> 'w graph_builder \<Rightarrow> 'w graph_builder" where
  "add_node name node b = b\<lparr>g_nodes := AList.update name node (g_nodes b)\<rparr>"

definition add_node_with_retry ::
    "string \<Rightarrow> 'w node \<Rightarrow> retry_policy \<Rightarrow> 'w graph_builder \<Rightarrow> 'w graph_builder" where
  "add_node_with_retry name node retry b =
     b\<lparr>g_nodes := AList.update name node (g_nodes b),
       g_retry_policies := AList.update name retry (g_retry_policies b)\<rparr>"

text \<open>\<open>edges.entry(from).or_default().push(e)\<close>.\<close>

definition push_edge :: "string \<Rightarrow> 'w edge_type \<Rightarrow> 'w graph_builder \<Rightarrow> 'w graph_builder" where
  "push_edge from_node e b = b\<lparr>g_edges := AList.update from_node
     ((case map_of (g_edges b) from_node of Some es \<Rightarrow> es | None \<Rightarrow> []) @ [e]) (g_edges b)\<rparr>"

definition add_edge :: "string \<Rightarrow> string \<Rightarrow> 'w graph_builder \<Rightarrow> 'w graph_builder" where
  "add_edge from_node to_node = push_edge from_node (Normal to_node)"

definition add_conditional_edge ::
    "string \<Rightarrow> 'w routing_function \<Rightarrow> 'w graph_builder \<Rightarrow> 'w graph_builder" where
  "add_conditional_edge from_node router = push_edge from_node (Conditional router)"

definition set_entry_point :: "string \<Rightarrow> 'w graph_builder \<Rightarrow> 'w graph_builder" where
  "set_entry_point node = add_edge START node"

definition set_finish_point :: "string \<Rightarrow> 'w graph_builder \<Rightarrow> 'w graph_builder" where
  "set_finish_point node = add_edge node END"

definition with_max_iterations :: "nat \<Rightarrow> 'w graph_builder \<Rightarrow> 'w graph_builder" where
  "with_max_iterations m b = b\<lparr>g_max_iterations := m\<rparr>"

definition with_cycle_detection :: "bool \<Rightarrow> 'w graph_builder \<Rightarrow> 'w graph_builder" where
  "with_cycle_detection e b = b\<lparr>g_enable_cycle_detection := e\<rparr>"

definition with_reducer :: "string \<Rightarrow> reducer \<Rightarrow> 'w graph_builder \<Rightarrow> 'w graph_builder" where
  "with_reducer k r b = b\<lparr>g_reducers := g_reducers b @ [(k, r)]\<rparr>"

definition the_interrupt_config :: "'w graph_builder \<Rightarrow> interrupt_config" where
  "the_interrupt_config b =
     (case g_interrupt_config b of Some c \<Rightarrow> c | None \<Rightarrow> new_interrupt_config)"

definition with_interrupt_before :: "string list \<Rightarrow> 'w graph_builder \<Rightarrow> 'w graph_builder" where
  "with_interrupt_before ns b = (let c = the_interrupt_config b in
     b\<lparr>g_interrupt_config := Some (c\<lparr>interrupt_before := interrupt_before c @ ns\<rparr>)\<rparr>)"

definition with_interrupt_after :: "string list \<Rightarrow> 'w graph_builder \<Rightarrow> 'w graph_builder" where
  "with_interrupt_after ns b = (let c = the_interrupt_config b in
     b\<lparr>g_interrupt_config := Some (c\<lparr>interrupt_after := interrupt_after c @ ns\<rparr>)\<rparr>)"

definition with_checkpointer :: "'w checkpoint_saver \<Rightarrow> 'w graph_builder \<Rightarrow> 'w graph_builder" where
  "with_checkpointer c b = b\<lparr>g_checkpointer := Some c\<rparr>"

definition with_checkpoint_store ::
    "'w checkpoint_store \<Rightarrow> 'w graph_builder \<Rightarrow> 'w graph_builder" where
  "with_checkpoint_store s b = b\<lparr>g_checkpoint_store := Some s\<rparr>"

definition with_executor :: "'w executor \<Rightarrow> 'w graph_builder \<Rightarrow> 'w graph_builder" where
  "with_executor e b = b\<lparr>g_executor := Some e\<rparr>"

lemmas builder_defs = builder_def with_name_def add_node_def add_node_with_retry_def push_edge_def
  add_edge_def add_conditional_edge_def set_entry_point_def set_finish_point_def
  with_max_iterations_def with_cycle_detection_def with_reducer_def the_interrupt_config_def
  with_interrupt_before_def with_interrupt_after_def with_checkpointer_def
  with_checkpoint_store_def with_executor_def

section \<open>Build validation\<close>

definition check_edge :: "'w graph_builder \<Rightarrow> string \<Rightarrow> 'w edge_type \<Rightarrow> unit result" where
  "check_edge b from_node e = (case e of
       Normal to_node \<Rightarrow>
         if to_node \<noteq> END \<and> \<not> contains_key (g_nodes b) to_node \<and> to_node \<noteq> START
         then Inl (NodeNotFound (''Edge from '' @ quoted from_node
           @ '' points to non-existent node '' @ quoted to_node))
         else Inr ()
     | Conditional _ \<Rightarrow> Inr ())"

definition build :: "'w graph_builder \<Rightarrow> 'w agent_graph result" where
  "build b = bind_result
     (try_fold (\<lambda>(from_node, edge_list) _. try_fold (\<lambda>e _. check_edge b from_node e) edge_list ())
        (g_edges b) ())
     (\<lambda>_. Inr b)"

lemma check_edge_Inr:
  "check_edge b f e = Inr u \<longleftrightarrow>
     (\<forall>t. e = Normal t \<longrightarrow> t = END \<or> t = START \<or> contains_key (g_nodes b) t)"
  by (cases e) (auto simp: check_edge_def)

text \<open>A validation loop without an accumulator passes when every check passes.\<close>

lemma try_fold_all:
  "try_fold (\<lambda>x _. f x) xs () = Inr () \<longleftrightarrow> (\<forall>x \<in> set xs. f x = Inr ())"
proof (induction xs)
  case Nil
  then show ?case by simp
next
  case (Cons x xs)
  then show ?case by (cases "f x") auto
qed

lemma build_Inr:
  "build b = Inr g \<longleftrightarrow> g = b \<and>
     (\<forall>(f, es) \<in> set (g_edges b). \<forall>t. Normal t \<in> set es \<longrightarrow>
        t = END \<or> t = START \<or> contains_key (g_nodes b) t)"
proof -
  have inner: "try_fold (\<lambda>e _. check_edge b f e) es () = Inr () \<longleftrightarrow>
      (\<forall>t. Normal t \<in> set es \<longrightarrow> t = END \<or> t = START \<or> contains_key (g_nodes b) t)" for f es
    unfolding try_fold_all by (auto simp: check_edge_Inr)
  have "try_fold (\<lambda>(f, es) _. try_fold (\<lambda>e _. check_edge b f e) es ()) (g_edges b) () = Inr ()
      \<longleftrightarrow> (\<forall>(f, es) \<in> set (g_edges b). \<forall>t. Normal t \<in> set es \<longrightarrow>
        t = END \<or> t = START \<or> contains_key (g_nodes b) t)"
    using try_fold_all [of "\<lambda>(f, es). try_fold (\<lambda>e _. check_edge b f e) es ()" "g_edges b"]
    by (auto simp: inner case_prod_unfold)
  then show ?thesis by (auto simp: build_def bind_result_Inr_iff)
qed

section \<open>Inspection\<close>

definition node_names :: "'w agent_graph \<Rightarrow> string list" where
  "node_names g = map fst (g_nodes g)"

fun edge_line :: "string \<Rightarrow> 'w edge_type \<Rightarrow> string" where
  "edge_line from_node (Normal to_node) = ''    '' @ from_node @ '' --> '' @ to_node"
| "edge_line from_node (Conditional _) = ''    '' @ from_node @ '' -.->|condition| ?''"

definition to_mermaid :: "'w agent_graph \<Rightarrow> string" where
  "to_mermaid g = join_with [CHR 0x0A]
     ([''graph TD'', ''    '' @ START @ ''([START])'', ''    '' @ END @ ''([END])'']
      @ map (\<lambda>n. ''    '' @ n @ ''['' @ n @ '']'') (sort (node_names g))
      @ concat (map (\<lambda>f. case map_of (g_edges g) f of
            Some es \<Rightarrow> map (edge_line f) es | None \<Rightarrow> []) (sort (map fst (g_edges g)))))"

text \<open>The strings \<open>compute_graph_hash\<close> feeds to the hasher, in order.\<close>

fun edge_tokens :: "string \<Rightarrow> 'w edge_type \<Rightarrow> string list" where
  "edge_tokens from_node (Normal to_node) = [''normal'', to_node]"
| "edge_tokens from_node (Conditional router) =
     [''conditional'', from_node, rt_semantic_digest router]"

definition hash_tokens :: "'w agent_graph \<Rightarrow> string list" where
  "hash_tokens g = sort (node_names g)
     @ concat (map (\<lambda>(f, es). f # concat (map (edge_tokens f) es)) (sort_key fst (g_edges g)))"

definition compute_graph_hash :: "'w env \<Rightarrow> 'w agent_graph \<Rightarrow> string" where
  "compute_graph_hash env g = env_hash env (hash_tokens g)"

definition register_reducers_on_state :: "'w agent_graph \<Rightarrow> agent_state \<Rightarrow> agent_state" where
  "register_reducers_on_state g s =
     s\<lparr>st_reducers := fold (\<lambda>(k, r). AList.update k r) (g_reducers g) (st_reducers s)\<rparr>"

definition create_run_id :: "'w env \<Rightarrow> 'w agent_graph \<Rightarrow> 'w \<Rightarrow> string result \<times> 'w" where
  "create_run_id env g w = (case g_checkpoint_store g of
       Some store \<Rightarrow>
         (case cs_create_run store (case g_graph_name g of Some n \<Rightarrow> n | None \<Rightarrow> ''unnamed'') w of
            (Inl e, w') \<Rightarrow> (Inl (CheckpointStore CreateRun (error_text e)), w')
          | (Inr run_id, w') \<Rightarrow> (Inr run_id, w'))
     | None \<Rightarrow> (case env_new_run_id env w of (run_id, w') \<Rightarrow> (Inr run_id, w')))"

section \<open>State kept in the checkpointer\<close>

definition get_state ::
    "'w env \<Rightarrow> 'w agent_graph \<Rightarrow> graph_config \<Rightarrow> 'w \<Rightarrow> agent_state option result \<times> 'w" where
  "get_state env g config w = (case (g_checkpointer g, cfg_thread_id config) of
       (Some saver, Some thread_id) \<Rightarrow> (case cps_load saver thread_id w of
           (Inl e, w') \<Rightarrow> (Inl e, w')
         | (Inr None, w') \<Rightarrow> (Inr None, w')
         | (Inr (Some cp), w') \<Rightarrow>
             (Inr (Some (restore (env_size env) (cp_state cp) new_state)), w'))
     | _ \<Rightarrow> (Inr None, w))"

definition get_state_history ::
    "'w agent_graph \<Rightarrow> graph_config \<Rightarrow> 'w \<Rightarrow> checkpoint list result \<times> 'w" where
  "get_state_history g config w = (case (g_checkpointer g, cfg_thread_id config) of
       (Some saver, Some thread_id) \<Rightarrow> cps_load_history saver thread_id w
     | _ \<Rightarrow> (Inr [], w))"

definition patch_checkpoint :: "(string, value) hash_map \<Rightarrow> checkpoint \<Rightarrow> checkpoint" where
  "patch_checkpoint updates cp = cp\<lparr>cp_state := (cp_state cp)\<lparr>snap_data :=
     fold (\<lambda>(k, v). AList.update k v) updates (snap_data (cp_state cp))\<rparr>\<rparr>"

definition update_state ::
    "'w agent_graph \<Rightarrow> graph_config \<Rightarrow> (string, value) hash_map \<Rightarrow> 'w \<Rightarrow> unit result \<times> 'w" where
  "update_state g config updates w = (case (g_checkpointer g, cfg_thread_id config) of
       (Some saver, Some thread_id) \<Rightarrow> (case cps_load saver thread_id w of
           (Inl e, w') \<Rightarrow> (Inl e, w')
         | (Inr None, w') \<Rightarrow> (Inr (), w')
         | (Inr (Some cp), w') \<Rightarrow> (case cps_save saver (patch_checkpoint updates cp) w' of
             (Inl e, w'') \<Rightarrow> (Inl e, w'')
           | (Inr _, w'') \<Rightarrow> (Inr (), w'')))
     | _ \<Rightarrow> (Inr (), w))"

context thread_checkpoints
begin

text \<open>
  Time travel: a patch appends one checkpoint, the last one of the thread with the
  updated entries, and keeps the history before it; with no checkpoint it does nothing.
\<close>

lemma update_state_trail:
  assumes "g_checkpointer g = Some saver" and "cfg_thread_id config = Some t"
    and own: "\<forall>cp \<in> set (trail w t). cp_execution_id cp = t"
    and "update_state g config updates w = (Inr u, w')"
  shows "trail w' = (trail w)(t := trail w t @
    (if trail w t = [] then [] else [patch_checkpoint updates (last (trail w t))]))"
proof -
  obtain r w1 where load: "cps_load saver t w = (r, w1)" by (cases "cps_load saver t w")
  show ?thesis
  proof (cases r)
    case (Inl e)
    then show ?thesis using assms load by (simp add: update_state_def)
  next
    case (Inr o1)
    then have o1: "o1 = (if trail w t = [] then None else Some (last (trail w t)))"
      and same: "trail w1 = trail w"
      using load load_ok by auto
    show ?thesis
    proof (cases "trail w t = []")
      case True
      then show ?thesis using assms load Inr o1 same by (simp add: update_state_def fun_eq_iff)
    next
      case False
      let ?cp = "patch_checkpoint updates (last (trail w t))"
      obtain q w2 where save: "cps_save saver ?cp w1 = (q, w2)" by (cases "cps_save saver ?cp w1")
      from assms(1,2,4) load Inr o1 False save have "q = Inr ()" and "w' = w2"
        by (auto simp: update_state_def split: sum.splits)
      moreover have "cp_execution_id ?cp = t"
        using own False by (simp add: patch_checkpoint_def)
      ultimately show ?thesis
        using save_ok [of ?cp w1 "()" w2] save same False by simp
    qed
  qed
qed

end

lemma map_of_patch_checkpoint:
  assumes "hm_wf updates"
  shows "map_of (snap_data (cp_state (patch_checkpoint updates cp))) =
    map_of (snap_data (cp_state cp)) ++ map_of updates"
  using assms by (simp add: patch_checkpoint_def map_of_fold_update map_of_rev hm_wf_def)

section \<open>The entry point of a subgraph\<close>

definition normal_targets :: "'w agent_graph \<Rightarrow> string list" where
  "normal_targets g = concat (map (\<lambda>(_, es). List.map_filter
     (\<lambda>e. case e of Normal t \<Rightarrow> Some t | Conditional _ \<Rightarrow> None) es) (g_edges g))"

definition subgraph_start :: "'w agent_graph \<Rightarrow> string result" where
  "subgraph_start g = (if contains_key (g_edges g) START then Inr START
     else (case find (\<lambda>n. n \<notin> set (normal_targets g)) (node_names g) of
         Some n \<Rightarrow> Inr n
       | None \<Rightarrow> Inl (ExecutionError ''Subgraph has no entry point'')))"

section \<open>The hash does not depend on iteration order\<close>

lemma distinct_sort_key_map: "distinct (map f (sort_key f xs)) = distinct (map f xs)"
  by (rule mset_eq_imp_distinct_iff) simp

lemma sort_key_perm:
  assumes "mset xs = mset ys" and "distinct (map fst xs)"
  shows "sort_key fst xs = sort_key fst ys"
proof (rule map_sorted_distinct_set_unique [where f = fst])
  have sets: "set xs = set ys" using assms(1) by (rule mset_eq_setD)
  then show "set (sort_key fst xs) = set (sort_key fst ys)" by simp
  have "mset (map fst xs) = mset (map fst ys)" using assms(1) by simp
  then have "distinct (map fst ys)" using assms(2) mset_eq_imp_distinct_iff by blast
  then show "distinct (map fst (sort_key fst ys))"
    by (metis distinct_sort_key_map)
  show "distinct (map fst (sort_key fst xs))"
    using assms(2) by (metis distinct_sort_key_map)
  show "inj_on fst (set (sort_key fst xs) \<union> set (sort_key fst ys))"
    using assms(2) sets by (simp add: distinct_map)
qed simp_all

lemma hash_tokens_perm:
  assumes "mset (g_nodes g) = mset (g_nodes h)" and "mset (g_edges g) = mset (g_edges h)"
    and "hm_wf (g_edges g)"
  shows "hash_tokens g = hash_tokens h"
proof -
  have "mset (node_names g) = mset (node_names h)"
    using assms(1) by (simp add: node_names_def)
  then have "sort (node_names g) = sort (node_names h)"
    by (metis properties_for_sort mset_sort sorted_sort)
  moreover have "sort_key fst (g_edges g) = sort_key fst (g_edges h)"
    using assms(2,3) by (intro sort_key_perm) (simp_all add: hm_wf_def)
  ultimately show ?thesis by (simp add: hash_tokens_def)
qed

end
