(* ===== verification/Join_Node.thy ===== *)
theory Join_Node
  imports Agent_Graph "HOL-Library.Sublist"
begin

text \<open>
  \<open>join.rs\<close>: the fan-in node with its ready-made merge functions, and the five-stage
  join strategies. The trait \<open>JoinStrategy\<close> is a record of functions; the locale
  \<open>selecting_strategy\<close> states what the pipeline relies on (a strategy selects among the
  artifacts of the branches and never invents one), with the pipeline's lemma proved in
  it, and is interpreted on the four strategies of the code. \<open>render\<close> is
  \<open>serde_json\<close>'s compact text of a value.
\<close>

section \<open>Merge functions\<close>

type_synonym artifact = "string \<times> value"
type_synonym merge_fn = "artifact list \<Rightarrow> value result"

definition collect_array :: merge_fn where
  "collect_array values = Inr (Array (map snd values))"

definition merge_objects_step :: "artifact \<Rightarrow> json_map \<Rightarrow> json_map" where
  "merge_objects_step a result = (case a of (key, v) \<Rightarrow>
     (case v of
        Object m \<Rightarrow> fold (\<lambda>(k, v). bt_insert k v) m result
      | _ \<Rightarrow> bt_insert key v result))"

definition merge_objects :: merge_fn where
  "merge_objects values = Inr (Object (fold merge_objects_step values []))"

fun collect_object_loop :: "artifact list \<Rightarrow> string list \<Rightarrow> json_map \<Rightarrow> value result" where
  "collect_object_loop [] seen result = Inr (Object result)"
| "collect_object_loop ((key, v) # rest) seen result =
     (if key \<in> set seen
      then Inl (ExecutionError (''collect_object: duplicate branch key '' @ quoted key))
      else collect_object_loop rest (key # seen) (bt_insert key v result))"

definition collect_object :: merge_fn where
  "collect_object values = collect_object_loop values [] []"

section \<open>Strategies\<close>

datatype join_certification = Pass | Fail | Abstain | Quarantine | Request_authority

fun certification_text :: "join_certification \<Rightarrow> string" where
  "certification_text Pass = ''pass''"
| "certification_text Fail = ''fail''"
| "certification_text Abstain = ''abstain''"
| "certification_text Quarantine = ''quarantine''"
| "certification_text Request_authority = ''request_authority''"

record join_outcome =
  jo_certification :: join_certification
  jo_value :: "value"
  jo_contradictions :: "value list"
  jo_minority_report :: "value list"
  jo_notes :: "string list"

record join_strategy =
  js_name :: string
  js_validate_inputs :: "artifact list \<Rightarrow> string + unit"
  js_normalize :: "artifact list \<Rightarrow> string + artifact list"
  js_contradictions :: "artifact list \<Rightarrow> string + value list"
  js_adjudicate :: "artifact list \<Rightarrow> value list \<Rightarrow> string + join_outcome"
  js_certify :: "join_outcome \<Rightarrow> string + join_outcome"

text \<open>\<open>.map_err(AgentGraphError::ExecutionError)\<close>.\<close>

definition execution_error :: "string + 'a \<Rightarrow> 'a result" where
  "execution_error r = (case r of Inl m \<Rightarrow> Inl (ExecutionError m) | Inr x \<Rightarrow> Inr x)"

definition join_envelope :: "string \<Rightarrow> join_outcome \<Rightarrow> value" where
  "join_envelope name out = json_object
     [(''join'', String name),
      (''certification'', String (certification_text (jo_certification out))),
      (''value'', jo_value out),
      (''contradictions'', Array (jo_contradictions out)),
      (''minority_report'', Array (jo_minority_report out)),
      (''notes'', Array (map String (jo_notes out)))]"

definition strategy_merge :: "join_strategy \<Rightarrow> merge_fn" where
  "strategy_merge st values =
     bind_result (execution_error (js_validate_inputs st values)) (\<lambda>_.
     bind_result (execution_error (js_normalize st values)) (\<lambda>artifacts.
     bind_result (execution_error (js_contradictions st artifacts)) (\<lambda>contradictions.
     bind_result (execution_error (js_adjudicate st artifacts contradictions)) (\<lambda>outcome.
     bind_result (execution_error (js_certify st outcome)) (\<lambda>certified.
       if jo_certification certified = Fail
       then Inl (ExecutionError (''join '' @ quoted (js_name st) @ '' failed certification''))
       else Inr (join_envelope (js_name st) certified))))))"

section \<open>Paths\<close>

fun path_segments_get :: "value \<Rightarrow> string list \<Rightarrow> value option" where
  "path_segments_get v [] = Some v"
| "path_segments_get v (s # ss) = (case get_key v s of
       None \<Rightarrow> None
     | Some w \<Rightarrow> path_segments_get w ss)"

definition path_get :: "value \<Rightarrow> string \<Rightarrow> value option" where
  "path_get v path = path_segments_get v (split_on CHR ''.'' path)"

definition claim_of :: "(value \<Rightarrow> string) \<Rightarrow> value \<Rightarrow> string \<Rightarrow> string option" where
  "claim_of render v claim_path = (case path_get v claim_path of
       Some (String s) \<Rightarrow> Some s
     | Some other \<Rightarrow> Some (render other)
     | None \<Rightarrow> None)"

definition identity_of :: "string \<Rightarrow> value \<Rightarrow> string option \<Rightarrow> string + string" where
  "identity_of key v identity_path = (case identity_path of
       None \<Rightarrow> Inr key
     | Some path \<Rightarrow> (case path_get v path of
           None \<Rightarrow> Inl (''dedupe_by_identity: artifact '' @ quoted key
             @ '' is missing identity path '' @ quoted path)
         | Some (String identity) \<Rightarrow>
             if \<not> blank identity then Inr identity
             else Inl (''dedupe_by_identity: artifact '' @ quoted key @ '' identity path ''
               @ quoted path @ '' must be a non-empty string'')
         | Some _ \<Rightarrow> Inl (''dedupe_by_identity: artifact '' @ quoted key @ '' identity path ''
             @ quoted path @ '' must be a non-empty string'')))"

section \<open>The strategies of the code\<close>

definition requires_artifact :: "string \<Rightarrow> artifact list \<Rightarrow> string + unit" where
  "requires_artifact name inputs = (if inputs = []
     then Inl (name @ '' requires at least one branch artifact'') else Inr ())"

definition passing :: "value list \<Rightarrow> join_outcome" where
  "passing vs = \<lparr>jo_certification = Pass, jo_value = Array vs, jo_contradictions = [],
     jo_minority_report = [], jo_notes = []\<rparr>"

definition dedupe_validate_inputs :: "string option \<Rightarrow> artifact list \<Rightarrow> string + unit" where
  "dedupe_validate_inputs identity_path inputs =
     bind_result (requires_artifact ''dedupe_by_identity'' inputs) (\<lambda>_.
       try_fold (\<lambda>(key, v) _. bind_result (identity_of key v identity_path) (\<lambda>_. Inr ()))
         inputs ())"

fun dedupe_loop ::
    "string option \<Rightarrow> artifact list \<Rightarrow> string list \<Rightarrow> artifact list \<Rightarrow> string + artifact list" where
  "dedupe_loop identity_path [] seen out = Inr out"
| "dedupe_loop identity_path ((key, v) # rest) seen out =
     (case identity_of key v identity_path of
        Inl e \<Rightarrow> Inl e
      | Inr identity \<Rightarrow>
          if identity \<in> set seen then dedupe_loop identity_path rest seen out
          else dedupe_loop identity_path rest (identity # seen) (out @ [(key, v)]))"

definition dedupe_by_identity :: "string option \<Rightarrow> join_strategy" where
  "dedupe_by_identity identity_path = \<lparr>
     js_name = ''dedupe_by_identity'',
     js_validate_inputs = dedupe_validate_inputs identity_path,
     js_normalize = (\<lambda>inputs. dedupe_loop identity_path inputs [] []),
     js_contradictions = (\<lambda>_. Inr []),
     js_adjudicate = (\<lambda>artifacts _. Inr (passing (map snd artifacts))),
     js_certify = Inr\<rparr>"

record contradiction_matrix =
  scope_path :: string
  claim_path :: string
  time_path :: string
  strict :: bool

definition default_contradiction_matrix :: contradiction_matrix where
  "default_contradiction_matrix = \<lparr>scope_path = ''scope'', claim_path = ''claim'',
     time_path = ''time'', strict = False\<rparr>"

text \<open>The body of the double loop for one pair.\<close>

definition contradiction_pair ::
    "(value \<Rightarrow> string) \<Rightarrow> contradiction_matrix \<Rightarrow> artifact \<Rightarrow> artifact \<Rightarrow> value option" where
  "contradiction_pair render m left_art right_art =
     (case (left_art, right_art) of ((l_key, l), (r_key, r)) \<Rightarrow>
      case (path_get l (scope_path m), path_get r (scope_path m)) of
        (Some l_scope, Some r_scope) \<Rightarrow>
          (case (path_get l (time_path m), path_get r (time_path m)) of
             (Some l_time, Some r_time) \<Rightarrow>
               (if l_scope \<noteq> r_scope \<or> l_time \<noteq> r_time then None
                else (case (claim_of render l (claim_path m), claim_of render r (claim_path m)) of
                    (Some l_claim, Some r_claim) \<Rightarrow>
                      (if l_claim = r_claim then None
                       else Some (json_object [(''left'', String l_key), (''right'', String r_key),
                         (''scope'', l_scope), (''time'', l_time),
                         (''left_claim'', String l_claim), (''right_claim'', String r_claim)]))
                  | _ \<Rightarrow> None))
           | _ \<Rightarrow> None)
      | _ \<Rightarrow> None)"

fun contradiction_pairs ::
    "(value \<Rightarrow> string) \<Rightarrow> contradiction_matrix \<Rightarrow> artifact list \<Rightarrow> value list" where
  "contradiction_pairs render m [] = []"
| "contradiction_pairs render m (a # as) =
     List.map_filter (contradiction_pair render m a) as @ contradiction_pairs render m as"

definition matrix_adjudicate :: "artifact list \<Rightarrow> value list \<Rightarrow> join_outcome" where
  "matrix_adjudicate artifacts contradictions =
     \<lparr>jo_certification = Pass, jo_value = Array (map snd artifacts),
      jo_contradictions = contradictions, jo_minority_report = [],
      jo_notes = (if contradictions = [] then []
        else [show_nat (length contradictions) @ '' contradiction pair(s) exposed''])\<rparr>"

definition matrix_certify :: "contradiction_matrix \<Rightarrow> join_outcome \<Rightarrow> string + join_outcome" where
  "matrix_certify m outcome =
     (if strict m \<and> jo_contradictions outcome \<noteq> []
      then Inr (outcome\<lparr>jo_certification := Quarantine,
        jo_notes := jo_notes outcome @ [''strict mode: quarantined on contradiction'']\<rparr>)
      else Inr outcome)"

definition matrix_strategy :: "(value \<Rightarrow> string) \<Rightarrow> contradiction_matrix \<Rightarrow> join_strategy" where
  "matrix_strategy render m = \<lparr>
     js_name = ''contradiction_matrix'',
     js_validate_inputs = requires_artifact ''contradiction_matrix'',
     js_normalize = Inr,
     js_contradictions = (\<lambda>artifacts. Inr (contradiction_pairs render m artifacts)),
     js_adjudicate = (\<lambda>artifacts cs. Inr (matrix_adjudicate artifacts cs)),
     js_certify = matrix_certify m\<rparr>"

definition dissents :: "string \<Rightarrow> value \<Rightarrow> bool" where
  "dissents dissent_path v = (case path_get v dissent_path of
       None \<Rightarrow> False
     | Some d \<Rightarrow> (case as_bool d of Some b \<Rightarrow> b | None \<Rightarrow> False))"

definition minority_adjudicate :: "string \<Rightarrow> artifact list \<Rightarrow> join_outcome" where
  "minority_adjudicate dissent_path artifacts =
     (let vs = map snd artifacts;
          minority = filter (dissents dissent_path) vs;
          majority = filter (\<lambda>v. \<not> dissents dissent_path v) vs
      in \<lparr>jo_certification = Pass, jo_value = Array majority, jo_contradictions = [],
          jo_minority_report = minority,
          jo_notes = (if minority = [] then []
            else [show_nat (length minority)
              @ '' dissenting artifact(s) preserved in minority report''])\<rparr>)"

definition minority_report :: "string \<Rightarrow> join_strategy" where
  "minority_report dissent_path = \<lparr>
     js_name = ''minority_report'',
     js_validate_inputs = requires_artifact ''minority_report'',
     js_normalize = Inr,
     js_contradictions = (\<lambda>_. Inr []),
     js_adjudicate = (\<lambda>artifacts _. Inr (minority_adjudicate dissent_path artifacts)),
     js_certify = Inr\<rparr>"

section \<open>Proof-carrying artifacts\<close>

definition nonempty_string :: "value option \<Rightarrow> bool" where
  "nonempty_string v = (case v of
       Some w \<Rightarrow> (case as_str w of Some s \<Rightarrow> s \<noteq> [] | None \<Rightarrow> False)
     | None \<Rightarrow> False)"

definition evidence_valid :: "value \<Rightarrow> string + unit" where
  "evidence_valid v = (case get_key v ''evidence'' of
       None \<Rightarrow> Inr ()
     | Some evidence \<Rightarrow> (case as_array evidence of
           None \<Rightarrow> Inl ''evidence must be an array''
         | Some entries \<Rightarrow>
             if entries = [] then Inl ''evidence must not be empty''
             else if list_all (\<lambda>entry. nonempty_string (get_key entry ''witness_id'')
                 \<and> nonempty_string (get_key entry ''digest'')) entries
             then Inr ()
             else Inl ''evidence entry must carry non-empty witness_id and digest''))"

definition checks_valid :: "value \<Rightarrow> string + unit" where
  "checks_valid v = (case get_key v ''checks'' of
       None \<Rightarrow> Inr ()
     | Some checks \<Rightarrow> (case as_array checks of
           None \<Rightarrow> Inl ''checks must be an array''
         | Some entries \<Rightarrow>
             if entries = [] then Inl ''checks must not be empty''
             else if list_all (\<lambda>entry. get_key entry ''status'' = Some (String ''passed'')) entries
             then Inr ()
             else Inl (''every check must carry status '' @ [CHR 0x22] @ ''passed'' @ [CHR 0x22]
               @ '' (executed check receipts only)'')))"

definition failure_reason :: "string + unit \<Rightarrow> string list" where
  "failure_reason r = (case r of Inl e \<Rightarrow> [e] | Inr _ \<Rightarrow> [])"

definition rejection_reasons :: "string list \<Rightarrow> value \<Rightarrow> string list" where
  "rejection_reasons required_fields v =
     map (\<lambda>field. ''missing required field '' @ quoted field)
       (filter (\<lambda>field. path_get v field = None) required_fields)
     @ failure_reason (evidence_valid v) @ failure_reason (checks_valid v)"

definition proof_adjudicate :: "string list \<Rightarrow> artifact list \<Rightarrow> join_outcome" where
  "proof_adjudicate required_fields artifacts =
     (let rejected = filter (\<lambda>(_, v). rejection_reasons required_fields v \<noteq> []) artifacts
      in \<lparr>jo_certification = (if rejected = [] then Pass else Quarantine),
          jo_value = Array (map snd
            (filter (\<lambda>(_, v). rejection_reasons required_fields v = []) artifacts)),
          jo_contradictions = [], jo_minority_report = [],
          jo_notes = map (\<lambda>(key, v). ''artifact '' @ quoted key @ '' quarantined: ''
            @ join_with ''; '' (rejection_reasons required_fields v)) rejected\<rparr>)"

definition default_required_fields :: "string list" where
  "default_required_fields = [''evidence'', ''checks'', ''receipt'']"

definition proof_carrying_join :: "string list \<Rightarrow> join_strategy" where
  "proof_carrying_join required_fields = \<lparr>
     js_name = ''proof_carrying_join'',
     js_validate_inputs = requires_artifact ''proof_carrying_join'',
     js_normalize = Inr,
     js_contradictions = (\<lambda>_. Inr []),
     js_adjudicate = (\<lambda>artifacts _. Inr (proof_adjudicate required_fields artifacts)),
     js_certify = Inr\<rparr>"

section \<open>The node\<close>

record join_node =
  jn_name :: "string option"
  jn_input_keys :: "string list"
  jn_output_key :: string
  jn_merge_fn :: merge_fn

definition new_join_node :: "string list \<Rightarrow> string \<Rightarrow> merge_fn \<Rightarrow> join_node" where
  "new_join_node input_keys output_key f = \<lparr>jn_name = None, jn_input_keys = input_keys,
     jn_output_key = output_key, jn_merge_fn = f\<rparr>"

fun read_inputs :: "agent_state \<Rightarrow> string list \<Rightarrow> artifact list result" where
  "read_inputs s [] = Inr []"
| "read_inputs s (k # ks) = bind_result (get_opt_value s k) (\<lambda>v.
     bind_result (read_inputs s ks) (\<lambda>rest.
       Inr ((k, case v of Some w \<Rightarrow> w | None \<Rightarrow> Null) # rest)))"

definition join_inputs :: "join_node \<Rightarrow> agent_state \<Rightarrow> value result" where
  "join_inputs n s = bind_result (read_inputs s (jn_input_keys n)) (\<lambda>inputs.
     if list_ex (\<lambda>(_, v). \<not> is_null v) inputs then jn_merge_fn n inputs
     else Inl (ExecutionError (''JoinNode: no data found for input keys ''
       @ debug_strings (jn_input_keys n))))"

definition execute_join_node :: "(value \<Rightarrow> nat) \<Rightarrow> join_node \<Rightarrow> 'w node" where
  "execute_join_node sz n s config w =
     (case bind_result (join_inputs n s) (\<lambda>merged. set_raw sz (jn_output_key n) merged s) of
        Inl e \<Rightarrow> (Inl e, s, w)
      | Inr s' \<Rightarrow> (Inr Node_done, s', w))"

section \<open>What the pipeline relies on\<close>

locale selecting_strategy =
  fixes strategy :: join_strategy
  assumes validated: "js_validate_inputs strategy inputs = Inr u \<Longrightarrow> inputs \<noteq> []"
    and normalized: "js_normalize strategy inputs = Inr artifacts \<Longrightarrow> subseq artifacts inputs"
    and adjudicated: "js_adjudicate strategy artifacts cs = Inr out \<Longrightarrow>
      \<exists>sel. jo_value out = Array sel \<and> subseq sel (map snd artifacts)
        \<and> subseq (jo_minority_report out) (map snd artifacts)
        \<and> set (jo_contradictions out) \<subseteq> set cs"
    and certified: "js_certify strategy out = Inr out' \<Longrightarrow>
      jo_value out' = jo_value out \<and> jo_minority_report out' = jo_minority_report out
      \<and> jo_contradictions out' = jo_contradictions out"
begin

text \<open>
  An envelope carries, in the order of the branches, a selection of their artifacts as
  value and another as minority report.
\<close>

lemma envelope_selects:
  assumes "strategy_merge strategy inputs = Inr envelope"
  shows "inputs \<noteq> [] \<and> (\<exists>out sel. envelope = join_envelope (js_name strategy) out
    \<and> jo_certification out \<noteq> Fail \<and> jo_value out = Array sel
    \<and> subseq sel (map snd inputs) \<and> subseq (jo_minority_report out) (map snd inputs))"
proof -
  from assms obtain arts cs out0 out where
    v: "js_validate_inputs strategy inputs = Inr ()" and n: "js_normalize strategy inputs = Inr arts"
    and a: "js_adjudicate strategy arts cs = Inr out0" and c: "js_certify strategy out0 = Inr out"
    and f: "jo_certification out \<noteq> Fail" "envelope = join_envelope (js_name strategy) out"
    by (auto simp: strategy_merge_def bind_result_Inr_iff execution_error_def
        split: sum.splits if_splits)
  have sub: "subseq (map snd arts) (map snd inputs)"
    using normalized [OF n] by (rule subseq_map)
  obtain sel where sel: "jo_value out = Array sel" "subseq sel (map snd arts)"
      "subseq (jo_minority_report out) (map snd arts)"
    using adjudicated [OF a] certified [OF c] by auto
  have "subseq sel (map snd inputs)" "subseq (jo_minority_report out) (map snd inputs)"
    using sel(2,3) sub by (blast intro: subseq_order.trans)+
  with sel(1) validated [OF v] f show ?thesis by blast
qed

end

lemma requires_artifact_Inr: "requires_artifact name inputs = Inr u \<longleftrightarrow> inputs \<noteq> []"
  by (simp add: requires_artifact_def)

lemma dedupe_loop_subseq:
  "dedupe_loop p inputs seen out = Inr arts \<Longrightarrow> \<exists>kept. arts = out @ kept \<and> subseq kept inputs"
proof (induction p inputs seen out rule: dedupe_loop.induct)
  case (2 p key v rest seen out)
  then show ?case by (fastforce split: sum.splits if_splits)
qed simp

interpretation dedupe: selecting_strategy "dedupe_by_identity p" for p
  by unfold_locales
    (auto simp: dedupe_by_identity_def dedupe_validate_inputs_def requires_artifact_Inr
      bind_result_Inr_iff passing_def dest!: dedupe_loop_subseq)

interpretation matrix: selecting_strategy "matrix_strategy render m" for render m
  by unfold_locales
    (auto simp: matrix_strategy_def requires_artifact_Inr matrix_adjudicate_def matrix_certify_def
      split: if_splits)

interpretation minority: selecting_strategy "minority_report p" for p
  by unfold_locales
    (auto simp: minority_report_def requires_artifact_Inr minority_adjudicate_def Let_def)

interpretation proof_carrying: selecting_strategy "proof_carrying_join fields" for fields
  by unfold_locales
    (auto simp: proof_carrying_join_def requires_artifact_Inr proof_adjudicate_def Let_def
      intro!: subseq_map)

end
