(* ===== verification/Payload_Node.thy ===== *)
theory Payload_Node
  imports Agent_Graph
begin

text \<open>
  \<open>payload.rs\<close>: the node that hands a selection of the state to an external payload and
  writes its output back, key by key, with \<open>set_raw\<close>. The payload is a parameter; its
  error is its display text.
\<close>

record payload_output =
  po_value :: "value"
  po_meta :: "(string, value) hash_map"

record payload_context =
  pc_run_id :: string
  pc_node_id :: string

type_synonym 'w payload = "value \<Rightarrow> payload_context \<Rightarrow> 'w \<Rightarrow> (string + payload_output) \<times> 'w"

record 'w payload_node =
  pn_name :: "string option"
  pn_payload :: "'w payload"
  pn_input_selector :: "(value \<Rightarrow> value) option"
  pn_output_mapper :: "(value \<Rightarrow> payload_output \<Rightarrow> value) option"

definition new_payload_node :: "'w payload \<Rightarrow> 'w payload_node" where
  "new_payload_node p = \<lparr>pn_name = None, pn_payload = p, pn_input_selector = None,
     pn_output_mapper = None\<rparr>"

definition payload_with_name :: "string \<Rightarrow> 'w payload_node \<Rightarrow> 'w payload_node" where
  "payload_with_name name n = n\<lparr>pn_name := Some name\<rparr>"

definition with_input_selector :: "(value \<Rightarrow> value) \<Rightarrow> 'w payload_node \<Rightarrow> 'w payload_node" where
  "with_input_selector f n = n\<lparr>pn_input_selector := Some f\<rparr>"

definition with_output_mapper ::
    "(value \<Rightarrow> payload_output \<Rightarrow> value) \<Rightarrow> 'w payload_node \<Rightarrow> 'w payload_node" where
  "with_output_mapper f n = n\<lparr>pn_output_mapper := Some f\<rparr>"

definition merge_value :: "value \<Rightarrow> value \<Rightarrow> value" where
  "merge_value state out = (case (state, out) of
       (Object s, Object o1) \<Rightarrow> Object (fold (\<lambda>(k, v). bt_insert k v) o1 s)
     | _ \<Rightarrow> out)"

text \<open>\<open>for (key, value) in map { state.set_raw(&key, value)? }\<close>: earlier writes stay.\<close>

fun write_entries ::
    "(value \<Rightarrow> nat) \<Rightarrow> (string \<times> value) list \<Rightarrow> agent_state \<Rightarrow> unit result \<times> agent_state" where
  "write_entries sz [] s = (Inr (), s)"
| "write_entries sz ((k, v) # kvs) s = (case set_raw sz k v s of
       Inl e \<Rightarrow> (Inl e, s)
     | Inr s' \<Rightarrow> write_entries sz kvs s')"

definition execute_payload_node :: "(value \<Rightarrow> nat) \<Rightarrow> 'w payload_node \<Rightarrow> 'w node" where
  "execute_payload_node sz n s config w =
     (let state_value = json_object (export s);
          payload_input = (case pn_input_selector n of
            Some selector \<Rightarrow> selector state_value | None \<Rightarrow> state_value);
          ctx = \<lparr>pc_run_id = [], pc_node_id = (case pn_name n of Some m \<Rightarrow> m | None \<Rightarrow> [])\<rparr>
      in case pn_payload n payload_input ctx w of
           (Inl e, w') \<Rightarrow> (Inl (PayloadError e), s, w')
         | (Inr payload_out, w') \<Rightarrow>
             (let new_value = (case pn_output_mapper n of
                    Some mapper \<Rightarrow> mapper state_value payload_out
                  | None \<Rightarrow> merge_value state_value (po_value payload_out))
              in case new_value of
                   Object m \<Rightarrow> (case write_entries sz m s of
                       (Inl e, s') \<Rightarrow> (Inl e, s', w')
                     | (Inr _, s') \<Rightarrow> (Inr Node_done, s', w'))
                 | _ \<Rightarrow> (Inr Node_done, s, w')))"

section \<open>What is written\<close>

lemma write_entries_raw:
  "write_entries sz kvs s = (Inr u, s') \<Longrightarrow> try_fold (\<lambda>(k, v). set_raw sz k v) kvs s = Inr s'"
proof (induction kvs arbitrary: s)
  case Nil
  then show ?case by simp
next
  case (Cons kv kvs)
  then show ?case by (cases kv) (auto split: sum.splits)
qed

lemma write_entries_lookup:
  "write_entries sz kvs s = (Inr u, s') \<Longrightarrow> distinct (map fst kvs) \<Longrightarrow>
   map_of (st_data s') = map_of (st_data s) ++ map_of kvs"
  using raw.view_put_all_distinct [of sz kvs s s'] write_entries_raw by blast

lemma merge_value_non_object: "\<not> is_object v \<Longrightarrow> merge_value state v = v"
  by (cases v) (simp_all add: merge_value_def split: "value.splits")

text \<open>
  With the default mapper an object is merged shallowly into the state, and any other
  output leaves it as it was.
\<close>

lemma default_merge:
  assumes "execute_payload_node sz n s config w = (Inr out, s', w')"
    and "pn_output_mapper n = None" and "can_read (st_data_lock s)" and "hm_wf (st_data s)"
    and "pn_payload n (case pn_input_selector n of
        Some f \<Rightarrow> f (json_object (export s)) | None \<Rightarrow> json_object (export s))
      \<lparr>pc_run_id = [], pc_node_id = (case pn_name n of Some m \<Rightarrow> m | None \<Rightarrow> [])\<rparr> w
      = (Inr payload_out, w1)"
    and "json_wf (po_value payload_out)"
  shows "out = Node_done \<and> w' = w1 \<and> map_of (st_data s') = map_of (st_data s) ++
    (case po_value payload_out of Object m \<Rightarrow> map_of m | _ \<Rightarrow> Map.empty)"
proof (cases "po_value payload_out")
  case (Object m)
  define merged where "merged = fold (\<lambda>(k, v). bt_insert k v) m
    (fold (\<lambda>(k, v). bt_insert k v) (st_data s) [])"
  have wf: "bt_wf merged" by (simp add: merged_def fold_bt_insert_wf)
  have "distinct (map fst m)"
    using assms(6) Object by (simp add: bt_wf_distinct)
  then have look: "map_of merged = map_of (st_data s) ++ map_of m"
    using assms(4) by (simp add: merged_def map_of_fold_bt_insert fold_bt_insert_wf map_of_rev
        hm_wf_def)
  have mv: "merge_value (json_object (export s)) (Object m) = Object merged"
    using assms(3) by (simp add: merge_value_def json_object_def merged_def)
  have "\<exists>u. write_entries sz merged s = (Inr u, s') \<and> out = Node_done \<and> w' = w1"
    using assms(1,2,5) Object mv
    by (auto simp: execute_payload_node_def Let_def split: prod.splits sum.splits)
  then show ?thesis
    using write_entries_lookup [of sz merged s _ s'] bt_wf_distinct [OF wf] look Object
    by (auto simp: map_add_def fun_eq_iff split: option.splits)
qed (use assms in \<open>auto simp: execute_payload_node_def merge_value_non_object Let_def
    simp del: export_readable\<close>)

end
