(* ===== verification/Component_Properties.thy ===== *)
theory Component_Properties
  imports Run_Ledger Agent_Graph Join_Node Payload_Node
begin

text \<open>
  The properties of the stores, the event stream, the retry delays, the graph and its
  builder, and the ready-made nodes.
\<close>

section \<open>Checkpoint store and checkpointer\<close>

text \<open>
  C14: In the in-memory checkpoint store a run that has finished keeps its status for ever,
  whatever calls the engine makes afterwards, provided new identifiers are fresh.
\<close>

theorem finished_run_stays_finished:
  assumes "\<forall>n \<ge> mw_next_id w. run_id_of n \<noteq> r"
    and "mem_status w r = Some st" and "st \<noteq> Run_running"
  shows "mem_status (fold (run_call (in_memory_store run_id_of attempt_id_of)) calls w) r = Some st"
  using assms by (intro mem.finished_forever) (simp_all add: mem_reserved_def)

theorem finished_run_stays_finished_witness:
  "let r = (\<lambda>n. replicate n CHR ''r'');
       w = run_call (in_memory_store r r) (Call_complete_run [])
         (run_call (in_memory_store r r) (Call_create_run ''g'')
           \<lparr>mw_store = empty_mem_store, mw_next_id = 0, mw_clock = 5\<rparr>)
   in mem_status (fold (run_call (in_memory_store r r))
        [Call_fail_run [] ''late'', Call_create_run ''h'', Call_complete_run []] w) []
      = Some Run_completed"
  unfolding Let_def
  by (rule finished_run_stays_finished)
    (simp_all add: in_memory_store_def with_id_def with_store_def mem_create_run_def
      empty_mem_store_def mem_complete_run_def mem_end_run_def mem_status_def modify_run_def)

text \<open>
  Time travel: on a graph whose checkpointer is \<open>MemorySaver\<close>, \<open>update_state\<close> appends
  to the thread's history exactly one checkpoint, the last one with the given entries
  overwritten, and changes no other thread; without a checkpoint it changes nothing.
\<close>

theorem update_state_appends_a_patched_checkpoint:
  assumes "g_checkpointer g = Some memory_checkpointer" and "cfg_thread_id config = Some t"
    and "\<forall>cp \<in> set (thread_history m t). cp_execution_id cp = t"
    and "update_state g config updates m = (r, m')"
  shows "r = Inr () \<and> thread_history m' = (thread_history m)(t :=
      thread_history m t @ (if thread_history m t = [] then []
        else [patch_checkpoint updates (last (thread_history m t))]))"
proof -
  have r: "r = Inr ()"
    using assms(1,2,4)
    by (auto simp: update_state_def memory_checkpointer_def memory_load_def memory_save_def
        split: option.splits if_splits)
  then show ?thesis
    using memory.update_state_trail [OF assms(1,2,3), of updates "()" m'] assms(4) by simp
qed

definition sample_checkpoint :: checkpoint where
  "sample_checkpoint = \<lparr>cp_execution_id = ''t'', cp_timestamp = 3, cp_current_node = ''n'',
     cp_iteration = 0, cp_state = \<lparr>snap_timestamp = 3, snap_data = [(''k'', Null)]\<rparr>,
     cp_step_number = 0, cp_active_nodes = []\<rparr>"

theorem update_state_appends_a_patched_checkpoint_witness:
  "thread_history (snd (memory_save (patch_checkpoint [(''k'', Bool True)] sample_checkpoint)
      [(''t'', [sample_checkpoint])]))
   = (thread_history [(''t'', [sample_checkpoint])])(''t'' :=
       [sample_checkpoint, patch_checkpoint [(''k'', Bool True)] sample_checkpoint])"
  using update_state_appends_a_patched_checkpoint
    [of "with_checkpointer memory_checkpointer builder" "with_thread_id ''t'' default_config" "''t''"
      "[(''t'', [sample_checkpoint])]" "[(''k'', Bool True)]" "Inr ()"
      "snd (memory_save (patch_checkpoint [(''k'', Bool True)] sample_checkpoint)
        [(''t'', [sample_checkpoint])])"]
  by (simp add: with_checkpointer_def builder_def with_thread_id_def thread_history_def
      sample_checkpoint_def update_state_def memory_checkpointer_def memory_load_def memory_save_def)

section \<open>Events\<close>

text \<open>
  A streaming receiver that reads whenever it likes, or goes away, sees a subsequence
  of the run's events in their order, translated; at most 256 are buffered.
\<close>

theorem receiver_sees_a_subsequence:
  assumes "stream_step\<^sup>*\<^sup>* stream_start s"
  shows "subseq (sys_received s) (translated (sys_emitted s)) \<and> length (ch_queue (sys_channel s)) \<le> 256"
  using stream_ok_reachable [OF assms] subseq_drop_tail by (auto simp: stream_ok_def)

theorem receiver_sees_a_subsequence_witness:
  "let h = \<lparr>ev_run_id = ''r'', ev_trace_id = ''t'', ev_trace_ctx = None\<rparr>;
       s = stream_start\<lparr>sys_channel := channel_emit (RunEnd h) (sys_channel stream_start),
         sys_emitted := sys_emitted stream_start @ [RunEnd h]\<rparr>
   in subseq (sys_received s) (translated (sys_emitted s)) \<and> length (ch_queue (sys_channel s)) \<le> 256"
  unfolding Let_def
  by (rule receiver_sees_a_subsequence) (rule r_into_rtranclp, rule step_emit)

section \<open>Retry delays\<close>

text \<open>
  Without jitter no delay between two attempts is longer than the policy's maximal
  interval (as \<open>Duration\<close> converts it to seconds and back), for any attempt, any backoff
  factor and any floating point power.
\<close>

theorem delay_is_capped:
  assumes "\<not> jitter p" and "delay_for_attempt pow_int hash p attempt = Some d"
    and "from_secs_f64 (Finite (as_secs_f64 (max_interval p))) = Some cap"
  shows "d \<le> cap"
proof -
  define base where "base = xf64_mul (as_secs_f64 (initial_interval p))
    (pow_int (backoff_factor p) (sint (of_nat attempt :: 32 word)))"
  have d: "from_secs_f64 (xf64_min base (as_secs_f64 (max_interval p))) = Some d"
    using assms(1,2) by (simp add: delay_for_attempt_def base_def Let_def)
  then obtain x where x: "xf64_min base (as_secs_f64 (max_interval p)) = Finite x"
    by (cases "xf64_min base (as_secs_f64 (max_interval p))") simp_all
  have "x \<le> as_secs_f64 (max_interval p)"
    using x by (cases base) (auto split: if_splits)
  then have "round_half_even (x * 1000000000)
      \<le> round_half_even (as_secs_f64 (max_interval p) * 1000000000)"
    by (intro round_half_even_mono mult_right_mono) simp_all
  then show ?thesis
    using d x assms(3) by (auto split: if_splits)
qed

lemma as_secs_whole:
  assumes "n < 2 ^ 53"
  shows "as_secs_f64 (n * 1000000000) = of_nat n"
proof -
  have r: "rounded (of_nat n) = of_nat n"
    using f64_round_small_int [of "int n"] assms by (simp add: rounded_def)
  have z: "rounded 0 = 0" by (simp add: rounded_def f64_round_def)
  show ?thesis by (simp add: as_secs_f64_def r z)
qed

lemma from_secs_whole:
  "n < 2 ^ 53 \<Longrightarrow> from_secs_f64 (Finite (of_nat n)) = Some (n * 1000000000)"
  using round_half_even_of_int [of "int n * 1000000000"] by simp

theorem delay_is_capped_witness:
  "1000000000 \<le> (60000000000 :: nat) \<and>
   delay_for_attempt (\<lambda>_ _. Finite 1) 0 (with_jitter False default_retry) 4 = Some 1000000000"
proof -
  let ?p = "with_jitter False default_retry"
  have one: "as_secs_f64 1000000000 = 1" using as_secs_whole [of 1] by simp
  have sixty: "as_secs_f64 60000000000 = 60" using as_secs_whole [of 60] by simp
  have r1: "f64_round 1 = Some 1" using f64_round_small_int [of 1] by simp
  have from1: "from_secs_f64 (Finite 1) = Some 1000000000" using from_secs_whole [of 1] by simp
  have from60: "from_secs_f64 (Finite 60) = Some 60000000000" using from_secs_whole [of 60] by simp
  have d: "delay_for_attempt (\<lambda>_ _. Finite 1) 0 ?p 4 = Some 1000000000"
    using from1 by (simp add: delay_for_attempt_def with_jitter_def default_retry_def one sixty r1
        xf64_of_def Let_def del: from_secs_f64.simps)
  have "1000000000 \<le> (60000000000 :: nat)"
  proof (rule delay_is_capped)
    show "\<not> jitter ?p" by (simp add: with_jitter_def)
    show "from_secs_f64 (Finite (as_secs_f64 (max_interval ?p))) = Some 60000000000"
      using from60 by (simp add: with_jitter_def default_retry_def sixty del: from_secs_f64.simps)
  qed (rule d)
  with d show ?thesis by simp
qed

section \<open>The graph\<close>

text \<open>
  \<open>build\<close> accepts a builder exactly when every unconditional edge leads to a node of
  the graph, to the start or to the end, and then the graph is what was built.
\<close>

theorem build_accepts_iff:
  "build b = Inr g \<longleftrightarrow> g = b \<and>
     (\<forall>(from_node, es) \<in> set (g_edges b). \<forall>t \<in> {t. Normal t \<in> set es}.
        t \<in> {END, START} \<union> set (node_names b))"
proof -
  have "contains_key (g_nodes b) t \<longleftrightarrow> t \<in> set (node_names b)" for t
    by (simp add: contains_key_iff node_names_def)
  then show ?thesis by (simp add: build_Inr insert_commute)
qed

theorem build_accepts_iff_witness:
  "build (set_entry_point ''a'' (add_node ''a'' (\<lambda>s c w. (Inr Node_done, s, w)) builder))
     = Inr (set_entry_point ''a'' (add_node ''a'' (\<lambda>s c w. (Inr Node_done, s, w)) builder))"
  by (subst build_accepts_iff) (simp add: builder_defs node_names_def)

text \<open>
  The topology hash that guards a resume does not depend on the iteration order of
  the hash maps: graphs with the same nodes and the same edge lists have the same hash.
\<close>

theorem graph_hash_ignores_map_order:
  assumes "mset (g_nodes g) = mset (g_nodes h)" and "mset (g_edges g) = mset (g_edges h)"
    and "distinct (map fst (g_edges g))"
  shows "compute_graph_hash env g = compute_graph_hash env h"
  using hash_tokens_perm [OF assms(1,2)] assms(3) by (simp add: compute_graph_hash_def hm_wf_def)

theorem graph_hash_ignores_map_order_witness:
  "\<forall>env :: unit env. compute_graph_hash env
     (builder\<lparr>g_edges := [(''a'', [Normal ''b'']), (''b'', [Normal END])]\<rparr> :: unit agent_graph)
   = compute_graph_hash env
     (builder\<lparr>g_edges := [(''b'', [Normal END]), (''a'', [Normal ''b''])]\<rparr>)"
  by (intro allI, rule graph_hash_ignores_map_order) (simp_all add: builder_def)

section \<open>Joining branches\<close>

text \<open>
  Every strategy of the code only selects: when a strategy join succeeds there was at
  least one artifact, the certification is not a failure, and both the value and the
  minority report are subsequences of the branches' artifacts.
\<close>

theorem join_strategies_only_select:
  assumes "strategy \<in> {dedupe_by_identity p, matrix_strategy render m, minority_report q,
      proof_carrying_join required}"
    and "strategy_merge strategy inputs = Inr envelope"
  shows "inputs \<noteq> [] \<and> (\<exists>out sel. envelope = join_envelope (js_name strategy) out
    \<and> jo_certification out \<noteq> Fail \<and> jo_value out = Array sel
    \<and> subseq sel (map snd inputs) \<and> subseq (jo_minority_report out) (map snd inputs))"
proof -
  consider "strategy = dedupe_by_identity p" | "strategy = matrix_strategy render m"
    | "strategy = minority_report q" | "strategy = proof_carrying_join required"
    using assms(1) by auto
  then show ?thesis
  proof cases
    case 1
    then show ?thesis using dedupe.envelope_selects assms(2) by simp
  next
    case 2
    then show ?thesis using matrix.envelope_selects assms(2) by simp
  next
    case 3
    then show ?thesis using minority.envelope_selects assms(2) by simp
  next
    case 4
    then show ?thesis using proof_carrying.envelope_selects assms(2) by simp
  qed
qed

theorem join_strategies_only_select_witness:
  "\<exists>out sel. join_envelope ''minority_report''
      (minority_adjudicate ''dissent'' [(''a'', Bool True)]) =
      join_envelope (js_name (minority_report ''dissent'')) out
    \<and> jo_certification out \<noteq> Fail \<and> jo_value out = Array sel
    \<and> subseq sel [Bool True] \<and> subseq (jo_minority_report out) [Bool True]"
  using join_strategies_only_select [of "minority_report ''dissent''" None "\<lambda>_. []"
      default_contradiction_matrix "''dissent''" "[]" "[(''a'', Bool True)]"
      "join_envelope ''minority_report'' (minority_adjudicate ''dissent'' [(''a'', Bool True)])"]
  by (simp add: strategy_merge_def minority_report_def requires_artifact_def execution_error_def
      minority_adjudicate_def Let_def)

text \<open>
  A proof-carrying join hands on exactly the artifacts that carry all required fields
  with valid evidence and checks, in order, and passes exactly when it rejects none.
\<close>

theorem proof_carrying_join_keeps_exactly_the_valid:
  assumes "strategy_merge (proof_carrying_join required) inputs = Inr envelope"
  shows "get_key envelope ''value'' = Some (Array (map snd (filter (\<lambda>(_, v).
      list_all (\<lambda>f. path_get v f \<noteq> None) required \<and> evidence_valid v = Inr () \<and> checks_valid v = Inr ())
      inputs)))
    \<and> (get_key envelope ''certification'' = Some (String ''pass'') \<longleftrightarrow>
       list_all (\<lambda>(_, v). rejection_reasons required v = []) inputs)"
proof -
  have r: "rejection_reasons required v = [] \<longleftrightarrow> list_all (\<lambda>f. path_get v f \<noteq> None) required
      \<and> evidence_valid v = Inr () \<and> checks_valid v = Inr ()" for v
    by (auto simp: rejection_reasons_def failure_reason_def filter_empty_conv list_all_iff
        split: sum.splits)
  have env: "envelope = join_envelope ''proof_carrying_join'' (proof_adjudicate required inputs)"
    using assms
    by (auto simp: strategy_merge_def proof_carrying_join_def bind_result_Inr_iff
        execution_error_def split: sum.splits if_splits)
  have d: "distinct (map fst [(''join'', a), (''certification'', b), (''value'', c),
      (''contradictions'', d), (''minority_report'', e), (''notes'', f)])" for a b c d e f :: "value"
    by simp
  show ?thesis
    unfolding env join_envelope_def
    by (subst (1 2) get_key_json_object [OF d])
      (simp add: proof_adjudicate_def Let_def r filter_empty_conv list_all_iff case_prod_unfold)
qed

theorem proof_carrying_join_keeps_exactly_the_valid_witness:
  "get_key (join_envelope ''proof_carrying_join'' (proof_adjudicate [''r''] [(''a'', Null)])) ''value''
     = Some (Array [])"
  using proof_carrying_join_keeps_exactly_the_valid [of "[''r'']" "[(''a'', Null)]"
      "join_envelope ''proof_carrying_join'' (proof_adjudicate [''r''] [(''a'', Null)])"]
  by (simp add: strategy_merge_def proof_carrying_join_def requires_artifact_def
      execution_error_def proof_adjudicate_def path_get_def Let_def)

section \<open>Payload nodes\<close>

text \<open>
  With the default output mapper a payload's object is merged shallowly into the
  state, key by key, replacing present entries without their reducers; an output that is
  no object changes nothing although the node reports success.
\<close>

theorem payload_output_is_merged:
  assumes "execute_payload_node sz n s config w = (Inr out, s', w')"
    and "pn_output_mapper n = None" and "can_read (st_data_lock s)" and "hm_wf (st_data s)"
    and "pn_payload n (case pn_input_selector n of
        Some f \<Rightarrow> f (json_object (export s)) | None \<Rightarrow> json_object (export s))
      \<lparr>pc_run_id = [], pc_node_id = (case pn_name n of Some m \<Rightarrow> m | None \<Rightarrow> [])\<rparr> w
      = (Inr payload_out, w1)"
    and "json_wf (po_value payload_out)"
  shows "out = Node_done \<and> w' = w1 \<and> map_of (st_data s') = map_of (st_data s) ++
    (case po_value payload_out of Object m \<Rightarrow> map_of m | _ \<Rightarrow> Map.empty)"
  using assms by (rule default_merge)

theorem payload_output_is_merged_witness:
  "let n = new_payload_node (\<lambda>_ _ w. (Inr \<lparr>po_value = Object [(''k'', Null)], po_meta = []\<rparr>, w));
       s' = store_data new_state [(''k'', Null)]
   in map_of (st_data s') = map_of (st_data new_state) ++ map_of [(''k'', Null)]"
  using payload_output_is_merged [of "\<lambda>_. 4"
      "new_payload_node (\<lambda>_ _ w. (Inr \<lparr>po_value = Object [(''k'', Null)], po_meta = []\<rparr>, w))"
      new_state default_config "()" Node_done "store_data new_state [(''k'', Null)]" "()"
      "\<lparr>po_value = Object [(''k'', Null)], po_meta = []\<rparr>" "()"]
  by (simp add: new_payload_node_def execute_payload_node_def new_state_def with_limits_def
      with_data_and_limits_def default_limits_def merge_value_def json_object_def export_def
      read_data_def set_raw_def write_data_def validate_insert_def validate_value_size_def
      contains_key_def store_data_def bt_wf_def)

end
