(* ===== verification/Engine_Attempt.thy ===== *)
theory Engine_Attempt
  imports Agent_Graph
begin

text \<open>
  \<open>engine.rs::execute_node_attempt_family\<close>: the retry family of one node invocation.
  Everything outside the node's state is the record \<open>io\<close>: the event log and the world.
  The functions follow the code's blocks: beginning a trial, applying the updates of a
  command, completing it, failing it, waiting for the backoff in ticks of ten
  milliseconds, and the loop over the attempts.
\<close>

section \<open>Events and the world\<close>

record 'w io =
  io_events :: "graph_event list"
  io_world :: 'w

definition emit :: "graph_event \<Rightarrow> 'w io \<Rightarrow> 'w io" where
  "emit e io = io\<lparr>io_events := io_events io @ [e]\<rparr>"

text \<open>A call that only touches the world.\<close>

definition on_world :: "('w \<Rightarrow> 'a \<times> 'w) \<Rightarrow> 'w io \<Rightarrow> 'a \<times> 'w io" where
  "on_world f io = (case f (io_world io) of (a, w) \<Rightarrow> (a, io\<lparr>io_world := w\<rparr>))"

lemma emit_simps [simp]:
  "io_events (emit e io) = io_events io @ [e]"
  "io_world (emit e io) = io_world io"
  by (simp_all add: emit_def)

lemma on_world_simps [simp]:
  "fst (on_world f io) = fst (f (io_world io))"
  "io_world (snd (on_world f io)) = snd (f (io_world io))"
  "io_events (snd (on_world f io)) = io_events io"
  by (simp_all add: on_world_def split: prod.splits)

lemma on_world_eq:
  "on_world f io = (a, io') \<longleftrightarrow>
     f (io_world io) = (a, io_world io') \<and> io' = io\<lparr>io_world := io_world io'\<rparr>"
  by (auto simp: on_world_def split: prod.splits)

section \<open>The parameters of a family\<close>

record 'w attempt_params =
  ap_retry :: "retry_policy option"
  ap_store :: "'w checkpoint_store option"
  ap_run_id :: string
  ap_node_id :: string
  ap_legacy_trace_id :: string
  ap_trace_ctx :: "trace_ctx option"
  ap_family_attempt :: "32 word"
  ap_attempt_id :: attempt_id

definition ap_header :: "'w attempt_params \<Rightarrow> event_header" where
  "ap_header p = \<lparr>ev_run_id = ap_run_id p, ev_trace_id = ap_legacy_trace_id p,
     ev_trace_ctx = ap_trace_ctx p\<rparr>"

record attempt_family_success =
  fs_output :: node_output
  fs_trial_id :: trial_id

record attempt_family_failure =
  ff_error :: graph_error
  ff_outcome :: node_outcome_kind
  ff_trial_id :: trial_id

type_synonym family_result = "attempt_family_failure + attempt_family_success"

definition family_failure ::
    "graph_error \<Rightarrow> node_outcome_kind \<Rightarrow> trial_id \<Rightarrow> attempt_family_failure" where
  "family_failure e k t = \<lparr>ff_error = e, ff_outcome = k, ff_trial_id = t\<rparr>"

definition family_max_attempts :: "retry_policy option \<Rightarrow> nat" where
  "family_max_attempts retry = (case retry of None \<Rightarrow> 1 | Some p \<Rightarrow> max 1 (max_attempts p))"

text \<open>The state as the JSON value that is recorded.\<close>

definition state_value :: "agent_state \<Rightarrow> value" where
  "state_value s = json_object (export s)"

section \<open>One trial\<close>

definition begin_trial ::
    "'w attempt_params \<Rightarrow> trial_id \<Rightarrow> nat \<Rightarrow> agent_state \<Rightarrow> 'w io
      \<Rightarrow> (attempt_family_failure + string option) \<times> 'w io" where
  "begin_trial p trial_id attempt_index s io =
     (let io1 = emit (NodeStart (ap_header p) (ap_node_id p) (ap_family_attempt p)
            (Some (ap_attempt_id p)) (Some trial_id)) io
      in case ap_store p of
           None \<Rightarrow> (Inr None, io1)
         | Some store \<Rightarrow>
             (case on_world (cs_record_attempt store (ap_run_id p) (ap_node_id p)
                 (of_nat attempt_index) (state_value s)) io1 of
                (Inr attempt_id, io2) \<Rightarrow> (Inr (Some attempt_id), io2)
              | (Inl e, io2) \<Rightarrow> (Inl (family_failure (checkpoint_store_error RecordAttempt e)
                  Outcome_failed trial_id), io2)))"

text \<open>\<open>for (key, value) in updates { state.set(key, value)? }\<close>: earlier writes stay.\<close>

fun apply_updates ::
    "(value \<Rightarrow> nat) \<Rightarrow> (string \<times> value) list \<Rightarrow> agent_state \<Rightarrow> unit result \<times> agent_state" where
  "apply_updates sz [] s = (Inr (), s)"
| "apply_updates sz ((k, v) # us) s = (case set_state sz k v s of
       Inl e \<Rightarrow> (Inl e, s)
     | Inr s' \<Rightarrow> apply_updates sz us s')"

text \<open>\<open>store.fail_attempt\<close>, when there is a store and an attempt was recorded.\<close>

definition record_failure ::
    "'w attempt_params \<Rightarrow> string option \<Rightarrow> graph_error \<Rightarrow> 'w io \<Rightarrow> unit result \<times> 'w io" where
  "record_failure p checkpoint_attempt_id error io =
     (case (ap_store p, checkpoint_attempt_id) of
        (Some store, Some attempt_id) \<Rightarrow>
          (case on_world (cs_fail_attempt store attempt_id (error_text error)) io of
             (Inl e, io') \<Rightarrow> (Inl (checkpoint_store_error FailAttempt e), io')
           | (Inr _, io') \<Rightarrow> (Inr (), io'))
      | _ \<Rightarrow> (Inr (), io))"

definition complete_trial ::
    "'w env \<Rightarrow> 'w attempt_params \<Rightarrow> trial_id \<Rightarrow> string option \<Rightarrow> node_output
      \<Rightarrow> agent_state \<Rightarrow> 'w io \<Rightarrow> family_result \<times> agent_state \<times> 'w io" where
  "complete_trial env p trial_id checkpoint_attempt_id output s io =
     (let updates = (case output of
            Node_command cmd \<Rightarrow> (case cmd_update cmd of Some u \<Rightarrow> u | None \<Rightarrow> [])
          | Node_done \<Rightarrow> [])
      in case apply_updates (env_size env) updates s of
           (Inl error, s') \<Rightarrow>
             (case record_failure p checkpoint_attempt_id error io of
                (Inl store_error, io') \<Rightarrow>
                  (Inl (family_failure store_error Outcome_failed trial_id), s', io')
              | (Inr _, io') \<Rightarrow>
                  (Inl (family_failure error Outcome_failed trial_id), s', io'))
         | (Inr _, s') \<Rightarrow>
             (case (ap_store p, checkpoint_attempt_id) of
                (Some store, Some attempt_id) \<Rightarrow>
                  (case on_world (cs_complete_attempt store attempt_id (state_value s')
                      [(''trace_id'', String (ap_legacy_trace_id p))]) io of
                     (Inl e, io') \<Rightarrow> (Inl (family_failure
                       (checkpoint_store_error CompleteAttempt e) Outcome_failed trial_id), s', io')
                   | (Inr _, io') \<Rightarrow>
                       (Inr \<lparr>fs_output = output, fs_trial_id = trial_id\<rparr>, s', io'))
              | _ \<Rightarrow> (Inr \<lparr>fs_output = output, fs_trial_id = trial_id\<rparr>, s', io)))"

definition failure_outcome :: "graph_error \<Rightarrow> node_outcome_kind" where
  "failure_outcome e = (if is_interrupt e then Outcome_interrupted else Outcome_failed)"

section \<open>Backoff\<close>

definition tick :: nat where
  "tick = 10000000"

text \<open>The wait loop: \<open>True\<close> when it stopped because of a cancellation.\<close>

function wait_backoff :: "'w env \<Rightarrow> nat \<Rightarrow> 'w io \<Rightarrow> bool \<times> 'w io" where
  "wait_backoff env remaining io =
     (case on_world (env_poll_cancel env) io of
        (True, io1) \<Rightarrow> (True, io1)
      | (False, io1) \<Rightarrow>
          (let t = min tick remaining;
               io2 = io1\<lparr>io_world := env_sleep env t (io_world io1)\<rparr>
           in if remaining \<le> t then (False, io2) else wait_backoff env (remaining - t) io2))"
  by pat_completeness auto
termination
  by (relation "measure (\<lambda>(env, remaining, io). remaining)") (auto simp: tick_def)

declare wait_backoff.simps [simp del]

text \<open>
  A panic of \<open>delay_for_attempt\<close> (a negative backoff factor, see \<open>from_secs_f64\<close>) unwinds
  the task; it is the failure \<open>delay_panic\<close>, the error the parallel path turns it into.
\<close>

definition delay_panic :: graph_error where
  "delay_panic = ExecutionError ''task panicked''"

section \<open>The family\<close>

text \<open>
  What becomes of a trial: the family ends, or it goes on with the next attempt.
\<close>

datatype trial_end = Family_ends family_result | Try_again

definition fail_trial ::
    "'w env \<Rightarrow> 'w attempt_params \<Rightarrow> trial_id \<Rightarrow> string option \<Rightarrow> nat \<Rightarrow> graph_error
      \<Rightarrow> 'w io \<Rightarrow> trial_end \<times> 'w io" where
  "fail_trial env p trial_id checkpoint_attempt_id attempt_index error io =
     (case record_failure p checkpoint_attempt_id error io of
        (Inl store_error, io1) \<Rightarrow>
          (Family_ends (Inl (family_failure store_error Outcome_failed trial_id)), io1)
      | (Inr _, io1) \<Rightarrow>
          (let outcome = failure_outcome error;
               max_att = family_max_attempts (ap_retry p);
               final = Family_ends (Inl (family_failure error outcome trial_id))
           in case ap_retry p of
                None \<Rightarrow> (final, io1)
              | Some policy \<Rightarrow>
                  if attempt_index + 1 < max_att \<and> should_retry policy error
                  then
                    (let io2 = emit (NodeEnd (ap_header p) (ap_node_id p) outcome
                           (Some (ap_attempt_id p)) (Some trial_id)) io1
                     in case delay_for_attempt (env_pow env) (env_jitter_hash env (io_world io2))
                            policy attempt_index of
                          None \<Rightarrow> (Family_ends (Inl (family_failure delay_panic
                            Outcome_failed trial_id)), io2)
                        | Some delay \<Rightarrow>
                            (case wait_backoff env delay io2 of
                               (True, io3) \<Rightarrow> (Family_ends (Inl (family_failure Cancelled
                                 Outcome_interrupted trial_id)), io3)
                             | (False, io3) \<Rightarrow> (Try_again, io3)))
                  else (final, io1)))"

text \<open>
  \<open>exec_once\<close> is the closure the engine passes: the node, or the executor on the node.
\<close>

type_synonym 'w exec_once =
  "node_execution_context \<Rightarrow> agent_state \<Rightarrow> 'w \<Rightarrow> node_output result \<times> agent_state \<times> 'w"

definition run_trial ::
    "'w env \<Rightarrow> 'w exec_once \<Rightarrow> 'w attempt_params \<Rightarrow> nat \<Rightarrow> agent_state \<Rightarrow> 'w io
      \<Rightarrow> trial_end \<times> agent_state \<times> 'w io" where
  "run_trial env exec_once p attempt_index s io =
     (case on_world (env_new_trial_id env) io of (trial_id, io1) \<Rightarrow>
      case begin_trial p trial_id attempt_index s io1 of
        (Inl failure, io2) \<Rightarrow> (Family_ends (Inl failure), s, io2)
      | (Inr checkpoint_attempt_id, io2) \<Rightarrow>
          (case exec_once \<lparr>nec_run_id = ap_run_id p, nec_node_id = ap_node_id p,
               nec_attempt_id = ap_attempt_id p, nec_trial_id = trial_id,
               nec_retry_ordinal = attempt_index\<rparr> s (io_world io2) of
             (Inr output, s', w) \<Rightarrow>
               (case complete_trial env p trial_id checkpoint_attempt_id output s'
                   (io2\<lparr>io_world := w\<rparr>) of
                  (r, s'', io3) \<Rightarrow> (Family_ends r, s'', io3))
           | (Inl error, s', w) \<Rightarrow>
               (case fail_trial env p trial_id checkpoint_attempt_id attempt_index error
                   (io2\<lparr>io_world := w\<rparr>) of
                  (e, io3) \<Rightarrow> (e, s', io3))))"

text \<open>\<open>for attempt_index in 0..max_attempts\<close>.\<close>

function attempt_family ::
    "'w env \<Rightarrow> 'w exec_once \<Rightarrow> 'w attempt_params \<Rightarrow> nat \<Rightarrow> agent_state \<Rightarrow> 'w io
      \<Rightarrow> family_result \<times> agent_state \<times> 'w io" where
  "attempt_family env exec_once p attempt_index s io =
     (if family_max_attempts (ap_retry p) \<le> attempt_index
      then (case on_world (env_new_trial_id env) io of (trial_id, io1) \<Rightarrow>
        (Inl (family_failure (ExecutionError ''Retry exhausted with no error'')
           Outcome_failed trial_id), s, io1))
      else (case on_world (env_poll_cancel env) io of
        (True, io1) \<Rightarrow> (case on_world (env_new_trial_id env) io1 of (trial_id, io2) \<Rightarrow>
          (Inl (family_failure Cancelled Outcome_interrupted trial_id), s, io2))
      | (False, io1) \<Rightarrow> (case run_trial env exec_once p attempt_index s io1 of
            (Family_ends r, s', io2) \<Rightarrow> (r, s', io2)
          | (Try_again, s', io2) \<Rightarrow>
              attempt_family env exec_once p (Suc attempt_index) s' io2)))"
  by pat_completeness auto
termination
  by (relation "measure (\<lambda>(env, exec_once, p, i, s, io). family_max_attempts (ap_retry p) - i)")
    auto

declare attempt_family.simps [simp del]

end
