(* ===== verification/Engine.thy ===== *)
theory Engine
  imports Engine_Attempt
begin

text \<open>
  \<open>engine.rs\<close>: the \<open>GraphExecutor\<close>, which runs a graph in supersteps. The executor's
  fields split into the constants of a run (\<open>run\<close>) and what changes (\<open>exec\<close>); the
  iteration counter and the step number are arguments of the loop. A branch of a parallel
  superstep runs on a fork of the state; its steps are taken when \<open>join_next\<close> yields it,
  in the order the environment chooses, and the reducer registry, which forks share, is
  handed from branch to branch. Branches that are aborted leave the events and effects
  the environment says.
\<close>

section \<open>The executor\<close>

record 'w run =
  r_env :: "'w env"
  r_graph :: "'w agent_graph"
  r_config :: graph_config
  r_run_id :: string
  r_trace_ctx :: trace_ctx
  r_started_at :: nat

record 'w exec =
  x_state :: agent_state
  x_total_attempts :: nat
  x_failed_attempts :: nat
  x_executed_nodes :: "string list"
  x_io :: "'w io"

definition legacy_trace_id :: "'w run \<Rightarrow> string" where
  "legacy_trace_id run = env_legacy_trace_id (r_env run) (r_trace_ctx run)"

definition header :: "'w run \<Rightarrow> event_header" where
  "header run = \<lparr>ev_run_id = r_run_id run, ev_trace_id = legacy_trace_id run,
     ev_trace_ctx = Some (r_trace_ctx run)\<rparr>"

definition exec_emit :: "graph_event \<Rightarrow> 'w exec \<Rightarrow> 'w exec" where
  "exec_emit e x = x\<lparr>x_io := emit e (x_io x)\<rparr>"

definition with_io :: "('w io \<Rightarrow> 'a \<times> 'w io) \<Rightarrow> 'w exec \<Rightarrow> 'a \<times> 'w exec" where
  "with_io f x = (case f (x_io x) of (a, io) \<Rightarrow> (a, x\<lparr>x_io := io\<rparr>))"

text \<open>The question mark operator on a step that changes the executor.\<close>

definition exec_then :: "'a result \<times> 'x \<Rightarrow> ('a \<Rightarrow> 'x \<Rightarrow> 'b result \<times> 'x) \<Rightarrow> 'b result \<times> 'x" where
  "exec_then p f = (case p of (Inl e, x) \<Rightarrow> (Inl e, x) | (Inr a, x) \<Rightarrow> f a x)"

lemma exec_then_simps [simp, result_simps]:
  "exec_then (Inl e, x) f = (Inl e, x)"
  "exec_then (Inr a, x) f = f a x"
  by (simp_all add: exec_then_def)

lemma exec_then_Inr:
  "exec_then p f = (Inr b, y) \<longleftrightarrow> (\<exists>a x. p = (Inr a, x) \<and> f a x = (Inr b, y))"
  by (cases p; cases "fst p") (auto simp: exec_then_def)

section \<open>One node\<close>

definition insert_name :: "string \<Rightarrow> string list \<Rightarrow> string list" where
  "insert_name n ns = (if n \<in> set ns then ns else ns @ [n])"

text \<open>The entries of \<open>new\<close> (the export after the node) that differ from \<open>old\<close>.\<close>

definition changed_entries :: "state_map \<Rightarrow> state_map \<Rightarrow> state_map" where
  "changed_entries old new = filter (\<lambda>(k, v). map_of old k \<noteq> Some v) new"

definition exec_once_of :: "'w run \<Rightarrow> 'w node \<Rightarrow> 'w exec_once" where
  "exec_once_of run node = (case g_executor (r_graph run) of
       Some executor \<Rightarrow> (\<lambda>ctx s. executor node ctx s (r_config run))
     | None \<Rightarrow> (\<lambda>ctx s. node s (r_config run)))"

definition attempt_params_of ::
    "'w run \<Rightarrow> string \<Rightarrow> nat \<Rightarrow> attempt_id \<Rightarrow> 'w attempt_params" where
  "attempt_params_of run name attempt_count attempt_id =
     \<lparr>ap_retry = map_of (g_retry_policies (r_graph run)) name,
      ap_store = g_checkpoint_store (r_graph run),
      ap_run_id = r_run_id run, ap_node_id = name,
      ap_legacy_trace_id = legacy_trace_id run, ap_trace_ctx = Some (r_trace_ctx run),
      ap_family_attempt = of_nat attempt_count, ap_attempt_id = attempt_id\<rparr>"

definition report_success ::
    "'w run \<Rightarrow> string \<Rightarrow> attempt_id \<Rightarrow> trial_id \<Rightarrow> state_map \<Rightarrow> state_map \<Rightarrow> 'w io \<Rightarrow> 'w io" where
  "report_success run name attempt_id trial_id old new io =
     (let updates = changed_entries old new;
          io1 = (if updates \<noteq> [] then emit (StateUpdate (header run) name updates) io else io)
      in emit (NodeEnd (header run) name Outcome_success (Some attempt_id) (Some trial_id)) io1)"

definition report_failure ::
    "'w run \<Rightarrow> string \<Rightarrow> attempt_id \<Rightarrow> attempt_family_failure \<Rightarrow> 'w io \<Rightarrow> 'w io" where
  "report_failure run name attempt_id f io =
     emit (NodeEnd (header run) name (ff_outcome f) (Some attempt_id) (Some (ff_trial_id f))) io"

text \<open>
  What the sequential path and the task of a branch have in common: a fresh attempt id,
  the retry family on the state, and the closing events.
\<close>

definition invoke_node ::
    "'w run \<Rightarrow> string \<Rightarrow> 'w node \<Rightarrow> nat \<Rightarrow> agent_state \<Rightarrow> 'w io
      \<Rightarrow> node_output result \<times> agent_state \<times> 'w io" where
  "invoke_node run name node attempt_count s io =
     (case on_world (env_new_attempt_id (r_env run)) io of (attempt_id, io1) \<Rightarrow>
      case attempt_family (r_env run) (exec_once_of run node)
          (attempt_params_of run name attempt_count attempt_id) 0 s io1 of
        (Inr success, s', io2) \<Rightarrow>
          (Inr (fs_output success), s',
           report_success run name attempt_id (fs_trial_id success) (export s) (export s') io2)
      | (Inl failure, s', io2) \<Rightarrow>
          (Inl (ff_error failure), s', report_failure run name attempt_id failure io2))"

definition execute_single_node :: "'w run \<Rightarrow> string \<Rightarrow> 'w exec \<Rightarrow> node_output result \<times> 'w exec" where
  "execute_single_node run name x =
     (let x1 = x\<lparr>x_total_attempts := x_total_attempts x + 1,
            x_executed_nodes := insert_name name (x_executed_nodes x)\<rparr>
      in case map_of (g_nodes (r_graph run)) name of
           None \<Rightarrow> (Inl (NodeNotFound name), x1)
         | Some node \<Rightarrow>
             (case invoke_node run name node (x_total_attempts x1) (x_state x1) (x_io x1) of
                (Inr output, s, io) \<Rightarrow> (Inr output, x1\<lparr>x_state := s, x_io := io\<rparr>)
              | (Inl e, s, io) \<Rightarrow>
                  (Inl e, x1\<lparr>x_state := s, x_io := io,
                     x_failed_attempts := x_failed_attempts x1 + 1\<rparr>)))"

section \<open>Targets\<close>

fun edge_list_targets ::
    "'w run \<Rightarrow> 'w edge_type list \<Rightarrow> 'w exec \<Rightarrow> string list result \<times> 'w exec" where
  "edge_list_targets run [] x = (Inr [], x)"
| "edge_list_targets run (Normal to_node # es) x =
     exec_then (edge_list_targets run es x) (\<lambda>ts x'. (Inr (to_node # ts), x'))"
| "edge_list_targets run (Conditional router # es) x =
     (case rt_route router (x_state x) (r_config run) (io_world (x_io x)) of
        (Inl e, s, w) \<Rightarrow> (Inl e, x\<lparr>x_state := s, x_io := (x_io x)\<lparr>io_world := w\<rparr>\<rparr>)
      | (Inr out, s, w) \<Rightarrow>
          exec_then (edge_list_targets run es
              (x\<lparr>x_state := s, x_io := (x_io x)\<lparr>io_world := w\<rparr>\<rparr>))
            (\<lambda>ts x'. (Inr ((case out of
                Next (Some n) \<Rightarrow> [n] | Next None \<Rightarrow> [] | Fan_out ns \<Rightarrow> ns) @ ts), x')))"

definition get_edge_targets :: "'w run \<Rightarrow> string \<Rightarrow> 'w exec \<Rightarrow> string list result \<times> 'w exec" where
  "get_edge_targets run name x = (case map_of (g_edges (r_graph run)) name of
       None \<Rightarrow> (Inr [], x)
     | Some es \<Rightarrow> edge_list_targets run es x)"

definition resolve_output ::
    "'w run \<Rightarrow> string \<Rightarrow> node_output \<Rightarrow> 'w exec \<Rightarrow> string list result \<times> 'w exec" where
  "resolve_output run name output x = (case output of
       Node_done \<Rightarrow> get_edge_targets run name x
     | Node_command cmd \<Rightarrow> (case cmd_goto cmd of
           Goto_default \<Rightarrow> get_edge_targets run name x
         | Goto_node n \<Rightarrow> (Inr [n], x)
         | Goto_nodes ns \<Rightarrow> (Inr ns, x)
         | Goto_end \<Rightarrow> (Inr [END], x)
         | Goto_send ops \<Rightarrow> (Inr (map send_node ops), x)))"

section \<open>Merging parallel branches\<close>

type_synonym branch_result = "string \<times> agent_state \<times> node_output"

definition push_change ::
    "state_map \<Rightarrow> string \<times> value \<Rightarrow> (string, value list) hash_map
      \<Rightarrow> (string, value list) hash_map" where
  "push_change snap kv changes = (case kv of (k, v) \<Rightarrow>
     if map_of snap k \<noteq> Some v
     then AList.update k ((case map_of changes k of Some vs \<Rightarrow> vs | None \<Rightarrow> []) @ [v]) changes
     else changes)"

definition collect_changes ::
    "state_map \<Rightarrow> branch_result list \<Rightarrow> (string, value list) hash_map" where
  "collect_changes snap branches =
     fold (\<lambda>(_, s, _) changes. fold (push_change snap) (export s) changes) branches []"

definition merge_key ::
    "(value \<Rightarrow> nat) \<Rightarrow> state_map \<Rightarrow> string \<Rightarrow> value list \<Rightarrow> agent_state \<Rightarrow> agent_state result" where
  "merge_key sz snap k vs s =
     bind_result (try_fold (\<lambda>v current. apply_reducer s k current v) vs
         (case map_of snap k of Some b \<Rightarrow> b | None \<Rightarrow> Null))
       (\<lambda>current. set_raw sz k current s)"

fun merge_keys ::
    "(value \<Rightarrow> nat) \<Rightarrow> state_map \<Rightarrow> (string \<times> value list) list \<Rightarrow> agent_state
      \<Rightarrow> unit result \<times> agent_state" where
  "merge_keys sz snap [] s = (Inr (), s)"
| "merge_keys sz snap ((k, vs) # changes) s = (case merge_key sz snap k vs s of
       Inl e \<Rightarrow> (Inl e, s)
     | Inr s' \<Rightarrow> merge_keys sz snap changes s')"

definition merge_parallel_states ::
    "(value \<Rightarrow> nat) \<Rightarrow> state_map \<Rightarrow> branch_result list \<Rightarrow> agent_state
      \<Rightarrow> unit result \<times> agent_state" where
  "merge_parallel_states sz snap branches s =
     merge_keys sz snap (collect_changes snap branches) s"

section \<open>The parallel path\<close>

record branch =
  b_name :: string
  b_state :: agent_state
  b_family_attempt :: nat

definition spawn_parallel_branch ::
    "'w run \<Rightarrow> string \<Rightarrow> branch list \<Rightarrow> 'w exec \<Rightarrow> branch list result \<times> 'w exec" where
  "spawn_parallel_branch run name join_set x =
     (let x1 = x\<lparr>x_total_attempts := x_total_attempts x + 1,
            x_executed_nodes := insert_name name (x_executed_nodes x)\<rparr>;
          forked = fork (x_state x1)
      in case map_of (g_nodes (r_graph run)) name of
           None \<Rightarrow> (Inl (NodeNotFound name), x1)
         | Some _ \<Rightarrow> (Inr (join_set @ [\<lparr>b_name = name, b_state = forked,
             b_family_attempt = x_total_attempts x1\<rparr>]), x1))"

text \<open>The events the task of a branch can emit.\<close>

fun branch_event :: "string list \<Rightarrow> graph_event \<Rightarrow> bool" where
  "branch_event names (NodeStart _ n _ _ _) = (n \<in> set names)"
| "branch_event names (NodeEnd _ n _ _ _) = (n \<in> set names)"
| "branch_event names (StateUpdate _ n _) = (n \<in> set names)"
| "branch_event names _ = False"

text \<open>
  Aborting and draining the set, or dropping it: what the branches still running did
  before they stopped.
\<close>

definition abort_branches :: "'w run \<Rightarrow> string list \<Rightarrow> 'w exec \<Rightarrow> 'w exec" where
  "abort_branches run names x =
     (if names = [] then x
      else case env_abort (r_env run) names (io_world (x_io x)) of (es, w) \<Rightarrow>
        x\<lparr>x_io := \<lparr>io_events = io_events (x_io x) @ filter (branch_event names) es,
           io_world = w\<rparr>\<rparr>)"

definition cancel_siblings ::
    "'w run \<Rightarrow> string list \<Rightarrow> string list \<Rightarrow> 'w exec \<Rightarrow> 'w exec" where
  "cancel_siblings run running active x =
     (let x1 = abort_branches run running (x\<lparr>x_failed_attempts := x_failed_attempts x + 1\<rparr>);
          x2 = fold (\<lambda>n. exec_emit (NodeEnd (header run) n Outcome_interrupted None None)) active x1
      in exec_emit (ParallelCancellation (header run) True) x2)"

text \<open>The task of a branch: the node on the fork, with the registry all forks share.\<close>

definition run_branch ::
    "'w run \<Rightarrow> branch \<Rightarrow> 'w exec \<Rightarrow> branch_result result \<times> 'w exec" where
  "run_branch run b x = (case map_of (g_nodes (r_graph run)) (b_name b) of
       None \<Rightarrow> (Inl (NodeNotFound (b_name b)), x)
     | Some node \<Rightarrow>
         (case invoke_node run (b_name b) node (b_family_attempt b)
             ((b_state b)\<lparr>st_reducers := st_reducers (x_state x)\<rparr>) (x_io x) of
            (r, s, io) \<Rightarrow>
              (let x1 = x\<lparr>x_state := (x_state x)\<lparr>st_reducers := st_reducers s\<rparr>, x_io := io\<rparr>
               in case r of Inl e \<Rightarrow> (Inl e, x1) | Inr output \<Rightarrow> (Inr (b_name b, s, output), x1))))"

text \<open>\<open>join_next\<close>: the branch that finishes next, and the others.\<close>

definition pick_branch :: "'w run \<Rightarrow> branch list \<Rightarrow> 'w exec \<Rightarrow> branch \<times> branch list" where
  "pick_branch run join_set x =
     (let i = env_pick (r_env run) (map b_name join_set) (io_world (x_io x)) mod length join_set
      in (join_set ! i, take i join_set @ drop (Suc i) join_set))"

lemma pick_branch_length:
  "join_set \<noteq> [] \<Longrightarrow> pick_branch run join_set x = (b, rest) \<Longrightarrow> length join_set = Suc (length rest)"
proof -
  assume ne: "join_set \<noteq> []" and p: "pick_branch run join_set x = (b, rest)"
  define i where "i = env_pick (r_env run) (map b_name join_set) (io_world (x_io x)) mod length join_set"
  have "i < length join_set" using ne by (simp add: i_def)
  moreover have "rest = take i join_set @ drop (Suc i) join_set"
    using p by (simp add: pick_branch_def i_def Let_def)
  ultimately show ?thesis by simp
qed

text \<open>One turn of the loop over \<open>join_next\<close> up to the branch's result.\<close>

definition join_one ::
    "'w run \<Rightarrow> branch list \<Rightarrow> string list \<Rightarrow> 'w exec
      \<Rightarrow> (branch_result \<times> branch list \<times> string list) result \<times> 'w exec" where
  "join_one run join_set active x =
     (case pick_branch run join_set x of (b, rest) \<Rightarrow>
      case env_panic (r_env run) (b_name b) (io_world (x_io x)) of
        Some message \<Rightarrow>
          (Inl (ExecutionError message),
           cancel_siblings run (map b_name (b # rest)) active x)
      | None \<Rightarrow> (case run_branch run b x of
            (Inl e, x1) \<Rightarrow> (Inl e, cancel_siblings run (map b_name rest) active x1)
          | (Inr r, x1) \<Rightarrow> (Inr (r, rest, remove1 (b_name b) active), x1)))"

lemma join_one_length:
  "join_set \<noteq> [] \<Longrightarrow> join_one run join_set active x = (Inr (r, rest, active1), x1) \<Longrightarrow>
   length join_set = Suc (length rest)"
  by (auto simp: join_one_def split: prod.splits option.splits sum.splits
      dest: pick_branch_length)

lemma spawn_length:
  "spawn_parallel_branch run name join_set x = (Inr join_set1, x1) \<Longrightarrow>
   length join_set1 = Suc (length join_set)"
  by (auto simp: spawn_parallel_branch_def Let_def split: option.splits)

function join_branches ::
    "'w run \<Rightarrow> string list \<Rightarrow> branch list \<Rightarrow> string list \<Rightarrow> branch_result list \<Rightarrow> 'w exec
      \<Rightarrow> branch_result list result \<times> 'w exec" where
  "join_branches run pending join_set active results x =
     (if join_set = [] then (Inr results, x)
      else case join_one run join_set active x of
        (Inl e, x1) \<Rightarrow> (Inl e, x1)
      | (Inr (r, rest, active1), x1) \<Rightarrow>
          (case pending of
             [] \<Rightarrow> join_branches run [] rest active1 (results @ [r]) x1
           | name # pending1 \<Rightarrow>
               (case spawn_parallel_branch run name rest x1 of
                  (Inl e, x2) \<Rightarrow> (Inl e, abort_branches run (map b_name rest) x2)
                | (Inr join_set1, x2) \<Rightarrow>
                    join_branches run pending1 join_set1 (insert_name name active1)
                      (results @ [r]) x2)))"
  by pat_completeness auto

termination
  by (relation "measure (\<lambda>(run, pending, join_set, active, results, x).
      2 * length pending + length join_set)")
    (auto dest!: join_one_length [OF _ sym] spawn_length [OF sym])

declare join_branches.simps [simp del]

fun spawn_all ::
    "'w run \<Rightarrow> string list \<Rightarrow> branch list \<Rightarrow> 'w exec \<Rightarrow> branch list result \<times> 'w exec" where
  "spawn_all run [] join_set x = (Inr join_set, x)"
| "spawn_all run (name # names) join_set x = (case spawn_parallel_branch run name join_set x of
       (Inl e, x1) \<Rightarrow> (Inl e, abort_branches run (map b_name join_set) x1)
     | (Inr join_set1, x1) \<Rightarrow> spawn_all run names join_set1 x1)"

text \<open>
  The position of a node in the superstep; a later duplicate overwrites an earlier one in
  the map the code builds, and a missing name counts as \<open>usize::MAX\<close>.
\<close>

definition superstep_position :: "string list \<Rightarrow> string \<Rightarrow> nat" where
  "superstep_position current name =
     (case map_of (rev (zip current [0..<length current])) name of
        Some i \<Rightarrow> i | None \<Rightarrow> 2 ^ 64 - 1)"

fun resolve_outputs ::
    "'w run \<Rightarrow> branch_result list \<Rightarrow> 'w exec \<Rightarrow> string list result \<times> 'w exec" where
  "resolve_outputs run [] x = (Inr [], x)"
| "resolve_outputs run ((name, _, output) # rs) x =
     exec_then (resolve_output run name output x) (\<lambda>ts x1.
     exec_then (resolve_outputs run rs x1) (\<lambda>us x2. (Inr (ts @ us), x2)))"

definition merge_branches ::
    "'w run \<Rightarrow> state_map \<Rightarrow> branch_result list \<Rightarrow> 'w exec \<Rightarrow> unit result \<times> 'w exec" where
  "merge_branches run snap branches x =
     (case merge_parallel_states (env_size (r_env run)) snap branches (x_state x) of
        (r, s) \<Rightarrow> (r, x\<lparr>x_state := s\<rparr>))"

text \<open>Spawning the first branches and joining them all.\<close>

definition run_branches ::
    "'w run \<Rightarrow> string list \<Rightarrow> 'w exec \<Rightarrow> branch_result list result \<times> 'w exec" where
  "run_branches run current x =
     (let n = max 1 (cfg_max_parallelism (r_config run));
          first = take n current
      in exec_then (spawn_all run first [] x) (\<lambda>join_set x1.
           join_branches run (drop n current) join_set (remdups first) [] x1))"

definition sort_results :: "string list \<Rightarrow> branch_result list \<Rightarrow> branch_result list" where
  "sort_results current results =
     sort_key (\<lambda>(name, _, _). superstep_position current name) results"

definition execute_parallel ::
    "'w run \<Rightarrow> string list \<Rightarrow> 'w exec \<Rightarrow> string list result \<times> 'w exec" where
  "execute_parallel run current x =
     (let snap = export (x_state x)
      in exec_then (run_branches run current x) (\<lambda>results x1.
         let branch_results = sort_results current results
         in exec_then (merge_branches run snap branch_results x1) (\<lambda>_ x2.
            resolve_outputs run branch_results x2)))"

definition execute_superstep ::
    "'w run \<Rightarrow> string list \<Rightarrow> 'w exec \<Rightarrow> string list result \<times> 'w exec" where
  "execute_superstep run current x = (case current of
       [name] \<Rightarrow> exec_then (execute_single_node run name x) (\<lambda>output x1.
         resolve_output run name output x1)
     | _ \<Rightarrow> execute_parallel run current x)"

end
