(* ===== verification/Engine_Run.thy ===== *)
theory Engine_Run
  imports Engine Run_Ledger
begin

text \<open>
  \<open>engine.rs\<close>: checkpoints and interrupts around a superstep, the main loop of
  \<open>execute_inner\<close>, the run with its terminal record and summary, and the entry points of
  \<open>AgentGraph\<close> that execute (\<open>graph.rs\<close>: \<open>resume\<close>, the subgraph node).
\<close>

section \<open>Checkpoints and interrupts\<close>

text \<open>The result of \<open>checkpointer.save\<close> is ignored.\<close>

definition save_checkpoint ::
    "'w run \<Rightarrow> string \<Rightarrow> nat \<Rightarrow> nat \<Rightarrow> string list \<Rightarrow> 'w exec \<Rightarrow> 'w exec" where
  "save_checkpoint run current_node iteration step active x =
     (case (g_checkpointer (r_graph run), cfg_thread_id (r_config run)) of
        (Some saver, Some thread_id) \<Rightarrow>
          (let now = env_now (r_env run) (io_world (x_io x));
               cp = \<lparr>cp_execution_id = thread_id, cp_timestamp = now,
                 cp_current_node = current_node, cp_iteration = iteration,
                 cp_state = snapshot now (x_state x), cp_step_number = step,
                 cp_active_nodes = active\<rparr>
           in snd (with_io (on_world (cps_save saver cp)) x))
      | _ \<Rightarrow> x)"

definition save_snapshot :: "'w run \<Rightarrow> 'w exec \<Rightarrow> unit result \<times> 'w exec" where
  "save_snapshot run x = (case g_checkpoint_store (r_graph run) of
       None \<Rightarrow> (Inr (), x)
     | Some store \<Rightarrow>
         (case with_io (on_world (cs_save_state_snapshot store (r_run_id run)
             (export (x_state x)))) x of
            (Inl e, x') \<Rightarrow> (Inl (checkpoint_store_error SaveStateSnapshot e), x')
          | (Inr _, x') \<Rightarrow> (Inr (), x')))"

text \<open>The first node of the superstep that is an interrupt point.\<close>

definition interrupt_point ::
    "(interrupt_config \<Rightarrow> string \<Rightarrow> bool) \<Rightarrow> 'w run \<Rightarrow> string list \<Rightarrow> string option" where
  "interrupt_point here run current = (case g_interrupt_config (r_graph run) of
       None \<Rightarrow> None
     | Some cfg \<Rightarrow> find (here cfg) current)"

definition check_interrupt_before ::
    "'w run \<Rightarrow> nat \<Rightarrow> nat \<Rightarrow> string list \<Rightarrow> 'w exec \<Rightarrow> unit result \<times> 'w exec" where
  "check_interrupt_before run iteration step current x =
     (case interrupt_point should_interrupt_before run current of
        None \<Rightarrow> (Inr (), x)
      | Some node \<Rightarrow>
          (let x1 = exec_emit (InterruptRaised (header run) node ''before'' Null) x;
               x2 = save_checkpoint run node iteration step current x1
           in exec_then (save_snapshot run x2) (\<lambda>_ x3. (Inl (InterruptError node None), x3))))"

definition check_interrupt_after ::
    "'w run \<Rightarrow> nat \<Rightarrow> nat \<Rightarrow> string list \<Rightarrow> string list \<Rightarrow> 'w exec \<Rightarrow> unit result \<times> 'w exec"
where
  "check_interrupt_after run iteration step current next_nodes x =
     (case interrupt_point should_interrupt_after run current of
        None \<Rightarrow> (Inr (), x)
      | Some node \<Rightarrow>
          (let x1 = save_checkpoint run node iteration step next_nodes x
           in exec_then (save_snapshot run x1) (\<lambda>_ x2. (Inl (InterruptError node None), x2))))"

section \<open>The main loop\<close>

definition dedup_next_nodes :: "string list \<Rightarrow> string list" where
  "dedup_next_nodes next_nodes = retain_unseen [] next_nodes"

definition run_superstep ::
    "'w run \<Rightarrow> nat \<Rightarrow> nat \<Rightarrow> string list \<Rightarrow> 'w exec \<Rightarrow> string list result \<times> 'w exec" where
  "run_superstep run iteration step current x =
     (let x0 = exec_emit (SuperstepStart (header run) step current) x
      in exec_then (check_interrupt_before run iteration step current x0) (\<lambda>_ x1.
         exec_then (execute_superstep run current x1) (\<lambda>next_nodes x2.
         exec_then (check_interrupt_after run iteration step current next_nodes x2) (\<lambda>_ x3.
         let x4 = save_checkpoint run (case current of n # _ \<Rightarrow> n | [] \<Rightarrow> [])
               iteration step next_nodes x3
         in exec_then (save_snapshot run x4) (\<lambda>_ x5.
            (Inr (dedup_next_nodes next_nodes), exec_emit (SuperstepEnd (header run) step) x5))))))"

definition max_iter :: "'w run \<Rightarrow> nat" where
  "max_iter run = min (cfg_recursion_limit (r_config run)) (g_max_iterations (r_graph run))"

definition poll_cancel :: "'w run \<Rightarrow> 'w exec \<Rightarrow> bool \<times> 'w exec" where
  "poll_cancel run = with_io (on_world (env_poll_cancel (r_env run)))"

text \<open>\<open>max_iter * 2\<close> is a \<open>usize\<close> product, which wraps in a release build.\<close>

definition cycle_detected :: "'w run \<Rightarrow> nat \<Rightarrow> bool" where
  "cycle_detected run step \<longleftrightarrow>
     g_enable_cycle_detection (r_graph run) \<and> (max_iter run * 2) mod 2 ^ 64 < step"

function superstep_loop ::
    "'w run \<Rightarrow> nat \<Rightarrow> nat \<Rightarrow> string list \<Rightarrow> 'w exec \<Rightarrow> agent_state result \<times> 'w exec" where
  "superstep_loop run iteration step superstep x =
     (let current = filter (\<lambda>n. n \<noteq> END) superstep
      in if current = [] then (Inr (x_state x), x)
         else case poll_cancel run x of
           (True, x1) \<Rightarrow> (Inl Cancelled, x1)
         | (False, x1) \<Rightarrow>
             if max_iter run \<le> iteration
             then (Inl (MaxIterationsExceeded iteration (max_iter run)), x1)
             else if cycle_detected run step then (Inl (CycleDetected current), x1)
             else (case run_superstep run iteration step current x1 of
                 (Inl e, x2) \<Rightarrow> (Inl e, x2)
               | (Inr next_nodes, x2) \<Rightarrow>
                   superstep_loop run (Suc iteration) (Suc step) next_nodes x2))"
  by pat_completeness auto
termination
  by (relation "measure (\<lambda>(run, iteration, step, superstep, x). max_iter run - iteration)") auto

declare superstep_loop.simps [simp del]

definition execute_inner :: "'w run \<Rightarrow> string \<Rightarrow> 'w exec \<Rightarrow> agent_state result \<times> 'w exec" where
  "execute_inner run start_node x =
     exec_then (if start_node = START then get_edge_targets run START x
         else (Inr [start_node], x))
       (\<lambda>superstep x1. superstep_loop run 0 0 superstep x1)"

section \<open>A run\<close>

definition build_run_summary :: "'w run \<Rightarrow> run_status \<Rightarrow> 'w exec \<Rightarrow> run_summary" where
  "build_run_summary run status x =
     \<lparr>sum_run_id = r_run_id run,
      sum_graph_name = (case g_graph_name (r_graph run) of Some n \<Rightarrow> n | None \<Rightarrow> ''unnamed''),
      sum_status = status,
      sum_total_nodes_executed = length (x_executed_nodes x),
      sum_total_attempts = x_total_attempts x,
      sum_failed_attempts = x_failed_attempts x,
      sum_trace_id = Some (legacy_trace_id run),
      sum_trace_ctx = Some (r_trace_ctx run),
      sum_started_at = r_started_at run,
      sum_finished_at = Some (env_now (r_env run) (io_world (x_io x)))\<rparr>"

definition unstarted_run_summary :: "'w env \<Rightarrow> 'w agent_graph \<Rightarrow> trace_ctx \<Rightarrow> 'w \<Rightarrow> run_summary" where
  "unstarted_run_summary env g ctx w =
     \<lparr>sum_run_id = [],
      sum_graph_name = (case g_graph_name g of Some n \<Rightarrow> n | None \<Rightarrow> ''unnamed''),
      sum_status = Run_failed, sum_total_nodes_executed = 0, sum_total_attempts = 0,
      sum_failed_attempts = 0, sum_trace_id = Some (env_legacy_trace_id env ctx),
      sum_trace_ctx = Some ctx, sum_started_at = env_now env w,
      sum_finished_at = Some (env_now env w)\<rparr>"

definition record_terminal ::
    "'w run \<Rightarrow> agent_state result \<Rightarrow> 'w exec \<Rightarrow> agent_state result \<times> 'w exec" where
  "record_terminal run result x = (case g_checkpoint_store (r_graph run) of
       None \<Rightarrow> (result, x)
     | Some store \<Rightarrow> (case result of
           Inr s \<Rightarrow> (case with_io (on_world (cs_complete_run store (r_run_id run))) x of
               (Inl e, x') \<Rightarrow> (Inl (checkpoint_store_error CompleteRun e), x')
             | (Inr _, x') \<Rightarrow> (Inr s, x'))
         | Inl error \<Rightarrow>
             (case with_io (on_world (cs_fail_run store (r_run_id run)
                 (if error = Cancelled then ''cancelled'' else error_text error))) x of
                (Inl e, x') \<Rightarrow> (Inl (checkpoint_store_error FailRun e), x')
              | (Inr _, x') \<Rightarrow> (Inl error, x'))))"

definition result_status :: "agent_state result \<Rightarrow> run_status" where
  "result_status result = (case result of
       Inr _ \<Rightarrow> Run_completed
     | Inl e \<Rightarrow> if e = Cancelled then Run_cancelled
         else if is_interrupt e then Run_interrupted else Run_failed)"

definition execute ::
    "'w run \<Rightarrow> string \<Rightarrow> 'w exec \<Rightarrow> (agent_state result \<times> run_summary) \<times> 'w exec" where
  "execute run start_node x =
     (let x0 = exec_emit (RunStart (header run) (g_graph_name (r_graph run))) x
      in case execute_inner run start_node x0 of (inner, x1) \<Rightarrow>
         case record_terminal run inner x1 of (result, x2) \<Rightarrow>
           ((result, build_run_summary run (result_status result) x2),
            exec_emit (RunEnd (header run)) x2))"

section \<open>The entry points of the graph\<close>

definition start_exec :: "agent_state \<Rightarrow> 'w \<Rightarrow> 'w exec" where
  "start_exec s w = \<lparr>x_state = s, x_total_attempts = 0, x_failed_attempts = 0,
     x_executed_nodes = [], x_io = \<lparr>io_events = [], io_world = w\<rparr>\<rparr>"

text \<open>
  What the entry points share: reducers are registered on the state, a run id is created,
  and the executor runs. The outcome is \<open>Inl\<close> when no run could be created. The third
  component is the shared storage the caller's handle of the state sees afterwards.
\<close>

definition launch ::
    "'w env \<Rightarrow> 'w agent_graph \<Rightarrow> string \<Rightarrow> agent_state \<Rightarrow> graph_config \<Rightarrow> 'w
      \<Rightarrow> (graph_error + agent_state result) \<times> run_summary \<times> agent_state \<times> 'w io" where
  "launch env g start_node state config w =
     (let s = register_reducers_on_state g state;
          ctx = resolve_trace_ctx (env_from_legacy env) (env_new_trace_ctx env w) config
      in case create_run_id env g w of
           (Inl e, w1) \<Rightarrow>
             (Inl e, unstarted_run_summary env g ctx w1, s, \<lparr>io_events = [], io_world = w1\<rparr>)
         | (Inr run_id, w1) \<Rightarrow>
             (case execute \<lparr>r_env = env, r_graph = g, r_config = config, r_run_id = run_id,
                  r_trace_ctx = ctx, r_started_at = env_now env w1\<rparr> start_node
                  (start_exec s w1) of
                ((result, summary), x) \<Rightarrow> (Inr result, summary, x_state x, x_io x)))"

definition uncancellable :: "'w env \<Rightarrow> 'w env" where
  "uncancellable env = env\<lparr>env_poll_cancel := \<lambda>w. (False, w)\<rparr>"

definition execute_with_summary ::
    "'w env \<Rightarrow> 'w agent_graph \<Rightarrow> string \<Rightarrow> agent_state \<Rightarrow> graph_config \<Rightarrow> 'w
      \<Rightarrow> (agent_state result \<times> run_summary) \<times> 'w io" where
  "execute_with_summary env g start_node state config w =
     (case launch (uncancellable env) g start_node state config w of
        (Inl e, summary, _, io) \<Rightarrow> ((Inl e, summary), io)
      | (Inr result, summary, _, io) \<Rightarrow> ((result, summary), io))"

definition execute_with_config ::
    "'w env \<Rightarrow> 'w agent_graph \<Rightarrow> string \<Rightarrow> agent_state \<Rightarrow> graph_config \<Rightarrow> 'w
      \<Rightarrow> agent_state result \<times> 'w io" where
  "execute_with_config env g start_node state config w =
     (case execute_with_summary env g start_node state config w of
        ((result, _), io) \<Rightarrow> (result, io))"

definition execute_default ::
    "'w env \<Rightarrow> 'w agent_graph \<Rightarrow> string \<Rightarrow> agent_state \<Rightarrow> 'w \<Rightarrow> agent_state result \<times> 'w io" where
  "execute_default env g start_node state w =
     execute_with_config env g start_node state default_config w"

text \<open>The cancellable execution polls the flag it returns to the caller.\<close>

definition execute_cancellable ::
    "'w env \<Rightarrow> 'w agent_graph \<Rightarrow> string \<Rightarrow> agent_state \<Rightarrow> graph_config \<Rightarrow> 'w
      \<Rightarrow> agent_state result \<times> 'w io" where
  "execute_cancellable env g start_node state config w =
     (case launch env g start_node state config w of
        (Inl e, _, _, io) \<Rightarrow> (Inl e, io)
      | (Inr result, _, _, io) \<Rightarrow> (result, io))"

text \<open>
  The streaming execution hands its events to the channel, and to the configured sink.
\<close>

definition stream_run ::
    "(graph_event \<Rightarrow> 'c \<Rightarrow> 'c) \<Rightarrow> 'c event_sink option \<Rightarrow> 'w env \<Rightarrow> 'w agent_graph \<Rightarrow> string
      \<Rightarrow> agent_state \<Rightarrow> graph_config \<Rightarrow> 'w \<Rightarrow> agent_state result \<times> 'c event_sink \<times> 'w" where
  "stream_run cb sink env g start_node state config w =
     (case execute_with_config env g start_node state config w of (result, io) \<Rightarrow>
        (result,
         fold (emit_to cb) (io_events io) (resolve_event_sink sink (Some stream_channel)),
         io_world io))"

datatype execution_result =
    Complete agent_state
  | Interrupted agent_state string "value option" "interrupt_checkpoint option"
  | Failed graph_error agent_state

text \<open>
  \<open>state_clone\<close> shares the storage of the state the run works on, so the state of an
  interrupted or failed run is what the run left.
\<close>

definition execution_result_of ::
    "string \<Rightarrow> agent_state result \<Rightarrow> agent_state \<Rightarrow> execution_result" where
  "execution_result_of graph_hash result shared = (case result of
       Inr s \<Rightarrow> Complete s
     | Inl (InterruptError node v) \<Rightarrow> Interrupted shared node v
         (Some \<lparr>resume_node = node, resume_before = False, icp_iteration = 0,
            icp_active_nodes = [], icp_graph_hash = Some graph_hash\<rparr>)
     | Inl e \<Rightarrow> Failed e shared)"

definition execute_with_interrupt ::
    "'w env \<Rightarrow> 'w agent_graph \<Rightarrow> string \<Rightarrow> agent_state \<Rightarrow> graph_config \<Rightarrow> 'w
      \<Rightarrow> execution_result \<times> 'w io" where
  "execute_with_interrupt env g start_node state config w =
     (case launch (uncancellable env) g start_node state config w of
        (Inl e, _, shared, io) \<Rightarrow> (Failed e shared, io)
      | (Inr result, _, shared, io) \<Rightarrow>
          (execution_result_of (compute_graph_hash env g) result shared, io))"

definition resume_force ::
    "'w env \<Rightarrow> 'w agent_graph \<Rightarrow> agent_state \<Rightarrow> graph_config \<Rightarrow> interrupt_checkpoint \<Rightarrow> 'w
      \<Rightarrow> agent_state result \<times> 'w io" where
  "resume_force env g state config cp w =
     execute_with_config env g (resume_node cp) state config w"

definition resume ::
    "'w env \<Rightarrow> 'w agent_graph \<Rightarrow> agent_state \<Rightarrow> graph_config \<Rightarrow> interrupt_checkpoint \<Rightarrow> 'w
      \<Rightarrow> agent_state result \<times> 'w io" where
  "resume env g state config cp w =
     (case icp_graph_hash cp of
        Some saved_hash \<Rightarrow>
          if saved_hash \<noteq> compute_graph_hash env g
          then (Inl (CheckpointMismatch saved_hash (compute_graph_hash env g)),
                \<lparr>io_events = [], io_world = w\<rparr>)
          else execute_with_config env g (resume_node cp) state config w
      | None \<Rightarrow> execute_with_config env g (resume_node cp) state config w)"

section \<open>A graph as a node\<close>

text \<open>
  The subgraph works on a fork; its final state is written back with \<open>set\<close>, one key at a
  time, the same loop as the updates of a command.
\<close>

definition subgraph_node :: "'w env \<Rightarrow> 'w agent_graph \<Rightarrow> 'w node" where
  "subgraph_node env g state config w =
     (case subgraph_start g of
        Inl e \<Rightarrow> (Inl e, state, w)
      | Inr start_node \<Rightarrow>
          (case launch (uncancellable env) g start_node (fork state) config w of
             (Inl e, _, shared, io) \<Rightarrow>
               (Inl e, state\<lparr>st_reducers := st_reducers shared\<rparr>, io_world io)
           | (Inr (Inl e), _, shared, io) \<Rightarrow>
               (Inl e, state\<lparr>st_reducers := st_reducers shared\<rparr>, io_world io)
           | (Inr (Inr final), _, shared, io) \<Rightarrow>
               (case apply_updates (env_size env) (export final)
                   (state\<lparr>st_reducers := st_reducers shared\<rparr>) of
                  (Inl e, s) \<Rightarrow> (Inl e, s, io_world io)
                | (Inr _, s) \<Rightarrow> (Inr Node_done, s, io_world io))))"

definition add_subgraph ::
    "'w env \<Rightarrow> string \<Rightarrow> 'w agent_graph \<Rightarrow> 'w graph_builder \<Rightarrow> 'w graph_builder" where
  "add_subgraph env name g b = b\<lparr>g_nodes := AList.update name (subgraph_node env g) (g_nodes b)\<rparr>"

end
