(* ===== verification/Engine_Trace.thy ===== *)
theory Engine_Trace
  imports Engine_Run
begin

text \<open>
  The event log of a run. Everything inside a superstep emits only node-level events;
  the run-level events (run start and end, superstep start and end) therefore form a
  fixed pattern bounded by the iteration limit. And a retry family starts no more
  trials than its policy allows.
\<close>

section \<open>Run-level events\<close>

fun is_mark :: "graph_event \<Rightarrow> bool" where
  "is_mark (RunStart _ _) = True"
| "is_mark (RunEnd _) = True"
| "is_mark (SuperstepStart _ _ _) = True"
| "is_mark (SuperstepEnd _ _) = True"
| "is_mark _ = False"

definition marks :: "'w io \<Rightarrow> graph_event list" where
  "marks io = filter is_mark (io_events io)"

lemma marks_emit [simp]: "marks (emit e io) = marks io @ (if is_mark e then [e] else [])"
  by (simp add: marks_def)

lemma marks_world [simp]: "marks (io\<lparr>io_world := w\<rparr>) = marks io"
  by (simp add: marks_def)

lemma marks_on_world: "on_world f io = (a, io') \<Longrightarrow> marks io' = marks io"
  by (metis marks_def on_world_simps(3) snd_conv)

lemma marks_exec_emit [simp]:
  "marks (x_io (exec_emit e x)) = marks (x_io x) @ (if is_mark e then [e] else [])"
  by (simp add: exec_emit_def)

section \<open>Node-level steps leave them alone\<close>

lemma marks_begin_trial: "begin_trial p t i s io = (r, io') \<Longrightarrow> marks io' = marks io"
  by (auto simp: begin_trial_def Let_def split: option.splits prod.splits sum.splits
      dest!: marks_on_world)

lemma marks_record_failure: "record_failure p c e io = (r, io') \<Longrightarrow> marks io' = marks io"
  by (auto simp: record_failure_def split: option.splits prod.splits sum.splits
      dest!: marks_on_world)

lemma marks_complete_trial:
  "complete_trial env p t c out s io = (r, s', io') \<Longrightarrow> marks io' = marks io"
  by (auto simp: complete_trial_def Let_def split: option.splits prod.splits sum.splits
      dest!: marks_on_world marks_record_failure)

lemma marks_wait: "wait_backoff env d io = (b, io') \<Longrightarrow> marks io' = marks io"
proof (induction env d io arbitrary: b io' rule: wait_backoff.induct)
  case (1 env remaining io)
  obtain c io1 where p: "on_world (env_poll_cancel env) io = (c, io1)"
    by (cases "on_world (env_poll_cancel env) io")
  have m: "marks io1 = marks io" using p by (rule marks_on_world)
  show ?case
  proof (cases "c \<or> remaining \<le> min tick remaining")
    case True
    then show ?thesis
      using "1.prems" p m unfolding wait_backoff.simps [of env remaining io]
      by (auto simp: Let_def split: bool.splits if_splits)
  next
    case False
    then have p': "on_world (env_poll_cancel env) io = (False, io1)" using p by simp
    have "wait_backoff env (remaining - min tick remaining)
        (io1\<lparr>io_world := env_sleep env (min tick remaining) (io_world io1)\<rparr>) = (b, io')"
      using "1.prems" p' False unfolding wait_backoff.simps [of env remaining io]
      by (simp add: Let_def)
    then show ?thesis
      using "1.IH" [OF p' [symmetric] refl refl refl] False m by simp
  qed
qed

lemma marks_fail_trial: "fail_trial env p t c i e io = (r, io') \<Longrightarrow> marks io' = marks io"
  by (auto simp: fail_trial_def Let_def
      split: option.splits prod.splits sum.splits if_splits bool.splits
      dest!: marks_record_failure marks_wait)

lemma marks_run_trial: "run_trial env f p i s io = (r, s', io') \<Longrightarrow> marks io' = marks io"
  by (auto simp: run_trial_def Let_def split: prod.splits sum.splits
      dest!: marks_on_world marks_begin_trial marks_complete_trial marks_fail_trial)

lemma marks_family: "attempt_family env f p i s io = (r, s', io') \<Longrightarrow> marks io' = marks io"
proof (induction env f p i s io arbitrary: r s' io' rule: attempt_family.induct)
  case (1 env f p i s io)
  show ?case
  proof (cases "family_max_attempts (ap_retry p) \<le> i")
    case True
    then show ?thesis
      using "1.prems" by (subst (asm) attempt_family.simps)
        (auto split: prod.splits dest!: marks_on_world)
  next
    case False
    obtain c io1 where p: "on_world (env_poll_cancel env) io = (c, io1)"
      by (cases "on_world (env_poll_cancel env) io")
    obtain e s1 io2 where t: "run_trial env f p i s io1 = (e, s1, io2)"
      by (cases "run_trial env f p i s io1")
    note m = marks_on_world [OF p] marks_run_trial [OF t]
    show ?thesis
    proof (cases c)
      case True
      then show ?thesis
        using "1.prems" False p m by (subst (asm) attempt_family.simps)
          (auto split: prod.splits dest!: marks_on_world)
    next
      case no: False
      show ?thesis
      proof (cases e)
        case (Family_ends q)
        then show ?thesis
          using "1.prems" False p t m no by (subst (asm) attempt_family.simps) simp
      next
        case Try_again
        then have rest: "attempt_family env f p (Suc i) s1 io2 = (r, s', io')"
          using "1.prems" False p t no by (subst (asm) attempt_family.simps) simp
        have p': "on_world (env_poll_cancel env) io = (False, io1)" using p no by simp
        have t': "run_trial env f p i s io1 = (Try_again, s1, io2)" using t Try_again by simp
        show ?thesis
          using "1.IH" [OF False p' [symmetric] refl t' [symmetric] refl refl rest] m by simp
      qed
    qed
  qed
qed

lemma marks_invoke: "invoke_node run n node c s io = (r, s', io') \<Longrightarrow> marks io' = marks io"
  by (auto simp: invoke_node_def report_success_def report_failure_def Let_def
      split: prod.splits sum.splits dest!: marks_on_world marks_family)

definition quiet :: "'a \<times> 'w exec \<Rightarrow> 'w exec \<Rightarrow> bool" where
  "quiet p x \<longleftrightarrow> marks (x_io (snd p)) = marks (x_io x)"

lemma quiet_pair [simp]: "quiet (a, y) x \<longleftrightarrow> marks (x_io y) = marks (x_io x)"
  by (simp add: quiet_def)

lemma quiet_then:
  "quiet p x \<Longrightarrow> (\<And>a y. p = (Inr a, y) \<Longrightarrow> quiet (f a y) y) \<Longrightarrow> quiet (exec_then p f) x"
  by (cases p; cases "fst p") (auto simp: quiet_def exec_then_def)

lemma quiet_single: "quiet (execute_single_node run n x) x"
  by (auto simp: execute_single_node_def Let_def split: option.splits prod.splits sum.splits
      dest!: marks_invoke)

lemma quiet_edge_list: "quiet (edge_list_targets run es x) x"
proof (induction run es x rule: edge_list_targets.induct)
  case (2 run t es x)
  then show ?case by (auto intro!: quiet_then)
next
  case (3 run router es x)
  obtain q s w where r: "rt_route router (x_state x) (r_config run) (io_world (x_io x)) = (q, s, w)"
    by (cases "rt_route router (x_state x) (r_config run) (io_world (x_io x))")
  let ?y = "x\<lparr>x_state := s, x_io := (x_io x)\<lparr>io_world := w\<rparr>\<rparr>"
  show ?case
  proof (cases q)
    case (Inl e)
    then show ?thesis using r by simp
  next
    case (Inr out)
    have "quiet (edge_list_targets run es ?y) ?y"
      using "3.IH" [OF r [symmetric] Inr refl] by simp
    then have "quiet (edge_list_targets run es ?y) x" by (simp add: quiet_def)
    then show ?thesis using r Inr by (auto intro!: quiet_then)
  qed
qed simp

lemma quiet_resolve: "quiet (resolve_output run n out x) x"
  by (auto simp: resolve_output_def get_edge_targets_def quiet_edge_list
      split: node_output.splits navigation.splits option.splits)

lemma quiet_spawn: "quiet (spawn_parallel_branch run n js x) x"
  by (auto simp: spawn_parallel_branch_def Let_def split: option.splits)

lemma marks_abort [simp]: "marks (x_io (abort_branches run ns x)) = marks (x_io x)"
proof -
  have "\<not> is_mark e" if "branch_event ns e" for e
    using that by (cases e) simp_all
  then have "filter is_mark (filter (branch_event ns) es) = []" for es
    by (auto simp: filter_empty_conv)
  then show ?thesis by (simp add: abort_branches_def marks_def split: prod.splits)
qed

lemma marks_fold_emit:
  "(\<And>n. \<not> is_mark (f n)) \<Longrightarrow> marks (x_io (fold (\<lambda>n. exec_emit (f n)) ns x)) = marks (x_io x)"
  by (induction ns arbitrary: x) simp_all

lemma marks_cancel [simp]: "marks (x_io (cancel_siblings run ns active x)) = marks (x_io x)"
  by (simp add: cancel_siblings_def Let_def marks_fold_emit)

lemma quiet_run_branch: "quiet (run_branch run b x) x"
  by (auto simp: run_branch_def Let_def split: option.splits prod.splits sum.splits
      dest!: marks_invoke)

lemma quiet_join_one: "quiet (join_one run js active x) x"
proof -
  obtain b rest where pb: "pick_branch run js x = (b, rest)" by (cases "pick_branch run js x")
  obtain q x1 where rb: "run_branch run b x = (q, x1)" by (cases "run_branch run b x")
  have "marks (x_io x1) = marks (x_io x)"
    using quiet_run_branch [of run b x] rb by simp
  then show ?thesis
    using pb rb by (cases q) (auto simp: join_one_def split: option.splits)
qed

lemma quiet_join: "quiet (join_branches run pending js active results x) x"
proof (induction run pending js active results x rule: join_branches.induct)
  case (1 run pending js active results x)
  show ?case
  proof (cases "js = []")
    case True
    then show ?thesis by (simp add: join_branches.simps)
  next
    case False
    note unfold_join = join_branches.simps [of run _ js]
    obtain q x1 where one: "join_one run js active x = (q, x1)"
      by (cases "join_one run js active x")
    have m1: "marks (x_io x1) = marks (x_io x)"
      using quiet_join_one [of run js active x] one by simp
    show ?thesis
    proof (cases q)
      case (Inl e)
      then show ?thesis using False one m1 by (simp add: unfold_join)
    next
      case (Inr t)
      obtain r rest active1 where t: "t = (r, rest, active1)" by (cases t)
      have one': "join_one run js active x = (Inr (r, rest, active1), x1)"
        using one Inr t by simp
      show ?thesis
      proof (cases pending)
        case Nil
        from "1.IH"(1) [OF False one' [symmetric] refl refl refl Nil]
        show ?thesis using False one' Nil m1 by (simp add: unfold_join quiet_def)
      next
        case (Cons name pending1)
        obtain js1 x2 where sp: "spawn_parallel_branch run name rest x1 = (js1, x2)"
          by (cases "spawn_parallel_branch run name rest x1")
        have m2: "marks (x_io x2) = marks (x_io x1)"
          using quiet_spawn [of run name rest x1] sp by simp
        from "1.IH"(2) [OF False one' [symmetric] refl refl refl Cons sp [symmetric]]
        show ?thesis using False one' Cons sp m1 m2
          by (cases js1) (simp_all add: unfold_join quiet_def)
      qed
    qed
  qed
qed

lemma quiet_spawn_all: "quiet (spawn_all run ns js x) x"
proof (induction ns arbitrary: js x)
  case Nil
  then show ?case by simp
next
  case (Cons n ns)
  obtain q x1 where sp: "spawn_parallel_branch run n js x = (q, x1)"
    by (cases "spawn_parallel_branch run n js x")
  have "marks (x_io x1) = marks (x_io x)"
    using quiet_spawn [of run n js x] sp by simp
  then show ?case using Cons.IH sp by (cases q) (simp_all add: quiet_def)
qed

lemma quiet_resolve_outputs: "quiet (resolve_outputs run rs x) x"
proof (induction rs arbitrary: x)
  case Nil
  then show ?case by simp
next
  case (Cons r rs)
  obtain n s out where r: "r = (n, s, out)" by (cases r)
  show ?case
    unfolding r resolve_outputs.simps
    by (intro quiet_then quiet_resolve Cons.IH) simp
qed

lemma quiet_superstep: "quiet (execute_superstep run current x) x"
proof -
  have merge: "quiet (merge_branches run snap rs y) y" for snap rs y
    by (simp add: merge_branches_def split: prod.splits)
  have "quiet (execute_parallel run current x) x"
    unfolding execute_parallel_def run_branches_def Let_def
    by (intro quiet_then quiet_spawn_all quiet_join merge quiet_resolve_outputs)
  then show ?thesis
    by (auto simp: execute_superstep_def intro!: quiet_then quiet_single quiet_resolve
        split: list.splits)
qed

lemma marks_with_io: "with_io (on_world f) x = (a, x') \<Longrightarrow> marks (x_io x') = marks (x_io x)"
  by (auto simp: with_io_def split: prod.splits dest!: marks_on_world)

lemma marks_save_checkpoint [simp]:
  "marks (x_io (save_checkpoint run n i j active x)) = marks (x_io x)"
  by (auto simp: save_checkpoint_def Let_def split: option.splits)
     (metis marks_with_io prod.collapse)

lemma quiet_save_snapshot: "quiet (save_snapshot run x) x"
  by (auto simp: save_snapshot_def split: option.splits prod.splits sum.splits
      dest!: marks_with_io)

lemma quiet_save_snapshot': "marks (x_io y) = marks (x_io x) \<Longrightarrow> quiet (save_snapshot run y) x"
  using quiet_save_snapshot [of run y] by (simp add: quiet_def)

lemma quiet_check_before: "quiet (check_interrupt_before run i j current x) x"
  by (auto simp: check_interrupt_before_def Let_def split: option.splits
      intro!: quiet_then quiet_save_snapshot')

lemma quiet_check_after: "quiet (check_interrupt_after run i j current next_nodes x) x"
  by (auto simp: check_interrupt_after_def Let_def split: option.splits
      intro!: quiet_then quiet_save_snapshot')

section \<open>The pattern of a run\<close>

text \<open>What is left of a run-level event: opening or closing, and the step number.\<close>

fun superstep_mark :: "graph_event \<Rightarrow> (bool \<times> nat) option" where
  "superstep_mark (SuperstepStart _ i _) = Some (True, i)"
| "superstep_mark (SuperstepEnd _ i) = Some (False, i)"
| "superstep_mark _ = None"

text \<open>Complete supersteps from \<open>i\<close> up to but excluding \<open>j\<close>, and a last one left open.\<close>

definition closed_steps :: "nat \<Rightarrow> nat \<Rightarrow> (bool \<times> nat) list" where
  "closed_steps i j = concat (map (\<lambda>k. [(True, k), (False, k)]) [i..<j])"

definition superstep_trace :: "nat \<Rightarrow> nat \<Rightarrow> bool \<Rightarrow> (bool \<times> nat) list" where
  "superstep_trace i j aborted = closed_steps i j @ (if aborted then [(True, j)] else [])"

lemma closed_steps_simps [simp]:
  "closed_steps i i = []"
  "i < j \<Longrightarrow> closed_steps i j = (True, i) # (False, i) # closed_steps (Suc i) j"
  by (simp_all add: closed_steps_def upt_rec [of i j])

lemma turn_marks:
  assumes "run_superstep run i j current x = (r, x')"
  shows "marks (x_io x') = marks (x_io x) @ SuperstepStart (header run) j current
    # (case r of Inr _ \<Rightarrow> [SuperstepEnd (header run) j] | Inl _ \<Rightarrow> [])"
proof -
  define x0 where "x0 = exec_emit (SuperstepStart (header run) j current) x"
  have m0: "marks (x_io x0) = marks (x_io x) @ [SuperstepStart (header run) j current]"
    by (simp add: x0_def)
  obtain q1 x1 where s1: "check_interrupt_before run i j current x0 = (q1, x1)"
    by (cases "check_interrupt_before run i j current x0")
  note m1 = quiet_check_before [of run i j current x0, unfolded s1 quiet_pair]
  show ?thesis
  proof (cases q1)
    case (Inl e)
    then show ?thesis using assms s1 m0 m1 by (auto simp: run_superstep_def x0_def Let_def)
  next
    case (Inr u)
    obtain q2 x2 where s2: "execute_superstep run current x1 = (q2, x2)"
      by (cases "execute_superstep run current x1")
    note m2 = quiet_superstep [of run current x1, unfolded s2 quiet_pair]
    show ?thesis
    proof (cases q2)
      case (Inl e)
      then show ?thesis
        using assms s1 s2 m0 m1 m2 Inr by (auto simp: run_superstep_def x0_def Let_def)
    next
      case (Inr ns)
      obtain q3 x3 where s3: "check_interrupt_after run i j current ns x2 = (q3, x3)"
        by (cases "check_interrupt_after run i j current ns x2")
      note m3 = quiet_check_after [of run i j current ns x2, unfolded s3 quiet_pair]
      define x4 where "x4 = save_checkpoint run (case current of n # _ \<Rightarrow> n | [] \<Rightarrow> []) i j ns x3"
      have m4: "marks (x_io x4) = marks (x_io x3)" by (simp add: x4_def)
      obtain q5 x5 where s5: "save_snapshot run x4 = (q5, x5)" by (cases "save_snapshot run x4")
      note m5 = quiet_save_snapshot [of run x4, unfolded s5 quiet_pair]
      show ?thesis
        using assms s1 s2 s3 s5 m0 m1 m2 m3 m4 m5 \<open>q1 = Inr u\<close> Inr
        by (cases q3; cases q5) (auto simp: run_superstep_def x0_def x4_def Let_def)
    qed
  qed
qed

text \<open>
  From step \<open>i\<close> on, the superstep events are complete supersteps \<open>i\<close> up to some \<open>j\<close> within
  the limit, and possibly one that was opened and aborted.
\<close>

lemma loop_marks:
  "superstep_loop run i i superstep x = (r, x') \<Longrightarrow>
   \<exists>new j aborted. marks (x_io x') = marks (x_io x) @ new \<and>
     list_all (\<lambda>e. superstep_mark e \<noteq> None) new \<and>
     List.map_filter superstep_mark new = superstep_trace i j aborted \<and>
     i \<le> j \<and> (j + (if aborted then 1 else 0) \<le> max i (max_iter run)) \<and>
     (aborted \<longrightarrow> (\<exists>e. r = Inl e))"
proof (induction "max_iter run - i" arbitrary: i superstep x r x')
  case base: 0
  have "marks (x_io x') = marks (x_io x)"
    using base.prems base.hyps
    by (subst (asm) superstep_loop.simps)
      (auto simp: Let_def poll_cancel_def split: if_splits prod.splits bool.splits
        dest!: marks_with_io)
  then show ?case
    by (intro exI [of _ "[]"] exI [of _ i] exI [of _ False])
      (simp add: superstep_trace_def List.map_filter_def)
next
  case (Suc m)
  then have lt: "i < max_iter run" and m: "m = max_iter run - Suc i" by simp_all
  define current where "current = filter (\<lambda>n. n \<noteq> END) superstep"
  obtain c x1 where p: "poll_cancel run x = (c, x1)" by (cases "poll_cancel run x")
  have m1: "marks (x_io x1) = marks (x_io x)"
    using p by (auto simp: poll_cancel_def dest!: marks_with_io)
  have stop: ?case if "marks (x_io x') = marks (x_io x)"
    using that
    by (intro exI [of _ "[]"] exI [of _ i] exI [of _ False])
      (simp add: superstep_trace_def List.map_filter_def)
  show ?case
  proof (cases "current = [] \<or> c \<or> cycle_detected run i")
    case True
    then have "marks (x_io x') = marks (x_io x)"
      using Suc.prems p m1 lt
      by (subst (asm) superstep_loop.simps) (auto simp: current_def Let_def split: if_splits bool.splits)
    then show ?thesis by (rule stop)
  next
    case False
    obtain q x2 where t: "run_superstep run i i current x1 = (q, x2)"
      by (cases "run_superstep run i i current x1")
    note m2 = turn_marks [OF t]
    show ?thesis
    proof (cases q)
      case (Inl e)
      then have re: "r = Inl e" "x' = x2"
        using Suc.prems p t lt False
        by (subst (asm) superstep_loop.simps, simp add: current_def Let_def)+
      let ?new = "[SuperstepStart (header run) i current]"
      have "marks (x_io x') = marks (x_io x) @ ?new"
        using re m1 m2 Inl by simp
      moreover have "List.map_filter superstep_mark ?new = superstep_trace i i True"
        by (simp add: superstep_trace_def List.map_filter_simps)
      moreover have "list_all (\<lambda>e. superstep_mark e \<noteq> None) ?new" by auto
      moreover have "i + (if True then 1 else 0) \<le> max i (max_iter run)" using lt by simp
      ultimately show ?thesis using re(1) by blast
    next
      case (Inr ns)
      have "superstep_loop run (Suc i) (Suc i) ns x2 = (r, x')"
        using Suc.prems p t lt False Inr
        by (subst (asm) superstep_loop.simps) (simp add: current_def Let_def)
      from Suc.hyps(1) [OF m this] obtain new j aborted where
        new: "marks (x_io x') = marks (x_io x2) @ new"
          "list_all (\<lambda>e. superstep_mark e \<noteq> None) new"
          "List.map_filter superstep_mark new = superstep_trace (Suc i) j aborted"
        and j: "Suc i \<le> j" "j + (if aborted then 1 else 0) \<le> max (Suc i) (max_iter run)"
        and ab: "aborted \<longrightarrow> (\<exists>e. r = Inl e)"
        by blast
      show ?thesis
        using new j ab m1 m2 Inr lt
        by (intro exI [of _ "SuperstepStart (header run) i current # SuperstepEnd (header run) i # new"]
            exI [of _ j] exI [of _ aborted])
          (auto simp: superstep_trace_def List.map_filter_simps)
    qed
  qed
qed

end
