(* ===== verification/Merge_Laws.thy ===== *)
theory Merge_Laws
  imports Engine
begin

text \<open>
  The merge of parallel branches (\<open>merge_parallel_states\<close>): what each key holds
  afterwards, as a fold of its reducer over the values the branches changed, taken in
  the order of the superstep.
\<close>

section \<open>Collecting the changes\<close>

text \<open>The value a branch contributes for a key, and the contributions of all branches.\<close>

definition contributed :: "state_map \<Rightarrow> string \<Rightarrow> agent_state \<Rightarrow> value option" where
  "contributed snap k s = (case map_of (export s) k of
       None \<Rightarrow> None
     | Some v \<Rightarrow> if map_of snap k \<noteq> Some v then Some v else None)"

definition contributions :: "state_map \<Rightarrow> branch_result list \<Rightarrow> string \<Rightarrow> value list" where
  "contributions snap branches k =
     List.map_filter (\<lambda>(_, s, _). contributed snap k s) branches"

definition pending_values :: "(string, value list) hash_map \<Rightarrow> string \<Rightarrow> value list" where
  "pending_values changes k = (case map_of changes k of Some vs \<Rightarrow> vs | None \<Rightarrow> [])"

text \<open>An entry exists only with at least one value.\<close>

definition changes_ok :: "(string, value list) hash_map \<Rightarrow> bool" where
  "changes_ok changes \<longleftrightarrow> hm_wf changes \<and> (\<forall>(k, vs) \<in> set changes. vs \<noteq> [])"

lemma changes_ok_push: "changes_ok changes \<Longrightarrow> changes_ok (push_change snap kv changes)"
proof (cases kv)
  case (Pair k v)
  assume ok: "changes_ok changes"
  show ?thesis
  proof (cases "map_of snap k \<noteq> Some v")
    case True
    then show ?thesis
      using ok Pair set_update_subset [of k "pending_values changes k @ [v]" changes]
      by (auto simp: push_change_def changes_ok_def pending_values_def)
  next
    case False
    then show ?thesis using ok Pair by (simp add: push_change_def)
  qed
qed

lemma changes_ok_fold: "changes_ok c \<Longrightarrow> changes_ok (fold (push_change snap) kvs c)"
  by (induction kvs arbitrary: c) (simp_all add: changes_ok_push)

lemma pending_push:
  "pending_values (push_change snap (k', v) c) k =
     pending_values c k @ (if k' = k \<and> map_of snap k \<noteq> Some v then [v] else [])"
  by (auto simp: pending_values_def push_change_def)

lemma pending_fold:
  "pending_values (fold (push_change snap) kvs c) k =
     pending_values c k @ filter (\<lambda>v. map_of snap k \<noteq> Some v) (map snd (filter (\<lambda>(k', _). k' = k) kvs))"
proof (induction kvs arbitrary: c)
  case Nil
  then show ?case by simp
next
  case (Cons kv kvs)
  then show ?case by (cases kv) (simp add: pending_push)
qed

lemma entries_of_distinct:
  "hm_wf m \<Longrightarrow> map snd (filter (\<lambda>(k', _). k' = k) m) = (case map_of m k of Some v \<Rightarrow> [v] | None \<Rightarrow> [])"
proof (induction m)
  case Nil
  then show ?case by simp
next
  case (Cons kv m)
  obtain k' v where kv: "kv = (k', v)" by (cases kv)
  have wf: "hm_wf m" and fresh: "k' \<notin> fst ` set m"
    using Cons.prems by (simp_all add: kv hm_wf_def)
  show ?case
  proof (cases "k' = k")
    case True
    then have "map_of m k = None" using fresh by (simp add: map_of_eq_None_iff)
    then show ?thesis using Cons.IH [OF wf] True by (simp add: kv)
  next
    case False
    then show ?thesis using Cons.IH [OF wf] by (simp add: kv)
  qed
qed

lemma pending_branch:
  "hm_wf (export s) \<Longrightarrow>
   pending_values (fold (push_change snap) (export s) c) k =
     pending_values c k @ (case contributed snap k s of Some v \<Rightarrow> [v] | None \<Rightarrow> [])"
  by (simp add: pending_fold entries_of_distinct contributed_def split: option.splits)

definition branches_wf :: "branch_result list \<Rightarrow> bool" where
  "branches_wf branches \<longleftrightarrow> (\<forall>(_, s, _) \<in> set branches. hm_wf (export s))"

lemma collect_changes_ok: "changes_ok (collect_changes snap branches)"
proof -
  have "changes_ok (fold (\<lambda>(_, s, _) changes. fold (push_change snap) (export s) changes) branches c)"
    if "changes_ok c" for c
    using that by (induction branches arbitrary: c) (auto simp: changes_ok_fold)
  from this [of "[]"] show ?thesis
    unfolding collect_changes_def by (simp add: changes_ok_def)
qed

lemma pending_collect:
  assumes "branches_wf branches"
  shows "pending_values (collect_changes snap branches) k = contributions snap branches k"
proof -
  have "pending_values (fold (\<lambda>(_, s, _) changes. fold (push_change snap) (export s) changes) branches c) k
      = pending_values c k @ contributions snap branches k" for c
    using assms
  proof (induction branches arbitrary: c)
    case Nil
    then show ?case by (simp add: contributions_def List.map_filter_def)
  next
    case (Cons b branches)
    obtain n s out where b: "b = (n, s, out)" by (cases b)
    have "hm_wf (export s)" and wf: "branches_wf branches"
      using Cons.prems by (simp_all add: b branches_wf_def)
    then show ?case
      using Cons.IH [OF wf]
      by (simp add: b pending_branch contributions_def List.map_filter_def split: option.splits)
  qed
  then show ?thesis by (simp add: collect_changes_def pending_values_def)
qed

lemma map_of_collect:
  assumes "branches_wf branches"
  shows "map_of (collect_changes snap branches) k =
    (if contributions snap branches k = [] then None else Some (contributions snap branches k))"
proof (cases "map_of (collect_changes snap branches) k")
  case None
  then show ?thesis
    using pending_collect [OF assms, of snap k] by (simp add: pending_values_def)
next
  case (Some vs)
  then have "vs \<noteq> []"
    using collect_changes_ok [of snap branches] map_of_SomeD by (fastforce simp: changes_ok_def)
  then show ?thesis
    using pending_collect [OF assms, of snap k] Some by (simp add: pending_values_def)
qed

section \<open>Reducing them\<close>

text \<open>The value the merge computes for a key from a list of contributions.\<close>

definition merged_value ::
    "agent_state \<Rightarrow> state_map \<Rightarrow> string \<Rightarrow> value list \<Rightarrow> value result" where
  "merged_value s snap k vs = try_fold (\<lambda>v current. apply_reducer s k current v) vs
     (case map_of snap k of Some b \<Rightarrow> b | None \<Rightarrow> Null)"

lemma merge_key_Inr:
  "merge_key sz snap k vs s = Inr s' \<longleftrightarrow>
     (\<exists>v. merged_value s snap k vs = Inr v \<and> set_raw sz k v s = Inr s')"
  by (auto simp: merge_key_def merged_value_def bind_result_Inr_iff)

lemma merged_value_set_raw:
  "set_raw sz k v s = Inr s' \<Longrightarrow> merged_value s' = merged_value s"
  by (auto simp: fun_eq_iff merged_value_def set_raw_Inr apply_reducer_def read_reducers_def
      timed_out_def)

lemma merge_keys_lookup:
  assumes "merge_keys sz snap changes s = (Inr u, s')" and "distinct (map fst changes)"
  shows "(\<forall>vs. map_of changes k = Some vs \<longrightarrow>
            (\<exists>v. merged_value s snap k vs = Inr v \<and> map_of (st_data s') k = Some v))
       \<and> (map_of changes k = None \<longrightarrow> map_of (st_data s') k = map_of (st_data s) k)"
  using assms
proof (induction changes arbitrary: s)
  case Nil
  then show ?case by simp
next
  case (Cons kvs changes)
  obtain k' vs where kvs: "kvs = (k', vs)" by (cases kvs)
  from Cons.prems(1) obtain t where step: "merge_key sz snap k' vs s = Inr t"
    and rest: "merge_keys sz snap changes t = (Inr u, s')"
    by (auto simp: kvs split: sum.splits)
  from step obtain v where v: "merged_value s snap k' vs = Inr v" "set_raw sz k' v s = Inr t"
    by (auto simp: merge_key_Inr)
  have data: "map_of (st_data t) = (map_of (st_data s))(k' \<mapsto> v)"
    using v(2) by (rule raw.view_put)
  have same: "merged_value t = merged_value s"
    using v(2) by (rule merged_value_set_raw)
  have ih: "(\<forall>vs. map_of changes k = Some vs \<longrightarrow>
            (\<exists>v. merged_value s snap k vs = Inr v \<and> map_of (st_data s') k = Some v))
       \<and> (map_of changes k = None \<longrightarrow> map_of (st_data s') k = map_of (st_data t) k)"
    using Cons.IH [OF rest] Cons.prems(2) by (simp add: kvs same)
  have fresh: "map_of changes k' = None"
    using Cons.prems(2) by (simp add: kvs map_of_eq_None_iff)
  show ?case
    using ih fresh v(1) data by (cases "k = k'") (auto simp: kvs)
qed

text \<open>A merge leaves everything but the data and its version alone.\<close>

lemma merge_keys_frame:
  "merge_keys sz snap changes s = (r, s') \<Longrightarrow>
   st_reducers s' = st_reducers s \<and> st_limits s' = st_limits s \<and> st_data_lock s' = st_data_lock s"
proof (induction changes arbitrary: s)
  case Nil
  then show ?case by simp
next
  case (Cons kvs changes)
  then show ?case
    by (cases kvs) (fastforce simp: merge_key_Inr set_raw_Inr split: sum.splits)
qed

lemma merge_lookup:
  assumes "merge_parallel_states sz snap branches s = (Inr u, s')" and "branches_wf branches"
  shows "if contributions snap branches k = []
    then map_of (st_data s') k = map_of (st_data s) k
    else \<exists>v. merged_value s snap k (contributions snap branches k) = Inr v
             \<and> map_of (st_data s') k = Some v"
proof -
  have d: "distinct (map fst (collect_changes snap branches))"
    using collect_changes_ok [of snap branches] by (simp add: changes_ok_def hm_wf_def)
  show ?thesis
    using merge_keys_lookup [OF assms(1) [unfolded merge_parallel_states_def] d, of k]
    by (simp add: map_of_collect [OF assms(2)])
qed

section \<open>The registered reducers\<close>

lemma merged_value_no_reducer:
  assumes "can_read (st_reducers_lock s)" and "map_of (st_reducers s) k = None" and "vs \<noteq> []"
  shows "merged_value s snap k vs = Inr (last vs)"
proof -
  have "apply_reducer s k = last_write_wins"
    using assms(1,2) by (auto simp: fun_eq_iff apply_reducer_def read_reducers_def last_write_wins_def)
  then show ?thesis
    using reduce_all_last_write [of vs] assms(3)
    by (simp add: merged_value_def reduce_all_def)
qed

lemma merged_value_reducer:
  assumes "can_read (st_reducers_lock s)" and "map_of (st_reducers s) k = Some r"
  shows "merged_value s snap k vs =
    reduce_all r vs (case map_of snap k of Some b \<Rightarrow> b | None \<Rightarrow> Null)"
proof -
  have "apply_reducer s k = r"
    using assms by (auto simp: fun_eq_iff apply_reducer_def read_reducers_def)
  then show ?thesis by (simp add: merged_value_def reduce_all_def)
qed

end
