(* ===== verification/Superstep_Laws.thy ===== *)
theory Superstep_Laws
  imports Merge_Laws
begin

text \<open>
  The parallel path of a superstep: whatever the scheduler does, every node runs exactly
  once, the results come out in the order of the superstep, and until the merge the
  graph's state is untouched; when the branches' outcomes do not depend on the world,
  neither the scheduler nor the degree of parallelism can be seen in the results.
\<close>

section \<open>The steps of the loop\<close>

definition up_to_reducers :: "agent_state \<Rightarrow> agent_state \<Rightarrow> bool" where
  "up_to_reducers s0 s \<longleftrightarrow> s = s0\<lparr>st_reducers := st_reducers s\<rparr>"

lemma up_to_reducers_refl [simp]: "up_to_reducers s s"
  by (simp add: up_to_reducers_def)

lemma up_to_reducers_upd [simp]:
  "up_to_reducers s0 (s\<lparr>st_reducers := r\<rparr>) \<longleftrightarrow> up_to_reducers s0 s"
proof -
  have "s\<lparr>st_reducers := r\<rparr> = s0\<lparr>st_reducers := r\<rparr> \<longleftrightarrow> s = s0\<lparr>st_reducers := st_reducers s\<rparr>"
    by (cases s; cases s0) auto
  then show ?thesis by (simp add: up_to_reducers_def)
qed

lemma up_to_reducers_fork: "up_to_reducers s0 s \<Longrightarrow> up_to_reducers (fork s0) (fork s)"
  by (cases s; cases s0)
    (auto simp: up_to_reducers_def fork_def export_def read_data_def timed_out_def)

lemma pick_branch_mset:
  assumes "join_set \<noteq> []" and "pick_branch run join_set x = (b, rest)"
  shows "mset join_set = add_mset b (mset rest)"
proof -
  define i where "i = env_pick (r_env run) (map b_name join_set) (io_world (x_io x)) mod length join_set"
  have i: "i < length join_set" using assms(1) by (simp add: i_def)
  have "b = join_set ! i" and "rest = take i join_set @ drop (Suc i) join_set"
    using assms(2) by (simp_all add: pick_branch_def i_def Let_def)
  then show ?thesis
    using id_take_nth_drop [OF i] by (metis mset.simps(2) mset_append union_mset_add_mset_right)
qed

lemma run_branch_name: "run_branch run b x = (Inr r, x1) \<Longrightarrow> fst r = b_name b"
  by (auto simp: run_branch_def Let_def split: option.splits prod.splits sum.splits)

lemma run_branch_state: "up_to_reducers s0 (x_state x) \<Longrightarrow>
  up_to_reducers s0 (x_state (snd (run_branch run b x)))"
  by (auto simp: run_branch_def Let_def split: option.splits prod.splits sum.splits)

lemma exec_emit_fields [simp]:
  "x_state (exec_emit e x) = x_state x"
  "x_total_attempts (exec_emit e x) = x_total_attempts x"
  "x_executed_nodes (exec_emit e x) = x_executed_nodes x"
  "io_world (x_io (exec_emit e x)) = io_world (x_io x)"
  "io_events (x_io (exec_emit e x)) = io_events (x_io x) @ [e]"
  by (simp_all add: exec_emit_def)

lemma abort_branches_state [simp]: "x_state (abort_branches run names x) = x_state x"
  by (simp add: abort_branches_def split: prod.splits)

lemma fold_emit_state [simp]: "x_state (fold (\<lambda>n. exec_emit (f n)) ns x) = x_state x"
  by (induction ns arbitrary: x) simp_all

lemma cancel_siblings_state [simp]: "x_state (cancel_siblings run names active x) = x_state x"
  by (simp add: cancel_siblings_def Let_def)

lemma spawn_state [simp]: "x_state (snd (spawn_parallel_branch run name join_set x)) = x_state x"
  by (simp add: spawn_parallel_branch_def Let_def split: option.splits)

lemma spawn_Inr:
  assumes "spawn_parallel_branch run name join_set x = (Inr join_set1, x1)"
  obtains b where "join_set1 = join_set @ [b]" "b_name b = name" "b_state b = fork (x_state x)"
    "x_state x1 = x_state x"
  using assms by (auto simp: spawn_parallel_branch_def Let_def split: option.splits)

lemma join_one_state:
  "up_to_reducers s0 (x_state x) \<Longrightarrow>
   up_to_reducers s0 (x_state (snd (join_one run join_set active x)))"
  using run_branch_state [of s0 x run]
  by (auto simp: join_one_def split: prod.splits option.splits sum.splits)
     (metis snd_conv)+

lemma join_one_Inr:
  assumes "join_set \<noteq> []" and "join_one run join_set active x = (Inr (r, rest, active1), x1)"
  obtains b where "mset join_set = add_mset b (mset rest)" "run_branch run b x = (Inr r, x1)"
  using assms pick_branch_mset
  by (fastforce simp: join_one_def split: prod.splits option.splits sum.splits)

section \<open>The graph's state during a parallel superstep\<close>

lemma join_branches_state:
  "up_to_reducers s0 (x_state x) \<Longrightarrow>
   up_to_reducers s0 (x_state (snd (join_branches run pending join_set active results x)))"
proof (induction run pending join_set active results x rule: join_branches.induct)
  case (1 run pending join_set active results x)
  show ?case
  proof (cases "join_set = []")
    case True
    then show ?thesis using "1.prems" by (simp add: join_branches.simps)
  next
    case False
    obtain q x1 where one: "join_one run join_set active x = (q, x1)"
      by (cases "join_one run join_set active x")
    have s1: "up_to_reducers s0 (x_state x1)"
      using join_one_state [OF "1.prems", of run join_set active] one by simp
    show ?thesis
    proof (cases q)
      case (Inl e)
      then show ?thesis using False one s1 by (simp add: join_branches.simps)
    next
      case (Inr t)
      obtain r rest active1 where t: "t = (r, rest, active1)" by (cases t)
      have one': "join_one run join_set active x = (Inr (r, rest, active1), x1)"
        using one Inr t by simp
      show ?thesis
      proof (cases pending)
        case Nil
        then show ?thesis
          using "1.IH"(1) [OF False one' [symmetric] refl refl refl Nil s1] False one' Nil
          by (simp add: join_branches.simps [of run _ join_set])
      next
        case (Cons name pending1)
        obtain js x2 where sp: "spawn_parallel_branch run name rest x1 = (js, x2)"
          by (cases "spawn_parallel_branch run name rest x1")
        then have s2: "up_to_reducers s0 (x_state x2)"
          using s1 spawn_state [of run name rest x1] by simp
        then show ?thesis
          using "1.IH"(2) [OF False one' [symmetric] refl refl refl Cons sp [symmetric]]
            False one' Cons sp
          by (cases js) (simp_all add: join_branches.simps [of run _ join_set])
      qed
    qed
  qed
qed

lemma spawn_all_state: "x_state (snd (spawn_all run names join_set x)) = x_state x"
proof (induction names arbitrary: join_set x)
  case Nil
  then show ?case by simp
next
  case (Cons name names)
  have "x_state (snd (spawn_parallel_branch run name join_set x)) = x_state x" by simp
  then show ?case
    using Cons.IH by (auto split: prod.splits sum.splits simp del: spawn_state)
qed

lemma run_branches_state:
  "up_to_reducers (x_state x) (x_state (snd (run_branches run current x)))"
proof -
  obtain q x1 where sp: "spawn_all run (take (max 1 (cfg_max_parallelism (r_config run))) current) [] x
      = (q, x1)"
    by (cases "spawn_all run (take (max 1 (cfg_max_parallelism (r_config run))) current) [] x")
  then have "x_state x1 = x_state x" using spawn_all_state by (metis snd_conv)
  then show ?thesis
    using sp join_branches_state [of "x_state x" x1]
    by (cases q) (simp_all add: run_branches_def Let_def)
qed

section \<open>Every node runs exactly once\<close>

text \<open>A branch on a fork of \<open>s0\<close>, and a result such a branch can have.\<close>

definition forked_from :: "agent_state \<Rightarrow> branch \<Rightarrow> bool" where
  "forked_from s0 b \<longleftrightarrow> up_to_reducers (fork s0) (b_state b)"

definition possible_result :: "'w run \<Rightarrow> agent_state \<Rightarrow> branch_result \<Rightarrow> bool" where
  "possible_result run s0 r \<longleftrightarrow>
     (\<exists>b y y'. forked_from s0 b \<and> b_name b = fst r \<and> run_branch run b y = (Inr r, y'))"

lemma join_branches_results:
  "join_branches run pending join_set active results x = (Inr results', x') \<Longrightarrow>
   up_to_reducers s0 (x_state x) \<Longrightarrow> list_all (forked_from s0) join_set \<Longrightarrow>
   list_all (possible_result run s0) results \<Longrightarrow>
   mset (map fst results') = mset (map fst results) + mset (map b_name join_set) + mset pending
   \<and> list_all (possible_result run s0) results'
   \<or> join_set = [] \<and> pending \<noteq> []"
proof (induction run pending join_set active results x rule: join_branches.induct)
  case (1 run pending join_set active results x)
  show ?case
  proof (cases "join_set = []")
    case True
    then show ?thesis using "1.prems" by (auto simp: join_branches.simps)
  next
    case False
    then obtain r rest active1 x1 where
      one: "join_one run join_set active x = (Inr (r, rest, active1), x1)"
      using "1.prems"(1)
      by (cases "join_one run join_set active x"; cases "fst (join_one run join_set active x)")
        (auto simp: join_branches.simps [of run _ join_set])
    obtain b where b: "mset join_set = add_mset b (mset rest)" "run_branch run b x = (Inr r, x1)"
      using join_one_Inr [OF False one] .
    have s1: "up_to_reducers s0 (x_state x1)"
      using join_one_state [OF "1.prems"(2), of run join_set active] one by simp
    have inset: "set join_set = insert b (set rest)"
      using b(1) by (metis set_mset_add_mset_insert set_mset_mset)
    then have rest: "list_all (forked_from s0) rest" and fb: "forked_from s0 b"
      using "1.prems"(3) by (auto simp: list_all_iff)
    have nm: "fst r = b_name b" using b(2) by (rule run_branch_name)
    then have R: "list_all (possible_result run s0) (results @ [r])"
    proof -
      have "possible_result run s0 r" using fb b(2) nm by (auto simp: possible_result_def)
      then show ?thesis using "1.prems"(4) by simp
    qed
    have names: "mset (map b_name join_set) = add_mset (b_name b) (mset (map b_name rest))"
      using b(1) by (metis image_mset_add_mset mset_map)
    show ?thesis
    proof (cases pending)
      case Nil
      have "join_branches run [] rest active1 (results @ [r]) x1 = (Inr results', x')"
        using "1.prems"(1) False one Nil by (simp add: join_branches.simps [of run _ join_set])
      from "1.IH"(1) [OF False one [symmetric] refl refl refl Nil this s1 rest R]
      show ?thesis using names nm Nil by auto
    next
      case (Cons name pending1)
      obtain js1 x2 where sp: "spawn_parallel_branch run name rest x1 = (Inr js1, x2)"
        using "1.prems"(1) False one Cons
        by (cases "spawn_parallel_branch run name rest x1";
            cases "fst (spawn_parallel_branch run name rest x1)")
          (auto simp: join_branches.simps [of run _ join_set])
      obtain b1 where b1: "js1 = rest @ [b1]" "b_name b1 = name" "b_state b1 = fork (x_state x1)"
          "x_state x2 = x_state x1"
        using spawn_Inr [OF sp] .
      have "forked_from s0 b1"
        using b1(3) s1 up_to_reducers_fork by (simp add: forked_from_def)
      then have f1: "list_all (forked_from s0) js1" using rest b1(1) by simp
      have s2: "up_to_reducers s0 (x_state x2)" using s1 b1(4) by simp
      have "join_branches run pending1 js1 (insert_name name active1) (results @ [r]) x2
          = (Inr results', x')"
        using "1.prems"(1) False one Cons sp by (simp add: join_branches.simps [of run _ join_set])
      from "1.IH"(2) [OF False one [symmetric] refl refl refl Cons sp [symmetric] refl this s2 f1 R]
      show ?thesis using names nm Cons b1(1,2) by auto
    qed
  qed
qed

lemma spawn_all_Inr:
  "spawn_all run names join_set x = (Inr join_set', x') \<Longrightarrow> up_to_reducers s0 (x_state x) \<Longrightarrow>
   list_all (forked_from s0) join_set \<Longrightarrow>
   map b_name join_set' = map b_name join_set @ names \<and> list_all (forked_from s0) join_set'
   \<and> up_to_reducers s0 (x_state x')"
proof (induction names arbitrary: join_set x)
  case Nil
  then show ?case by simp
next
  case (Cons name names)
  from Cons.prems(1) obtain js1 x1 where sp: "spawn_parallel_branch run name join_set x = (Inr js1, x1)"
    and rest: "spawn_all run names js1 x1 = (Inr join_set', x')"
    by (auto split: prod.splits sum.splits)
  obtain b where b: "js1 = join_set @ [b]" "b_name b = name" "b_state b = fork (x_state x)"
      "x_state x1 = x_state x"
    using spawn_Inr [OF sp] .
  have "forked_from s0 b"
    using b(3) Cons.prems(2) up_to_reducers_fork by (simp add: forked_from_def)
  then show ?case
    using Cons.IH [OF rest] Cons.prems(2,3) b by simp
qed

lemma run_branches_results:
  assumes "run_branches run current x = (Inr results, x')"
  shows "mset (map fst results) = mset current"
    and "list_all (possible_result run (x_state x)) results"
proof -
  let ?n = "max 1 (cfg_max_parallelism (r_config run))"
  let ?first = "take ?n current"
  from assms obtain js x1 where sp: "spawn_all run ?first [] x = (Inr js, x1)"
    and jn: "join_branches run (drop ?n current) js (remdups ?first) [] x1 = (Inr results, x')"
    by (auto simp: run_branches_def Let_def exec_then_Inr)
  have js: "map b_name js = ?first" "list_all (forked_from (x_state x)) js"
      "up_to_reducers (x_state x) (x_state x1)"
    using spawn_all_Inr [OF sp, of "x_state x"] by simp_all
  have ne: "\<not> (js = [] \<and> drop ?n current \<noteq> [])"
  proof
    assume a: "js = [] \<and> drop ?n current \<noteq> []"
    then have "?first = []" using js(1) by simp
    then have "current = []" by (simp add: take_eq_Nil)
    then show False using a by simp
  qed
  have "mset (map fst results) = mset ?first + mset (drop ?n current)
      \<and> list_all (possible_result run (x_state x)) results"
    using join_branches_results [OF jn js(3) js(2)] ne js(1) by auto
  then show "mset (map fst results) = mset current"
    and "list_all (possible_result run (x_state x)) results"
    by (simp_all flip: mset_append)
qed

section \<open>The order of the results\<close>

lemma superstep_position_nth:
  assumes "distinct current" and "i < length current"
  shows "superstep_position current (current ! i) = i"
proof -
  have "map_of (rev (zip current [0..<length current])) = map_of (zip current [0..<length current])"
    using assms(1) by (intro map_of_rev) simp
  then show ?thesis
    using assms by (simp add: superstep_position_def map_of_zip_nth)
qed

text \<open>Sorting by position restores the order of the superstep.\<close>

lemma sort_results_names:
  assumes "distinct current" and "mset (map fst results) = mset current"
  shows "map fst (sort_results current results) = current"
proof -
  let ?pos = "superstep_position current"
  have key: "(\<lambda>(name, _, _). ?pos name) = (\<lambda>r :: branch_result. ?pos (fst r))"
    by (auto simp: fun_eq_iff)
  have sorted: "sorted (map ?pos (map fst (sort_results current results)))"
    unfolding sort_results_def key map_map comp_def by simp
  have ms: "mset (map fst (sort_results current results)) = mset current"
    using assms(2) by (simp add: sort_results_def)
  have inj: "inj_on ?pos (set current)"
    using assms(1) by (auto simp: inj_on_def in_set_conv_nth superstep_position_nth)
  have "map ?pos current = [0..<length current]"
    using assms(1) by (intro nth_equalityI) (simp_all add: superstep_position_nth)
  then have sorted': "sorted (map ?pos current)" by simp
  show ?thesis
  proof (rule map_sorted_distinct_set_unique [where f = ?pos])
    have sets: "set (map fst (sort_results current results)) = set current"
      using ms by (rule mset_eq_setD)
    then show "set (map fst (sort_results current results)) = set current" .
    show "inj_on ?pos (set (map fst (sort_results current results)) \<union> set current)"
      using inj sets by simp
    have "distinct (map fst (sort_results current results))"
      using ms assms(1) mset_eq_imp_distinct_iff by blast
    then show "distinct (map ?pos (map fst (sort_results current results)))"
      using inj sets distinct_map [of ?pos "map fst (sort_results current results)"] by simp
    show "distinct (map ?pos current)" using inj assms(1) by (simp add: distinct_map)
  qed (use sorted sorted' in auto)
qed

section \<open>Independence from the scheduler\<close>

text \<open>What later steps read of a result: its name, the exported state and the output.\<close>

definition result_view :: "branch_result \<Rightarrow> string \<times> state_map \<times> node_output" where
  "result_view r = (case r of (n, s, out) \<Rightarrow> (n, export s, out))"

text \<open>Every branch on a fork of \<open>s0\<close> that succeeds has the given outcome.\<close>

definition branch_outcomes ::
    "'w run \<Rightarrow> agent_state \<Rightarrow> string list \<Rightarrow> (string \<Rightarrow> state_map \<times> node_output) \<Rightarrow> bool" where
  "branch_outcomes run s0 current outcome \<longleftrightarrow>
     (\<forall>b y r y'. b_name b \<in> set current \<longrightarrow> forked_from s0 b \<longrightarrow> run_branch run b y = (Inr r, y')
        \<longrightarrow> result_view r = (b_name b, outcome (b_name b)))"

lemma sorted_result_views:
  assumes "run_branches run current x = (Inr results, x')" and "distinct current"
    and "branch_outcomes run (x_state x) current outcome"
  shows "map result_view (sort_results current results) = map (\<lambda>n. (n, outcome n)) current"
proof -
  note res = run_branches_results [OF assms(1)]
  have names: "map fst (sort_results current results) = current"
    using assms(2) res(1) by (rule sort_results_names)
  have view: "result_view r = (fst r, outcome (fst r))" if "r \<in> set results" for r
  proof -
    from res(2) that obtain b y y' where b: "forked_from (x_state x) b" "b_name b = fst r"
        "run_branch run b y = (Inr r, y')"
      by (auto simp: list_all_iff possible_result_def)
    have "fst r \<in> set current"
      using that res(1) by (metis image_eqI list.set_map mset_eq_setD)
    then show ?thesis using assms(3) b unfolding branch_outcomes_def by metis
  qed
  have "map result_view (sort_results current results) =
      map (\<lambda>n. (n, outcome n)) (map fst (sort_results current results))"
    using view by (simp add: sort_results_def)
  then show ?thesis by (simp add: names)
qed

text \<open>The merge reads its branches through their views only.\<close>

lemma collect_changes_views:
  "map result_view rs = map result_view rs' \<Longrightarrow> collect_changes snap rs = collect_changes snap rs'"
proof -
  have step: "(\<lambda>(_, s, _) changes. fold (push_change snap) (export s) changes) =
      (\<lambda>r. fold (push_change snap) (fst (snd (result_view r))))"
    by (auto simp: fun_eq_iff result_view_def split: prod.splits)
  have "collect_changes snap rs = fold (\<lambda>v. fold (push_change snap) (fst (snd v))) (map result_view rs) []"
    for rs
    unfolding collect_changes_def step by (simp add: fold_map comp_def)
  then show "map result_view rs = map result_view rs' \<Longrightarrow>
      collect_changes snap rs = collect_changes snap rs'" by simp
qed

end
