(* ===== verification/Run_Laws.thy ===== *)
theory Run_Laws
  imports Engine_Trace Superstep_Laws
begin

text \<open>
  Laws of the retry family (how many trials it starts, and that it stops at the first
  success), of interrupts and cancellation at the head of a superstep, and of the
  terminal record in the checkpoint store.
\<close>

section \<open>Trials of a family\<close>

fun is_node_start :: "graph_event \<Rightarrow> bool" where
  "is_node_start (NodeStart _ _ _ _ _) = True"
| "is_node_start _ = False"

definition starts :: "'w io \<Rightarrow> nat" where
  "starts io = length (filter is_node_start (io_events io))"

lemma starts_emit [simp]: "starts (emit e io) = starts io + (if is_node_start e then 1 else 0)"
  by (simp add: starts_def)

lemma starts_world [simp]: "starts (io\<lparr>io_world := w\<rparr>) = starts io"
  by (simp add: starts_def)

lemma starts_on_world: "on_world f io = (a, io') \<Longrightarrow> starts io' = starts io"
  by (metis starts_def on_world_simps(3) snd_conv)

lemma starts_begin_trial: "begin_trial p t i s io = (r, io') \<Longrightarrow> starts io' = Suc (starts io)"
  by (auto simp: begin_trial_def Let_def split: option.splits prod.splits sum.splits
      dest!: starts_on_world)

lemma starts_record_failure: "record_failure p c e io = (r, io') \<Longrightarrow> starts io' = starts io"
  by (auto simp: record_failure_def split: option.splits prod.splits sum.splits
      dest!: starts_on_world)

lemma starts_complete_trial:
  "complete_trial env p t c out s io = (r, s', io') \<Longrightarrow> starts io' = starts io"
  by (auto simp: complete_trial_def Let_def split: option.splits prod.splits sum.splits
      dest!: starts_on_world starts_record_failure)

lemma starts_wait: "wait_backoff env d io = (b, io') \<Longrightarrow> starts io' = starts io"
proof (induction env d io arbitrary: b io' rule: wait_backoff.induct)
  case (1 env remaining io)
  obtain c io1 where p: "on_world (env_poll_cancel env) io = (c, io1)"
    by (cases "on_world (env_poll_cancel env) io")
  have m: "starts io1 = starts io" using p by (rule starts_on_world)
  show ?case
  proof (cases "c \<or> remaining \<le> min tick remaining")
    case True
    then show ?thesis
      using "1.prems" p m unfolding wait_backoff.simps [of env remaining io]
      by (auto simp: Let_def split: bool.splits if_splits)
  next
    case False
    then have p': "on_world (env_poll_cancel env) io = (False, io1)" using p by simp
    have "wait_backoff env (remaining - min tick remaining)
        (io1\<lparr>io_world := env_sleep env (min tick remaining) (io_world io1)\<rparr>) = (b, io')"
      using "1.prems" p' False unfolding wait_backoff.simps [of env remaining io]
      by (simp add: Let_def)
    then show ?thesis
      using "1.IH" [OF p' [symmetric] refl refl refl] False m by simp
  qed
qed

lemma starts_fail_trial: "fail_trial env p t c i e io = (r, io') \<Longrightarrow> starts io' = starts io"
  by (auto simp: fail_trial_def Let_def
      split: option.splits prod.splits sum.splits if_splits bool.splits
      dest!: starts_record_failure starts_wait)

lemma starts_run_trial:
  "run_trial env f p i s io = (r, s', io') \<Longrightarrow> starts io' = Suc (starts io)"
  by (auto simp: run_trial_def Let_def split: prod.splits sum.splits
      dest!: starts_on_world starts_begin_trial starts_complete_trial starts_fail_trial)

lemma starts_family:
  "attempt_family env f p i s io = (r, s', io') \<Longrightarrow>
   starts io' \<le> starts io + (family_max_attempts (ap_retry p) - i)"
proof (induction env f p i s io arbitrary: r s' io' rule: attempt_family.induct)
  case (1 env f p i s io)
  show ?case
  proof (cases "family_max_attempts (ap_retry p) \<le> i")
    case True
    then show ?thesis
      using "1.prems" by (subst (asm) attempt_family.simps)
        (auto split: prod.splits dest!: starts_on_world)
  next
    case False
    obtain c io1 where p: "on_world (env_poll_cancel env) io = (c, io1)"
      by (cases "on_world (env_poll_cancel env) io")
    obtain e s1 io2 where t: "run_trial env f p i s io1 = (e, s1, io2)"
      by (cases "run_trial env f p i s io1")
    note m = starts_on_world [OF p] starts_run_trial [OF t]
    show ?thesis
    proof (cases c)
      case True
      then show ?thesis
        using "1.prems" False p m by (subst (asm) attempt_family.simps)
          (auto split: prod.splits dest!: starts_on_world)
    next
      case no: False
      show ?thesis
      proof (cases e)
        case (Family_ends q)
        then have "io' = io2"
          using "1.prems" False p t no by (subst (asm) attempt_family.simps) simp
        then show ?thesis using m False by simp
      next
        case Try_again
        then have rest: "attempt_family env f p (Suc i) s1 io2 = (r, s', io')"
          using "1.prems" False p t no by (subst (asm) attempt_family.simps) simp
        have p': "on_world (env_poll_cancel env) io = (False, io1)" using p no by simp
        have t': "run_trial env f p i s io1 = (Try_again, s1, io2)" using t Try_again by simp
        show ?thesis
          using "1.IH" [OF False p' [symmetric] refl t' [symmetric] refl refl rest] m False by simp
      qed
    qed
  qed
qed

section \<open>The first success ends the family\<close>

text \<open>
  A family without a store, never cancelled, whose policy retries every error and whose
  delays are defined.
\<close>

definition persistent :: "'w env \<Rightarrow> 'w attempt_params \<Rightarrow> bool" where
  "persistent env p \<longleftrightarrow> ap_store p = None \<and> env_poll_cancel env = (\<lambda>w. (False, w)) \<and>
     (case ap_retry p of None \<Rightarrow> True | Some policy \<Rightarrow>
        retry_on policy = None \<and>
        (\<forall>h i. delay_for_attempt (env_pow env) h policy i \<noteq> None))"

text \<open>What the closure does when the outcome depends on the ordinal of the trial only.\<close>

definition scripted :: "(nat \<Rightarrow> node_output result) \<Rightarrow> 'w exec_once" where
  "scripted out ctx s w = (out (nec_retry_ordinal ctx), s, w)"

lemma wait_never_cancelled:
  "env_poll_cancel env = (\<lambda>w. (False, w)) \<Longrightarrow> fst (wait_backoff env d io) = False"
proof (induction env d io rule: wait_backoff.induct)
  case (1 env remaining io)
  have p: "on_world (env_poll_cancel env) io = (False, io)"
    by (simp add: "1.prems" on_world_def)
  show ?case
  proof (cases "remaining \<le> min tick remaining")
    case True
    then show ?thesis unfolding wait_backoff.simps [of env remaining io] by (simp add: p Let_def)
  next
    case False
    from "1.IH" [OF p [symmetric] refl refl refl False "1.prems"]
    show ?thesis
      using False unfolding wait_backoff.simps [of env remaining io] by (simp add: p Let_def)
  qed
qed

lemma scripted_failure:
  assumes "persistent env p" and "out i = Inl e" and "Suc i < family_max_attempts (ap_retry p)"
  shows "\<exists>io'. run_trial env (scripted out) p i s io = (Try_again, s, io')"
proof -
  obtain policy where policy: "ap_retry p = Some policy"
    using assms(3) by (cases "ap_retry p") (auto simp: family_max_attempts_def)
  obtain t io1 where t: "on_world (env_new_trial_id env) io = (t, io1)"
    by (cases "on_world (env_new_trial_id env) io")
  have wait: "\<exists>io'. wait_backoff env d io0 = (False, io')" for d io0
    using wait_never_cancelled [of env d io0] assms(1)
    by (cases "wait_backoff env d io0") (simp add: persistent_def)
  have delay: "\<exists>d. delay_for_attempt (env_pow env) h policy i = Some d" for h
    using assms(1) policy by (auto simp: persistent_def)
  have fail: "\<exists>io'. fail_trial env p t None i e io0 = (Try_again, io')" for io0
  proof -
    let ?io1 = "emit (NodeEnd (ap_header p) (ap_node_id p) (failure_outcome e)
      (Some (ap_attempt_id p)) (Some t)) io0"
    obtain d where d: "delay_for_attempt (env_pow env) (env_jitter_hash env (io_world ?io1)) policy i
        = Some d"
      using delay by blast
    obtain io2 where w: "wait_backoff env d ?io1 = (False, io2)" using wait by blast
    have "should_retry policy e"
      using assms(1) policy by (simp add: persistent_def should_retry_def)
    moreover have "record_failure p None e io0 = (Inr (), io0)"
      by (simp add: record_failure_def split: option.splits)
    ultimately show ?thesis
      using assms(3) policy d w by (simp add: fail_trial_def Let_def)
  qed
  have begun: "begin_trial p t i s io1 = (Inr None, emit (NodeStart (ap_header p) (ap_node_id p)
      (ap_family_attempt p) (Some (ap_attempt_id p)) (Some t)) io1)" (is "_ = (_, ?io2)")
    using assms(1) by (simp add: begin_trial_def persistent_def Let_def)
  obtain io3 where "fail_trial env p t None i e ?io2 = (Try_again, io3)" using fail by blast
  then show ?thesis
    using t assms(2) begun by (simp add: run_trial_def scripted_def)
qed

text \<open>An output that carries no updates.\<close>

definition no_updates :: "node_output \<Rightarrow> bool" where
  "no_updates output \<longleftrightarrow> (case output of
     Node_done \<Rightarrow> True | Node_command cmd \<Rightarrow> cmd_update cmd = None)"

lemma scripted_success:
  assumes "persistent env p" and "out i = Inr output" and "no_updates output"
  shows "\<exists>t io'. run_trial env (scripted out) p i s io =
    (Family_ends (Inr \<lparr>fs_output = output, fs_trial_id = t\<rparr>), s, io')"
proof -
  obtain t io1 where t: "on_world (env_new_trial_id env) io = (t, io1)"
    by (cases "on_world (env_new_trial_id env) io")
  have "begin_trial p t i s io1 = (Inr None, emit (NodeStart (ap_header p) (ap_node_id p)
      (ap_family_attempt p) (Some (ap_attempt_id p)) (Some t)) io1)"
    using assms(1) by (simp add: begin_trial_def persistent_def Let_def)
  moreover have "complete_trial env p t None output s io0 =
      (Inr \<lparr>fs_output = output, fs_trial_id = t\<rparr>, s, io0)" for io0
    using assms(3)
    by (cases "output") (auto simp: complete_trial_def no_updates_def split: option.splits)
  ultimately show ?thesis
    using t assms(2) by (simp add: run_trial_def scripted_def)
qed

lemma first_success:
  assumes "persistent env p" and "out k = Inr output" and "no_updates output"
    and "k < family_max_attempts (ap_retry p)"
  shows "i \<le> k \<Longrightarrow> (\<forall>j. i \<le> j \<longrightarrow> j < k \<longrightarrow> (\<exists>e. out j = Inl e)) \<Longrightarrow>
    \<exists>t io'. attempt_family env (scripted out) p i s io =
      (Inr \<lparr>fs_output = output, fs_trial_id = t\<rparr>, s, io') \<and> starts io' = starts io + (Suc k - i)"
proof (induction "k - i" arbitrary: i io)
  case 0
  then have i: "i = k" by simp
  have poll: "on_world (env_poll_cancel env) io = (False, io)"
    using assms(1) by (simp add: persistent_def on_world_def)
  obtain t io1 where t: "run_trial env (scripted out) p k s io =
      (Family_ends (Inr \<lparr>fs_output = output, fs_trial_id = t\<rparr>), s, io1)"
    using scripted_success [of env p out k "output", OF assms(1,2,3)] by blast
  have "attempt_family env (scripted out) p k s io =
      (Inr \<lparr>fs_output = output, fs_trial_id = t\<rparr>, s, io1)"
    using assms(4) poll t by (subst attempt_family.simps) simp
  then show ?case using starts_run_trial [OF t] by (simp add: i)
next
  case (Suc m)
  then have ik: "i < k" and m: "m = k - Suc i" by simp_all
  have poll: "on_world (env_poll_cancel env) io = (False, io)"
    using assms(1) by (simp add: persistent_def on_world_def)
  obtain e where e: "out i = Inl e" using Suc.prems(2) ik by blast
  have lt: "Suc i < family_max_attempts (ap_retry p)" using ik assms(4) by simp
  obtain io1 where t: "run_trial env (scripted out) p i s io = (Try_again, s, io1)"
    using scripted_failure [of env p out i e, OF assms(1) e lt] by blast
  have step: "attempt_family env (scripted out) p i s io =
      attempt_family env (scripted out) p (Suc i) s io1"
    using lt poll t by (subst attempt_family.simps) simp
  have "Suc i \<le> k" "\<forall>j. Suc i \<le> j \<longrightarrow> j < k \<longrightarrow> (\<exists>e. out j = Inl e)"
    using ik Suc.prems(2) by auto
  from Suc.hyps(1) [OF m this, of io1] show ?case
    using starts_run_trial [OF t] ik unfolding step by auto
qed

section \<open>The head of a superstep\<close>

lemma with_io_state [simp]:
  "x_state (snd (with_io f x)) = x_state x"
  "x_total_attempts (snd (with_io f x)) = x_total_attempts x"
  "x_failed_attempts (snd (with_io f x)) = x_failed_attempts x"
  "x_executed_nodes (snd (with_io f x)) = x_executed_nodes x"
  by (simp_all add: with_io_def split: prod.splits)

lemma save_checkpoint_frame [simp]:
  "x_state (save_checkpoint run n i j active x) = x_state x"
  "x_total_attempts (save_checkpoint run n i j active x) = x_total_attempts x"
  "x_executed_nodes (save_checkpoint run n i j active x) = x_executed_nodes x"
  by (simp_all add: save_checkpoint_def Let_def split: option.splits)

lemma save_snapshot_frame:
  assumes "save_snapshot run x = (r, x')"
  shows "x_state x' = x_state x" "x_total_attempts x' = x_total_attempts x"
    "x_executed_nodes x' = x_executed_nodes x"
proof -
  have "x_state x' = x_state x \<and> x_total_attempts x' = x_total_attempts x
      \<and> x_executed_nodes x' = x_executed_nodes x"
    using assms
    by (auto simp: save_snapshot_def with_io_def split: option.splits prod.splits sum.splits)
  then show "x_state x' = x_state x" "x_total_attempts x' = x_total_attempts x"
    "x_executed_nodes x' = x_executed_nodes x" by simp_all
qed

lemma poll_frame:
  assumes "poll_cancel run x = (c, x')"
  shows "x_state x' = x_state x" "x_total_attempts x' = x_total_attempts x"
    "x_executed_nodes x' = x_executed_nodes x"
  using assms by (auto simp: poll_cancel_def with_io_def split: prod.splits)

text \<open>
  An interrupt point in the superstep stops it before any node runs: the result is the
  interrupt, unless the store cannot save the snapshot.
\<close>

lemma interrupted_before:
  assumes "interrupt_point should_interrupt_before run current = Some node"
    and "run_superstep run i j current x = (r, x')"
  shows "x_state x' = x_state x" "x_total_attempts x' = x_total_attempts x"
    "x_executed_nodes x' = x_executed_nodes x"
    "r = Inl (InterruptError node None) \<or>
     (\<exists>m. r = Inl (CheckpointStore SaveStateSnapshot m)) \<and> g_checkpoint_store (r_graph run) \<noteq> None"
proof -
  define y where "y = save_checkpoint run node i j current
      (exec_emit (InterruptRaised (header run) node ''before'' Null)
        (exec_emit (SuperstepStart (header run) j current) x))"
  obtain q z where q: "save_snapshot run y = (q, z)" by (cases "save_snapshot run y")
  have x': "x' = z \<and> r = (case q of Inl e \<Rightarrow> Inl e | Inr _ \<Rightarrow> Inl (InterruptError node None))"
    using assms q
    by (cases q) (auto simp: run_superstep_def check_interrupt_before_def y_def Let_def)
  note fr = save_snapshot_frame [OF q]
  show "x_state x' = x_state x" "x_total_attempts x' = x_total_attempts x"
    "x_executed_nodes x' = x_executed_nodes x"
    using x' fr by (simp_all add: y_def)
  show "r = Inl (InterruptError node None) \<or>
     (\<exists>m. r = Inl (CheckpointStore SaveStateSnapshot m)) \<and> g_checkpoint_store (r_graph run) \<noteq> None"
    using x' q
    by (auto simp: save_snapshot_def checkpoint_store_error_def
        split: option.splits prod.splits sum.splits)
qed

section \<open>The terminal record\<close>

context run_ledger
begin

lemma terminal_record:
  assumes "g_checkpoint_store (r_graph run) = Some store"
    and "record_terminal run inner x = (result, x')"
  shows "case result of
      Inr s \<Rightarrow> inner = Inr s \<and> status (io_world (x_io x')) (r_run_id run) = Some Run_completed
    | Inl e \<Rightarrow>
        (\<exists>m. e = CheckpointStore CompleteRun m \<or> e = CheckpointStore FailRun m) \<or>
        inner = Inl e \<and> status (io_world (x_io x')) (r_run_id run) = Some Run_failed"
proof (cases inner)
  case (Inl e)
  let ?m = "if e = Cancelled then ''cancelled'' else error_text e"
  obtain q w where q: "cs_fail_run store (r_run_id run) ?m (io_world (x_io x)) = (q, w)"
    by (cases "cs_fail_run store (r_run_id run) ?m (io_world (x_io x))")
  show ?thesis
    using assms Inl q fail_run_ok [of "r_run_id run" ?m "io_world (x_io x)" _ w]
    by (cases q) (auto simp: record_terminal_def with_io_def on_world_def checkpoint_store_error_def)
next
  case (Inr s)
  obtain q w where q: "cs_complete_run store (r_run_id run) (io_world (x_io x)) = (q, w)"
    by (cases "cs_complete_run store (r_run_id run) (io_world (x_io x))")
  show ?thesis
    using assms Inr q complete_run_ok [of "r_run_id run" "io_world (x_io x)" _ w]
    by (cases q) (auto simp: record_terminal_def with_io_def on_world_def checkpoint_store_error_def)
qed

lemma execute_terminal_record:
  assumes "g_checkpoint_store (r_graph run) = Some store"
    and "execute run start_node x = ((result, summary), x')"
  shows "case result of
      Inr s \<Rightarrow> status (io_world (x_io x')) (r_run_id run) = Some Run_completed
    | Inl e \<Rightarrow>
        (\<exists>m. e = CheckpointStore CompleteRun m \<or> e = CheckpointStore FailRun m) \<or>
        status (io_world (x_io x')) (r_run_id run) = Some Run_failed"
proof -
  define x0 where "x0 = exec_emit (RunStart (header run) (g_graph_name (r_graph run))) x"
  obtain inner x1 where inner: "execute_inner run start_node x0 = (inner, x1)"
    by (cases "execute_inner run start_node x0")
  obtain q x2 where t: "record_terminal run inner x1 = (q, x2)"
    by (cases "record_terminal run inner x1")
  have "result = q" and "x' = exec_emit (RunEnd (header run)) x2"
    using assms(2) inner t by (auto simp: execute_def x0_def Let_def)
  then show ?thesis
    using terminal_record [OF assms(1) t] by (auto simp: exec_emit_def split: sum.splits)
qed

end

end
