(* ===== verification/Engine_Congruence.thy ===== *)
theory Engine_Congruence
  imports Engine_Run
begin

text \<open>
  Two runs that agree on everything the engine reads, executors being compared by the
  closures they give, behave the same. Interpreted twice: a graph with its cycle
  detection switched off, and a graph whose executor is replaced by the default one.
\<close>

locale similar_runs =
  fixes run run' :: "'w run"
  assumes env: "r_env run' = r_env run"
    and config: "r_config run' = r_config run"
    and run_id: "r_run_id run' = r_run_id run"
    and trace_ctx: "r_trace_ctx run' = r_trace_ctx run"
    and started_at: "r_started_at run' = r_started_at run"
    and nodes: "g_nodes (r_graph run') = g_nodes (r_graph run)"
    and edges: "g_edges (r_graph run') = g_edges (r_graph run)"
    and max_iterations: "g_max_iterations (r_graph run') = g_max_iterations (r_graph run)"
    and retry_policies: "g_retry_policies (r_graph run') = g_retry_policies (r_graph run)"
    and interrupts: "g_interrupt_config (r_graph run') = g_interrupt_config (r_graph run)"
    and checkpointer: "g_checkpointer (r_graph run') = g_checkpointer (r_graph run)"
    and store: "g_checkpoint_store (r_graph run') = g_checkpoint_store (r_graph run)"
    and graph_name: "g_graph_name (r_graph run') = g_graph_name (r_graph run)"
    and exec_once: "exec_once_of run' = exec_once_of run"
begin

lemmas fields = env config run_id trace_ctx started_at nodes edges max_iterations retry_policies
  interrupts checkpointer store graph_name exec_once

lemma legacy: "legacy_trace_id run' = legacy_trace_id run"
  by (simp add: legacy_trace_id_def fields)

lemma header: "header run' = header run"
  by (simp add: header_def fields legacy)

lemma params: "attempt_params_of run' = attempt_params_of run"
  by ((rule ext)+, unfold attempt_params_of_def fields legacy, rule refl)

lemma invoke: "invoke_node run' = invoke_node run"
  by ((rule ext)+, unfold invoke_node_def report_success_def report_failure_def fields header
      params, rule refl)

lemma single: "execute_single_node run' = execute_single_node run"
  by ((rule ext)+, unfold execute_single_node_def fields invoke, rule refl)

lemma edge_list: "edge_list_targets run' es x = edge_list_targets run es x"
proof (induction es arbitrary: x)
  case Nil
  then show ?case by simp
next
  case (Cons e es)
  then show ?case
    by (cases e) (simp_all add: config Cons.IH cong: sum.case_cong)
qed

lemma resolve: "resolve_output run' = resolve_output run"
  by ((rule ext)+, unfold resolve_output_def get_edge_targets_def edge_list fields, rule refl)

lemma spawn: "spawn_parallel_branch run' = spawn_parallel_branch run"
  by ((rule ext)+, unfold spawn_parallel_branch_def fields, rule refl)

lemma abort: "abort_branches run' = abort_branches run"
  by ((rule ext)+, unfold abort_branches_def fields, rule refl)

lemma one: "join_one run' = join_one run"
  by ((rule ext)+, unfold join_one_def cancel_siblings_def run_branch_def pick_branch_def fields
      invoke abort header, rule refl)

lemma join_of:
  "run0 = run \<Longrightarrow> join_branches run' pending join_set active results x =
   join_branches run0 pending join_set active results x"
proof (induction run0 pending join_set active results x rule: join_branches.induct)
  case (1 run0 pending join_set active results x)
  show ?case
  proof (cases "join_set = []")
    case True
    then show ?thesis by (simp add: join_branches.simps)
  next
    case False
    note unfold_join = join_branches.simps [of _ _ join_set]
    obtain q x1 where one_q: "join_one run0 join_set active x = (q, x1)"
      by (cases "join_one run0 join_set active x")
    show ?thesis
    proof (cases q)
      case (Inl e)
      then show ?thesis using False one_q "1.prems" by (simp add: unfold_join one)
    next
      case (Inr t)
      obtain r rest active1 where t: "t = (r, rest, active1)" by (cases t)
      have one': "join_one run0 join_set active x = (Inr (r, rest, active1), x1)"
        using one_q Inr t by simp
      show ?thesis
      proof (cases pending)
        case Nil
        from "1.IH"(1) [OF False one' [symmetric] refl refl refl Nil "1.prems"]
        show ?thesis using False one' Nil "1.prems" by (simp add: unfold_join one)
      next
        case (Cons name pending1)
        obtain js x2 where sp: "spawn_parallel_branch run0 name rest x1 = (js, x2)"
          by (cases "spawn_parallel_branch run0 name rest x1")
        from "1.IH"(2) [OF False one' [symmetric] refl refl refl Cons sp [symmetric] _ "1.prems"]
        show ?thesis using False one' Cons sp "1.prems"
          by (cases js) (simp_all add: unfold_join one spawn abort)
      qed
    qed
  qed
qed

lemmas join = join_of [OF refl]

lemma spawns: "spawn_all run' names join_set x = spawn_all run names join_set x"
  by (induction names arbitrary: join_set x)
    (simp_all add: spawn abort split: prod.splits sum.splits)

lemma outputs: "resolve_outputs run' rs x = resolve_outputs run rs x"
proof (induction rs arbitrary: x)
  case Nil
  then show ?case by simp
next
  case (Cons r rs)
  then show ?case by (cases r) (simp add: resolve Cons.IH)
qed

lemma superstep: "execute_superstep run' = execute_superstep run"
  by ((rule ext)+, unfold execute_superstep_def execute_parallel_def run_branches_def
      merge_branches_def single resolve spawns join outputs fields, rule refl)

lemma turn: "run_superstep run' = run_superstep run"
  by ((rule ext)+, unfold run_superstep_def check_interrupt_before_def check_interrupt_after_def
      interrupt_point_def save_checkpoint_def save_snapshot_def superstep header fields, rule refl)

lemma limit: "max_iter run' = max_iter run"
  by (simp add: max_iter_def fields)

lemma poll: "poll_cancel run' = poll_cancel run"
  by (unfold poll_cancel_def fields, rule refl)

lemma loop:
  assumes "\<And>k. k < max_iter run \<Longrightarrow> cycle_detected run' k = cycle_detected run k"
  shows "superstep_loop run' n n superstep x = superstep_loop run n n superstep x"
proof (induction "max_iter run - n" arbitrary: n superstep x)
  case 0
  then have "max_iter run \<le> n" by simp
  then show ?case
    unfolding superstep_loop.simps [of _ n n superstep] Let_def poll limit
    by (simp split: prod.splits bool.splits)
next
  case (Suc m)
  then have n: "n < max_iter run" and m: "m = max_iter run - Suc n" by simp_all
  show ?case
    unfolding superstep_loop.simps [of _ n n superstep] Let_def poll limit turn
      assms [OF n] Suc.hyps(1) [OF m] by (rule refl)
qed

lemma inner:
  assumes "\<And>k. k < max_iter run \<Longrightarrow> cycle_detected run' k = cycle_detected run k"
  shows "execute_inner run' = execute_inner run"
proof -
  have start: "superstep_loop run' 0 0 = superstep_loop run 0 0"
    by (intro ext) (rule loop [OF assms])
  show ?thesis
    by ((rule ext)+, unfold execute_inner_def get_edge_targets_def edge_list fields start, rule refl)
qed

lemma whole_run:
  assumes "\<And>k. k < max_iter run \<Longrightarrow> cycle_detected run' k = cycle_detected run k"
  shows "execute run' = execute run"
proof -
  have i: "execute_inner run' = execute_inner run"
    by (rule inner) (rule assms)
  show ?thesis
    by ((rule ext)+, unfold execute_def record_terminal_def build_run_summary_def header fields
        legacy i, rule refl)
qed

end

section \<open>Cycle detection\<close>

definition set_cycle_detection :: "bool \<Rightarrow> 'w run \<Rightarrow> 'w run" where
  "set_cycle_detection e run =
     run\<lparr>r_graph := (r_graph run)\<lparr>g_enable_cycle_detection := e\<rparr>\<rparr>"

interpretation cycle: similar_runs run "set_cycle_detection e run" for run :: "'w run" and e
  by unfold_locales
    (simp_all add: set_cycle_detection_def exec_once_of_def fun_eq_iff split: option.splits)

text \<open>Step number and iteration are equal, so the test cannot fire before the limit does.\<close>

lemma cycle_never_detected:
  "max_iter run < 2 ^ 63 \<Longrightarrow> k < max_iter run \<Longrightarrow> \<not> cycle_detected run k"
  by (simp add: cycle_detected_def)

section \<open>The default executor\<close>

definition set_executor :: "'w executor option \<Rightarrow> 'w run \<Rightarrow> 'w run" where
  "set_executor ex run = run\<lparr>r_graph := (r_graph run)\<lparr>g_executor := ex\<rparr>\<rparr>"

interpretation in_process: similar_runs "set_executor None run"
    "set_executor (Some in_process_executor) run" for run :: "'w run"
  by unfold_locales
    (simp_all add: set_executor_def exec_once_of_def in_process_executor_def legacy_executor_def
      fun_eq_iff)

end
