(* ===== verification/Sample_Runs.thy ===== *)
theory Sample_Runs
  imports Run_Laws Engine_Congruence
begin

text \<open>
  Concrete environments and graphs on which the witnesses apply the properties of the
  engine, and the behaviour of a node that has no effect.
\<close>

definition sample_env :: "'w env" where
  "sample_env = \<lparr>env_size = (\<lambda>_. 1), env_hash = concat, env_now = (\<lambda>_. 0),
     env_new_run_id = (\<lambda>w. (''run'', w)), env_new_attempt_id = (\<lambda>w. (''attempt'', w)),
     env_new_trial_id = (\<lambda>w. (''trial'', w)), env_new_trace_ctx = (\<lambda>_. ''ctx''),
     env_legacy_trace_id = id, env_from_legacy = id, env_poll_cancel = (\<lambda>w. (False, w)),
     env_sleep = (\<lambda>_ w. w), env_pow = (\<lambda>_ _. Finite 1), env_jitter_hash = (\<lambda>_. 0),
     env_pick = (\<lambda>_ _. 0), env_panic = (\<lambda>_ _. None), env_abort = (\<lambda>_ w. ([], w))\<rparr>"

definition done_node :: "'w node" where
  "done_node s config w = (Inr Node_done, s, w)"

text \<open>Two nodes that end.\<close>

definition sample_graph :: "'w agent_graph" where
  "sample_graph = add_node ''b'' done_node (add_node ''a'' done_node builder)"

definition sample_run :: "'w env \<Rightarrow> 'w agent_graph \<Rightarrow> 'w run" where
  "sample_run env g = \<lparr>r_env = env, r_graph = g, r_config = default_config, r_run_id = ''run'',
     r_trace_ctx = ''ctx'', r_started_at = 0\<rparr>"

lemma sample_env_simps [simp]:
  "env_size sample_env v = 1" "env_poll_cancel sample_env = (\<lambda>w. (False, w))"
  "env_new_run_id sample_env w = (''run'', w)"
  "env_new_attempt_id sample_env w = (''attempt'', w)"
  "env_new_trial_id sample_env w = (''trial'', w)"
  "env_now sample_env w = 0" "env_new_trace_ctx sample_env w = ''ctx''"
  "env_pick sample_env ns w = 0" "env_panic sample_env n w = None"
  "env_pow sample_env = (\<lambda>_ _. Finite 1)"
  by (simp_all add: sample_env_def)

lemma sample_run_simps [simp]:
  "r_env (sample_run env g) = env" "r_graph (sample_run env g) = g"
  "r_config (sample_run env g) = default_config" "r_run_id (sample_run env g) = ''run''"
  "r_trace_ctx (sample_run env g) = ''ctx''"
  by (simp_all add: sample_run_def)

lemma sample_graph_simps [simp]:
  "map_of (g_nodes sample_graph) n = (if n = ''a'' \<or> n = ''b'' then Some done_node else None)"
  "g_retry_policies sample_graph = []" "g_checkpoint_store sample_graph = None"
  "g_executor sample_graph = None" "g_edges sample_graph = []"
  "g_interrupt_config sample_graph = None" "g_checkpointer sample_graph = None"
  "g_max_iterations sample_graph = 100" "g_enable_cycle_detection sample_graph"
  "g_graph_name sample_graph = None" "g_reducers sample_graph = []"
  by (simp_all add: sample_graph_def builder_defs)

section \<open>Nodes without effects\<close>

lemma family_of_done_node:
  assumes "ap_retry p = None" and "ap_store p = None"
    and "env_poll_cancel env = (\<lambda>w. (False, w))"
  shows "\<exists>t io'. attempt_family env (\<lambda>ctx s. done_node s config) p 0 s io =
    (Inr \<lparr>fs_output = Node_done, fs_trial_id = t\<rparr>, s, io')"
proof -
  have poll: "on_world (env_poll_cancel env) io = (False, io)"
    by (simp add: assms(3) on_world_def)
  obtain t io1 where t: "on_world (env_new_trial_id env) io = (t, io1)"
    by (cases "on_world (env_new_trial_id env) io")
  show ?thesis
    using poll t assms(1,2)
    by (subst attempt_family.simps)
      (simp add: family_max_attempts_def run_trial_def begin_trial_def complete_trial_def
        done_node_def Let_def)
qed

lemma run_branch_of_done_node:
  assumes "map_of (g_nodes (r_graph run)) (b_name b) = Some done_node"
    and "map_of (g_retry_policies (r_graph run)) (b_name b) = None"
    and "g_checkpoint_store (r_graph run) = None" and "g_executor (r_graph run) = None"
    and "env_poll_cancel (r_env run) = (\<lambda>w. (False, w))"
  shows "\<exists>y'. run_branch run b y =
    (Inr (b_name b, (b_state b)\<lparr>st_reducers := st_reducers (x_state y)\<rparr>, Node_done), y')"
proof -
  obtain i io1 where i: "on_world (env_new_attempt_id (r_env run)) (x_io y) = (i, io1)"
    by (cases "on_world (env_new_attempt_id (r_env run)) (x_io y)")
  let ?p = "attempt_params_of run (b_name b) (b_family_attempt b) i"
  let ?s = "(b_state b)\<lparr>st_reducers := st_reducers (x_state y)\<rparr>"
  obtain t io2 where fam: "attempt_family (r_env run) (\<lambda>ctx s. done_node s (r_config run)) ?p 0 ?s io1
      = (Inr \<lparr>fs_output = Node_done, fs_trial_id = t\<rparr>, ?s, io2)"
    using family_of_done_node [of ?p "r_env run" "r_config run" ?s io1] assms(2,3,5)
    by (auto simp: attempt_params_of_def)
  then show ?thesis
    using assms(1,4) i
    by (simp add: run_branch_def invoke_node_def exec_once_of_def Let_def)
qed

lemma export_reducers: "export (s\<lparr>st_reducers := r\<rparr>) = export s"
  by (simp add: export_def read_data_def timed_out_def)

lemma done_node_outcomes:
  assumes "\<forall>n \<in> set current. map_of (g_nodes (r_graph run)) n = Some done_node
      \<and> map_of (g_retry_policies (r_graph run)) n = None"
    and "g_checkpoint_store (r_graph run) = None" and "g_executor (r_graph run) = None"
    and "env_poll_cancel (r_env run) = (\<lambda>w. (False, w))"
  shows "branch_outcomes run s0 current (\<lambda>_. (export s0, Node_done))"
  unfolding branch_outcomes_def
proof (intro allI impI)
  fix b y r y'
  assume b: "b_name b \<in> set current" "forked_from s0 b" "run_branch run b y = (Inr r, y')"
  obtain y1 where "run_branch run b y =
      (Inr (b_name b, (b_state b)\<lparr>st_reducers := st_reducers (x_state y)\<rparr>, Node_done), y1)"
    using run_branch_of_done_node [of run b y] assms b(1) by auto
  then have r: "r = (b_name b, (b_state b)\<lparr>st_reducers := st_reducers (x_state y)\<rparr>, Node_done)"
    using b(3) by simp
  have "b_state b = (fork s0)\<lparr>st_reducers := st_reducers (b_state b)\<rparr>"
    using b(2) by (simp add: forked_from_def up_to_reducers_def)
  then have "export (b_state b) = export s0"
    by (metis export_reducers export_fork)
  then show "result_view r = (b_name b, export s0, Node_done)"
    by (simp add: r result_view_def export_reducers)
qed

section \<open>A run of one node\<close>

lemma sample_superstep:
  fixes x :: "'w exec"
  defines "run \<equiv> sample_run sample_env (sample_graph :: 'w agent_graph)"
  shows "\<exists>y. run_superstep run 0 0 [''a''] x = (Inr [], y) \<and> x_state y = x_state x \<and>
    marks (x_io y) = marks (x_io x) @ [SuperstepStart (header run) 0 [''a''], SuperstepEnd (header run) 0]"
proof -
  let ?x0 = "exec_emit (SuperstepStart (header run) 0 [''a'']) x"
  let ?x1 = "?x0\<lparr>x_total_attempts := x_total_attempts ?x0 + 1,
      x_executed_nodes := insert_name ''a'' (x_executed_nodes ?x0)\<rparr>"
  obtain i io1 where i: "on_world (env_new_attempt_id (r_env run)) (x_io ?x1) = (i, io1)"
    by (cases "on_world (env_new_attempt_id (r_env run)) (x_io ?x1)")
  let ?p = "attempt_params_of run ''a'' (x_total_attempts ?x1) i"
  obtain t io2 where fam: "attempt_family (r_env run) (\<lambda>ctx s. done_node s default_config) ?p 0
      (x_state ?x1) io1 = (Inr \<lparr>fs_output = Node_done, fs_trial_id = t\<rparr>, x_state ?x1, io2)"
    using family_of_done_node [of ?p "r_env run" default_config "x_state ?x1" io1]
    by (auto simp: attempt_params_of_def run_def)
  have inv: "\<exists>io'. invoke_node run ''a'' done_node (x_total_attempts ?x1) (x_state ?x1) (x_io ?x1)
      = (Inr Node_done, x_state ?x1, io')"
    using i fam by (simp add: run_def invoke_node_def exec_once_of_def)
  obtain y where y: "execute_single_node run ''a'' ?x0 = (Inr Node_done, y)" "x_state y = x_state x"
    using inv by (auto simp: run_def execute_single_node_def Let_def exec_emit_def)
  have "marks (x_io y) = marks (x_io ?x0)"
    using quiet_single [of run "''a''" ?x0] y(1) by simp
  moreover have "run_superstep run 0 0 [''a''] x = (Inr [], exec_emit (SuperstepEnd (header run) 0) y)"
    using y(1) by (simp add: run_def run_superstep_def check_interrupt_before_def interrupt_point_def
      check_interrupt_after_def execute_superstep_def save_checkpoint_def save_snapshot_def
      dedup_next_nodes_def resolve_output_def get_edge_targets_def Let_def)
  ultimately show ?thesis using y(2) by (simp add: exec_emit_def)
qed

lemma loop_end: "superstep_loop run i j [] x = (Inr (x_state x), x)"
  by (subst superstep_loop.simps) simp

lemma sample_execute:
  fixes w :: 'w
  defines "run \<equiv> sample_run sample_env (sample_graph :: 'w agent_graph)"
  shows "\<exists>sum x'. execute run ''a'' (start_exec s w) = ((Inr s, sum), x') \<and>
    marks (x_io x') = [RunStart (header run) None, SuperstepStart (header run) 0 [''a''],
      SuperstepEnd (header run) 0, RunEnd (header run)]"
proof -
  let ?x0 = "exec_emit (RunStart (header run) None) (start_exec s w)"
  have poll: "poll_cancel run x = (False, x)" for x
    by (simp add: poll_cancel_def run_def with_io_def on_world_def)
  obtain y where y: "run_superstep run 0 0 [''a''] ?x0 = (Inr [], y)" "x_state y = x_state ?x0"
      "marks (x_io y) = marks (x_io ?x0)
         @ [SuperstepStart (header run) 0 [''a''], SuperstepEnd (header run) 0]"
    using sample_superstep [of ?x0] by (auto simp: run_def)
  have loop: "superstep_loop run 0 0 [''a''] ?x0 = (Inr (x_state y), y)"
    using y(1) poll by (subst superstep_loop.simps)
      (simp add: loop_end END_def max_iter_def default_config_def cycle_detected_def run_def)
  have "marks (x_io ?x0) = [RunStart (header run) None]"
    by (simp add: start_exec_def marks_def exec_emit_def)
  then show ?thesis
    using loop y(2,3)
    by (simp add: execute_def execute_inner_def START_def record_terminal_def run_def Let_def
        start_exec_def exec_emit_def)
qed

end
