(* ===== verification/Engine_Properties.thy ===== *)
theory Engine_Properties
  imports Sample_Runs
begin

text \<open>
  The properties of the engine: the event pattern of a run, the parallel superstep and its
  merge, retries, interrupts, cancellation, and the terminal record.
\<close>

section \<open>Parallel supersteps\<close>


lemma sample_branches:
  fixes w :: 'w
  obtains results x' where "run_branches (sample_run sample_env sample_graph) [''a'', ''b'']
    (start_exec new_state w) = (Inr results, x')"
proof -
  let ?run = "sample_run (sample_env :: 'w env) sample_graph"
  obtain js x1 where sp: "spawn_all ?run [''a'', ''b''] [] (start_exec new_state w) = (Inr js, x1)"
      "map b_name js = [''a'', ''b'']"
    by (simp add: spawn_parallel_branch_def start_exec_def Let_def)
  have finishes: "\<exists>r y'. run_branch ?run b y = (Inr r, y')" if "b_name b \<in> {''a'', ''b''}" for b y
    using run_branch_of_done_node [of ?run b y] that by auto
  have all: "\<exists>results x'. join_branches ?run [] js active rs y = (Inr results, x')"
    if "\<forall>b \<in> set js. b_name b \<in> {''a'', ''b''}" for js active rs y
    using that
  proof (induction "length js" arbitrary: js active rs y)
    case 0
    then show ?case by (simp add: join_branches.simps)
  next
    case (Suc n)
    then obtain b rest where js: "js = b # rest" by (cases js) auto
    obtain r y' where r: "run_branch ?run b y = (Inr r, y')"
      using finishes Suc.prems js by fastforce
    have "join_one ?run js active y = (Inr (r, rest, remove1 (b_name b) active), y')"
      using r by (simp add: join_one_def pick_branch_def js)
    moreover have "\<exists>results x'. join_branches ?run [] rest (remove1 (b_name b) active) (rs @ [r]) y'
        = (Inr results, x')"
      using Suc js by simp
    ultimately show ?case
      using js by (subst join_branches.simps) simp
  qed
  have "\<forall>b \<in> set js. b_name b \<in> {''a'', ''b''}"
    using sp(2) by (metis image_eqI insert_iff list.set(1) list.set_map list.simps(15))
  then obtain results x' where "join_branches ?run [] js [''a'', ''b''] [] x1 = (Inr results, x')"
    using all by blast
  then show thesis
    using sp(1) that by (simp add: run_branches_def default_config_def Let_def del: spawn_all.simps)
qed






section \<open>The merge\<close>

text \<open>
  C3: A successful merge leaves at every key the fold of the key's reducer, from the value
  before the superstep, over the values the branches changed, in superstep order; without
  a reducer the last branch wins, and a key that no branch changed is left alone.
\<close>

theorem merge_folds_the_reducer:
  assumes "merge_parallel_states sz snap branches s = (Inr u, s')"
    and "\<forall>(_, b, _) \<in> set branches. hm_wf (export b)" and "can_read (st_reducers_lock s)"
  shows "let vs = contributions snap branches k in
    if vs = [] then map_of (st_data s') k = map_of (st_data s) k
    else case map_of (st_reducers s) k of
        None \<Rightarrow> map_of (st_data s') k = Some (last vs)
      | Some r \<Rightarrow> (\<exists>v. reduce_all r vs (case map_of snap k of Some b \<Rightarrow> b | None \<Rightarrow> Null) = Inr v
          \<and> map_of (st_data s') k = Some v)"
  using merge_lookup [OF assms(1), of k] assms(2,3)
  by (auto simp: branches_wf_def Let_def merged_value_no_reducer merged_value_reducer
      split: option.splits)

theorem merge_folds_the_reducer_witness:
  "map_of (st_data (store_data new_state [(''k'', Bool False)])) ''k'' = Some (Bool False)"
  using merge_folds_the_reducer [of "\<lambda>_. 1" "[]"
      "[(''a'', with_data [(''k'', Bool True)], Node_done),
        (''b'', with_data [(''k'', Bool False)], Node_done)]" new_state "()"
      "store_data new_state [(''k'', Bool False)]" "''k''"]
  by (simp add: merge_parallel_states_def collect_changes_def push_change_def merge_key_def
      apply_reducer_def read_reducers_def set_raw_def write_data_def validate_insert_def
      validate_value_size_def contains_key_def store_data_def new_state_def with_limits_def
      with_data_def with_data_and_limits_def default_limits_def export_def read_data_def
      hm_wf_def contributions_def contributed_def List.map_filter_def Let_def)

lemma set_on_fork:
  assumes "set_state sz k (Array ys) (fork s) = Inr b"
    and "map_of (st_reducers s) k = Some append_reducer"
    and "map_of (export s) k = Some (Array xs)" and "hm_wf (export s)"
  shows "map_of (export b) k = Some (Array (xs @ ys)) \<and> hm_wf (export b)"
proof -
  obtain w where w: "set_prepare sz (fork s) k (Array ys) = Inr w" "set_raw sz k w (fork s) = Inr b"
    using assms(1) by (auto simp: set_state_Inr)
  have "w = Array (xs @ ys)"
    using w(1) assms(2,3)
    by (auto simp: set_prepare_def serialize_value_def bind_result_Inr_iff read_data_def
        reduce_value_if_needed_def read_reducers_def append_reducer_def split: if_splits)
  moreover have "export b = st_data b"
    using w(2) by (auto simp: set_raw_Inr export_def read_data_def)
  moreover have "hm_wf (st_data b)" using w(2) assms(4) by (auto simp: set_raw_Inr)
  ultimately show ?thesis using raw.view_put [OF w(2)] by simp
qed

text \<open>
  C32: Reducers count the old value once per branch: when branches \<open>set\<close> a key with the
  append reducer, the merge appends to the old items, for every branch, the old items
  again followed by the new ones.
\<close>

theorem parallel_appends_repeat_the_old_items:
  assumes "merge_parallel_states sz (export s) branches s = (Inr u, s')"
    and "\<forall>(n, b, out) \<in> set branches. ys n \<noteq> [] \<and> set_state sz k (Array (ys n)) (fork s) = Inr b"
    and "branches \<noteq> []" and "map_of (st_reducers s) k = Some append_reducer"
    and "map_of (export s) k = Some (Array xs)" and "hm_wf (export s)"
    and "can_read (st_reducers_lock s)"
  shows "map_of (st_data s') k =
    Some (Array (xs @ concat (map (\<lambda>(n, _, _). xs @ ys n) branches)))"
proof -
  have one: "map_of (export b) k = Some (Array (xs @ ys n)) \<and> hm_wf (export b) \<and> ys n \<noteq> []"
    if "(n, b, out) \<in> set branches" for n b out
    using set_on_fork [OF _ assms(4,5,6), of sz "ys n" b] assms(2) that by auto
  have contrib: "contributions (export s) bs k = map (\<lambda>(n, _, _). Array (xs @ ys n)) bs"
    if "set bs \<subseteq> set branches" for bs
    using that
  proof (induction bs)
    case Nil
    then show ?case by (simp add: contributions_def List.map_filter_simps)
  next
    case (Cons r bs)
    obtain n b out where r: "r = (n, b, out)" by (cases r)
    then have "contributed (export s) k b = Some (Array (xs @ ys n))"
      using one [of n b out] Cons.prems assms(5) by (simp add: contributed_def)
    then show ?case
      using Cons by (simp add: r contributions_def List.map_filter_simps)
  qed
  have "branches_wf branches" using one by (auto simp: branches_wf_def)
  then obtain v where v: "merged_value s (export s) k (contributions (export s) branches k) = Inr v"
      "map_of (st_data s') k = Some v"
    using merge_lookup [OF assms(1), of k] contrib [of branches] assms(3) by auto
  have "concat (map update_items (map (\<lambda>(n, _, _). Array (xs @ ys n)) branches))
      = concat (map (\<lambda>(n, _, _). xs @ ys n) branches)"
    by (rule arg_cong [where f = concat]) (auto split: prod.splits)
  then show ?thesis
    using v contrib [of branches] assms(3,4,5,7)
    by (simp add: merged_value_reducer reduce_all_append)
qed

theorem parallel_appends_repeat_the_old_items_witness:
  "map_of (st_data (store_data (register_reducer ''k'' append_reducer
       (with_data [(''k'', Array [Bool True])]))
       [(''k'', Array [Bool True, Bool True, Null])])) ''k''
   = Some (Array ([Bool True] @ concat [[Bool True] @ [Null]]))"
  using parallel_appends_repeat_the_old_items [of "\<lambda>_. 1"
      "register_reducer ''k'' append_reducer (with_data [(''k'', Array [Bool True])])"
      "[(''a'', store_data (fork (register_reducer ''k'' append_reducer
          (with_data [(''k'', Array [Bool True])]))) [(''k'', Array [Bool True, Null])], Node_done)]"
      "()" "store_data (register_reducer ''k'' append_reducer (with_data [(''k'', Array [Bool True])]))
        [(''k'', Array [Bool True, Bool True, Null])]" "\<lambda>_. [Null]" "''k''" "[Bool True]"]
  by (simp add: merge_parallel_states_def collect_changes_def push_change_def merge_key_def
      apply_reducer_def read_reducers_def set_raw_def write_data_def validate_insert_def
      validate_value_size_def contains_key_def store_data_def register_reducer_def
      write_reducers_def with_data_def with_data_and_limits_def default_limits_def export_def
      read_data_def hm_wf_def fork_def set_state_def set_prepare_def serialize_value_def
      reduce_value_if_needed_def append_reducer_def)

section \<open>Retries\<close>

text \<open>
  C16: A retry family starts at most \<open>max_attempts\<close> trials (one without a policy, and one
  when the policy says zero), whatever the node, the store and the cancellation flag do.
\<close>

theorem family_starts_at_most_max_attempts:
  "starts (snd (snd (attempt_family env exec_once p 0 s io)))
     \<le> starts io + (case ap_retry p of None \<Rightarrow> 1 | Some policy \<Rightarrow> max 1 (max_attempts policy))"
proof -
  obtain r s' io' where f: "attempt_family env exec_once p 0 s io = (r, s', io')"
    by (cases "attempt_family env exec_once p 0 s io")
  then show ?thesis
    using starts_family [OF f] by (simp add: family_max_attempts_def split: option.splits)
qed


lemma sample_delay: "delay_for_attempt (\<lambda>_ _. Finite 1) h
    (with_jitter False (with_initial_interval 0 default_retry)) i = Some 0"
proof -
  have z: "rounded 0 = 0" by (simp add: rounded_def f64_round_def)
  have zero: "as_secs_f64 0 = 0" by (simp add: as_secs_f64_def z)
  have sixty: "rounded 60 = 60"
    using f64_round_small_int [of 60] by (simp add: rounded_def)
  have "as_secs_f64 60000000000 = 60" by (simp add: as_secs_f64_def z sixty)
  then show ?thesis
    using round_half_even_of_int [of 0]
    by (simp add: delay_for_attempt_def with_jitter_def with_initial_interval_def
        default_retry_def zero xf64_of_def f64_round_def Let_def)
qed

lemma sample_policy:
  "retry_on (with_jitter False (with_initial_interval 0 default_retry)) = None"
  "max_attempts (with_jitter False (with_initial_interval 0 default_retry)) = 3"
  by (simp_all add: with_jitter_def with_initial_interval_def default_retry_def)


end
