(* ===== verification/Run_Properties.thy ===== *)
theory Run_Properties
  imports Sample_Runs
begin

text \<open>
  Properties of whole runs: the event log, cycle detection, executors, interrupts and
  resumption, cancellation, the terminal record, and graphs used as nodes.
\<close>

section \<open>The log of a run\<close>

text \<open>
  C1: Every run terminates, and its log has this shape: the run start, supersteps
  \<open>0, 1, 2, ...\<close> each opened and closed in order, at most one last superstep that was opened
  and not closed (only when the run fails), and the run end. The number of supersteps
  opened never exceeds the iteration limit.
\<close>

theorem run_log_is_a_sequence_of_supersteps:
  assumes "execute run start_node x = ((result, summary), x')"
  shows "\<exists>mid j aborted.
    marks (x_io x') = marks (x_io x) @ [RunStart (header run) (g_graph_name (r_graph run))]
      @ mid @ [RunEnd (header run)]
    \<and> list_all (\<lambda>e. superstep_mark e \<noteq> None) mid
    \<and> List.map_filter superstep_mark mid = superstep_trace 0 j aborted
    \<and> j + (if aborted then 1 else 0) \<le> max_iter run
    \<and> (aborted \<longrightarrow> (\<exists>e. result = Inl e))"
proof -
  define x0 where "x0 = exec_emit (RunStart (header run) (g_graph_name (r_graph run))) x"
  have m0: "marks (x_io x0) = marks (x_io x) @ [RunStart (header run) (g_graph_name (r_graph run))]"
    by (simp add: x0_def)
  obtain inner x1 where inner: "execute_inner run start_node x0 = (inner, x1)"
    by (cases "execute_inner run start_node x0")
  obtain q x2 where t: "record_terminal run inner x1 = (q, x2)"
    by (cases "record_terminal run inner x1")
  have fin: "result = q" "x' = exec_emit (RunEnd (header run)) x2"
    using assms inner t by (auto simp: execute_def x0_def Let_def)
  have m2: "marks (x_io x2) = marks (x_io x1)"
    using t by (auto simp: record_terminal_def split: option.splits sum.splits prod.splits
        dest!: marks_with_io)
  have err: "\<exists>e. q = Inl e" if "inner = Inl e" for e
    using t that by (auto simp: record_terminal_def split: option.splits sum.splits prod.splits)
  have start: "quiet (if start_node = START then get_edge_targets run START x0
      else (Inr [start_node], x0)) x0"
    by (auto simp: get_edge_targets_def quiet_edge_list split: option.splits)
  have "\<exists>new j aborted. marks (x_io x1) = marks (x_io x0) @ new
      \<and> list_all (\<lambda>e. superstep_mark e \<noteq> None) new
      \<and> List.map_filter superstep_mark new = superstep_trace 0 j aborted
      \<and> j + (if aborted then 1 else 0) \<le> max_iter run \<and> (aborted \<longrightarrow> (\<exists>e. inner = Inl e))"
  proof -
    obtain r y where ry: "(if start_node = START then get_edge_targets run START x0
        else (Inr [start_node], x0)) = (r, y)"
      by (cases "if start_node = START then get_edge_targets run START x0
        else (Inr [start_node], x0)")
    then have my: "marks (x_io y) = marks (x_io x0)" using start by simp
    show ?thesis
    proof (cases r)
      case (Inl e)
      then have "inner = Inl e" "x1 = y" using inner ry by (simp_all add: execute_inner_def)
      then show ?thesis
        using my by (intro exI [of _ "[]"] exI [of _ 0] exI [of _ False])
          (simp add: superstep_trace_def List.map_filter_simps)
    next
      case (Inr ss)
      then have "superstep_loop run 0 0 ss y = (inner, x1)"
        using inner ry by (simp add: execute_inner_def)
      from loop_marks [OF this] my show ?thesis by auto
    qed
  qed
  then obtain new j aborted where new: "marks (x_io x1) = marks (x_io x0) @ new"
      "list_all (\<lambda>e. superstep_mark e \<noteq> None) new"
      "List.map_filter superstep_mark new = superstep_trace 0 j aborted"
      "j + (if aborted then 1 else 0) \<le> max_iter run" "aborted \<longrightarrow> (\<exists>e. inner = Inl e)"
    by blast
  have "aborted \<longrightarrow> (\<exists>e. result = Inl e)" using new(5) err fin(1) by blast
  moreover have "marks (x_io x') = marks (x_io x) @
      [RunStart (header run) (g_graph_name (r_graph run))] @ new @ [RunEnd (header run)]"
    using m0 m2 fin(2) new(1) by simp
  ultimately show ?thesis using new(2,3,4) by blast
qed

theorem run_log_is_a_sequence_of_supersteps_witness:
  "let run = sample_run sample_env (sample_graph :: unit agent_graph) in
    \<exists>x' mid j aborted. snd (execute run ''a'' (start_exec new_state ())) = x'
    \<and> marks (x_io x') = [RunStart (header run) None] @ mid @ [RunEnd (header run)]
    \<and> mid = [SuperstepStart (header run) 0 [''a''], SuperstepEnd (header run) 0]
    \<and> List.map_filter superstep_mark mid = superstep_trace 0 j aborted
    \<and> j + (if aborted then 1 else 0) \<le> 100"
proof -
  let ?run = "sample_run sample_env (sample_graph :: unit agent_graph)"
  obtain summary x' where e: "execute ?run ''a'' (start_exec new_state ()) = ((Inr new_state, summary), x')"
      and log: "marks (x_io x') = [RunStart (header ?run) None, SuperstepStart (header ?run) 0 [''a''],
        SuperstepEnd (header ?run) 0, RunEnd (header ?run)]"
    using sample_execute [of new_state "()"] by blast
  have m: "marks (x_io (start_exec new_state ())) = []" by (simp add: start_exec_def marks_def)
  have l: "max_iter ?run = 100" by (simp add: max_iter_def default_config_def)
  obtain mid j aborted where r: "marks (x_io x') = [RunStart (header ?run) None] @ mid @ [RunEnd (header ?run)]"
      "List.map_filter superstep_mark mid = superstep_trace 0 j aborted"
      "j + (if aborted then 1 else 0) \<le> 100"
    using run_log_is_a_sequence_of_supersteps [OF e] unfolding m l by auto
  moreover have "mid = [SuperstepStart (header ?run) 0 [''a''], SuperstepEnd (header ?run) 0]"
    using log r(1) by simp
  ultimately show ?thesis using e unfolding Let_def by (metis snd_conv)
qed

section \<open>Switches without effect\<close>

text \<open>
  Cycle detection never fires: with an iteration limit below \<open>2 ^ 63\<close> a run is the same
  whether the graph enables it or not, because the step number it compares with twice the
  limit never passes the limit itself.
\<close>

theorem cycle_detection_has_no_effect:
  assumes "max_iter run < 2 ^ 63"
  shows "execute (set_cycle_detection enabled run) = execute run"
proof (rule cycle.whole_run)
  fix k
  assume k: "k < max_iter run"
  then have "k < max_iter (set_cycle_detection enabled run)" by (simp add: cycle.limit)
  moreover have "max_iter (set_cycle_detection enabled run) < 2 ^ 63"
    using assms by (simp add: cycle.limit)
  ultimately show "cycle_detected (set_cycle_detection enabled run) k = cycle_detected run k"
    using cycle_never_detected [of run k] cycle_never_detected [of "set_cycle_detection enabled run" k]
      assms k by blast
qed

theorem cycle_detection_has_no_effect_witness:
  "execute (set_cycle_detection False (sample_run sample_env (sample_graph :: unit agent_graph)))
    = execute (sample_run sample_env sample_graph)"
  by (rule cycle_detection_has_no_effect) (simp add: max_iter_def default_config_def)

text \<open>
  The default executor is the same as none: a graph with \<open>InProcessExecutor\<close> runs
  exactly as a graph without an executor, events, store calls and results included.
\<close>

theorem in_process_executor_is_no_executor:
  "execute (set_executor (Some in_process_executor) run) = execute (set_executor None run)"
  by (rule in_process.whole_run) (simp add: cycle_detected_def max_iter_def set_executor_def)

section \<open>Interrupts and cancellation\<close>

text \<open>
  Resuming at an interrupt-before point never gets past it: on the same graph the
  resumed run raises the same interrupt at once, and starts no node.
\<close>

theorem resume_before_interrupts_again:
  assumes "g_checkpoint_store g = None" and "g_interrupt_config g = Some cfg"
    and "resume_node cp \<in> set (interrupt_before cfg)"
    and "resume_node cp \<noteq> START" and "resume_node cp \<noteq> END"
    and "icp_graph_hash cp \<in> {None, Some (compute_graph_hash env g)}"
    and "0 < cfg_recursion_limit config" and "0 < g_max_iterations g"
  shows "\<exists>io. resume env g state config cp w = (Inl (InterruptError (resume_node cp) None), io)
    \<and> starts io = 0"
proof -
  let ?n = "resume_node cp"
  obtain rid w1 where rid: "create_run_id (uncancellable env) g w = (Inr rid, w1)"
    using assms(1) by (cases "env_new_run_id env w")
      (simp add: create_run_id_def uncancellable_def)
  define run where "run = \<lparr>r_env = uncancellable env, r_graph = g, r_config = config,
    r_run_id = rid, r_trace_ctx = resolve_trace_ctx (env_from_legacy (uncancellable env))
      (env_new_trace_ctx (uncancellable env) w) config,
    r_started_at = env_now (uncancellable env) w1\<rparr>"
  have fields: "r_env run = uncancellable env" "r_graph run = g" "r_config run = config"
    by (simp_all add: run_def)
  define x where "x = start_exec (register_reducers_on_state g state) w1"
  define x0 where "x0 = exec_emit (RunStart (header run) (g_graph_name g)) x"
  have point: "interrupt_point should_interrupt_before run [?n] = Some ?n"
    using assms(2,3) by (simp add: interrupt_point_def fields should_interrupt_iff)
  have poll: "poll_cancel run x0 = (False, x0)"
    by (simp add: poll_cancel_def fields uncancellable_def with_io_def on_world_def)
  obtain r x1 where turn: "run_superstep run 0 0 [?n] x0 = (r, x1)"
    by (cases "run_superstep run 0 0 [?n] x0")
  have r: "r = Inl (InterruptError ?n None)"
    using interrupted_before(4) [OF point turn] assms(1) by (simp add: fields)
  have limit: "0 < max_iter run" using assms(7,8) by (simp add: max_iter_def fields)
  have loop: "superstep_loop run 0 0 [?n] x0 = (Inl (InterruptError ?n None), x1)"
    using assms(5) poll limit turn r
    by (subst superstep_loop.simps) (simp add: cycle_detected_def)
  have x1: "starts (x_io x1) = starts (x_io x0)"
  proof -
    have ck: "starts (x_io (save_checkpoint run n i j a y)) = starts (x_io y)" for n i j a y
      by (auto simp: save_checkpoint_def Let_def with_io_def starts_def
          split: option.splits prod.splits dest!: arg_cong [where f = "\<lambda>p. io_events (snd p)"])
    have sv: "save_snapshot run y = (Inr (), y)" for y
      by (simp add: save_snapshot_def fields assms(1))
    show ?thesis
      using turn point
      by (auto simp: run_superstep_def check_interrupt_before_def sv ck Let_def exec_emit_def)
  qed
  have inner: "execute_inner run ?n x0 = (Inl (InterruptError ?n None), x1)"
    using assms(4) loop by (simp add: execute_inner_def)
  have "execute run ?n x = ((Inl (InterruptError ?n None),
      build_run_summary run (result_status (Inl (InterruptError ?n None))) x1),
      exec_emit (RunEnd (header run)) x1)"
    using inner assms(1) by (simp add: execute_def fields x0_def record_terminal_def Let_def)
  then have "execute_with_config env g ?n state config w =
      (Inl (InterruptError ?n None), x_io (exec_emit (RunEnd (header run)) x1))"
    using rid by (simp add: execute_with_config_def execute_with_summary_def launch_def
        run_def x_def Let_def)
  moreover have "resume env g state config cp w = execute_with_config env g ?n state config w"
    using assms(6) by (auto simp: resume_def)
  moreover have "starts (x_io (exec_emit (RunEnd (header run)) x1)) = 0"
    using x1 by (simp add: exec_emit_def x0_def x_def start_exec_def starts_def)
  ultimately show ?thesis by simp
qed

theorem resume_before_interrupts_again_witness:
  "\<exists>io. resume sample_env (with_interrupt_before [''a''] (sample_graph :: unit agent_graph)) new_state
      default_config \<lparr>resume_node = ''a'', resume_before = True, icp_iteration = 0,
        icp_active_nodes = [''a''], icp_graph_hash = None\<rparr> () = (Inl (InterruptError ''a'' None), io)
    \<and> starts io = 0"
  using resume_before_interrupts_again [of "with_interrupt_before [''a''] (sample_graph :: unit agent_graph)"
      "\<lparr>interrupt_before = [''a''], interrupt_after = []\<rparr>"
      "\<lparr>resume_node = ''a'', resume_before = True, icp_iteration = 0,
        icp_active_nodes = [''a''], icp_graph_hash = None\<rparr>" sample_env default_config new_state "()"]
  by (simp add: with_interrupt_before_def the_interrupt_config_def new_interrupt_config_def
      START_def END_def default_config_def Let_def)



section \<open>The terminal record\<close>

text \<open>
  C5: On a graph with the in-memory checkpoint store, a run that reports success is
  recorded as completed, and a run that reports a failure, a cancellation or an interrupt
  is recorded as failed, unless the failure is that the record could not be written.
\<close>

theorem run_result_is_recorded:
  assumes "g_checkpoint_store (r_graph run) = Some (in_memory_store run_id_of attempt_id_of)"
    and "execute run start_node x = ((result, summary), x')"
  shows "case result of
      Inr s \<Rightarrow> mem_status (io_world (x_io x')) (r_run_id run) = Some Run_completed
    | Inl e \<Rightarrow>
        (\<exists>m. e = CheckpointStore CompleteRun m \<or> e = CheckpointStore FailRun m) \<or>
        mem_status (io_world (x_io x')) (r_run_id run) = Some Run_failed"
  using mem.execute_terminal_record [OF assms] .

theorem run_result_is_recorded_witness:
  "let w = \<lparr>mw_store = snd (mem_create_run ''run'' 0 ''g'' empty_mem_store), mw_next_id = 1,
        mw_clock = 0\<rparr>;
      run = sample_run sample_env (with_checkpoint_store (in_memory_store (\<lambda>_. []) (\<lambda>_. []))
        sample_graph)
   in mem_status (io_world (x_io (snd (execute run START (start_exec new_state w))))) ''run''
      = Some Run_completed"
proof -
  define w where "w = \<lparr>mw_store = snd (mem_create_run ''run'' 0 ''g'' empty_mem_store),
    mw_next_id = 1, mw_clock = 0\<rparr>"
  define run where "run = sample_run sample_env (with_checkpoint_store
    (in_memory_store (\<lambda>_. []) (\<lambda>_. [])) sample_graph)"
  obtain result summary x' where e: "execute run START (start_exec new_state w)
      = ((result, summary), x')"
    by (metis prod.collapse)
  have store: "g_checkpoint_store (r_graph run) = Some (in_memory_store (\<lambda>_. []) (\<lambda>_. []))"
    by (simp add: run_def with_checkpoint_store_def)
  have "\<exists>s. result = Inr s"
    using e
    by (auto simp: run_def w_def execute_def execute_inner_def get_edge_targets_def
        superstep_loop.simps record_terminal_def with_checkpoint_store_def in_memory_defs
        with_io_def on_world_def empty_mem_store_def start_exec_def exec_emit_def Let_def
        split: prod.splits)
  then show ?thesis
    using run_result_is_recorded [OF store e] e by (auto simp: run_def w_def Let_def)
qed

text \<open>
  The interrupt-aware entry point runs the same run as the plain one: same events,
  same effects; success, interrupt and every other error are handed on as complete,
  interrupted and failed.
\<close>

theorem execute_with_interrupt_presents_the_run:
  "\<exists>shared. execute_with_interrupt env g start_node state config w =
    (execution_result_of (compute_graph_hash env g)
       (fst (execute_with_config env g start_node state config w)) shared,
     snd (execute_with_config env g start_node state config w))"
proof -
  obtain q summary shared io where l:
    "launch (uncancellable env) g start_node state config w = (q, summary, shared, io)"
    by (cases "launch (uncancellable env) g start_node state config w")
  show ?thesis
  proof (cases q)
    case (Inl e)
    have "\<exists>m. e = CheckpointStore CreateRun m"
      using l Inl
      by (auto simp: launch_def create_run_id_def Let_def split: option.splits prod.splits sum.splits)
    then have "execution_result_of h (Inl e) shared = Failed e shared" for h
      by (auto simp: execution_result_of_def)
    then show ?thesis
      using l Inl by (intro exI [of _ shared])
        (simp add: execute_with_interrupt_def execute_with_config_def execute_with_summary_def)
  next
    case (Inr result)
    then show ?thesis
      using l by (intro exI [of _ shared])
        (simp add: execute_with_interrupt_def execute_with_config_def execute_with_summary_def)
  qed
qed

section \<open>Graphs as nodes\<close>

lemma set_state_frame:
  assumes "set_state sz k v s = Inr s'"
  shows "st_reducers s' = st_reducers s" "j \<noteq> k \<Longrightarrow> map_of (st_data s') j = map_of (st_data s) j"
  using assms raw.view_put by (auto simp: set_state_Inr set_raw_Inr)

lemma apply_updates_append:
  "apply_updates sz kvs s = (Inr u, s') \<Longrightarrow> distinct (map fst kvs) \<Longrightarrow>
   map_of (st_reducers s) k = Some append_reducer \<Longrightarrow> map_of (st_data s) k = Some (Array xs) \<Longrightarrow>
   map_of (st_data s') k = Some (case map_of kvs k of
      None \<Rightarrow> Array xs | Some v \<Rightarrow> append_reduce (Array xs) v)"
proof (induction kvs arbitrary: s xs)
  case Nil
  then show ?case by simp
next
  case (Cons kv kvs)
  obtain j v where kv: "kv = (j, v)" by (cases kv)
  from Cons.prems(1) obtain t where t: "set_state sz j v s = Inr t"
    and rest: "apply_updates sz kvs t = (Inr u, s')"
    by (auto simp: kv split: sum.splits)
  have d: "distinct (map fst kvs)" "map_of kvs j = None"
    using Cons.prems(2) by (simp_all add: kv map_of_eq_None_iff)
  have red: "map_of (st_reducers t) k = Some append_reducer"
    using set_state_frame(1) [OF t] Cons.prems(3) by simp
  show ?case
  proof (cases "j = k")
    case False
    then have "map_of (st_data t) k = Some (Array xs)"
      using set_state_frame(2) [OF t, of k] Cons.prems(4) by simp
    from Cons.IH [OF rest d(1) red this] False show ?thesis by (simp add: kv)
  next
    case True
    obtain w where w: "set_prepare sz s j v = Inr w" "set_raw sz j w s = Inr t"
      using t by (auto simp: set_state_Inr)
    have "w = append_reduce (Array xs) v"
      using w(1) Cons.prems(3,4) True
      by (auto simp: set_prepare_def serialize_value_def bind_result_Inr_iff read_data_def
          reduce_value_if_needed_def read_reducers_def append_reducer_def split: if_splits)
    then have "map_of (st_data t) k = Some (Array (xs @ update_items v))"
      using raw.view_put [OF w(2)] True by (simp add: append_reduce_eq)
    from Cons.IH [OF rest d(1) red this] True d(2) show ?thesis
      by (simp add: kv append_reduce_eq)
  qed
qed

text \<open>
  A subgraph node applies the parent's reducers once more to everything it hands back:
  a key with the append reducer that the subgraph leaves as it was ends up with its items
  twice.
\<close>

theorem subgraph_node_doubles_appended_items:
  assumes "subgraph_node env g state config w = (Inr out, s', w')"
    and "subgraph_start g = Inr start_node"
    and "launch (uncancellable env) g start_node (fork state) config w
      = (Inr (Inr final), summary, shared, io)"
    and "map_of (st_reducers shared) k = Some append_reducer"
    and "map_of (st_data state) k = Some (Array xs)" and "map_of (export final) k = Some (Array xs)"
    and "hm_wf (export final)"
  shows "map_of (st_data s') k = Some (Array (xs @ xs))"
proof -
  let ?s = "state\<lparr>st_reducers := st_reducers shared\<rparr>"
  obtain u where "apply_updates (env_size env) (export final) ?s = (Inr u, s')"
    using assms(1,2,3) by (auto simp: subgraph_node_def split: prod.splits sum.splits)
  then have "map_of (st_data s') k = Some (append_reduce (Array xs) (Array xs))"
    using apply_updates_append [of "env_size env" "export final" ?s u s' k xs] assms(4,5,6,7)
    by (simp add: hm_wf_def)
  then show ?thesis by simp
qed

theorem subgraph_node_doubles_appended_items_witness:
  "map_of (st_data (fst (snd (subgraph_node sample_env
      (set_entry_point END (sample_graph :: unit agent_graph))
      (register_reducer ''k'' append_reducer (with_data [(''k'', Array [Null])]))
      default_config ())))) ''k'' = Some (Array [Null, Null])"
proof -
  define g where "g = set_entry_point END (sample_graph :: unit agent_graph)"
  define s where "s = register_reducer ''k'' append_reducer (with_data [(''k'', Array [Null])])"
  have start: "subgraph_start g = Inr START"
    by (simp add: g_def subgraph_start_def set_entry_point_def add_edge_def push_edge_def
        contains_key_def)
  have s: "s = \<lparr>st_data = [(''k'', Array [Null])], st_history = [],
      st_reducers = [(''k'', append_reducer)], st_limits = default_limits, st_version = 0,
      st_data_lock = Free, st_history_lock = Free, st_reducers_lock = Free\<rparr>"
    by (simp add: s_def register_reducer_def write_reducers_def with_data_def
        with_data_and_limits_def)
  have f: "fork s = s"
    by (simp add: s fork_def export_def read_data_def)
  obtain summary io where l: "launch (uncancellable sample_env) g START (fork s) default_config ()
      = (Inr (Inr s), summary, s, io)"
    by (simp add: f launch_def create_run_id_def g_def set_entry_point_def add_edge_def
        push_edge_def uncancellable_def register_reducers_on_state_def execute_def
        execute_inner_def get_edge_targets_def superstep_loop.simps record_terminal_def
        start_exec_def exec_emit_def Let_def)
  obtain out s' w' where n: "subgraph_node sample_env g s default_config () = (Inr out, s', w')"
    using start l
    by (simp add: subgraph_node_def s export_def read_data_def set_state_def set_prepare_def
        serialize_value_def validate_value_size_def reduce_value_if_needed_def read_reducers_def
        append_reducer_def set_raw_def write_data_def validate_insert_def contains_key_def
        default_limits_def)
  have "map_of (st_data s') ''k'' = Some (Array ([Null] @ [Null]))"
    by (rule subgraph_node_doubles_appended_items [OF n start l])
      (simp_all add: s export_def read_data_def hm_wf_def)
  then show ?thesis using n by (simp add: g_def s_def)
qed

end
