(* ===== verification/Graph_Spec.thy ===== *)
theory Graph_Spec
  imports Json_Value
begin

text \<open>
  \<open>agent-graph-mcp/src/spec.rs\<close>: the declarative graph specification that clients send,
  its types and limits, normalization, the executable node types, and the classification
  of graphs that can be resumed deterministically. Parsing by \<open>serde\<close> and the length of the
  serialized value are parameters where they occur.
\<close>

section \<open>Types and limits\<close>

definition MAX_GRAPH_BYTES :: nat where "MAX_GRAPH_BYTES = 64 * 1024"
definition MAX_NODES :: nat where "MAX_NODES = 128"
definition MAX_EDGES :: nat where "MAX_EDGES = 512"
definition MAX_ITERATIONS :: nat where "MAX_ITERATIONS = 64"
definition MAX_OUTPUT_BYTES :: nat where "MAX_OUTPUT_BYTES = 128 * 1024"
definition MAX_STATE_BYTES :: nat where "MAX_STATE_BYTES = 2 * 1024 * 1024"

datatype node_type =
    Type_llm | Type_router | Type_passthrough | Type_state_transform | Type_join
  | Type_parallel | Type_subgraph | Type_human_approval | Type_external | Type_tool | Type_loop

datatype reducer_kind = Kind_last_write_wins | Kind_append | Kind_add | Kind_merge

record node_spec =
  ns_id :: string
  ns_type :: node_type
  ns_prompt :: "string option"
  ns_model :: "string option"
  ns_json_mode :: bool
  ns_evidence_required :: bool
  ns_max_tokens :: "nat option"
  ns_routes :: "(string \<times> string) list option"
  ns_config :: "value"

record edge_spec =
  es_from :: string
  es_to :: string

text \<open>\<open>reducers\<close> is a \<open>BTreeMap\<close>, \<open>routes\<close> too.\<close>

record graph_spec =
  gs_spec_version :: string
  gs_name :: string
  gs_entry :: string
  gs_output_key :: "string option"
  gs_nodes :: "node_spec list"
  gs_edges :: "edge_spec list"
  gs_max_iterations :: "nat option"
  gs_max_parallelism :: "nat option"
  gs_reducers :: "(string \<times> reducer_kind) list"

definition node_ids :: "graph_spec \<Rightarrow> string list" where
  "node_ids spec = map ns_id (gs_nodes spec)"

section \<open>Members of a configuration\<close>

text \<open>\<open>v.get(k).and_then(Value::as_str)\<close> and its siblings.\<close>

definition str_at :: "value \<Rightarrow> string \<Rightarrow> string option" where
  "str_at v k = Option.bind (get_key v k) as_str"

definition array_at :: "value \<Rightarrow> string \<Rightarrow> value list option" where
  "array_at v k = Option.bind (get_key v k) as_array"

definition u64_at :: "value \<Rightarrow> string \<Rightarrow> nat option" where
  "u64_at v k = Option.bind (get_key v k) as_u64"

text \<open>\<open>.and_then(Value::as_array).into_iter().flatten()\<close>\<close>

definition items_at :: "value \<Rightarrow> string \<Rightarrow> value list" where
  "items_at v k = (case array_at v k of None \<Rightarrow> [] | Some xs \<Rightarrow> xs)"

definition or_else :: "'a option \<Rightarrow> 'a \<Rightarrow> 'a" where
  "or_else x d = (case x of None \<Rightarrow> d | Some a \<Rightarrow> a)"

lemma or_else_simps [simp]: "or_else None d = d" "or_else (Some a) d = a"
  by (simp_all add: or_else_def)

section \<open>Executable node types\<close>

fun executable_node_type :: "node_type \<Rightarrow> string + string" where
  "executable_node_type Type_llm = Inr ''llm''"
| "executable_node_type Type_router = Inr ''router''"
| "executable_node_type Type_passthrough = Inr ''passthrough''"
| "executable_node_type Type_state_transform = Inr ''state_transform''"
| "executable_node_type Type_join = Inr ''join''"
| "executable_node_type Type_parallel = Inr ''parallel''"
| "executable_node_type Type_subgraph = Inr ''subgraph''"
| "executable_node_type Type_human_approval = Inr ''human_approval''"
| "executable_node_type Type_external = Inl ''UNSUPPORTED_NODE_TYPE: external''"
| "executable_node_type Type_tool = Inl ''UNSUPPORTED_NODE_TYPE: tool''"
| "executable_node_type Type_loop = Inl ''UNSUPPORTED_NODE_TYPE: loop''"

section \<open>Normalization\<close>

definition normalize :: "graph_spec \<Rightarrow> graph_spec" where
  "normalize spec = spec\<lparr>gs_spec_version := ''2'',
     gs_max_iterations := Some (or_else (gs_max_iterations spec) 64),
     gs_max_parallelism := Some (or_else (gs_max_parallelism spec) 8)\<rparr>"

definition spec_warnings :: "graph_spec \<Rightarrow> string list" where
  "spec_warnings spec =
     (if list_ex (\<lambda>n. ns_routes n \<noteq> None) (gs_nodes spec)
      then [''legacy route maps are normalized in lexicographic pattern order; use config.rules for explicit first-match order'']
      else [])"

section \<open>Resume eligibility\<close>

record resume_eligibility =
  next_node_cursor :: string
  el_chain :: "string list"
  dependency_summary :: "value"

definition reject_if :: "bool \<Rightarrow> string \<Rightarrow> string + unit" where
  "reject_if b message = (if b then Inl message else Inr ())"

lemma reject_if_Inr [simp]: "reject_if b message = Inr () \<longleftrightarrow> \<not> b"
  by (simp add: reject_if_def)

text \<open>The check of a single node: only local nodes without evidence are resumable.\<close>

definition node_message :: "string \<Rightarrow> string \<Rightarrow> string \<Rightarrow> string" where
  "node_message prefix node_id rest = prefix @ quoted node_id @ rest"

fun resumable_node :: "node_spec \<Rightarrow> string + unit" where
  "resumable_node n = (case ns_type n of
     Type_passthrough \<Rightarrow>
       bind_result (reject_if (ns_evidence_required n)
           (node_message ''node '' (ns_id n) '' declares an evidence dependency'')) (\<lambda>_.
         reject_if (\<not> (is_null (ns_config n) \<or> as_object (ns_config n) = Some []))
           (node_message ''passthrough node '' (ns_id n) '' has unsupported config''))
   | Type_state_transform \<Rightarrow>
       bind_result (reject_if (ns_evidence_required n)
           (node_message ''node '' (ns_id n) '' declares an evidence dependency'')) (\<lambda>_.
         (case as_object (ns_config n) of
            None \<Rightarrow> Inl (node_message ''transform node '' (ns_id n) '' config is not local'')
          | Some object \<Rightarrow>
              reject_if (list_ex (\<lambda>(key, _). key \<noteq> ''operations'') object)
                (node_message ''transform node '' (ns_id n) '' has unsupported config'')))
   | Type_llm \<Rightarrow> Inl (node_message ''node '' (ns_id n) '' is an LLM node'')
   | Type_router \<Rightarrow> Inl (node_message ''node '' (ns_id n) '' is a router'')
   | Type_join \<Rightarrow> Inl (node_message ''node '' (ns_id n) '' is a join'')
   | Type_parallel \<Rightarrow> Inl (node_message ''node '' (ns_id n) '' is parallel'')
   | Type_subgraph \<Rightarrow> Inl (node_message ''node '' (ns_id n) '' is a subgraph'')
   | Type_human_approval \<Rightarrow> Inl (node_message ''node '' (ns_id n) '' is an approval node'')
   | Type_external \<Rightarrow> Inl (node_message ''node '' (ns_id n) '' is an external node'')
   | Type_tool \<Rightarrow> Inl (node_message ''node '' (ns_id n) '' is a tool node'')
   | Type_loop \<Rightarrow> Inl (node_message ''node '' (ns_id n) '' is a loop node''))"

text \<open>\<open>for x in xs { check(x)?; }\<close>\<close>

definition check_all :: "('a \<Rightarrow> string + unit) \<Rightarrow> 'a list \<Rightarrow> string + unit" where
  "check_all f xs = try_fold (\<lambda>x _. f x) xs ()"

lemma check_all_Inr [simp]: "check_all f xs = Inr () \<longleftrightarrow> (\<forall>x \<in> set xs. f x = Inr ())"
  unfolding check_all_def by (induction xs) (auto split: sum.splits)

text \<open>The map of successors, and the map of predecessor counts over all nodes.\<close>

definition successors_of :: "graph_spec \<Rightarrow> string \<Rightarrow> string list" where
  "successors_of spec n = map es_to (filter (\<lambda>e. es_from e = n) (gs_edges spec))"

definition predecessor_count :: "graph_spec \<Rightarrow> string \<Rightarrow> nat" where
  "predecessor_count spec n = length (filter (\<lambda>e. es_to e = n \<and> es_to e \<noteq> ''END'') (gs_edges spec))"

text \<open>
  The walk along the first successors from the entry. \<open>None\<close> stands for the panic of
  \<open>expect("successor count checked")\<close>.
\<close>

function walk_chain ::
    "graph_spec \<Rightarrow> string list \<Rightarrow> string list \<Rightarrow> string \<Rightarrow> (string + string list) option" where
  "walk_chain spec chain seen current =
     (if current \<in> set seen
      then Some (Inl ''loops are outside the deterministic local resume subset'')
      else case successors_of spec current of
        [] \<Rightarrow> None
      | next_node # _ \<Rightarrow>
          if next_node = ''END'' then Some (Inr (chain @ [current]))
          else if next_node \<notin> set (node_ids spec)
          then Some (Inl ''linear resume successor is not a graph node'')
          else walk_chain spec (chain @ [current]) (current # seen) next_node)"
  by pat_completeness auto
termination
proof (relation "measure (\<lambda>(spec, chain, seen, current).
    card (insert current (set (node_ids spec)) - set seen))")
  fix spec :: graph_spec and chain seen :: "string list" and current next_node :: string and rest
  assume a: "current \<notin> set seen" and n: "\<not> next_node \<notin> set (node_ids spec)"
  have eq: "insert next_node (set (node_ids spec)) - set (current # seen)
      = (set (node_ids spec) - set seen) - {current}" using n by auto
  have "card ((set (node_ids spec) - set seen) - {current})
      < card (insert current (set (node_ids spec)) - set seen)"
    using a by (intro psubset_card_mono) auto
  then show "((spec, chain @ [current], current # seen, next_node), (spec, chain, seen, current))
      \<in> measure (\<lambda>(spec, chain, seen, current).
          card (insert current (set (node_ids spec)) - set seen))"
    using eq by simp
qed simp

declare walk_chain.simps [simp del]

definition eligibility_of :: "graph_spec \<Rightarrow> string list \<Rightarrow> resume_eligibility" where
  "eligibility_of spec chain =
     \<lparr>next_node_cursor = gs_entry spec, el_chain = chain,
      dependency_summary = json_object
        [(''classification'', String ''deterministic_local_resume''),
         (''eligible'', Bool True),
         (''node_types'', Array [String ''passthrough'', String ''state_transform'']),
         (''chain'', Array (map String chain)),
         (''source_witnesses'', json_object [(''required'', Bool False), (''validated'', Array [])]),
         (''external_dependencies'', Bool False)]\<rparr>"

text \<open>The checks before the walk.\<close>

definition linear_checks :: "graph_spec \<Rightarrow> string + unit" where
  "linear_checks spec =
     bind_result (check_all (\<lambda>n. reject_if (length (successors_of spec (ns_id n)) \<noteq> 1)
         (node_message ''linear resume requires exactly one successor for node '' (ns_id n) []))
       (gs_nodes spec)) (\<lambda>_.
     bind_result (reject_if (gs_entry spec \<in> set (node_ids spec)
         \<and> predecessor_count spec (gs_entry spec) \<noteq> 0)
         ''resume entry must have no predecessor'') (\<lambda>_.
     check_all (\<lambda>n. reject_if (ns_id n \<noteq> gs_entry spec \<and> predecessor_count spec (ns_id n) \<noteq> 1)
         (node_message ''linear resume requires one predecessor for node '' (ns_id n) []))
       (gs_nodes spec)))"

text \<open>\<open>None\<close> is a panic: an edge to an unknown node, or the walk's.\<close>

definition resume_eligible :: "graph_spec \<Rightarrow> (string + resume_eligibility) option" where
  "resume_eligible spec =
     (case bind_result (reject_if (gs_reducers spec \<noteq> [])
           ''reducers are outside the deterministic local resume subset'')
         (\<lambda>_. check_all resumable_node (gs_nodes spec)) of
        Inl e \<Rightarrow> Some (Inl e)
      | Inr _ \<Rightarrow>
          if list_ex (\<lambda>e. es_to e \<noteq> ''END'' \<and> es_to e \<notin> set (node_ids spec)) (gs_edges spec)
          then None
          else (case linear_checks spec of
              Inl e \<Rightarrow> Some (Inl e)
            | Inr _ \<Rightarrow> (case walk_chain spec [] [] (gs_entry spec) of
                  None \<Rightarrow> None
                | Some (Inl e) \<Rightarrow> Some (Inl e)
                | Some (Inr chain) \<Rightarrow>
                    if length chain \<noteq> length (gs_nodes spec)
                    then Some (Inl ''linear resume requires every node to be on the entry chain'')
                    else Some (Inr (eligibility_of spec chain)))))"

end
