(* ===== verification/Spec_Validation.thy ===== *)
theory Spec_Validation
  imports Graph_Spec
begin

text \<open>
  \<open>agent-graph-mcp/src/spec.rs\<close>: \<open>parse_and_validate\<close> and the checks it makes: limits,
  identifiers, edges, the configuration of every node type, state keys written by
  unordered parallel nodes, and fields that the policy denies. Every error is the text the
  code returns. \<open>json_len\<close> is the length of the serialized value, \<open>parse\<close> is
  \<open>serde_json::from_value\<close> for \<open>GraphSpec\<close>.
\<close>

section \<open>Identifiers and aliases\<close>

definition ascii_alphanumeric :: "char \<Rightarrow> bool" where
  "ascii_alphanumeric c \<longleftrightarrow>
     (let n = of_char c :: nat in 48 \<le> n \<and> n \<le> 57 \<or> 65 \<le> n \<and> n \<le> 90 \<or> 97 \<le> n \<and> n \<le> 122)"

definition valid_id :: "string \<Rightarrow> bool" where
  "valid_id s \<longleftrightarrow> s \<noteq> [] \<and> length s \<le> 64
     \<and> list_all (\<lambda>c. ascii_alphanumeric c \<or> c \<in> set ''_.-'') s"

definition valid_model_alias :: "string \<Rightarrow> bool" where
  "valid_model_alias s \<longleftrightarrow> s \<noteq> [] \<and> length s \<le> 128 \<and> \<not> contains_str s ''://''
     \<and> \<not> starts_with s ''/'' \<and> \<not> contains_str s ''..''
     \<and> list_all (\<lambda>c. ascii_alphanumeric c \<or> c \<in> set ''_.:/-'') s"

definition ensure_size :: "(value \<Rightarrow> nat) \<Rightarrow> value \<Rightarrow> nat \<Rightarrow> string \<Rightarrow> string + unit" where
  "ensure_size json_len v limit label =
     reject_if (limit < json_len v) (label @ '' exceeds '' @ show_nat limit @ '' bytes'')"

section \<open>Denied fields\<close>

definition denied_fields :: "string list" where
  "denied_fields = [''command'', ''shell'', ''script'', ''filesystem'', ''secret'', ''env'',
     ''environment'', ''base_url'', ''provider_url'']"

fun reject_dangerous_keys :: "value \<Rightarrow> string + unit"
and reject_dangerous_entries :: "(string \<times> value) list \<Rightarrow> string + unit"
and reject_dangerous_items :: "value list \<Rightarrow> string + unit" where
  "reject_dangerous_keys (Object m) = reject_dangerous_entries m"
| "reject_dangerous_keys (Array items) = reject_dangerous_items items"
| "reject_dangerous_keys v = Inr ()"
| "reject_dangerous_entries [] = Inr ()"
| "reject_dangerous_entries ((key, v) # m) =
     (if to_lower key \<in> set denied_fields then Inl (''policy denied field '' @ quoted key)
      else bind_result (reject_dangerous_keys v) (\<lambda>_. reject_dangerous_entries m))"
| "reject_dangerous_items [] = Inr ()"
| "reject_dangerous_items (v # vs) =
     bind_result (reject_dangerous_keys v) (\<lambda>_. reject_dangerous_items vs)"

section \<open>Node configurations\<close>

definition strings_of :: "value list \<Rightarrow> string list" where
  "strings_of vs = List.map_filter as_str vs"

definition router_targets :: "node_spec \<Rightarrow> string list" where
  "router_targets n = (case ns_routes n of
       Some routes \<Rightarrow> map snd routes
     | None \<Rightarrow>
         strings_of (concat (map (\<lambda>r. items_at r ''targets'') (items_at (ns_config n) ''rules'')))
         @ strings_of (items_at (ns_config n) ''default''))"

definition router_predicates :: "string list" where
  "router_predicates = [''equals'', ''eq'', ''exists'', ''contains'', ''lt'', ''lte'', ''gt'', ''gte'']"

definition validate_router :: "string list \<Rightarrow> node_spec \<Rightarrow> string + unit" where
  "validate_router ids n =
     (let targets = router_targets n in
      bind_result (reject_if (targets = [])
          (node_message ''router node '' (ns_id n) '' must define routes/rules and default'')) (\<lambda>_.
      bind_result
        (if ns_routes n = None
         then bind_result (reject_if (array_at (ns_config n) ''default'' = None)
               (node_message ''router node '' (ns_id n) '' requires explicit default'')) (\<lambda>_.
             check_all (\<lambda>rule. let op = or_else (str_at rule ''op'') [] in
                 reject_if (op \<notin> set router_predicates)
                   (node_message ''router node '' (ns_id n)
                     ('' has unsupported predicate '' @ quoted op)))
               (items_at (ns_config n) ''rules''))
         else Inr ()) (\<lambda>_.
      check_all (\<lambda>target. reject_if (target \<noteq> ''END'' \<and> target \<notin> set ids)
          (node_message ''router node '' (ns_id n) ('' target '' @ quoted target @ '' not found'')))
        targets)))"

definition validate_llm :: "node_spec \<Rightarrow> string + unit" where
  "validate_llm n =
     bind_result
       (if ns_evidence_required n
        then bind_result (reject_if (\<not> ns_json_mode n)
              (node_message ''LLM node '' (ns_id n) '' with evidence_required requires json_mode=true'')) (\<lambda>_.
            reject_if (or_else (str_at (ns_config n) ''output_key'') [] = [])
              (node_message ''LLM node '' (ns_id n)
                '' with evidence_required requires config.output_key''))
        else Inr ()) (\<lambda>_.
     bind_result (reject_if (case ns_prompt n of None \<Rightarrow> False | Some p \<Rightarrow> 16 * 1024 < length p)
       ''LLM prompt exceeds 16384 bytes'') (\<lambda>_.
     bind_result (reject_if (8192 < or_else (ns_max_tokens n) 1024)
       ''LLM max_tokens exceeds 8192'') (\<lambda>_.
     bind_result (reject_if (case ns_model n of None \<Rightarrow> False | Some m \<Rightarrow> \<not> valid_model_alias m)
       ''model must be a conservative server alias'') (\<lambda>_.
     bind_result (let timeout = or_else (u64_at (ns_config n) ''timeout_ms'') 120000 in
       reject_if (timeout = 0 \<or> 120000 < timeout) ''LLM timeout_ms must be 1..=120000'') (\<lambda>_.
     case get_key (ns_config n) ''retry'' of
       None \<Rightarrow> Inr ()
     | Some retry \<Rightarrow>
         (let attempts = or_else (u64_at retry ''max_attempts'') 3
          in reject_if (attempts = 0 \<or> 5 < attempts) ''retry max_attempts must be 1..=5''))))))"

definition transform_ops :: "string list" where
  "transform_ops = [''set'', ''copy'', ''delete'', ''increment'', ''append'', ''merge'',
     ''merge_object'', ''select'', ''compare'', ''format'']"

definition validate_transform :: "node_spec \<Rightarrow> string + unit" where
  "validate_transform n = (case array_at (ns_config n) ''operations'' of
       None \<Rightarrow> Inl (node_message ''state_transform '' (ns_id n) '' requires operations'')
     | Some operations \<Rightarrow>
         bind_result (reject_if (operations = [] \<or> 64 < length operations)
             ''transform operations must be 1..=64'') (\<lambda>_.
           check_all (\<lambda>operation. let op = or_else (str_at operation ''op'') [] in
               reject_if (op \<notin> set transform_ops)
                 (''unsupported transform operation '' @ quoted op)) operations))"

definition join_modes :: "string list" where
  "join_modes = [''collect_array'', ''collect_object'', ''merge_objects'', ''first_non_null'',
     ''all_success'', ''quorum'', ''dedupe_by_identity'', ''contradiction_matrix'',
     ''minority_report'', ''proof_carrying_join'']"

definition validate_join :: "node_spec \<Rightarrow> string + unit" where
  "validate_join n =
     (let mode = or_else (str_at (ns_config n) ''mode'') ''collect_array'' in
      bind_result (reject_if (mode \<notin> set join_modes) (''unsupported join mode '' @ quoted mode)) (\<lambda>_.
        reject_if (array_at (ns_config n) ''inputs'' = None \<or> str_at (ns_config n) ''output'' = None)
          (node_message ''join '' (ns_id n) '' requires inputs and output'')))"

definition validate_branch :: "string list \<Rightarrow> node_spec \<Rightarrow> value \<Rightarrow> string + unit" where
  "validate_branch ids n branch = (case str_at branch ''entry'' of
       None \<Rightarrow> Inl (node_message ''parallel '' (ns_id n) '' branch missing entry'')
     | Some entry \<Rightarrow> reject_if (entry \<notin> set ids)
         (node_message ''parallel '' (ns_id n) ('' branch entry '' @ quoted entry @ '' not found'')))"

definition validate_parallel :: "string list \<Rightarrow> node_spec \<Rightarrow> string + unit" where
  "validate_parallel ids n = (case array_at (ns_config n) ''branches'' of
       None \<Rightarrow> Inl (node_message ''parallel '' (ns_id n) '' requires branches array'')
     | Some branches \<Rightarrow>
         bind_result (reject_if (branches = [] \<or> 16 < length branches)
             (node_message ''parallel '' (ns_id n) '' branches must be 1..=16'')) (\<lambda>_.
         bind_result (check_all (validate_branch ids n) branches) (\<lambda>_.
         case str_at (ns_config n) ''join'' of
           None \<Rightarrow> Inl (node_message ''parallel '' (ns_id n) '' requires join target'')
         | Some join \<Rightarrow>
             bind_result (reject_if (join \<noteq> ''END'' \<and> join \<notin> set ids)
               (node_message ''parallel '' (ns_id n)
                 ('' join target '' @ quoted join @ '' not found''))) (\<lambda>_.
             case str_at (ns_config n) ''fail_policy'' of
               None \<Rightarrow> Inr ()
             | Some policy \<Rightarrow>
                 reject_if (policy \<notin> set [''fail_fast'', ''collect_partial'', ''ignore''])
                   (''unsupported fail_policy '' @ quoted policy)))))"

definition validate_approval :: "node_spec \<Rightarrow> string + unit" where
  "validate_approval n =
     bind_result (reject_if (str_at (ns_config n) ''prompt_key'' = None)
       (node_message ''human_approval '' (ns_id n) '' requires config.prompt_key'')) (\<lambda>_.
     reject_if (array_at (ns_config n) ''audience'' = None)
       (node_message ''human_approval '' (ns_id n) '' requires config.audience array''))"

definition validate_node :: "string list \<Rightarrow> node_spec \<Rightarrow> string + unit" where
  "validate_node ids n = (case ns_type n of
       Type_router \<Rightarrow> validate_router ids n
     | Type_llm \<Rightarrow> validate_llm n
     | Type_state_transform \<Rightarrow> validate_transform n
     | Type_join \<Rightarrow> validate_join n
     | Type_parallel \<Rightarrow> validate_parallel ids n
     | Type_subgraph \<Rightarrow> reject_if (str_at (ns_config n) ''graph_name'' = None)
         (node_message ''subgraph '' (ns_id n) '' requires config.graph_name'')
     | Type_human_approval \<Rightarrow> validate_approval n
     | _ \<Rightarrow> Inr ())"

end
