(* ===== verification/Write_Conflicts.thy ===== *)
theory Write_Conflicts
  imports Spec_Validation
begin

text \<open>
  \<open>agent-graph-mcp/src/spec.rs\<close>: \<open>validate_state_write_conflicts\<close>. The code computes in place
  which node reaches which over the edges, collects for every state key the nodes that
  write it, and refuses two writers that no edge path orders but that share an ancestor,
  unless the key has a reducer. The lemmas show that the matrix is the transitive closure
  of the edges.
\<close>

section \<open>The reachability matrix\<close>

type_synonym matrix = "bool list list"

definition entry :: "matrix \<Rightarrow> nat \<Rightarrow> nat \<Rightarrow> bool" where
  "entry m i j = m ! i ! j"

definition set_entry :: "nat \<Rightarrow> nat \<Rightarrow> bool \<Rightarrow> matrix \<Rightarrow> matrix" where
  "set_entry i j b m = m[i := (m ! i)[j := b]]"

text \<open>\<open>iter().position(..)\<close>: the first index.\<close>

fun position :: "string list \<Rightarrow> string \<Rightarrow> nat option" where
  "position [] x = None"
| "position (y # ys) x = (if y = x then Some 0 else map_option Suc (position ys x))"

definition mark_edge :: "string list \<Rightarrow> edge_spec \<Rightarrow> matrix \<Rightarrow> matrix" where
  "mark_edge ids e m =
     (if es_to e = ''END'' then m
      else case (position ids (es_from e), position ids (es_to e)) of
          (Some i, Some j) \<Rightarrow> set_entry i j True m
        | _ \<Rightarrow> m)"

definition edge_matrix :: "string list \<Rightarrow> edge_spec list \<Rightarrow> matrix" where
  "edge_matrix ids es =
     fold (mark_edge ids) es (replicate (length ids) (replicate (length ids) False))"

definition relax :: "nat \<Rightarrow> nat \<Rightarrow> nat \<Rightarrow> matrix \<Rightarrow> matrix" where
  "relax k i j m = set_entry i j (entry m i j \<or> entry m i k \<and> entry m k j) m"

definition relax_row :: "nat \<Rightarrow> nat \<Rightarrow> nat \<Rightarrow> matrix \<Rightarrow> matrix" where
  "relax_row n k i m = fold (relax k i) [0..<n] m"

definition relax_all :: "nat \<Rightarrow> nat \<Rightarrow> matrix \<Rightarrow> matrix" where
  "relax_all n k m = fold (relax_row n k) [0..<n] m"

definition reach_matrix :: "string list \<Rightarrow> edge_spec list \<Rightarrow> matrix" where
  "reach_matrix ids es =
     fold (relax_all (length ids)) [0..<length ids] (edge_matrix ids es)"

section \<open>Writers and the check\<close>

definition nonempty_at :: "value \<Rightarrow> string \<Rightarrow> string list" where
  "nonempty_at v k = (case str_at v k of None \<Rightarrow> [] | Some s \<Rightarrow> if s = [] then [] else [s])"

definition write_keys :: "node_spec \<Rightarrow> string list" where
  "write_keys n = (case ns_type n of
       Type_llm \<Rightarrow> nonempty_at (ns_config n) ''output_key''
     | Type_human_approval \<Rightarrow> nonempty_at (ns_config n) ''output_key''
     | Type_subgraph \<Rightarrow> nonempty_at (ns_config n) ''output_key''
     | Type_state_transform \<Rightarrow>
         List.map_filter (\<lambda>operation. str_at operation ''path'') (items_at (ns_config n) ''operations'')
     | Type_join \<Rightarrow> (case str_at (ns_config n) ''output'' of None \<Rightarrow> [] | Some s \<Rightarrow> [s])
     | _ \<Rightarrow> [])"

definition add_writer :: "nat \<Rightarrow> string \<Rightarrow> (string \<times> nat list) list \<Rightarrow> (string \<times> nat list) list" where
  "add_writer i k m = bt_insert k (or_else (map_of m k) [] @ [i]) m"

definition writers :: "node_spec list \<Rightarrow> (string \<times> nat list) list" where
  "writers nodes = fold (\<lambda>(i, n). fold (add_writer i) (write_keys n)) (List.enumerate 0 nodes) []"

definition index_pairs :: "'a list \<Rightarrow> ('a \<times> 'a) list" where
  "index_pairs xs = concat (map (\<lambda>l. map (\<lambda>r. (xs ! l, xs ! r)) [Suc l..<length xs]) [0..<length xs])"

definition check_writer_pair ::
    "string list \<Rightarrow> matrix \<Rightarrow> string \<Rightarrow> nat \<times> nat \<Rightarrow> string + unit" where
  "check_writer_pair ids m key p = (case p of (a, b) \<Rightarrow>
     if entry m a b \<or> entry m b a then Inr ()
     else reject_if
       (list_ex (\<lambda>c. c \<noteq> a \<and> c \<noteq> b \<and> entry m c a \<and> entry m c b) [0..<length ids])
       (''state key '' @ quoted key @ '' is written by unordered parallel nodes ''
         @ quoted (ids ! a) @ '' and '' @ quoted (ids ! b) @ ''; declare reducers.''))"

definition validate_state_write_conflicts :: "graph_spec \<Rightarrow> string + unit" where
  "validate_state_write_conflicts spec =
     (let ids = node_ids spec; m = reach_matrix ids (gs_edges spec)
      in check_all (\<lambda>(key, nodes).
           if contains_key (gs_reducers spec) key then Inr ()
           else check_all (check_writer_pair ids m key) (index_pairs nodes))
         (writers (gs_nodes spec)))"

section \<open>Validation of a graph\<close>

definition validate :: "graph_spec \<Rightarrow> string + unit" where
  "validate spec =
     (let ids = node_ids spec; iterations = or_else (gs_max_iterations spec) MAX_ITERATIONS;
          parallelism = or_else (gs_max_parallelism spec) 8 in
      bind_result (reject_if (\<not> valid_id (gs_name spec))
        ''graph name must match [A-Za-z0-9_.-]{1,64}'') (\<lambda>_.
      bind_result (reject_if (gs_nodes spec = [] \<or> MAX_NODES < length (gs_nodes spec))
        (''graph nodes must be 1..='' @ show_nat MAX_NODES)) (\<lambda>_.
      bind_result (reject_if (MAX_EDGES < length (gs_edges spec))
        (''graph edge limit ('' @ show_nat MAX_EDGES @ '') exceeded'')) (\<lambda>_.
      bind_result (reject_if (iterations = 0 \<or> MAX_ITERATIONS < iterations)
        (''max_iterations must be 1..='' @ show_nat MAX_ITERATIONS)) (\<lambda>_.
      bind_result (reject_if (parallelism = 0 \<or> 32 < parallelism)
        ''max_parallelism must be 1..=32'') (\<lambda>_.
      bind_result (reject_if (length (remdups ids) \<noteq> length (gs_nodes spec))
        ''duplicate node ID'') (\<lambda>_.
      bind_result (reject_if (gs_entry spec \<notin> set ids)
        (node_message ''entry node '' (gs_entry spec) '' not found'')) (\<lambda>_.
      bind_result (reject_if (gs_output_key spec = Some [])
        ''output_key must not be empty when provided'') (\<lambda>_.
      bind_result (check_all (\<lambda>n.
          bind_result (reject_if (\<not> valid_id (ns_id n)) (''invalid node ID '' @ quoted (ns_id n)))
            (\<lambda>_. validate_node ids n)) (gs_nodes spec)) (\<lambda>_.
      bind_result (check_all (\<lambda>e.
          bind_result (reject_if (es_from e \<notin> set ids)
              (node_message ''edge source '' (es_from e) '' not found''))
            (\<lambda>_. reject_if (es_to e \<noteq> ''END'' \<and> es_to e \<notin> set ids)
              (node_message ''edge target '' (es_to e) '' not found''))) (gs_edges spec)) (\<lambda>_.
      validate_state_write_conflicts spec)))))))))))"

definition parse_and_validate ::
    "(value \<Rightarrow> nat) \<Rightarrow> (value \<Rightarrow> string + graph_spec) \<Rightarrow> value \<Rightarrow> string + graph_spec" where
  "parse_and_validate json_len parse raw =
     bind_result (ensure_size json_len raw MAX_GRAPH_BYTES ''serialized graph spec'') (\<lambda>_.
     bind_result (reject_dangerous_keys raw) (\<lambda>_.
     bind_result (case parse raw of
          Inl e \<Rightarrow> Inl (''invalid graph spec: '' @ e) | Inr spec \<Rightarrow> Inr spec) (\<lambda>spec.
     bind_result (validate spec) (\<lambda>_. Inr (normalize spec)))))"

section \<open>The matrix is the transitive closure\<close>

definition square :: "nat \<Rightarrow> matrix \<Rightarrow> bool" where
  "square n m \<longleftrightarrow> length m = n \<and> (\<forall>row \<in> set m. length row = n)"

definition relation :: "nat \<Rightarrow> matrix \<Rightarrow> (nat \<times> nat) set" where
  "relation n m = {(i, j). i < n \<and> j < n \<and> entry m i j}"

lemma square_set_entry: "square n m \<Longrightarrow> i < n \<Longrightarrow> square n (set_entry i j b m)"
  by (auto simp: square_def set_entry_def dest!: set_update_subset_insert [THEN subsetD])

lemma entry_set_entry:
  "square n m \<Longrightarrow> i < n \<Longrightarrow> j < n \<Longrightarrow> i' < n \<Longrightarrow> j' < n \<Longrightarrow>
   entry (set_entry i j b m) i' j' = (if i' = i \<and> j' = j then b else entry m i' j')"
  by (auto simp: entry_def set_entry_def square_def nth_list_update)

lemma relation_iff: "i < n \<Longrightarrow> j < n \<Longrightarrow> (i, j) \<in> relation n m \<longleftrightarrow> entry m i j"
  by (simp add: relation_def)

text \<open>One round adds the paths through \<open>k\<close>; while it is under way the matrix lies between.\<close>

definition through :: "nat \<Rightarrow> (nat \<times> nat) set \<Rightarrow> (nat \<times> nat) set" where
  "through k R = R \<union> {(i, j). (i, k) \<in> R \<and> (k, j) \<in> R}"

definition between :: "nat \<Rightarrow> nat \<Rightarrow> matrix \<Rightarrow> matrix \<Rightarrow> bool" where
  "between n k m m' \<longleftrightarrow> square n m' \<and> relation n m \<subseteq> relation n m'
     \<and> relation n m' \<subseteq> through k (relation n m)"

lemma relation_set_entry:
  assumes "square n m" "i < n" "j < n"
  shows "relation n (set_entry i j b m) = relation n m - {(i, j)} \<union> (if b then {(i, j)} else {})"
  using assms by (auto simp: relation_def entry_set_entry split: if_splits)

lemma relax_between:
  assumes b: "between n k m m'" and n: "i < n" "j < n" "k < n"
  shows "relation n (relax k i j m') = relation n m' \<union> ({(i, j)} \<inter> through k (relation n m))"
    and "between n k m (relax k i j m')"
proof -
  let ?R = "relation n m"
  have sq: "square n m'" and low: "?R \<subseteq> relation n m'" and up: "relation n m' \<subseteq> through k ?R"
    using b by (auto simp: between_def)
  have ik: "entry m' i k \<longleftrightarrow> (i, k) \<in> ?R" and kj: "entry m' k j \<longleftrightarrow> (k, j) \<in> ?R"
    using low up n by (auto simp: through_def relation_iff [of _ n _ m', symmetric])
  have ij: "(i, j) \<in> through k ?R \<longleftrightarrow> (i, j) \<in> relation n m' \<or> entry m' i k \<and> entry m' k j"
    using low up by (auto simp: through_def ik kj)
  show eq: "relation n (relax k i j m') = relation n m' \<union> ({(i, j)} \<inter> through k ?R)"
  proof (cases "(i, j) \<in> through k ?R")
    case True
    then have "entry m' i j \<or> entry m' i k \<and> entry m' k j"
      using ij n by (simp add: relation_iff)
    then show ?thesis
      using True n by (auto simp: relax_def relation_set_entry [OF sq])
  next
    case False
    then have "\<not> (entry m' i j \<or> entry m' i k \<and> entry m' k j)" "(i, j) \<notin> relation n m'"
      using ij n by (simp_all add: relation_iff)
    then show ?thesis
      using False n by (auto simp: relax_def relation_set_entry [OF sq])
  qed
  show "between n k m (relax k i j m')"
    using low up eq square_set_entry [OF sq n(1)] by (auto simp: between_def relax_def)
qed

lemma relax_cells_between:
  assumes "between n k m m'" and "i < n" "k < n" and "set js \<subseteq> {..<n}"
  shows "between n k m (fold (relax k i) js m') \<and>
    relation n (fold (relax k i) js m') = relation n m' \<union> (({i} \<times> set js) \<inter> through k (relation n m))"
  using assms
proof (induction js arbitrary: m')
  case Nil
  then show ?case by simp
next
  case (Cons j js)
  note one = relax_between [OF Cons.prems(1,2) _ Cons.prems(3), of j]
  have "j < n" using Cons.prems(4) by simp
  then show ?case
    using Cons.IH [OF one(2)] Cons.prems one(1) by auto
qed

lemma relax_rows_between:
  assumes "between n k m m'" and "k < n" and "set rows \<subseteq> {..<n}"
  shows "between n k m (fold (relax_row n k) rows m') \<and>
    relation n (fold (relax_row n k) rows m') =
      relation n m' \<union> ((set rows \<times> {..<n}) \<inter> through k (relation n m))"
  using assms
proof (induction rows arbitrary: m')
  case Nil
  then show ?case by simp
next
  case (Cons i rows)
  have i: "i < n" "set rows \<subseteq> {..<n}" using Cons.prems(3) by auto
  have row: "between n k m (relax_row n k i m')"
      "relation n (relax_row n k i m') = relation n m' \<union> (({i} \<times> {..<n}) \<inter> through k (relation n m))"
    using relax_cells_between [OF Cons.prems(1) i(1) Cons.prems(2), of "[0..<n]"]
    by (auto simp: relax_row_def atLeast0LessThan)
  then show ?case
    using Cons.IH [OF row(1) Cons.prems(2) i(2)] by auto
qed

lemma relation_bounds: "relation n m \<subseteq> {..<n} \<times> {..<n}"
  by (auto simp: relation_def)

lemma relax_all_through:
  assumes "square n m" and "k < n"
  shows "square n (relax_all n k m) \<and> relation n (relax_all n k m) = through k (relation n m)"
proof -
  have "between n k m m" using assms(1) by (auto simp: between_def through_def)
  from relax_rows_between [OF this assms(2), of "[0..<n]"]
  have "between n k m (relax_all n k m)"
      "relation n (relax_all n k m) = relation n m \<union> (({..<n} \<times> {..<n}) \<inter> through k (relation n m))"
    by (auto simp: relax_all_def atLeast0LessThan)
  moreover have "through k (relation n m) \<subseteq> {..<n} \<times> {..<n}"
    using relation_bounds [of n m] by (auto simp: through_def)
  ultimately show ?thesis by (auto simp: between_def through_def)
qed

text \<open>After the rounds for \<open>0, ..., k - 1\<close> every path through those nodes is an entry.\<close>

lemma rounds_closed:
  assumes "square n m" and "k \<le> n"
  shows "let m' = fold (relax_all n) [0..<k] m in
    square n m' \<and> relation n m \<subseteq> relation n m' \<and> relation n m' \<subseteq> (relation n m)\<^sup>+ \<and>
    (\<forall>i j l. l < k \<longrightarrow> (i, l) \<in> relation n m' \<longrightarrow> (l, j) \<in> relation n m' \<longrightarrow> (i, j) \<in> relation n m')"
  using assms(2)
proof (induction k)
  case 0
  then show ?case using assms(1) by (auto simp: Let_def)
next
  case (Suc k)
  define m' where "m' = fold (relax_all n) [0..<k] m"
  have IH: "square n m'" "relation n m \<subseteq> relation n m'" "relation n m' \<subseteq> (relation n m)\<^sup>+"
      "\<And>i j l. l < k \<Longrightarrow> (i, l) \<in> relation n m' \<Longrightarrow> (l, j) \<in> relation n m' \<Longrightarrow> (i, j) \<in> relation n m'"
    using Suc by (simp_all add: m'_def Let_def)
  have step: "fold (relax_all n) [0..<Suc k] m = relax_all n k m'" by (simp add: m'_def)
  have new: "square n (relax_all n k m')" "relation n (relax_all n k m') = through k (relation n m')"
    using relax_all_through [OF IH(1), of k] Suc.prems by simp_all
  have "through k (relation n m') \<subseteq> (relation n m)\<^sup>+"
    using IH(3) by (auto simp: through_def dest: trancl_trans)
  moreover have "(i, j) \<in> through k (relation n m')"
    if "l < Suc k" "(i, l) \<in> through k (relation n m')" "(l, j) \<in> through k (relation n m')" for i j l
  proof (cases "l = k")
    case True
    then show ?thesis using that by (auto simp: through_def)
  next
    case False
    then have "l < k" using that(1) by simp
    then show ?thesis using that(2,3) IH(4) [of l] by (auto simp: through_def)
  qed
  ultimately show ?case
    unfolding Let_def step using new IH(2) by (auto simp: through_def)
qed

theorem reach_matrix_trancl:
  assumes "square (length ids) (edge_matrix ids es)"
  shows "relation (length ids) (reach_matrix ids es) = (relation (length ids) (edge_matrix ids es))\<^sup>+"
proof -
  let ?n = "length ids" and ?R = "relation (length ids) (edge_matrix ids es)"
    and ?W = "relation (length ids) (reach_matrix ids es)"
  have W: "?R \<subseteq> ?W" "?W \<subseteq> ?R\<^sup>+" and closed: "\<And>i j l. l < ?n \<Longrightarrow> (i, l) \<in> ?W \<Longrightarrow> (l, j) \<in> ?W \<Longrightarrow> (i, j) \<in> ?W"
    using rounds_closed [OF assms, of ?n] by (auto simp: reach_matrix_def Let_def)
  have "(i, j) \<in> ?W" if "(i, j) \<in> ?R\<^sup>+" for i j
    using that
  proof (induction rule: trancl_induct)
    case (base y)
    then show ?case using W(1) by blast
  next
    case (step y z)
    then have "y < ?n" using relation_bounds [of ?n "edge_matrix ids es"] by blast
    then show ?case using closed step W(1) by blast
  qed
  then show ?thesis using W(2) by auto
qed

section \<open>The edges by name\<close>

text \<open>The edges between nodes, as a relation on their names.\<close>

definition edge_steps :: "graph_spec \<Rightarrow> (string \<times> string) set" where
  "edge_steps spec = {(es_from e, es_to e) | e. e \<in> set (gs_edges spec) \<and> es_to e \<noteq> ''END''}"

lemma position_nth: "distinct ids \<Longrightarrow> position ids x = Some i \<longleftrightarrow> i < length ids \<and> ids ! i = x"
proof (induction ids arbitrary: i)
  case Nil
  then show ?case by simp
next
  case (Cons y ys)
  then show ?case by (cases i) (auto simp: nth_eq_iff_index_eq dest: nth_mem)
qed

lemma relation_mark_edge:
  assumes "distinct ids" and "square (length ids) m"
  shows "square (length ids) (mark_edge ids e m) \<and>
    relation (length ids) (mark_edge ids e m) = relation (length ids) m \<union>
      {(i, j). i < length ids \<and> j < length ids \<and> es_to e \<noteq> ''END''
        \<and> ids ! i = es_from e \<and> ids ! j = es_to e}"
proof (cases "es_to e = ''END''")
  case True
  then show ?thesis using assms(2) by (simp add: mark_edge_def)
next
  case False
  show ?thesis
  proof (cases "position ids (es_from e) = None \<or> position ids (es_to e) = None")
    case True
    have "\<not> (i < length ids \<and> ids ! i = x)" if "position ids x = None" for i x
      using position_nth [OF assms(1), of x i] that by simp
    then show ?thesis
      using True False assms(2) by (auto simp: mark_edge_def split: option.splits)
  next
    case no: False
    then obtain i j where ij: "position ids (es_from e) = Some i" "position ids (es_to e) = Some j"
      by auto
    then have p: "i < length ids" "ids ! i = es_from e" "j < length ids" "ids ! j = es_to e"
      using position_nth [OF assms(1)] by simp_all
    have "mark_edge ids e m = set_entry i j True m"
      using False ij by (simp add: mark_edge_def)
    moreover have "{(a, b). a < length ids \<and> b < length ids \<and> es_to e \<noteq> ''END''
        \<and> ids ! a = es_from e \<and> ids ! b = es_to e} = {(i, j)}"
    proof -
      have "a = i" if "a < length ids" "ids ! a = es_from e" for a
        using that p(1,2) assms(1) nth_eq_iff_index_eq by metis
      moreover have "b = j" if "b < length ids" "ids ! b = es_to e" for b
        using that p(3,4) assms(1) nth_eq_iff_index_eq by metis
      ultimately show ?thesis using p False by blast
    qed
    ultimately show ?thesis
      using relation_set_entry [OF assms(2) p(1,3), of True] square_set_entry [OF assms(2) p(1)]
      by simp
  qed
qed

lemma relation_edge_matrix:
  assumes "distinct ids"
  shows "square (length ids) (edge_matrix ids es) \<and>
    relation (length ids) (edge_matrix ids es) = {(i, j). i < length ids \<and> j < length ids \<and>
      (\<exists>e \<in> set es. es_to e \<noteq> ''END'' \<and> ids ! i = es_from e \<and> ids ! j = es_to e)}"
proof -
  have "square (length ids) (fold (mark_edge ids) es m) \<and>
      relation (length ids) (fold (mark_edge ids) es m) = relation (length ids) m \<union>
        {(i, j). i < length ids \<and> j < length ids \<and>
          (\<exists>e \<in> set es. es_to e \<noteq> ''END'' \<and> ids ! i = es_from e \<and> ids ! j = es_to e)}"
    if "square (length ids) m" for m
    using that
  proof (induction es arbitrary: m)
    case Nil
    then show ?case by simp
  next
    case (Cons e es)
    show ?case
      using Cons.IH [of "mark_edge ids e m"] relation_mark_edge [OF assms Cons.prems, of e]
      by auto
  qed
  moreover have "square (length ids) (replicate (length ids) (replicate (length ids) False))"
    by (simp add: square_def)
  moreover have "relation (length ids) (replicate (length ids) (replicate (length ids) False)) = {}"
    by (auto simp: relation_def entry_def)
  ultimately show ?thesis by (simp add: edge_matrix_def)
qed

text \<open>An entry of the matrix says that one node reaches the other over the edges.\<close>

lemma entry_reach_matrix:
  assumes "distinct (node_ids spec)" and "i < length (node_ids spec)" "j < length (node_ids spec)"
    and "\<forall>e \<in> set (gs_edges spec). es_from e \<in> set (node_ids spec)
      \<and> (es_to e \<noteq> ''END'' \<longrightarrow> es_to e \<in> set (node_ids spec))"
  shows "entry (reach_matrix (node_ids spec) (gs_edges spec)) i j
    \<longleftrightarrow> (node_ids spec ! i, node_ids spec ! j) \<in> (edge_steps spec)\<^sup>+"
proof -
  let ?ids = "node_ids spec" and ?R = "relation (length (node_ids spec)) (edge_matrix (node_ids spec) (gs_edges spec))"
  have R: "(a, b) \<in> ?R \<longleftrightarrow> a < length ?ids \<and> b < length ?ids \<and> (?ids ! a, ?ids ! b) \<in> edge_steps spec" for a b
    using relation_edge_matrix [OF assms(1), of "gs_edges spec"] by (auto simp: edge_steps_def)
  have bounds: "x \<in> set ?ids \<and> y \<in> set ?ids" if "(x, y) \<in> edge_steps spec" for x y
    using assms(4) that by (auto simp: edge_steps_def)
  have "(?ids ! a, ?ids ! b) \<in> (edge_steps spec)\<^sup>+" if "(a, b) \<in> ?R\<^sup>+" for a b
    using that
  proof (induction rule: trancl_induct)
    case (step y z)
    then show ?case using R trancl.trancl_into_trancl by metis
  qed (use R in blast)
  moreover have "\<exists>a b. a < length ?ids \<and> b < length ?ids \<and> x = ?ids ! a \<and> y = ?ids ! b \<and> (a, b) \<in> ?R\<^sup>+"
    if "(x, y) \<in> (edge_steps spec)\<^sup>+" for x y
    using that
  proof (induction rule: trancl_induct)
    case (base y)
    then show ?case using bounds R by (metis in_set_conv_nth r_into_trancl)
  next
    case (step y z)
    then obtain a b where ab: "a < length ?ids" "b < length ?ids" "x = ?ids ! a" "y = ?ids ! b" "(a, b) \<in> ?R\<^sup>+"
      by blast
    obtain c where c: "c < length ?ids" "z = ?ids ! c"
      using bounds [OF step(2)] by (metis in_set_conv_nth)
    then have "(b, c) \<in> ?R" using R ab step(2) by simp
    then have "(a, c) \<in> ?R\<^sup>+" using ab(5) by (rule trancl_into_trancl [rotated])
    then show ?case using ab c by blast
  qed
  ultimately have "(i, j) \<in> ?R\<^sup>+ \<longleftrightarrow> (?ids ! i, ?ids ! j) \<in> (edge_steps spec)\<^sup>+"
    using assms(1-3) by (metis nth_eq_iff_index_eq)
  moreover have "square (length ?ids) (edge_matrix ?ids (gs_edges spec))"
    using relation_edge_matrix [OF assms(1)] by simp
  ultimately show ?thesis
    using reach_matrix_trancl assms(2,3) by (simp add: relation_iff [symmetric])
qed

section \<open>Which nodes write a key\<close>

definition occurrences :: "string \<Rightarrow> nat \<times> node_spec \<Rightarrow> nat list" where
  "occurrences k p = (case p of (i, n) \<Rightarrow> map (\<lambda>_. i) (filter ((=) k) (write_keys n)))"

definition writers_of :: "node_spec list \<Rightarrow> string \<Rightarrow> nat list" where
  "writers_of nodes k = concat (map (occurrences k) (List.enumerate 0 nodes))"

lemma add_writers:
  "bt_wf m \<Longrightarrow> bt_wf (fold (add_writer i) ks m)
    \<and> map_of (fold (add_writer i) ks m) k =
      (if k \<in> set ks then Some (or_else (map_of m k) [] @ map (\<lambda>_. i) (filter ((=) k) ks))
       else map_of m k)"
proof (induction ks arbitrary: m)
  case Nil
  then show ?case by simp
next
  case (Cons x ks)
  have "bt_wf (add_writer i x m)" using Cons.prems by (simp add: add_writer_def)
  from Cons.IH [OF this] show ?case
    using Cons.prems by (auto simp: add_writer_def map_of_bt_insert filter_empty_conv)
qed

lemma writers_fold:
  "bt_wf m \<Longrightarrow>
   let m' = fold (\<lambda>(i, n). fold (add_writer i) (write_keys n)) ps m;
       vs = concat (map (occurrences k) ps)
   in bt_wf m' \<and> map_of m' k = (if vs = [] then map_of m k else Some (or_else (map_of m k) [] @ vs))"
proof (induction ps arbitrary: m)
  case Nil
  then show ?case by simp
next
  case (Cons p ps)
  obtain i n where p: "p = (i, n)" by (cases p)
  note one = add_writers [OF Cons.prems, of i "write_keys n"]
  have occ: "occurrences k p = [] \<longleftrightarrow> k \<notin> set (write_keys n)"
    by (auto simp: p occurrences_def filter_empty_conv)
  have "bt_wf (fold (add_writer i) (write_keys n) m)" using one by blast
  from Cons.IH [OF this] one [of k] occ show ?case
    by (auto simp: p Let_def occurrences_def)
qed

lemma writers_lookup:
  "(k, vs) \<in> set (writers nodes) \<longleftrightarrow> vs = writers_of nodes k \<and> vs \<noteq> []"
proof -
  have w: "bt_wf (writers nodes)"
      "map_of (writers nodes) k = (if writers_of nodes k = [] then None else Some (writers_of nodes k))"
    using writers_fold [of "[]" "List.enumerate 0 nodes" k]
    by (simp_all add: writers_def writers_of_def Let_def)
  have "(k, vs) \<in> set (writers nodes) \<longleftrightarrow> map_of (writers nodes) k = Some vs"
    using bt_wf_distinct [OF w(1)] by (simp add: map_of_eq_Some_iff)
  then show ?thesis using w(2) by auto
qed

lemma sorted_writers: "sorted (concat (map (occurrences k) (List.enumerate s nodes)))
    \<and> (\<forall>i \<in> set (concat (map (occurrences k) (List.enumerate s nodes))). s \<le> i)"
proof (induction nodes arbitrary: s)
  case Nil
  then show ?case by simp
next
  case (Cons n nodes)
  have "sorted (occurrences k (s, n)) \<and> set (occurrences k (s, n)) \<subseteq> {s}"
    by (auto simp: occurrences_def map_replicate_const)
  then show ?case
    using Cons.IH [of "Suc s"] by (fastforce simp: sorted_append)
qed

lemma set_writers_of: "i \<in> set (writers_of nodes k) \<longleftrightarrow> i < length nodes \<and> k \<in> set (write_keys (nodes ! i))"
  unfolding writers_of_def occurrences_def
  by (auto simp: in_set_enumerate_eq filter_empty_conv intro!: bexI [of _ "(i, nodes ! i)"])

lemma index_pairs_mem: "l < r \<Longrightarrow> r < length xs \<Longrightarrow> (xs ! l, xs ! r) \<in> set (index_pairs xs)"
  by (auto simp: index_pairs_def intro!: bexI [of _ l] image_eqI [of _ _ r])

lemma index_pairs_sorted:
  assumes "sorted xs" "a \<in> set xs" "b \<in> set xs" "a < (b :: nat)"
  shows "(a, b) \<in> set (index_pairs xs)"
proof -
  obtain l r where lr: "l < length xs" "xs ! l = a" "r < length xs" "xs ! r = b"
    using assms(2,3) by (metis in_set_conv_nth)
  have "l < r"
  proof (rule ccontr)
    assume "\<not> l < r"
    then have "b \<le> a" using sorted_nth_mono [OF assms(1), of r l] lr by simp
    then show False using assms(4) by simp
  qed
  then show ?thesis using lr index_pairs_mem [of l r xs] by simp
qed

text \<open>A node that writes a key twice is paired with itself.\<close>

lemma index_pairs_twice:
  assumes "sorted xs" "1 < length (filter ((=) a) xs)"
  shows "(a, a) \<in> set (index_pairs xs)"
proof -
  have "\<exists>l r. l < r \<and> r < length ys \<and> ys ! l = a \<and> ys ! r = a" if "1 < length (filter ((=) a) ys)" for ys
    using that
  proof (induction ys)
    case Nil
    then show ?case by simp
  next
    case (Cons y ys)
    show ?case
    proof (cases "y = a")
      case True
      then have "a \<in> set ys" using Cons.prems by (auto simp: filter_empty_conv)
      then obtain r where "r < length ys" "ys ! r = a" by (metis in_set_conv_nth)
      then show ?thesis using True by (intro exI [of _ 0] exI [of _ "Suc r"]) simp
    next
      case False
      then obtain l r where "l < r" "r < length ys" "ys ! l = a" "ys ! r = a"
        using Cons by auto
      then show ?thesis by (intro exI [of _ "Suc l"] exI [of _ "Suc r"]) simp
    qed
  qed
  then obtain l r where "l < r" "r < length xs" "xs ! l = a" "xs ! r = a" using assms(2) by blast
  then show ?thesis using index_pairs_mem [of l r xs] by simp
qed

end
