(* ===== verification/Spec_Properties.thy ===== *)
theory Spec_Properties
  imports Write_Conflicts "HOL-Library.Multiset"
begin

text \<open>
  The properties of graph specifications: what an accepted specification guarantees about
  state keys written in parallel, and which graphs can be resumed.
\<close>

section \<open>Accepted specifications\<close>

lemma validate_Inr:
  assumes "validate spec = Inr ()"
  shows "distinct (node_ids spec)" "gs_entry spec \<in> set (node_ids spec)"
    "\<forall>e \<in> set (gs_edges spec). es_from e \<in> set (node_ids spec)
      \<and> (es_to e \<noteq> ''END'' \<longrightarrow> es_to e \<in> set (node_ids spec))"
    "validate_state_write_conflicts spec = Inr ()"
    "gs_nodes spec \<noteq> []" "\<forall>n \<in> set (gs_nodes spec). validate_node (node_ids spec) n = Inr ()"
proof -
  have all: "length (remdups (node_ids spec)) = length (gs_nodes spec)"
      "gs_entry spec \<in> set (node_ids spec)"
      "\<forall>e \<in> set (gs_edges spec). es_from e \<in> set (node_ids spec)
        \<and> (es_to e \<noteq> ''END'' \<longrightarrow> es_to e \<in> set (node_ids spec))"
      "validate_state_write_conflicts spec = Inr ()" "gs_nodes spec \<noteq> []"
      "\<forall>n \<in> set (gs_nodes spec). validate_node (node_ids spec) n = Inr ()"
    using assms by (auto simp: validate_def Let_def bind_result_Inr_iff)
  have "length (gs_nodes spec) = length (node_ids spec)" by (simp add: node_ids_def)
  then show "distinct (node_ids spec)"
    using all(1) by (metis length_remdups_card_conv card_distinct)
  show "gs_entry spec \<in> set (node_ids spec)" by (fact all(2))
  show "\<forall>e \<in> set (gs_edges spec). es_from e \<in> set (node_ids spec)
      \<and> (es_to e \<noteq> ''END'' \<longrightarrow> es_to e \<in> set (node_ids spec))" by (fact all(3))
  show "validate_state_write_conflicts spec = Inr ()" by (fact all(4))
  show "gs_nodes spec \<noteq> []" by (fact all(5))
  show "\<forall>n \<in> set (gs_nodes spec). validate_node (node_ids spec) n = Inr ()" by (fact all(6))
qed

text \<open>What the conflict check says about one pair of writers.\<close>

lemma conflict_free_pair:
  assumes v: "validate spec = Inr ()" and k: "\<not> contains_key (gs_reducers spec) key"
    and p: "(a, b) \<in> set (index_pairs (writers_of (gs_nodes spec) key))"
    and ab: "a < length (gs_nodes spec)" "b < length (gs_nodes spec)"
  shows "(node_ids spec ! a, node_ids spec ! b) \<in> (edge_steps spec)\<^sup>+
    \<or> (node_ids spec ! b, node_ids spec ! a) \<in> (edge_steps spec)\<^sup>+
    \<or> \<not> (\<exists>c. c \<noteq> node_ids spec ! a \<and> c \<noteq> node_ids spec ! b
        \<and> (c, node_ids spec ! a) \<in> (edge_steps spec)\<^sup>+ \<and> (c, node_ids spec ! b) \<in> (edge_steps spec)\<^sup>+)"
proof -
  let ?ids = "node_ids spec" and ?E = "edge_steps spec"
  note wf = validate_Inr [OF v]
  have len: "length ?ids = length (gs_nodes spec)" by (simp add: node_ids_def)
  have "writers_of (gs_nodes spec) key \<noteq> []" using p by (auto simp: index_pairs_def)
  then have "(key, writers_of (gs_nodes spec) key) \<in> set (writers (gs_nodes spec))"
    by (simp add: writers_lookup)
  then have "check_writer_pair ?ids (reach_matrix ?ids (gs_edges spec)) key (a, b) = Inr ()"
    using wf(4) k p by (fastforce simp: validate_state_write_conflicts_def Let_def)
  moreover have reach: "entry (reach_matrix ?ids (gs_edges spec)) i j \<longleftrightarrow> (?ids ! i, ?ids ! j) \<in> ?E\<^sup>+"
    if "i < length ?ids" "j < length ?ids" for i j
    using entry_reach_matrix [OF wf(1) that wf(3)] .
  ultimately consider "(?ids ! a, ?ids ! b) \<in> ?E\<^sup>+" | "(?ids ! b, ?ids ! a) \<in> ?E\<^sup>+"
    | "\<not> (\<exists>c < length ?ids. c \<noteq> a \<and> c \<noteq> b \<and> (?ids ! c, ?ids ! a) \<in> ?E\<^sup>+ \<and> (?ids ! c, ?ids ! b) \<in> ?E\<^sup>+)"
    using ab by (auto simp: check_writer_pair_def len list_ex_iff split: if_splits)
  then show ?thesis
  proof cases
    case 3
    have "c \<in> set ?ids" if "(c, ?ids ! a) \<in> ?E\<^sup>+" for c
      using that wf(3) by (induction rule: converse_trancl_induct) (auto simp: edge_steps_def)
    then show ?thesis using 3 by (metis in_set_conv_nth)
  qed simp_all
qed


definition plain_node :: "string \<Rightarrow> node_type \<Rightarrow> value \<Rightarrow> node_spec" where
  "plain_node i t config = \<lparr>ns_id = i, ns_type = t, ns_prompt = None, ns_model = None,
     ns_json_mode = False, ns_evidence_required = False, ns_max_tokens = None,
     ns_routes = None, ns_config = config\<rparr>"

definition set_op :: "string \<Rightarrow> value" where
  "set_op path = Object [(''op'', String ''set''), (''path'', String path)]"

definition two_writers :: graph_spec where
  "two_writers = \<lparr>gs_spec_version = ''2'', gs_name = ''g'', gs_entry = ''a'', gs_output_key = None,
     gs_nodes = [plain_node ''a'' Type_state_transform (Object [(''operations'', Array [set_op ''k''])]),
       plain_node ''b'' Type_state_transform (Object [(''operations'', Array [set_op ''k''])])],
     gs_edges = [\<lparr>es_from = ''a'', es_to = ''b''\<rparr>, \<lparr>es_from = ''b'', es_to = ''END''\<rparr>],
     gs_max_iterations = None, gs_max_parallelism = None, gs_reducers = []\<rparr>"

lemma validate_two_writers: "validate two_writers = Inr ()"
  by code_simp


text \<open>
  A transform node that writes one key in two operations is taken for two unordered
  parallel writers: behind any other node, and outside a cycle, it is refused.
\<close>

theorem node_conflicts_with_itself:
  assumes "n \<in> set (gs_nodes spec)" and "1 < length (filter ((=) key) (write_keys n))"
    and "\<not> contains_key (gs_reducers spec) key"
    and "(c, ns_id n) \<in> (edge_steps spec)\<^sup>+" "c \<noteq> ns_id n" "(ns_id n, ns_id n) \<notin> (edge_steps spec)\<^sup>+"
  shows "validate spec \<noteq> Inr ()"
proof
  assume v: "validate spec = Inr ()"
  obtain a where a: "a < length (gs_nodes spec)" "gs_nodes spec ! a = n"
    using assms(1) by (metis in_set_conv_nth)
  obtain xs ys where split: "List.enumerate 0 (gs_nodes spec) = xs @ (a, n) # ys"
    using a split_list [of "(a, n)" "List.enumerate 0 (gs_nodes spec)"]
    by (auto simp: in_set_enumerate_eq)
  have "length (filter ((=) a) (writers_of (gs_nodes spec) key))
      \<ge> length (filter ((=) a) (occurrences key (a, n)))"
    by (simp add: writers_of_def split)
  moreover have "filter ((=) a) (occurrences key (a, n)) = occurrences key (a, n)"
    by (auto simp: occurrences_def filter_id_conv)
  ultimately have "1 < length (filter ((=) a) (writers_of (gs_nodes spec) key))"
    using assms(2) by (simp add: occurrences_def)
  moreover have "sorted (writers_of (gs_nodes spec) key)"
    using sorted_writers [of key 0] by (simp add: writers_of_def)
  ultimately have "(a, a) \<in> set (index_pairs (writers_of (gs_nodes spec) key))"
    by (simp add: index_pairs_twice)
  moreover have "node_ids spec ! a = ns_id n" using a by (simp add: node_ids_def)
  ultimately show False
    using conflict_free_pair [OF v assms(3)] a(1) assms(4-6) by metis
qed

definition double_writer :: graph_spec where
  "double_writer = two_writers\<lparr>gs_nodes := [plain_node ''a'' Type_passthrough Null,
     plain_node ''b'' Type_state_transform
       (Object [(''operations'', Array [set_op ''k'', set_op ''k''])])]\<rparr>"

theorem node_conflicts_with_itself_witness: "validate double_writer \<noteq> Inr ()"
proof (rule node_conflicts_with_itself [where key = "''k''" and c = "''a''"
      and n = "gs_nodes double_writer ! 1"])
  have i: "ns_id (gs_nodes double_writer ! 1) = ''b''"
    by (simp add: double_writer_def plain_node_def)
  have E: "edge_steps double_writer = {(''a'', ''b'')}"
    by (auto simp: edge_steps_def double_writer_def two_writers_def
        intro!: exI [of _ "\<lparr>es_from = ''a'', es_to = ''b''\<rparr>"])
  show "(''a'', ns_id (gs_nodes double_writer ! 1)) \<in> (edge_steps double_writer)\<^sup>+"
    unfolding E i by (rule r_into_trancl) simp
  have "(x, y) \<in> {(''a'', ''b'')}\<^sup>+ \<Longrightarrow> x = ''a'' \<and> y = ''b''" for x y :: string
    by (induction rule: trancl_induct) auto
  then show "(ns_id (gs_nodes double_writer ! 1), ns_id (gs_nodes double_writer ! 1))
      \<notin> (edge_steps double_writer)\<^sup>+"
    unfolding E i by auto
qed (simp_all add: double_writer_def two_writers_def plain_node_def write_keys_def items_at_def
    array_at_def str_at_def set_op_def List.map_filter_def contains_key_def)

section \<open>Deterministic resumption\<close>

lemma walk_chain_path:
  assumes "walk_chain spec chain seen current = Some (Inr out)" and "distinct chain"
    and "set chain = set seen" and "set chain \<subseteq> set (node_ids spec)"
    and "current \<in> set (node_ids spec)"
  shows "\<exists>tail. out = chain @ current # tail \<and> distinct out \<and> set out \<subseteq> set (node_ids spec)
    \<and> successively (\<lambda>x y. (x, y) \<in> edge_steps spec) (current # tail)
    \<and> (\<exists>e \<in> set (gs_edges spec). es_from e = last out \<and> es_to e = ''END'')"
  using assms
proof (induction spec chain seen current rule: walk_chain.induct)
  case (1 spec chain seen current)
  from "1.prems"(1) have fresh: "current \<notin> set seen"
    by (subst (asm) walk_chain.simps) (auto split: if_splits)
  then obtain t ts where succ: "successors_of spec current = t # ts"
    using "1.prems"(1) by (subst (asm) walk_chain.simps) (auto split: list.splits)
  then have "t \<in> set (successors_of spec current)" by simp
  then have edge: "\<exists>e \<in> set (gs_edges spec). es_from e = current \<and> es_to e = t"
    by (auto simp: successors_of_def)
  have new: "distinct (chain @ [current])" "set (chain @ [current]) = set (current # seen)"
      "set (chain @ [current]) \<subseteq> set (node_ids spec)"
    using "1.prems" fresh by auto
  show ?case
  proof (cases "t = ''END''")
    case True
    then have "out = chain @ [current]"
      using "1.prems"(1) fresh succ by (subst (asm) walk_chain.simps) simp
    then show ?thesis using new edge True by (intro exI [of _ "[]"]) auto
  next
    case False
    then have t: "t \<in> set (node_ids spec)"
        "walk_chain spec (chain @ [current]) (current # seen) t = Some (Inr out)"
      using "1.prems"(1) fresh succ
      by (subst (asm) walk_chain.simps, auto split: if_splits)+
    from "1.IH" [OF fresh succ False _ t(2) new t(1)] t(1)
    obtain tail where "out = (chain @ [current]) @ t # tail" "distinct out"
        "set out \<subseteq> set (node_ids spec)"
        "successively (\<lambda>x y. (x, y) \<in> edge_steps spec) (t # tail)"
        "\<exists>e \<in> set (gs_edges spec). es_from e = last out \<and> es_to e = ''END''"
      by blast
    moreover have "(current, t) \<in> edge_steps spec"
      using edge False by (auto simp: edge_steps_def)
    ultimately show ?thesis by (intro exI [of _ "t # tail"]) simp
  qed
qed

lemma walk_chain_total:
  assumes "\<forall>n \<in> set (node_ids spec). successors_of spec n \<noteq> []" and "current \<in> set (node_ids spec)"
  shows "walk_chain spec chain seen current \<noteq> None"
  using assms
proof (induction spec chain seen current rule: walk_chain.induct)
  case (1 spec chain seen current)
  then obtain t ts where "successors_of spec current = t # ts"
    by (cases "successors_of spec current") auto
  then show ?case
    using 1 by (subst walk_chain.simps) auto
qed



end
