(* ===== verification/Evidence.thy ===== *)
theory Evidence
  imports Graph_Spec "HOL-Library.Word"
begin

unbundle bit_operations_syntax

text \<open>
  \<open>agent-graph-mcp/src/evidence.rs\<close>: digests and message authentication codes, redaction,
  integrity bundles, source witnesses and the research evidence that refers to them. Text
  is a list of bytes; SHA-256 and the JSON serializer are parameters.
\<close>

record crypto =
  sha256 :: "string \<Rightarrow> string"
  json_text :: "value \<Rightarrow> string"

section \<open>Digests\<close>

definition hex_digit :: "nat \<Rightarrow> char" where
  "hex_digit d = (if d < 10 then char_of (48 + d) else char_of (87 + d))"

definition hex_of :: "string \<Rightarrow> string" where
  "hex_of bytes = concat (map (\<lambda>c. [hex_digit (of_char c div 16), hex_digit (of_char c mod 16)]) bytes)"

definition digest :: "crypto \<Rightarrow> value \<Rightarrow> string" where
  "digest cr v = ''sha256:'' @ hex_of (sha256 cr (json_text cr v))"

definition xor_byte :: "nat \<Rightarrow> char \<Rightarrow> char" where
  "xor_byte n c = char_of (unat ((of_char c :: 8 word) XOR of_nat n))"

text \<open>The key, or its digest when it is longer, padded with zeros to the block of 64 bytes.\<close>

definition key_block :: "crypto \<Rightarrow> string \<Rightarrow> string" where
  "key_block cr key =
     (let k = if 64 < length key then take 32 (sha256 cr key) else key
      in k @ replicate (64 - length k) (char_of (0 :: nat)))"

definition hmac_sha256 :: "crypto \<Rightarrow> value \<Rightarrow> string \<Rightarrow> string" where
  "hmac_sha256 cr v key =
     (let block = key_block cr key;
          inner = sha256 cr (map (xor_byte 54) block @ json_text cr v)
      in ''hmac-sha256:'' @ hex_of (sha256 cr (map (xor_byte 92) block @ inner)))"

section \<open>Redaction\<close>

definition secret_needles :: "string list" where
  "secret_needles = [''secret'', ''token'', ''password'', ''authorization'', ''api_key'', ''credential'']"

definition secret_key :: "string \<Rightarrow> bool" where
  "secret_key k \<longleftrightarrow> list_ex (contains_str (to_lower k)) secret_needles"

definition secret_text :: "string \<Rightarrow> bool" where
  "secret_text s \<longleftrightarrow> starts_with s ''sk-'' \<or> starts_with s ''Bearer '' \<or> contains_str s ''BEGIN PRIVATE KEY''"

definition redacted :: "value" where
  "redacted = String ''[REDACTED]''"

fun redact :: "value \<Rightarrow> value" where
  "redact (Object m) = Object (map (\<lambda>(k, v). (k, if secret_key k then redacted else redact v)) m)"
| "redact (Array items) = Array (map redact items)"
| "redact (String s) = (if secret_text s then redacted else String s)"
| "redact v = v"

section \<open>Bundles\<close>

definition run_bundle :: "crypto \<Rightarrow> string \<Rightarrow> string \<Rightarrow> value \<Rightarrow> value \<Rightarrow> value \<Rightarrow> value" where
  "run_bundle cr run_id graph_version input result receipt =
     (let payload = json_object
        [(''schema'', String ''agent-graph-mcp-bundle-v1''), (''run_id'', String run_id),
         (''graph_version'', String graph_version), (''input'', redact input),
         (''output'', redact result), (''receipt'', redact receipt),
         (''replay_capability'', String ''integrity_only''),
         (''dependency_envelopes_complete'',
          Bool (or_else (Option.bind (get_key receipt ''dependency_envelopes_complete'') as_bool) False)),
         (''environment'', Object [])]
      in json_object [(''payload'', payload), (''integrity'', String (digest cr payload))])"

definition verify :: "crypto \<Rightarrow> value \<Rightarrow> value" where
  "verify cr b = (case get_key b ''payload'' of
       None \<Rightarrow> json_object [(''verified'', Bool False), (''code'', String ''INVALID_BUNDLE'')]
     | Some payload \<Rightarrow>
         (let expected = or_else (str_at b ''integrity'') []; actual = digest cr payload
          in json_object [(''verified'', Bool (expected = actual)),
               (''level'', String ''integrity_verified''), (''expected'', String expected),
               (''actual'', String actual), (''models_or_tools_invoked'', Bool False)]))"

section \<open>Witnesses\<close>

record witness_error =
  we_code :: string
  we_message :: string

definition witness_error_of :: "string \<Rightarrow> string \<Rightarrow> witness_error" where
  "witness_error_of code message = \<lparr>we_code = code, we_message = message\<rparr>"

definition witness_error_text :: "witness_error \<Rightarrow> string" where
  "witness_error_text e = we_code e @ '': '' @ we_message e"

record witness_capture =
  wc_locator :: string
  wc_content :: string
  wc_media_type :: string
  wc_authority_class :: string
  wc_retrieved_at :: string

record witness_record = witness_capture +
  wr_witness_id :: string
  wr_digest :: string

record witness_span =
  span_start :: nat
  span_end :: nat

record witness_binding =
  wb_witness_id :: string
  wb_span :: witness_span

text \<open>A struct is serialized in the order of its fields, a JSON object in the order of its keys.\<close>

definition envelope_fields :: "'a witness_capture_scheme \<Rightarrow> (string \<times> string) list" where
  "envelope_fields c = [(''locator'', wc_locator c), (''content'', wc_content c),
     (''media_type'', wc_media_type c), (''authority_class'', wc_authority_class c),
     (''retrieved_at'', wc_retrieved_at c)]"

definition envelope_bytes :: "crypto \<Rightarrow> 'a witness_capture_scheme \<Rightarrow> string" where
  "envelope_bytes cr c = ''{'' @ join_with '',''
     (map (\<lambda>(k, v). json_text cr (String k) @ '':'' @ json_text cr (String v)) (envelope_fields c)) @ ''}''"

definition witness_envelope_digest :: "crypto \<Rightarrow> 'a witness_capture_scheme \<Rightarrow> string" where
  "witness_envelope_digest cr c = ''sha256:'' @ hex_of (sha256 cr (envelope_bytes cr c))"

definition witness_envelope_hmac :: "crypto \<Rightarrow> 'a witness_capture_scheme \<Rightarrow> string \<Rightarrow> string" where
  "witness_envelope_hmac cr c key =
     hmac_sha256 cr (json_object (map (\<lambda>(k, v). (k, String v)) (envelope_fields c))) key"

definition witness_id_for_digest :: "string \<Rightarrow> string" where
  "witness_id_for_digest d = ''witness-'' @ (if starts_with d ''sha256:'' then drop 7 d else d)"

text \<open>\<open>char::is_control\<close> on UTF-8 text: the C0 controls, DEL, and the C1 controls \<open>C2 80..9F\<close>.\<close>

fun has_control :: "string \<Rightarrow> bool" where
  "has_control [] = False"
| "has_control (c # cs) \<longleftrightarrow> (of_char c :: nat) < 32 \<or> (of_char c :: nat) = 127
     \<or> ((of_char c :: nat) = 194
        \<and> (case cs of [] \<Rightarrow> False | d # _ \<Rightarrow> 128 \<le> (of_char d :: nat) \<and> (of_char d :: nat) < 160))
     \<or> has_control cs"

definition witness_reject :: "bool \<Rightarrow> string \<Rightarrow> string \<Rightarrow> witness_error + unit" where
  "witness_reject b code message = (if b then Inl (witness_error_of code message) else Inr ())"

lemma witness_reject_Inr [simp]: "witness_reject b code message = Inr () \<longleftrightarrow> \<not> b"
  by (simp add: witness_reject_def)

text \<open>\<open>rfc3339\<close> says which texts \<open>chrono\<close> parses as a timestamp.\<close>

definition check_capture :: "(string \<Rightarrow> bool) \<Rightarrow> 'a witness_capture_scheme \<Rightarrow> witness_error + unit" where
  "check_capture rfc3339 c =
     bind_result (witness_reject (blank (wc_locator c)) ''WITNESS_INVALID_LOCATOR''
       ''locator must be non-empty'') (\<lambda>_.
     bind_result (witness_reject (4096 < length (wc_locator c)) ''WITNESS_LOCATOR_TOO_LARGE''
       ''locator exceeds 4096 UTF-8 bytes'') (\<lambda>_.
     bind_result (witness_reject (has_control (wc_locator c)) ''WITNESS_INVALID_LOCATOR''
       ''locator must not contain control characters'') (\<lambda>_.
     bind_result (witness_reject (wc_content c = []) ''WITNESS_INVALID_CONTENT''
       ''content must be non-empty'') (\<lambda>_.
     bind_result (witness_reject (256 * 1024 < length (wc_content c)) ''WITNESS_CONTENT_TOO_LARGE''
       ''content exceeds 256 KiB UTF-8 bytes'') (\<lambda>_.
     bind_result (witness_reject
         (wc_media_type c \<notin> set [''text/plain'', ''text/markdown'', ''application/json''])
         ''WITNESS_INVALID_MEDIA_TYPE'' ''media_type is not in the witness v1 allowlist'') (\<lambda>_.
     bind_result (witness_reject
         (wc_authority_class c \<notin> set [''caller_supplied_unverified'', ''local_primary_capture''])
         ''WITNESS_INVALID_AUTHORITY_CLASS''
         ''authority_class is not in the witness v1 allowlist'') (\<lambda>_.
     witness_reject (\<not> rfc3339 (wc_retrieved_at c)) ''WITNESS_INVALID_TIMESTAMP''
       ''retrieved_at must be an RFC3339 timestamp'')))))))"

definition capture_digest :: "crypto \<Rightarrow> string option \<Rightarrow> 'a witness_capture_scheme \<Rightarrow> string" where
  "capture_digest cr key c = (case key of
       None \<Rightarrow> witness_envelope_digest cr c | Some k \<Rightarrow> witness_envelope_hmac cr c k)"

definition validate_witness_capture ::
    "crypto \<Rightarrow> (string \<Rightarrow> bool) \<Rightarrow> string option \<Rightarrow> witness_capture \<Rightarrow> witness_error + witness_record" where
  "validate_witness_capture cr rfc3339 key c =
     bind_result (check_capture rfc3339 c) (\<lambda>_.
       Inr (witness_capture.extend c (witness_record.fields
         (witness_id_for_digest (capture_digest cr key c)) (capture_digest cr key c))))"

definition integrity_failure :: witness_error where
  "integrity_failure = witness_error_of ''WITNESS_INTEGRITY_FAILURE''
     ''stored witness integrity validation failed''"

definition verify_witness_record ::
    "crypto \<Rightarrow> (string \<Rightarrow> bool) \<Rightarrow> string option \<Rightarrow> witness_record \<Rightarrow> witness_error + unit" where
  "verify_witness_record cr rfc3339 key r =
     (case validate_witness_capture cr rfc3339 key (witness_capture.truncate r) of
        Inl _ \<Rightarrow> Inl integrity_failure
      | Inr expected \<Rightarrow>
          if wr_digest expected \<noteq> wr_digest r \<or> wr_witness_id expected \<noteq> wr_witness_id r
             \<or> wc_locator expected \<noteq> wc_locator r
          then Inl integrity_failure else Inr ())"

end
