(* ===== verification/Research_Evidence.thy ===== *)
theory Research_Evidence
  imports Evidence
begin

text \<open>
  \<open>agent-graph-mcp/src/evidence.rs\<close>: the shape of research evidence, the witnesses its
  claims refer to, and the check of every reference against the witness store. \<open>get_witness\<close>
  is the store's lookup.
\<close>

section \<open>Shape\<close>

definition required_text :: "string option \<Rightarrow> bool" where
  "required_text s \<longleftrightarrow> (case s of None \<Rightarrow> False | Some t \<Rightarrow> \<not> blank t)"

definition evidence_item :: "string \<Rightarrow> nat \<Rightarrow> string \<Rightarrow> string" where
  "evidence_item kind i rest = ''research evidence '' @ kind @ '' '' @ show_nat i @ '' '' @ rest"

definition check_source :: "nat \<times> value \<Rightarrow> string + unit" where
  "check_source p = (case p of (i, source) \<Rightarrow>
     bind_result (reject_if (blank (or_else (str_at source ''locator'') []))
       (evidence_item ''source'' i ''requires a non-empty locator'')) (\<lambda>_.
     bind_result (reject_if (\<not> required_text (str_at source ''source_type''))
       (evidence_item ''source'' i ''requires a non-empty source_type'')) (\<lambda>_.
     case get_key source ''witness_id'' of
       None \<Rightarrow> Inr ()
     | Some w \<Rightarrow> reject_if (or_else (as_str w) [] = [])
         (evidence_item ''source'' i ''witness_id must be a non-empty string''))))"

definition binding_required :: "string \<Rightarrow> witness_error" where
  "binding_required message = witness_error_of ''WITNESS_BINDING_REQUIRED'' message"

fun string_ids :: "value list \<Rightarrow> witness_error + string list" where
  "string_ids [] = Inr []"
| "string_ids (v # vs) = (case as_str v of
      None \<Rightarrow> Inl (binding_required ''claim witness_ids must be an array of strings'')
    | Some i \<Rightarrow>
        if i = [] then Inl (binding_required ''claim witness_ids must not contain empty strings'')
        else bind_result (string_ids vs) (\<lambda>is. Inr (i # is)))"

definition claim_witness_ids :: "value \<Rightarrow> witness_error + string list" where
  "claim_witness_ids claim =
     bind_result (case get_key claim ''witness_id'' of
         None \<Rightarrow> Inr []
       | Some v \<Rightarrow>
           if or_else (as_str v) [] = []
           then Inl (binding_required ''claim witness_id must be a non-empty string'')
           else Inr [or_else (as_str v) []]) (\<lambda>single.
     bind_result (case get_key claim ''witness_ids'' of
         None \<Rightarrow> Inr []
       | Some v \<Rightarrow> (case as_array v of
             None \<Rightarrow> Inl (binding_required ''claim witness_ids must be an array of strings'')
           | Some [] \<Rightarrow> Inl (binding_required ''claim witness_ids must not be empty'')
           | Some raw \<Rightarrow> string_ids raw)) (\<lambda>many.
     Inr (remdups_adj (sort (single @ many)))))"

definition parse_span :: "value \<Rightarrow> witness_error + witness_span" where
  "parse_span claim = (case Option.bind (get_key claim ''span'') as_object of
       None \<Rightarrow> Inl (witness_error_of ''WITNESS_SPAN_REQUIRED''
         ''each witness-bound claim requires a span object'')
     | Some fields_of \<Rightarrow> (case Option.bind (map_of fields_of ''start'') as_u64 of
           None \<Rightarrow> Inl (witness_error_of ''WITNESS_SPAN_INVALID''
             ''witness span requires an unsigned start'')
         | Some s \<Rightarrow> (case Option.bind (map_of fields_of ''end'') as_u64 of
               None \<Rightarrow> Inl (witness_error_of ''WITNESS_SPAN_INVALID''
                 ''witness span requires an unsigned end'')
             | Some e \<Rightarrow>
                 if e \<le> s then Inl (witness_error_of ''WITNESS_SPAN_INVALID''
                   ''witness span must be non-empty with start < end'')
                 else Inr \<lparr>span_start = s, span_end = e\<rparr>)))"

definition text_error :: "witness_error + 'a \<Rightarrow> string + 'a" where
  "text_error r = (case r of Inl e \<Rightarrow> Inl (witness_error_text e) | Inr x \<Rightarrow> Inr x)"

lemma text_error_Inr [simp]: "text_error r = Inr x \<longleftrightarrow> r = Inr x"
  by (cases r) (simp_all add: text_error_def)

definition check_claim :: "nat \<times> value \<Rightarrow> string + unit" where
  "check_claim p = (case p of (i, claim) \<Rightarrow>
     bind_result (reject_if (\<not> required_text (str_at claim ''text''))
       (evidence_item ''claim'' i ''requires non-empty text'')) (\<lambda>_.
     bind_result (text_error (claim_witness_ids claim)) (\<lambda>ids.
     bind_result (reject_if (ids = [])
       (''WITNESS_BINDING_REQUIRED: '' @ evidence_item ''claim'' i ''requires one or more witness IDs'')) (\<lambda>_.
     bind_result (text_error (parse_span claim)) (\<lambda>_. Inr ())))))"

definition validate_research_evidence :: "value \<Rightarrow> string + unit" where
  "validate_research_evidence v =
     bind_result (reject_if (\<not> is_object v) ''research evidence must be an object'') (\<lambda>_.
     (case array_at v ''claims'' of
        None \<Rightarrow> Inl ''research evidence requires a claims array''
      | Some claims \<Rightarrow>
          bind_result (reject_if (claims = []) ''research evidence claims array must not be empty'') (\<lambda>_.
          case array_at v ''sources'' of
            None \<Rightarrow> Inl ''research evidence requires a sources array''
          | Some sources \<Rightarrow>
              bind_result (reject_if (sources = []) ''research evidence sources array must not be empty'') (\<lambda>_.
              bind_result (check_all check_source (List.enumerate 0 sources)) (\<lambda>_.
              check_all check_claim (List.enumerate 0 claims))))))"

section \<open>Bindings and dependencies\<close>

text \<open>\<open>str::split_once(": ")\<close>.\<close>

fun split_colon :: "string \<Rightarrow> (string \<times> string) option" where
  "split_colon [] = None"
| "split_colon (c # cs) =
     (if starts_with (c # cs) '': '' then Some ([], drop 2 (c # cs))
      else map_option (\<lambda>(a, b). (c # a, b)) (split_colon cs))"

definition shape_error :: "string \<Rightarrow> witness_error" where
  "shape_error message = (case split_colon message of
       None \<Rightarrow> witness_error_of ''WITNESS_EVIDENCE_INVALID'' message
     | Some (code, rest) \<Rightarrow> witness_error_of code rest)"

fun claim_bindings :: "value list \<Rightarrow> witness_error + witness_binding list" where
  "claim_bindings [] = Inr []"
| "claim_bindings (claim # claims) =
     bind_result (parse_span claim) (\<lambda>span.
     bind_result (claim_witness_ids claim) (\<lambda>ids.
     bind_result (claim_bindings claims) (\<lambda>rest.
       Inr (map (\<lambda>i. \<lparr>wb_witness_id = i, wb_span = span\<rparr>) ids @ rest))))"

definition witness_bindings :: "value \<Rightarrow> witness_error + witness_binding list" where
  "witness_bindings v = (case validate_research_evidence v of
       Inl message \<Rightarrow> Inl (shape_error message)
     | Inr _ \<Rightarrow> claim_bindings (items_at v ''claims''))"

text \<open>\<open>str::is_char_boundary\<close> on UTF-8 bytes.\<close>

definition char_boundary :: "string \<Rightarrow> nat \<Rightarrow> bool" where
  "char_boundary s i \<longleftrightarrow> i = 0 \<or> i = length s
     \<or> i < length s \<and> \<not> (128 \<le> (of_char (s ! i) :: nat) \<and> (of_char (s ! i) :: nat) < 192)"

definition span_fits :: "string \<Rightarrow> witness_span \<Rightarrow> bool" where
  "span_fits content sp \<longleftrightarrow> span_start sp < span_end sp \<and> span_end sp \<le> length content
     \<and> char_boundary content (span_start sp) \<and> char_boundary content (span_end sp)"

definition dependency_of :: "crypto \<Rightarrow> witness_record \<Rightarrow> value" where
  "dependency_of cr r = json_object
     [(''witness_id'', String (wr_witness_id r)), (''digest'', String (wr_digest r)),
      (''locator_digest'', String (digest cr (String (wc_locator r))))]"

fun dependencies ::
    "crypto \<Rightarrow> (string \<Rightarrow> witness_error + witness_record option) \<Rightarrow> string list \<Rightarrow> witness_binding list
      \<Rightarrow> witness_error + value list" where
  "dependencies cr get_witness seen [] = Inr []"
| "dependencies cr get_witness seen (b # bs) =
     bind_result (get_witness (wb_witness_id b)) (\<lambda>found. case found of
         None \<Rightarrow> Inl (witness_error_of ''WITNESS_NOT_FOUND'' ''referenced witness was not found in SQLite'')
       | Some r \<Rightarrow>
           if \<not> span_fits (wc_content r) (wb_span b)
           then Inl (witness_error_of ''WITNESS_SPAN_OUT_OF_RANGE''
             ''witness span is outside captured UTF-8 content'')
           else bind_result (dependencies cr get_witness (wb_witness_id b # seen) bs) (\<lambda>rest.
             Inr (if wb_witness_id b \<in> set seen then rest else dependency_of cr r # rest)))"

definition validate_witness_dependencies ::
    "crypto \<Rightarrow> (string \<Rightarrow> witness_error + witness_record option) \<Rightarrow> value \<Rightarrow> witness_error + value" where
  "validate_witness_dependencies cr get_witness v =
     bind_result (witness_bindings v) (\<lambda>bs.
     bind_result (dependencies cr get_witness [] bs) (\<lambda>ds. Inr (Array ds)))"

section \<open>What the checks establish\<close>

lemma redacted_stable: "redact redacted = redacted"
  by (simp add: redacted_def secret_text_def)

lemma redact_redact: "redact (redact v) = redact v"
proof (induction v rule: redact.induct)
  case (1 m)
  then show ?case by (auto simp: redacted_stable)
qed (simp_all add: redacted_stable)

text \<open>No member of the value, at any depth, has a secret name or a secret text.\<close>

fun discloses :: "value \<Rightarrow> bool" where
  "discloses (Object m) = list_ex (\<lambda>(k, v). (secret_key k \<and> v \<noteq> redacted) \<or> discloses v) m"
| "discloses (Array items) = list_ex discloses items"
| "discloses (String s) = secret_text s"
| "discloses v = False"

lemma redact_discloses_nothing: "\<not> discloses (redact v)"
proof (induction v rule: redact.induct)
  case (1 m)
  then show ?case by (fastforce simp: list_ex_iff redacted_def secret_text_def split: if_splits)
next
  case (2 items)
  then show ?case by (auto simp: list_ex_iff)
qed (simp_all add: redacted_def secret_text_def)

lemma bundle_verifies: "get_key (verify cr (run_bundle cr r g i out receipt)) ''verified'' = Some (Bool True)"
proof -
  have k: "get_key (json_object [(''payload'', p), (''integrity'', d)]) ''payload'' = Some p"
      "get_key (json_object [(''payload'', p), (''integrity'', d)]) ''integrity'' = Some d" for p d
    by (simp_all add: get_key_json_object)
  show ?thesis
    by (simp add: run_bundle_def verify_def Let_def k str_at_def get_key_json_object)
qed

lemma captured_record_verifies:
  assumes "validate_witness_capture cr rfc3339 key c = Inr r"
  shows "verify_witness_record cr rfc3339 key r = Inr ()"
proof -
  have "witness_capture.truncate r = c"
    using assms by (auto simp: validate_witness_capture_def bind_result_Inr_iff
        witness_capture.extend_def witness_capture.truncate_def)
  then show ?thesis using assms by (simp add: verify_witness_record_def)
qed

end
