(* ===== verification/Spec_Nodes.thy ===== *)
theory Spec_Nodes
  imports Research_Evidence Join_Node
begin

text \<open>
  \<open>agent-graph-mcp/src/nodes.rs\<close>: the nodes that declarative graphs are made of. A node is a
  function on the state and a world, as in the engine's model. What it takes from outside
  is the record \<open>node_world\<close>: the run's cancellation flag, the text and the size of a JSON
  value, the clock as an RFC 3339 text, and the provider, whose answer is a value, an error
  or that cancellation came first. The structures that \<open>serde\<close> derives are parsed from
  objects; its error texts are a parameter.
\<close>

record llm_request =
  lr_id :: string
  lr_base_url :: string
  lr_prompt :: string
  lr_model :: string
  lr_json_mode :: bool
  lr_max_tokens :: "nat option"
  lr_timeout_ms :: nat

datatype llm_answer = Llm_value "value" | Llm_failed string | Llm_cancelled

record 'w node_world =
  nw_cancelled :: "'w \<Rightarrow> bool"
  nw_render :: "value \<Rightarrow> string"
  nw_size :: "value \<Rightarrow> nat"
  nw_now :: "'w \<Rightarrow> string"
  nw_llm :: "llm_request \<Rightarrow> value \<Rightarrow> 'w \<Rightarrow> llm_answer \<times> 'w"
  nw_serde_error :: "value \<Rightarrow> string"

section \<open>Text\<close>

text \<open>\<open>str::replace\<close>; an empty pattern is at every boundary between characters.\<close>

function replace_str :: "string \<Rightarrow> string \<Rightarrow> string \<Rightarrow> string" where
  "replace_str pattern by_text text =
     (if pattern = [] then by_text @ concat (map (\<lambda>c. c # by_text) text)
      else case text of
          [] \<Rightarrow> []
        | c # cs \<Rightarrow>
            if starts_with text pattern
            then by_text @ replace_str pattern by_text (drop (length pattern) text)
            else c # replace_str pattern by_text cs)"
  by pat_completeness auto
termination
  by (relation "measure (\<lambda>(_, _, text). length text)") auto

declare replace_str.simps [simp del]

definition value_text :: "'w node_world \<Rightarrow> value \<Rightarrow> string" where
  "value_text nw v = or_else (as_str v) (nw_render nw v)"

section \<open>Cancellation and the passthrough node\<close>

text \<open>\<open>RunContext::check\<close> first, then the node's body.\<close>

definition checked :: "'w node_world \<Rightarrow> 'w node \<Rightarrow> 'w node" where
  "checked nw body s config w = (if nw_cancelled nw w then (Inl Cancelled, s, w) else body s config w)"

definition passthrough_node :: "'w node_world \<Rightarrow> 'w node" where
  "passthrough_node nw = checked nw (\<lambda>s config w. (Inr Node_done, s, w))"

text \<open>A body that only uses the state.\<close>

definition state_body :: "(agent_state \<Rightarrow> node_output result \<times> agent_state) \<Rightarrow> 'w node" where
  "state_body body s config w = (case body s of (r, s') \<Rightarrow> (r, s', w))"

definition value_at :: "agent_state \<Rightarrow> string \<Rightarrow> value result" where
  "value_at s k = bind_result (get_opt_value s k) (\<lambda>v. Inr (or_else v Null))"

section \<open>The LLM node\<close>

record llm_node =
  ln_id :: string
  ln_base_url :: string
  ln_default_model :: string
  ln_prompt :: string
  ln_model :: "string option"
  ln_json_mode :: bool
  ln_evidence_required :: bool
  ln_max_tokens :: "nat option"
  ln_timeout_ms :: nat
  ln_input_key :: string
  ln_output_key :: string

definition llm_request_of :: "'w node_world \<Rightarrow> llm_node \<Rightarrow> value \<Rightarrow> llm_request" where
  "llm_request_of nw n input = \<lparr>lr_id = ln_id n, lr_base_url = ln_base_url n,
     lr_prompt = replace_str ''{input}'' (nw_render nw input) (ln_prompt n),
     lr_model = or_else (ln_model n) (ln_default_model n), lr_json_mode = ln_json_mode n,
     lr_max_tokens = map_option (\<lambda>t. t mod 2 ^ 32) (ln_max_tokens n),
     lr_timeout_ms = ln_timeout_ms n\<rparr>"

definition accept_output :: "'w node_world \<Rightarrow> llm_node \<Rightarrow> value \<Rightarrow> agent_state \<Rightarrow> agent_state result" where
  "accept_output nw n out s =
     bind_result (if ln_evidence_required n
       then (case validate_research_evidence out of
           Inl e \<Rightarrow> Inl (PayloadError e) | Inr _ \<Rightarrow> Inr ())
       else Inr ()) (\<lambda>_. set_raw (nw_size nw) (ln_output_key n) out s)"

definition execute_llm_node :: "'w node_world \<Rightarrow> llm_node \<Rightarrow> 'w node" where
  "execute_llm_node nw n = checked nw (\<lambda>s config w. case value_at s (ln_input_key n) of
       Inl e \<Rightarrow> (Inl e, s, w)
     | Inr input \<Rightarrow> (case nw_llm nw (llm_request_of nw n input) input w of
           (Llm_cancelled, w') \<Rightarrow> (Inl Cancelled, s, w')
         | (Llm_failed e, w') \<Rightarrow> (Inl (PayloadError e), s, w')
         | (Llm_value out, w') \<Rightarrow>
             if nw_cancelled nw w' then (Inl Cancelled, s, w')
             else (case accept_output nw n out s of
                 Inl e \<Rightarrow> (Inl e, s, w')
               | Inr s' \<Rightarrow> (Inr Node_done, s', w'))))"

section \<open>The transform node\<close>

record transform_op =
  to_op :: string
  to_path :: string
  to_from :: "string option"
  to_value :: "value"
  to_values :: "string list"
  to_template :: "string option"

text \<open>\<open>Option<String>\<close> and \<open>Vec<String>\<close> with \<open>#[serde(default)]\<close>.\<close>

definition optional_str :: "value \<Rightarrow> string \<Rightarrow> string option option" where
  "optional_str v k = (case get_key v k of
       None \<Rightarrow> Some None
     | Some Null \<Rightarrow> Some None
     | Some w \<Rightarrow> map_option Some (as_str w))"

fun all_strings :: "value list \<Rightarrow> string list option" where
  "all_strings [] = Some []"
| "all_strings (v # vs) = (case as_str v of
      None \<Rightarrow> None | Some s \<Rightarrow> map_option ((#) s) (all_strings vs))"

definition strings_or_error :: "value \<Rightarrow> string \<Rightarrow> string list option \<Rightarrow> string list option" where
  "strings_or_error v k missing = (case get_key v k of
       None \<Rightarrow> missing
     | Some w \<Rightarrow> Option.bind (as_array w) all_strings)"

definition parse_transform_op :: "value \<Rightarrow> transform_op option" where
  "parse_transform_op v =
     (case (str_at v ''op'', str_at v ''path'', optional_str v ''from'',
            strings_or_error v ''values'' (Some []), optional_str v ''template'') of
        (Some op, Some path, Some from_key, Some vs, Some template) \<Rightarrow>
          Some \<lparr>to_op = op, to_path = path, to_from = from_key,
            to_value = or_else (get_key v ''value'') Null, to_values = vs, to_template = template\<rparr>
      | _ \<Rightarrow> None)"

fun parse_all :: "(value \<Rightarrow> 'a option) \<Rightarrow> value list \<Rightarrow> 'a list option" where
  "parse_all parse [] = Some []"
| "parse_all parse (v # vs) = (case parse v of
      None \<Rightarrow> None | Some x \<Rightarrow> map_option ((#) x) (parse_all parse vs))"

definition parse_transform_config :: "value \<Rightarrow> transform_op list option" where
  "parse_transform_config v = Option.bind (array_at v ''operations'') (parse_all parse_transform_op)"

definition append_value :: "value \<Rightarrow> value \<Rightarrow> value" where
  "append_value current v = (case current of
       Array xs \<Rightarrow> Array (xs @ [v]) | Null \<Rightarrow> Array [v] | w \<Rightarrow> Array [w, v])"

definition merged_object :: "value \<Rightarrow> json_map \<Rightarrow> value" where
  "merged_object current add =
     Object (fold (\<lambda>(k, v). bt_insert k v) add (or_else (as_object current) []))"

fun select_keys :: "agent_state \<Rightarrow> string list \<Rightarrow> json_map \<Rightarrow> json_map result" where
  "select_keys s [] out = Inr out"
| "select_keys s (k # ks) out = bind_result (get_opt_value s k) (\<lambda>v.
     select_keys s ks (case v of None \<Rightarrow> out | Some w \<Rightarrow> bt_insert k w out))"

fun format_text :: "'w node_world \<Rightarrow> agent_state \<Rightarrow> string list \<Rightarrow> string \<Rightarrow> string result" where
  "format_text nw s [] text = Inr text"
| "format_text nw s (k # ks) text = bind_result (value_at s k) (\<lambda>v.
     format_text nw s ks (replace_str (''{'' @ k @ ''}'') (value_text nw v) text))"

text \<open>The value an operation writes to its path, if it writes one.\<close>

definition transform_value :: "'w node_world \<Rightarrow> transform_op \<Rightarrow> agent_state \<Rightarrow> value \<Rightarrow> value result" where
  "transform_value nw t s current =
     (if to_op t = ''set'' then Inr (to_value t)
      else if to_op t = ''copy'' then (case to_from t of
          None \<Rightarrow> Inl (StateError ''copy requires from'') | Some k \<Rightarrow> value_at s k)
      else if to_op t = ''increment'' then
        Inr (json_f64 (f64_add (or_else (as_f64 current) 0) (or_else (as_f64 (to_value t)) 1)))
      else if to_op t = ''append'' then Inr (append_value current (to_value t))
      else if to_op t \<in> set [''merge'', ''merge_object''] then (case as_object (to_value t) of
          None \<Rightarrow> Inl (StateError ''merge value must be object'')
        | Some add \<Rightarrow> Inr (merged_object current add))
      else if to_op t = ''select'' then bind_result (select_keys s (to_values t) []) (\<lambda>m. Inr (Object m))
      else if to_op t = ''compare'' then Inr (Bool (current = to_value t))
      else if to_op t = ''format'' then
        bind_result (format_text nw s (to_values t) (or_else (to_template t) [])) (\<lambda>text. Inr (String text))
      else Inl (StateError (''unsupported transform operation '' @ quoted (to_op t))))"

definition apply_transform :: "'w node_world \<Rightarrow> transform_op \<Rightarrow> agent_state \<Rightarrow> agent_state result" where
  "apply_transform nw t s = bind_result (value_at s (to_path t)) (\<lambda>current.
     if to_op t = ''delete'' then Inr (snd (remove_key (to_path t) s))
     else bind_result (transform_value nw t s current) (\<lambda>v. set_raw (nw_size nw) (to_path t) v s))"

text \<open>The operations before a failing one have taken effect.\<close>

fun apply_transforms :: "'w node_world \<Rightarrow> transform_op list \<Rightarrow> agent_state \<Rightarrow> node_output result \<times> agent_state" where
  "apply_transforms nw [] s = (Inr Node_done, s)"
| "apply_transforms nw (t # ts) s = (case apply_transform nw t s of
      Inl e \<Rightarrow> (Inl e, s) | Inr s' \<Rightarrow> apply_transforms nw ts s')"

definition execute_transform_node :: "'w node_world \<Rightarrow> transform_op list \<Rightarrow> 'w node" where
  "execute_transform_node nw ts = checked nw (state_body (apply_transforms nw ts))"

section \<open>The router node\<close>

record route_rule =
  rl_path :: string
  rl_op :: string
  rl_value :: "value"
  rl_targets :: "string list"

record router_config =
  rc_rules :: "route_rule list"
  rc_default :: "string list"

definition parse_rule :: "value \<Rightarrow> route_rule option" where
  "parse_rule v = (case (str_at v ''path'', str_at v ''op'', strings_or_error v ''targets'' None) of
       (Some path, Some op, Some targets) \<Rightarrow>
         Some \<lparr>rl_path = path, rl_op = op, rl_value = or_else (get_key v ''value'') Null,
           rl_targets = targets\<rparr>
     | _ \<Rightarrow> None)"

definition parse_router_config :: "value \<Rightarrow> router_config option" where
  "parse_router_config v =
     (case (Option.bind (array_at v ''rules'') (parse_all parse_rule), strings_or_error v ''default'' None) of
        (Some rules, Some dflt) \<Rightarrow> Some \<lparr>rc_rules = rules, rc_default = dflt\<rparr>
      | _ \<Rightarrow> None)"

definition legacy_router :: "(string \<times> string) list \<Rightarrow> router_config" where
  "legacy_router routes =
     \<lparr>rc_rules = map (\<lambda>(pattern, target). \<lparr>rl_path = ''__input__'', rl_op = ''contains'',
        rl_value = String pattern, rl_targets = [target]\<rparr>) routes, rc_default = [''END'']\<rparr>"

definition compare_numbers :: "(f64 \<Rightarrow> f64 \<Rightarrow> bool) \<Rightarrow> value \<Rightarrow> value \<Rightarrow> bool" where
  "compare_numbers p v w = (case (as_f64 v, as_f64 w) of (Some a, Some b) \<Rightarrow> p a b | _ \<Rightarrow> False)"

definition rule_matches :: "'w node_world \<Rightarrow> route_rule \<Rightarrow> value \<Rightarrow> bool" where
  "rule_matches nw r v =
     (if rl_op r \<in> set [''equals'', ''eq''] then v = rl_value r
      else if rl_op r = ''exists'' then \<not> is_null v
      else if rl_op r = ''contains'' then contains_str (value_text nw v) (value_text nw (rl_value r))
      else if rl_op r = ''lt'' then compare_numbers (<) v (rl_value r)
      else if rl_op r = ''lte'' then compare_numbers (\<le>) v (rl_value r)
      else if rl_op r = ''gt'' then compare_numbers (>) v (rl_value r)
      else if rl_op r = ''gte'' then compare_numbers (\<ge>) v (rl_value r)
      else False)"

fun first_rule :: "'w node_world \<Rightarrow> agent_state \<Rightarrow> route_rule list \<Rightarrow> string list option result" where
  "first_rule nw s [] = Inr None"
| "first_rule nw s (r # rs) = bind_result (value_at s (rl_path r)) (\<lambda>v.
     if rule_matches nw r v then Inr (Some (rl_targets r)) else first_rule nw s rs)"

definition goto_of :: "string list \<Rightarrow> navigation" where
  "goto_of targets =
     (if targets = [] \<or> targets = [''END''] then Goto_end
      else if length targets = 1 then Goto_node (hd targets)
      else Goto_nodes targets)"

fun goto_label :: "navigation \<Rightarrow> value" where
  "goto_label Goto_end = String ''END''"
| "goto_label (Goto_node v) = String v"
| "goto_label (Goto_nodes vs) = Array (map String vs)"
| "goto_label _ = Null"

definition route :: "'w node_world \<Rightarrow> router_config \<Rightarrow> agent_state \<Rightarrow> node_output result" where
  "route nw c s = bind_result (first_rule nw s (rc_rules c)) (\<lambda>found.
     let goto = goto_of (or_else found (rc_default c))
     in Inr (Node_command \<lparr>cmd_update = Some [(''__route__'', goto_label goto)], cmd_goto = goto\<rparr>))"

definition execute_router_node :: "'w node_world \<Rightarrow> router_config \<Rightarrow> 'w node" where
  "execute_router_node nw c = checked nw (state_body (\<lambda>s. (route nw c s, s)))"

section \<open>The approval node\<close>

record approval_node =
  an_prompt_key :: string
  an_output_key :: string
  an_audience :: "string list"
  an_allowed_decisions :: "string list"
  an_expiry_ms :: nat

definition approval_request :: "approval_node \<Rightarrow> value \<Rightarrow> string \<Rightarrow> value" where
  "approval_request n prompt now = json_object
     [(''prompt'', prompt), (''audience'', Array (map String (an_audience n))),
      (''allowed_decisions'', Array (map String (an_allowed_decisions n))),
      (''expiry_ms'', json_u64 (an_expiry_ms n)), (''issued_at'', String now),
      (''status'', String ''pending'')]"

definition approval_interrupt :: "approval_node \<Rightarrow> graph_error" where
  "approval_interrupt n = InterruptError ''human_approval'' (Some (json_object
     [(''approval_required'', Bool True), (''prompt_key'', String (an_prompt_key n))]))"

definition execute_approval_node :: "'w node_world \<Rightarrow> approval_node \<Rightarrow> 'w node" where
  "execute_approval_node nw n = checked nw (\<lambda>s config w. case value_at s (an_prompt_key n) of
       Inl e \<Rightarrow> (Inl e, s, w)
     | Inr prompt \<Rightarrow>
         (case set_raw (nw_size nw) ''__approval_request__'' (approval_request n prompt (nw_now nw w)) s of
            Inl e \<Rightarrow> (Inl e, s, w)
          | Inr s' \<Rightarrow> (case value_at s' (an_output_key n) of
                Inl e \<Rightarrow> (Inl e, s', w)
              | Inr decision \<Rightarrow>
                  if \<not> is_null decision then (Inr Node_done, s', w)
                  else (Inl (approval_interrupt n), s', w))))"

end
