(* ===== verification/Graph_Compiler.thy ===== *)
theory Graph_Compiler
  imports Spec_Nodes Spec_Validation
begin

text \<open>
  \<open>agent-graph-mcp/src/compiler.rs\<close>: a specification becomes a graph of the engine. The
  collector of events keeps the first 2048 of a run.
\<close>

section \<open>The collector\<close>

definition MAX_COLLECTED :: nat where "MAX_COLLECTED = 2048"

definition collect_event :: "'e \<Rightarrow> 'e list \<Rightarrow> 'e list" where
  "collect_event e events = (if length events < MAX_COLLECTED then events @ [e] else events)"

section \<open>Nodes\<close>

record compile_context =
  cc_base_url :: string
  cc_default_model :: string

definition llm_node_of :: "compile_context \<Rightarrow> node_spec \<Rightarrow> llm_node" where
  "llm_node_of cx n = \<lparr>ln_id = ns_id n, ln_base_url = cc_base_url cx,
     ln_default_model = cc_default_model cx,
     ln_prompt = or_else (ns_prompt n) (or_else (str_at (ns_config n) ''prompt'') ''{input}''),
     ln_model = ns_model n, ln_json_mode = ns_json_mode n,
     ln_evidence_required = ns_evidence_required n, ln_max_tokens = ns_max_tokens n,
     ln_timeout_ms = or_else (u64_at (ns_config n) ''timeout_ms'') 120000,
     ln_input_key = or_else (str_at (ns_config n) ''input_key'') ''__input__'',
     ln_output_key = or_else (str_at (ns_config n) ''output_key'') ''__input__''\<rparr>"

definition approval_node_of :: "node_spec \<Rightarrow> approval_node" where
  "approval_node_of n =
     \<lparr>an_prompt_key = or_else (str_at (ns_config n) ''prompt_key'') ''__approval_prompt__'',
      an_output_key = or_else (str_at (ns_config n) ''output_key'') ''__approval_decision__'',
      an_audience = strings_of (items_at (ns_config n) ''audience''),
      an_allowed_decisions = (case array_at (ns_config n) ''allowed_decisions'' of
        None \<Rightarrow> [''approve'', ''reject''] | Some xs \<Rightarrow> strings_of xs),
      an_expiry_ms = or_else (u64_at (ns_config n) ''expiry_ms'') 300000\<rparr>"

text \<open>\<open>{error}\<close> is \<open>serde\<close>'s message for the configuration.\<close>

definition config_error :: "'w node_world \<Rightarrow> node_spec \<Rightarrow> string" where
  "config_error nw n = node_message ''node '' (ns_id n) ('': '' @ nw_serde_error nw (ns_config n))"

definition transform_node_of :: "'w node_world \<Rightarrow> node_spec \<Rightarrow> string + 'w node" where
  "transform_node_of nw n = (case parse_transform_config (ns_config n) of
       None \<Rightarrow> Inl (config_error nw n) | Some ts \<Rightarrow> Inr (execute_transform_node nw ts))"

definition router_config_of :: "'w node_world \<Rightarrow> node_spec \<Rightarrow> string + router_config" where
  "router_config_of nw n = (case ns_routes n of
       Some routes \<Rightarrow> Inr (legacy_router routes)
     | None \<Rightarrow> (case parse_router_config (ns_config n) of
           None \<Rightarrow> Inl (config_error nw n) | Some c \<Rightarrow> Inr c))"

section \<open>Join modes\<close>

definition first_non_null :: merge_fn where
  "first_non_null values = Inr (or_else (find (\<lambda>v. \<not> is_null v) (map snd values)) Null)"

definition succeeded :: "value \<Rightarrow> bool" where
  "succeeded v = or_else (as_bool v) (or_else (Option.bind (get_key v ''success'') as_bool) False)"

definition all_success :: merge_fn where
  "all_success values = Inr (json_object
     [(''all_success'', Bool (list_all (\<lambda>(_, v). succeeded v) values)),
      (''values'', Array (map snd values))])"

definition quorum :: "nat \<Rightarrow> merge_fn" where
  "quorum required values =
     (let approvals = length (filter (\<lambda>(_, v). or_else (as_bool v) False) values)
      in Inr (json_object [(''met'', Bool (required \<le> approvals)),
           (''approvals'', json_u64 approvals), (''required'', json_u64 required)]))"

definition matrix_of :: "value \<Rightarrow> contradiction_matrix" where
  "matrix_of config = \<lparr>scope_path = or_else (str_at config ''scope_path'') ''scope'',
     claim_path = or_else (str_at config ''claim_path'') ''claim'',
     time_path = or_else (str_at config ''time_path'') ''time'',
     strict = or_else (Option.bind (get_key config ''strict'') as_bool) False\<rparr>"

definition required_fields_of :: "value \<Rightarrow> string list" where
  "required_fields_of config = (case strings_of (items_at config ''required_fields'') of
       [] \<Rightarrow> [''evidence'', ''checks'', ''receipt''] | fs \<Rightarrow> fs)"

definition join_merge_of :: "'w node_world \<Rightarrow> value \<Rightarrow> string \<Rightarrow> string + merge_fn" where
  "join_merge_of nw config mode =
     (if mode = ''collect_array'' then Inr collect_array
      else if mode = ''collect_object'' then Inr collect_object
      else if mode = ''merge_objects'' then Inr merge_objects
      else if mode = ''first_non_null'' then Inr first_non_null
      else if mode = ''all_success'' then Inr all_success
      else if mode = ''quorum'' then Inr (quorum (or_else (u64_at config ''required'') 1))
      else if mode = ''dedupe_by_identity''
        then Inr (strategy_merge (dedupe_by_identity (str_at config ''identity_path'')))
      else if mode = ''contradiction_matrix''
        then Inr (strategy_merge (matrix_strategy (nw_render nw) (matrix_of config)))
      else if mode = ''minority_report''
        then Inr (strategy_merge (minority_report (or_else (str_at config ''dissent_path'') ''dissent'')))
      else if mode = ''proof_carrying_join''
        then Inr (strategy_merge (proof_carrying_join (required_fields_of config)))
      else Inl (''unsupported join mode '' @ quoted mode))"

definition join_node_of :: "'w node_world \<Rightarrow> node_spec \<Rightarrow> string + join_node" where
  "join_node_of nw n = (case array_at (ns_config n) ''inputs'' of
       None \<Rightarrow> Inl (node_message ''join '' (ns_id n) '' requires inputs'')
     | Some inputs \<Rightarrow> (case str_at (ns_config n) ''output'' of
           None \<Rightarrow> Inl (node_message ''join '' (ns_id n) '' requires output'')
         | Some out \<Rightarrow> bind_result
             (join_merge_of nw (ns_config n) (or_else (str_at (ns_config n) ''mode'') ''collect_array''))
             (\<lambda>f. Inr (new_join_node (strings_of inputs) out f))))"

text \<open>Parallel and subgraph nodes do nothing: the branches are reached by edges only.\<close>

definition compile_node :: "'w node_world \<Rightarrow> compile_context \<Rightarrow> node_spec \<Rightarrow> string + 'w node" where
  "compile_node nw cx n = (case executable_node_type (ns_type n) of
       Inl e \<Rightarrow> Inl (node_message ''node '' (ns_id n) ('': '' @ e))
     | Inr _ \<Rightarrow> (case ns_type n of
           Type_passthrough \<Rightarrow> Inr (passthrough_node nw)
         | Type_llm \<Rightarrow> Inr (execute_llm_node nw (llm_node_of cx n))
         | Type_state_transform \<Rightarrow> transform_node_of nw n
         | Type_router \<Rightarrow> bind_result (router_config_of nw n) (\<lambda>c. Inr (execute_router_node nw c))
         | Type_join \<Rightarrow> bind_result (join_node_of nw n) (\<lambda>j. Inr (execute_join_node (nw_size nw) j))
         | Type_parallel \<Rightarrow> Inr (passthrough_node nw)
         | Type_subgraph \<Rightarrow> Inr (passthrough_node nw)
         | Type_human_approval \<Rightarrow> Inr (execute_approval_node nw (approval_node_of n))
         | _ \<Rightarrow> Inl (node_message ''node '' (ns_id n) '' is not executable by this local runtime'')))"

section \<open>Graphs\<close>

text \<open>Delays of a retry policy are in nanoseconds.\<close>

definition retry_policy_of :: "value \<Rightarrow> retry_policy" where
  "retry_policy_of retry =
     with_jitter (or_else (Option.bind (get_key retry ''jitter'') as_bool) False)
       (with_backoff_factor (or_else (Option.bind (get_key retry ''backoff_factor'') as_f64) 2)
         (with_max_interval (or_else (u64_at retry ''max_delay_ms'') 5000 * 1000000)
           (with_initial_interval (or_else (u64_at retry ''initial_delay_ms'') 250 * 1000000)
             (with_max_attempts (or_else (u64_at retry ''max_attempts'') 3) default_retry))))"

definition add_spec_node ::
    "'w node_world \<Rightarrow> compile_context \<Rightarrow> node_spec \<Rightarrow> 'w graph_builder \<Rightarrow> string + 'w graph_builder" where
  "add_spec_node nw cx n b = bind_result (compile_node nw cx n) (\<lambda>node.
     Inr (case get_key (ns_config n) ''retry'' of
         Some retry \<Rightarrow> add_node_with_retry (ns_id n) node (retry_policy_of retry) b
       | None \<Rightarrow> add_node (ns_id n) node b))"

definition edge_target :: "edge_spec \<Rightarrow> string" where
  "edge_target e = (if es_to e = ''END'' then END else es_to e)"

fun reducer_of_kind :: "reducer_kind \<Rightarrow> reducer" where
  "reducer_of_kind Kind_last_write_wins = last_write_wins"
| "reducer_of_kind Kind_append = append_reducer"
| "reducer_of_kind Kind_add = add_reducer"
| "reducer_of_kind Kind_merge = merge_reducer"

definition start_builder :: "graph_spec \<Rightarrow> 'w graph_builder" where
  "start_builder spec = with_cycle_detection False
     (with_max_iterations (or_else (gs_max_iterations spec) 64) (with_name (gs_name spec) builder))"

definition add_spec_edges :: "graph_spec \<Rightarrow> 'w graph_builder \<Rightarrow> 'w graph_builder" where
  "add_spec_edges spec b = fold (\<lambda>e. add_edge (es_from e) (edge_target e)) (gs_edges spec)
     (set_entry_point (gs_entry spec) b)"

definition add_spec_reducers :: "graph_spec \<Rightarrow> 'w graph_builder \<Rightarrow> 'w graph_builder" where
  "add_spec_reducers spec b = fold (\<lambda>(k, kind). with_reducer k (reducer_of_kind kind)) (gs_reducers spec) b"

definition compile :: "'w node_world \<Rightarrow> compile_context \<Rightarrow> graph_spec \<Rightarrow> string + 'w agent_graph" where
  "compile nw cx spec =
     bind_result (try_fold (add_spec_node nw cx) (gs_nodes spec) (start_builder spec)) (\<lambda>b.
       case build (add_spec_reducers spec (add_spec_edges spec b)) of
         Inl e \<Rightarrow> Inl (error_text e) | Inr g \<Rightarrow> Inr g)"

end
