(* ===== verification/Compiler_Laws.thy ===== *)
theory Compiler_Laws
  imports Graph_Compiler Spec_Properties
begin

text \<open>
  What compilation keeps of a specification: which specifications compile, the nodes, edges
  and reducers of the graph, and which state keys the compiled nodes can change.
\<close>

section \<open>Which nodes compile\<close>

definition config_parses :: "node_spec \<Rightarrow> bool" where
  "config_parses n \<longleftrightarrow> \<not> isl (executable_node_type (ns_type n))
     \<and> (ns_type n = Type_state_transform \<longrightarrow> parse_transform_config (ns_config n) \<noteq> None)
     \<and> (ns_type n = Type_router \<and> ns_routes n = None \<longrightarrow> parse_router_config (ns_config n) \<noteq> None)"

lemma join_merge_of_modes: "mode \<in> set join_modes \<Longrightarrow> \<exists>f. join_merge_of nw config mode = Inr f"
  by (auto simp: join_modes_def join_merge_of_def)

lemma join_node_of_valid: "validate_join n = Inr () \<Longrightarrow> \<exists>j. join_node_of nw n = Inr j"
  using join_merge_of_modes [of "or_else (str_at (ns_config n) ''mode'') ''collect_array''" nw "ns_config n"]
  by (auto simp: validate_join_def join_node_of_def bind_result_Inr_iff Let_def)

lemma compile_node_iff:
  assumes "validate_node ids n = Inr ()"
  shows "(\<exists>node. compile_node nw cx n = Inr node) \<longleftrightarrow> config_parses n"
  using assms join_node_of_valid [of n nw]
  by (cases "ns_type n")
    (auto simp: validate_node_def compile_node_def config_parses_def transform_node_of_def
      router_config_of_def bind_result_Inr_iff split: option.splits)

section \<open>The builder's maps\<close>

definition edges_at :: "'w agent_graph \<Rightarrow> string \<Rightarrow> 'w edge_type list" where
  "edges_at b f = or_else (map_of (g_edges b) f) []"

lemma edges_at_push [simp]:
  "edges_at (push_edge f e b) f' = edges_at b f' @ (if f' = f then [e] else [])"
  by (auto simp: edges_at_def push_edge_def or_else_def split: option.splits)

definition add_edges_of :: "edge_spec list \<Rightarrow> 'w graph_builder \<Rightarrow> 'w graph_builder" where
  "add_edges_of es b = fold (\<lambda>e. push_edge (es_from e) (Normal (edge_target e))) es b"

lemma add_spec_edges_eq:
  "add_spec_edges spec b = add_edges_of (gs_edges spec) (push_edge START (Normal (gs_entry spec)) b)"
  by (simp add: add_spec_edges_def add_edges_of_def set_entry_point_def add_edge_def)

lemma edges_at_add_edges:
  "edges_at (add_edges_of es b) f =
   edges_at b f @ map (\<lambda>e. Normal (edge_target e)) (filter (\<lambda>e. es_from e = f) es)"
  by (induction es arbitrary: b) (simp_all add: add_edges_of_def)

lemma edges_at_spec:
  "edges_at (add_spec_edges spec b) f = edges_at b f
     @ (if f = START then [Normal (gs_entry spec)] else [])
     @ map (\<lambda>e. Normal (edge_target e)) (filter (\<lambda>e. es_from e = f) (gs_edges spec))"
  by (simp add: add_spec_edges_eq edges_at_add_edges)

text \<open>What adding edges and reducers leaves alone.\<close>

definition frame_fields :: "'w agent_graph \<Rightarrow> 'w agent_graph" where
  "frame_fields b = b\<lparr>g_edges := [], g_reducers := []\<rparr>"

lemma frame_push_edge [simp]: "frame_fields (push_edge f e b) = frame_fields b"
  by (simp add: frame_fields_def push_edge_def)

lemma frame_add_edges [simp]: "frame_fields (add_spec_edges spec b) = frame_fields b"
proof -
  have "frame_fields (add_edges_of es b) = frame_fields b" for es and b :: "'a graph_builder"
    by (induction es arbitrary: b) (simp_all add: add_edges_of_def)
  then show ?thesis by (simp add: add_spec_edges_eq)
qed

lemma reducers_add_edges: "g_reducers (add_spec_edges spec b) = g_reducers b"
proof -
  have "g_reducers (add_edges_of es b) = g_reducers b" for es and b :: "'a graph_builder"
    by (induction es arbitrary: b) (simp_all add: add_edges_of_def push_edge_def)
  then show ?thesis by (simp add: add_spec_edges_eq push_edge_def)
qed

lemma add_reducers_effect:
  "add_spec_reducers spec b =
   b\<lparr>g_reducers := g_reducers b @ map (\<lambda>(k, kind). (k, reducer_of_kind kind)) (gs_reducers spec)\<rparr>"
proof -
  have "fold (\<lambda>(k, kind). with_reducer k (reducer_of_kind kind)) rs b =
      b\<lparr>g_reducers := g_reducers b @ map (\<lambda>(k, kind). (k, reducer_of_kind kind)) rs\<rparr>" for rs and b :: "'a graph_builder"
    by (induction rs arbitrary: b) (auto simp: with_reducer_def)
  then show ?thesis by (simp add: add_spec_reducers_def)
qed

lemma edges_wf_push [simp]: "hm_wf (g_edges b) \<Longrightarrow> hm_wf (g_edges (push_edge f e b))"
  by (simp add: push_edge_def)

lemma edges_wf_add_edges: "hm_wf (g_edges b) \<Longrightarrow> hm_wf (g_edges (add_edges_of es b))"
  by (induction es arbitrary: b) (simp_all add: add_edges_of_def)

lemma edges_wf_spec [simp]: "hm_wf (g_edges b) \<Longrightarrow> hm_wf (g_edges (add_spec_edges spec b))"
  by (simp add: add_spec_edges_eq edges_wf_add_edges)

section \<open>Adding the nodes\<close>

lemma add_spec_nodes_total:
  "(\<exists>b'. try_fold (add_spec_node nw cx) ns b = Inr b') \<longleftrightarrow>
   (\<forall>n \<in> set ns. \<exists>node. compile_node nw cx n = Inr node)"
proof (induction ns arbitrary: b)
  case Nil
  then show ?case by simp
next
  case (Cons n ns)
  then show ?case by (cases "compile_node nw cx n") (auto simp: add_spec_node_def)
qed

lemma add_spec_node_effect:
  assumes "add_spec_node nw cx n b = Inr b'"
  obtains node where "compile_node nw cx n = Inr node"
    "g_nodes b' = AList.update (ns_id n) node (g_nodes b)"
    "b'\<lparr>g_nodes := [], g_retry_policies := []\<rparr> = b\<lparr>g_nodes := [], g_retry_policies := []\<rparr>"
  using assms
  by (auto simp: add_spec_node_def bind_result_Inr_iff add_node_def add_node_with_retry_def
      split: option.splits)

lemma add_spec_nodes_effect:
  assumes "try_fold (add_spec_node nw cx) ns b = Inr b'" and "distinct (map ns_id ns)"
  shows "(\<forall>n \<in> set ns. \<exists>node. compile_node nw cx n = Inr node \<and> map_of (g_nodes b') (ns_id n) = Some node)
    \<and> (\<forall>k. k \<notin> ns_id ` set ns \<longrightarrow> map_of (g_nodes b') k = map_of (g_nodes b) k)
    \<and> b'\<lparr>g_nodes := [], g_retry_policies := []\<rparr> = b\<lparr>g_nodes := [], g_retry_policies := []\<rparr>"
  using assms
proof (induction ns arbitrary: b)
  case Nil
  then show ?case by simp
next
  case (Cons n ns)
  obtain b1 where b1: "add_spec_node nw cx n b = Inr b1" "try_fold (add_spec_node nw cx) ns b1 = Inr b'"
    using Cons.prems(1) by (auto split: sum.splits)
  obtain node where node: "compile_node nw cx n = Inr node"
      "g_nodes b1 = AList.update (ns_id n) node (g_nodes b)"
      "b1\<lparr>g_nodes := [], g_retry_policies := []\<rparr> = b\<lparr>g_nodes := [], g_retry_policies := []\<rparr>"
    using add_spec_node_effect [OF b1(1)] by blast
  have fresh: "ns_id n \<notin> ns_id ` set ns" using Cons.prems(2) by simp
  note IH = Cons.IH [OF b1(2)] and d = Cons.prems(2)
  have "map_of (g_nodes b') (ns_id n) = Some node"
    using IH d fresh node(2) by simp
  then show ?case using IH d node by auto
qed

text \<open>The pieces of a graph that has been compiled.\<close>

lemma compile_Inr:
  assumes "compile nw cx spec = Inr g"
  obtains b where "try_fold (add_spec_node nw cx) (gs_nodes spec) (start_builder spec) = Inr b"
    "g = add_spec_reducers spec (add_spec_edges spec b)"
proof -
  obtain b where b: "try_fold (add_spec_node nw cx) (gs_nodes spec) (start_builder spec) = Inr b"
      "(case build (add_spec_reducers spec (add_spec_edges spec b)) of
         Inl e \<Rightarrow> Inl (error_text e) | Inr g \<Rightarrow> Inr g) = Inr g"
    using assms by (auto simp: compile_def bind_result_Inr_iff)
  then have "build (add_spec_reducers spec (add_spec_edges spec b)) = Inr g"
    by (cases "build (add_spec_reducers spec (add_spec_edges spec b))") simp_all
  then show thesis using that [OF b(1)] by (simp add: build_Inr)
qed

lemma start_builder_fields [simp]:
  "edges_at (start_builder spec) f = []" "hm_wf (g_edges (start_builder spec))"
  "g_nodes (start_builder spec) = []" "g_reducers (start_builder spec) = []"
  "g_max_iterations (start_builder spec) = or_else (gs_max_iterations spec) 64"
  "g_edges (start_builder spec) = []"
  "g_interrupt_config (start_builder spec) = None" "g_executor (start_builder spec) = None"
  "g_checkpointer (start_builder spec) = None" "g_checkpoint_store (start_builder spec) = None"
  by (simp_all add: start_builder_def builder_defs edges_at_def)

lemma same_fields:
  assumes "b'\<lparr>g_nodes := [], g_retry_policies := []\<rparr> = b\<lparr>g_nodes := [], g_retry_policies := []\<rparr>"
  shows "g_edges b' = g_edges b" "g_reducers b' = g_reducers b" "g_max_iterations b' = g_max_iterations b"
    "g_interrupt_config b' = g_interrupt_config b" "g_executor b' = g_executor b"
  using arg_cong [OF assms, of g_edges] arg_cong [OF assms, of g_reducers]
    arg_cong [OF assms, of g_max_iterations] arg_cong [OF assms, of g_interrupt_config]
    arg_cong [OF assms, of g_executor] by simp_all

section \<open>Keys a node can change\<close>

definition changed_keys :: "agent_state \<Rightarrow> agent_state \<Rightarrow> string set" where
  "changed_keys s s' = {k. map_of (st_data s') k \<noteq> map_of (st_data s) k}"

lemma changed_keys_same [simp]: "changed_keys s s = {}"
  by (simp add: changed_keys_def)

lemma changed_keys_trans:
  assumes "changed_keys s s' \<subseteq> K" and "changed_keys s' s'' \<subseteq> K"
  shows "changed_keys s s'' \<subseteq> K"
proof -
  have "changed_keys s s'' \<subseteq> changed_keys s s' \<union> changed_keys s' s''"
    by (auto simp: changed_keys_def)
  then show ?thesis using assms by blast
qed

lemma changed_keys_set_raw: "set_raw sz k v s = Inr s' \<Longrightarrow> changed_keys s s' \<subseteq> {k}"
  by (auto simp: set_raw_Inr changed_keys_def store_data_def)

lemma changed_keys_remove: "changed_keys s (snd (remove_key k s)) \<subseteq> {k}"
  by (auto simp: remove_key_def changed_keys_def store_data_def write_data_def split: sum.splits option.splits if_splits)

lemma changed_keys_transform: "apply_transform nw t s = Inr s' \<Longrightarrow> changed_keys s s' \<subseteq> {to_path t}"
  using changed_keys_remove [of s "to_path t"]
  by (auto simp: apply_transform_def bind_result_Inr_iff split: if_splits dest!: changed_keys_set_raw)

lemma changed_keys_transforms: "changed_keys s (snd (apply_transforms nw ts s)) \<subseteq> to_path ` set ts"
proof (induction ts arbitrary: s)
  case Nil
  then show ?case by simp
next
  case (Cons t ts)
  show ?case
  proof (cases "apply_transform nw t s")
    case (Inl e)
    then show ?thesis by simp
  next
    case (Inr s1)
    have "changed_keys s s1 \<subseteq> to_path ` set (t # ts)" using changed_keys_transform [OF Inr] by auto
    moreover have "changed_keys s1 (snd (apply_transforms nw ts s1)) \<subseteq> to_path ` set (t # ts)"
      using Cons.IH [of s1] by auto
    ultimately have "changed_keys s (snd (apply_transforms nw ts s1)) \<subseteq> to_path ` set (t # ts)"
      by (rule changed_keys_trans)
    then show ?thesis using Inr by simp
  qed
qed

lemma parse_all_set: "parse_all parse vs = Some xs \<Longrightarrow> x \<in> set xs \<Longrightarrow> \<exists>v \<in> set vs. parse v = Some x"
  by (induction vs arbitrary: xs) (auto split: option.splits)

lemma parse_transform_op_path: "parse_transform_op v = Some t \<Longrightarrow> str_at v ''path'' = Some (to_path t)"
  by (auto simp: parse_transform_op_def split: option.splits)

lemma transform_paths_written:
  assumes "parse_transform_config (ns_config n) = Some ts" and "ns_type n = Type_state_transform"
  shows "to_path ` set ts \<subseteq> set (write_keys n)"
proof
  fix k assume "k \<in> to_path ` set ts"
  then obtain t where t: "t \<in> set ts" "k = to_path t" by auto
  obtain vs where vs: "array_at (ns_config n) ''operations'' = Some vs" "parse_all parse_transform_op vs = Some ts"
    using assms(1) by (auto simp: parse_transform_config_def bind_eq_Some_conv)
  obtain v where "v \<in> set vs" "str_at v ''path'' = Some k"
    using parse_all_set [OF vs(2) t(1)] parse_transform_op_path t(2) by blast
  then show "k \<in> set (write_keys n)"
    using assms(2) vs(1) by (force simp: write_keys_def items_at_def List.map_filter_def)
qed

lemma checked_changes:
  assumes "checked nw body s config w = (r, s', w')" and "\<And>r' s'' w''. body s config w = (r', s'', w'') \<Longrightarrow> changed_keys s s'' \<subseteq> K"
  shows "changed_keys s s' \<subseteq> K"
  using assms by (auto simp: checked_def split: if_splits)

lemma transform_node_changes:
  assumes "execute_transform_node nw ts s config w = (r, s', w')"
  shows "changed_keys s s' \<subseteq> to_path ` set ts"
proof -
  have "s' = s \<or> s' = snd (apply_transforms nw ts s)"
    using assms by (cases "apply_transforms nw ts s")
      (auto simp: execute_transform_node_def checked_def state_body_def split: if_splits)
  then show ?thesis using changed_keys_transforms [of s nw ts] by auto
qed

lemma llm_changes:
  assumes "execute_llm_node nw n s config w = (r, s', w')"
  shows "changed_keys s s' \<subseteq> {ln_output_key n}"
  using assms unfolding execute_llm_node_def
  by (rule checked_changes)
    (auto simp: accept_output_def bind_result_Inr_iff dest!: changed_keys_set_raw
      split: sum.splits prod.splits llm_answer.splits if_splits)

lemma approval_changes:
  assumes "execute_approval_node nw n s config w = (r, s', w')"
  shows "changed_keys s s' \<subseteq> {''__approval_request__''}"
  using assms unfolding execute_approval_node_def
  by (rule checked_changes) (auto dest!: changed_keys_set_raw split: sum.splits if_splits)

lemma join_changes:
  "execute_join_node sz j s config w = (r, s', w') \<Longrightarrow> changed_keys s s' \<subseteq> {jn_output_key j}"
  by (auto simp: execute_join_node_def bind_result_Inr_iff dest!: changed_keys_set_raw split: sum.splits)

end
