(* ===== verification/Run_Registry.thy ===== *)
theory Run_Registry
  imports Evidence
begin

text \<open>
  \<open>agent-graph-mcp/src/run_manager.rs\<close>: the bounded registry of runs, with the order in
  which they were registered, the slots for concurrent runs, cancellation, the event
  window of a run and its pages, budgets, and the record's public projection. The mutex
  makes every operation atomic: an operation is a function on the registry. The wake-up
  primitive \<open>Notify\<close> has no state that an operation reads and is left out.
\<close>

definition MAX_RUNS :: nat where "MAX_RUNS = 100"
definition MAX_ACTIVE_RUNS :: nat where "MAX_ACTIVE_RUNS = 8"
definition MAX_EVENTS :: nat where "MAX_EVENTS = 512"

section \<open>Budgets\<close>

record run_budgets =
  max_wall_clock_ms :: "nat option"
  max_nodes :: "nat option"
  max_llm_calls :: "nat option"

record budget_counters =
  bc_nodes :: nat
  bc_llm_calls :: nat
  bc_wall_clock_ms :: nat

definition no_budgets :: run_budgets where
  "no_budgets = \<lparr>max_wall_clock_ms = None, max_nodes = None, max_llm_calls = None\<rparr>"

definition parse_budget_field :: "string \<times> value \<Rightarrow> run_budgets \<Rightarrow> string + run_budgets" where
  "parse_budget_field kv budgets = (case kv of (key, raw) \<Rightarrow>
     if key \<notin> set [''max_wall_clock_ms'', ''max_nodes'', ''max_llm_calls'']
     then Inl (''unknown budget field '' @ quoted key)
     else (case as_u64 raw of
         None \<Rightarrow> Inl (''budget '' @ quoted key @ '' must be a positive integer'')
       | Some n \<Rightarrow>
           if n = 0 then Inl (''budget '' @ quoted key @ '' must be a positive integer'')
           else Inr (if key = ''max_wall_clock_ms'' then budgets\<lparr>max_wall_clock_ms := Some n\<rparr>
             else if key = ''max_nodes'' then budgets\<lparr>max_nodes := Some n\<rparr>
             else budgets\<lparr>max_llm_calls := Some n\<rparr>)))"

definition parse_budgets :: "value option \<Rightarrow> string + run_budgets option" where
  "parse_budgets v = (case v of
       None \<Rightarrow> Inr None
     | Some v \<Rightarrow>
         if is_null v then Inr None
         else (case as_object v of
             None \<Rightarrow> Inl ''budgets must be an object''
           | Some object \<Rightarrow>
               if object = [] then Inl ''budgets must contain at least one supported positive integer''
               else bind_result (try_fold parse_budget_field object no_budgets) (\<lambda>budgets.
                 if max_llm_calls budgets \<noteq> None
                 then Inl ''max_llm_calls is unavailable: no real LLM invocation hook exists in the permitted runtime path''
                 else if max_wall_clock_ms budgets = None \<and> max_nodes budgets = None
                 then Inl ''budgets must contain an enforceable supported field''
                 else Inr (Some budgets))))"

definition requested_value :: "run_budgets \<Rightarrow> value" where
  "requested_value b = json_object (List.map_filter (\<lambda>(k, x). map_option (\<lambda>n. (k, json_u64 n)) x)
     [(''max_wall_clock_ms'', max_wall_clock_ms b), (''max_nodes'', max_nodes b),
      (''max_llm_calls'', max_llm_calls b)])"

definition counters_value :: "budget_counters \<Rightarrow> value" where
  "counters_value c = json_object [(''nodes'', json_u64 (bc_nodes c)),
     (''llm_calls'', json_u64 (bc_llm_calls c)), (''wall_clock_ms'', json_u64 (bc_wall_clock_ms c))]"

section \<open>Records\<close>

record run_record =
  rr_run_id :: string
  rr_trace :: string
  rr_graph_id :: string
  rr_graph_version :: string
  rr_status :: string
  rr_success :: "bool option"
  rr_input :: "value"
  rr_state :: "value"
  rr_final_state :: "value"
  rr_steps :: "value list"
  rr_error :: "string option"
  rr_events :: "value list"
  rr_next_cursor :: nat
  rr_dropped_events :: nat
  rr_receipt :: "value"
  rr_bundle :: "value"
  rr_persistence_status :: string
  rr_persistence_error :: "string option"
  rr_budgets :: "run_budgets option"
  rr_budget_counters :: budget_counters
  rr_budget_exhausted :: "string option"
  rr_checkpoint_id :: "string option"
  rr_checkpoint_digest :: "string option"
  rr_approval :: "value option"
  rr_resumed :: bool
  rr_cancelled :: bool

definition opt_value :: "('a \<Rightarrow> value) \<Rightarrow> 'a option \<Rightarrow> value" where
  "opt_value f x = (case x of None \<Rightarrow> Null | Some a \<Rightarrow> f a)"

definition checkpoint_reference :: "string option \<Rightarrow> string option \<Rightarrow> value" where
  "checkpoint_reference i d = (case (i, d) of
       (Some i, Some d) \<Rightarrow> json_object [(''checkpoint_id'', String i), (''checkpoint_digest'', String d)]
     | _ \<Rightarrow> Null)"

definition public_value :: "run_record \<Rightarrow> value" where
  "public_value r = json_object
     [(''run_id'', String (rr_run_id r)), (''trace'', String (rr_trace r)),
      (''graph_id'', String (rr_graph_id r)), (''graph_version'', String (rr_graph_version r)),
      (''storage_class'', String (if rr_persistence_status r = ''durable_terminal''
         then ''sqlite_terminal_projection'' else ''volatile'')),
      (''persistence_status'', String (rr_persistence_status r)),
      (''persistence_error'', opt_value String (rr_persistence_error r)),
      (''status'', String (rr_status r)), (''success'', opt_value Bool (rr_success r)),
      (''final_state'', rr_final_state r), (''state'', rr_state r), (''steps'', Array (rr_steps r)),
      (''error'', opt_value String (rr_error r)), (''receipt'', rr_receipt r),
      (''budgets'', opt_value requested_value (rr_budgets r)),
      (''budget_counters'', counters_value (rr_budget_counters r)),
      (''budget_exhausted'', opt_value String (rr_budget_exhausted r)),
      (''checkpoint'', checkpoint_reference (rr_checkpoint_id r) (rr_checkpoint_digest r)),
      (''replay_capability'', String (or_else (str_at (rr_receipt r) ''replay_capability'') ''integrity_only''))]"

definition terminal_status :: "string \<Rightarrow> bool" where
  "terminal_status s \<longleftrightarrow> s \<in> set [''completed'', ''failed'', ''cancelled'', ''checkpointed'']"

text \<open>The record of a run that has just been accepted.\<close>

definition accepted_record ::
    "string \<Rightarrow> string \<Rightarrow> string \<Rightarrow> string \<Rightarrow> value \<Rightarrow> run_budgets option \<Rightarrow> run_record" where
  "accepted_record run_id trace graph_id graph_version input budgets =
     \<lparr>rr_run_id = run_id, rr_trace = trace, rr_graph_id = graph_id, rr_graph_version = graph_version,
      rr_status = ''accepted'', rr_success = None, rr_input = input, rr_state = Null,
      rr_final_state = Null, rr_steps = [], rr_error = None, rr_events = [], rr_next_cursor = 0,
      rr_dropped_events = 0, rr_receipt = Null, rr_bundle = Null,
      rr_persistence_status = ''volatile_active'', rr_persistence_error = None,
      rr_budgets = budgets,
      rr_budget_counters = \<lparr>bc_nodes = 0, bc_llm_calls = 0, bc_wall_clock_ms = 0\<rparr>,
      rr_budget_exhausted = None, rr_checkpoint_id = None, rr_checkpoint_digest = None,
      rr_approval = None, rr_resumed = False, rr_cancelled = False\<rparr>"

section \<open>The registry\<close>

record run_registry =
  rg_runs :: "(string, run_record) hash_map"
  rg_order :: "string list"
  rg_reserved :: nat
  rg_counter :: nat

definition empty_registry :: run_registry where
  "empty_registry = \<lparr>rg_runs = [], rg_order = [], rg_reserved = 0, rg_counter = 1\<rparr>"

definition put_record :: "run_record \<Rightarrow> run_registry \<Rightarrow> run_registry" where
  "put_record r g = g\<lparr>rg_runs := AList.update (rr_run_id r) r (rg_runs g),
     rg_order := rg_order g @ [rr_run_id r]\<rparr>"

definition evict :: "string \<Rightarrow> run_registry \<Rightarrow> run_registry" where
  "evict i g = g\<lparr>rg_runs := AList.delete i (rg_runs g), rg_order := filter (\<lambda>j. j \<noteq> i) (rg_order g)\<rparr>"

text \<open>The oldest run that is finished.\<close>

definition oldest_terminal :: "run_registry \<Rightarrow> string option" where
  "oldest_terminal g = find (\<lambda>i. case map_of (rg_runs g) i of
     None \<Rightarrow> False | Some r \<Rightarrow> terminal_status (rr_status r)) (rg_order g)"

definition insert_record :: "run_record \<Rightarrow> run_registry \<Rightarrow> (string + string) \<times> run_registry" where
  "insert_record r g =
     (if length (rg_order g) = MAX_RUNS
      then (case oldest_terminal g of
          None \<Rightarrow> (Inl (''run retention capacity reached: '' @ show_nat MAX_RUNS
            @ '' live runs cannot be evicted''), g)
        | Some old \<Rightarrow> (Inr (rr_run_id r), put_record r (evict old g)))
      else (Inr (rr_run_id r), put_record r g))"

text \<open>\<open>hex\<close> renders a number as \<open>{:x}\<close> does, \<open>millis\<close> is the clock.\<close>

fun show_hex :: "nat \<Rightarrow> string" where
  "show_hex n = (if n < 16 then [hex_digit n] else show_hex (n div 16) @ [hex_digit (n mod 16)])"

declare show_hex.simps [simp del]

definition allocate_with_budgets ::
    "nat \<Rightarrow> string \<Rightarrow> string \<Rightarrow> value \<Rightarrow> run_budgets option \<Rightarrow> run_registry
      \<Rightarrow> (string + string) \<times> run_registry" where
  "allocate_with_budgets millis graph_id graph_version input budgets g =
     (let n = rg_counter g; suffix = show_hex millis @ ''-'' @ show_hex n
      in insert_record (accepted_record (''run-'' @ suffix) (''trace-'' @ suffix) graph_id
           graph_version input budgets) (g\<lparr>rg_counter := (n + 1) mod 2 ^ 64\<rparr>))"

definition allocate ::
    "nat \<Rightarrow> string \<Rightarrow> string \<Rightarrow> value \<Rightarrow> run_registry \<Rightarrow> (string + string) \<times> run_registry" where
  "allocate millis graph_id graph_version input =
     allocate_with_budgets millis graph_id graph_version input None"

definition allocate_resumed ::
    "nat \<Rightarrow> string \<Rightarrow> string \<Rightarrow> string \<Rightarrow> value \<Rightarrow> value \<Rightarrow> run_budgets option \<Rightarrow> string \<Rightarrow> string
      \<Rightarrow> value option \<Rightarrow> run_registry \<Rightarrow> (string + string) \<times> run_registry" where
  "allocate_resumed millis run_id graph_id graph_version input st budgets cp_id cp_digest approval g =
     insert_record ((accepted_record run_id (''trace-'' @ show_hex millis @ ''-resume'') graph_id
         graph_version input budgets)\<lparr>rr_state := st, rr_checkpoint_id := Some cp_id,
         rr_checkpoint_digest := Some cp_digest, rr_approval := approval, rr_resumed := True\<rparr>) g"

definition update_record ::
    "string \<Rightarrow> (run_record \<Rightarrow> run_record) \<Rightarrow> run_registry \<Rightarrow> (string + unit) \<times> run_registry" where
  "update_record i f g = (case map_of (rg_runs g) i of
       None \<Rightarrow> (Inl ''run not found'', g)
     | Some r \<Rightarrow> (Inr (), g\<lparr>rg_runs := AList.update i (f r) (rg_runs g)\<rparr>))"

definition mark_checkpointed ::
    "string \<Rightarrow> string \<Rightarrow> string \<Rightarrow> run_registry \<Rightarrow> (string + unit) \<times> run_registry" where
  "mark_checkpointed i cp_id cp_digest = update_record i (\<lambda>r. r\<lparr>rr_status := ''checkpointed'',
     rr_checkpoint_id := Some cp_id, rr_checkpoint_digest := Some cp_digest\<rparr>)"

definition active_runs :: "run_registry \<Rightarrow> nat" where
  "active_runs g = length (filter (\<lambda>(_, r). rr_status r = ''running'') (rg_runs g))"

definition capacity_error :: string where
  "capacity_error = ''active run capacity reached: '' @ show_nat MAX_ACTIVE_RUNS @ '' concurrent runs''"

definition admit :: "string \<Rightarrow> run_registry \<Rightarrow> (string + unit) \<times> run_registry" where
  "admit i g = (case map_of (rg_runs g) i of
       None \<Rightarrow> (Inl ''run not found'', g)
     | Some r \<Rightarrow>
         if rr_status r \<noteq> ''accepted'' then (Inl (''run '' @ quoted i @ '' is not awaiting admission''), g)
         else (Inr (), g\<lparr>rg_runs := AList.update i (r\<lparr>rr_status := ''running''\<rparr>) (rg_runs g)\<rparr>))"

definition admit_async :: "string \<Rightarrow> run_registry \<Rightarrow> (string + unit) \<times> run_registry" where
  "admit_async i g =
     (if MAX_ACTIVE_RUNS \<le> active_runs g + rg_reserved g then (Inl capacity_error, g) else admit i g)"

definition reserve_async_slot :: "run_registry \<Rightarrow> (string + unit) \<times> run_registry" where
  "reserve_async_slot g =
     (if MAX_ACTIVE_RUNS \<le> active_runs g + rg_reserved g then (Inl capacity_error, g)
      else (Inr (), g\<lparr>rg_reserved := rg_reserved g + 1\<rparr>))"

definition release_async_slot :: "run_registry \<Rightarrow> run_registry" where
  "release_async_slot g = g\<lparr>rg_reserved := rg_reserved g - 1\<rparr>"

definition admit_reserved_async :: "string \<Rightarrow> run_registry \<Rightarrow> (string + unit) \<times> run_registry" where
  "admit_reserved_async i g =
     (if rg_reserved g = 0 then (Inl ''no asynchronous execution slot was reserved'', g)
      else (case admit i g of
          (Inl e, g') \<Rightarrow> (Inl e, g')
        | (Inr _, g') \<Rightarrow> (Inr (), g'\<lparr>rg_reserved := rg_reserved g' - 1\<rparr>)))"

definition cancel_response :: "string \<Rightarrow> value" where
  "cancel_response i = json_object
     [(''run_id'', String i), (''status'', String ''cancellation_requested''),
      (''cancellation_effect'', String ''best_effort_drop_provider_future''),
      (''provider_request_may_still_be_in_flight'', Bool True),
      (''effective_at'', String ''provider_completion_or_cancellation_observation'')]"

definition cancel_run :: "string \<Rightarrow> run_registry \<Rightarrow> (string + value) \<times> run_registry" where
  "cancel_run i g = (case map_of (rg_runs g) i of
       None \<Rightarrow> (Inl ''run not found'', g)
     | Some r \<Rightarrow>
         if terminal_status (rr_status r) then (Inl ''RUN_NOT_CANCELLABLE'', g)
         else (Inr (cancel_response i),
           g\<lparr>rg_runs := AList.update i (r\<lparr>rr_cancelled := True\<rparr>) (rg_runs g)\<rparr>))"

definition get_run :: "string \<Rightarrow> run_registry \<Rightarrow> run_record option" where
  "get_run i g = map_of (rg_runs g) i"

definition remove_run :: "string \<Rightarrow> run_registry \<Rightarrow> run_record option \<times> run_registry" where
  "remove_run i g = (case map_of (rg_runs g) i of
       Some r \<Rightarrow> if rr_status r = ''running'' then (None, g) else (Some r, evict i g)
     | None \<Rightarrow> (None, evict i g))"

definition registry_values :: "run_registry \<Rightarrow> value list" where
  "registry_values g = List.map_filter (\<lambda>i. map_option public_value (map_of (rg_runs g) i)) (rg_order g)"

definition set_member :: "string \<Rightarrow> value \<Rightarrow> value \<Rightarrow> value" where
  "set_member k v m = (case m of Object kvs \<Rightarrow> Object (bt_insert k v kvs) | _ \<Rightarrow> m)"

definition mark_persistence ::
    "crypto \<Rightarrow> string \<Rightarrow> string \<Rightarrow> string option \<Rightarrow> run_registry \<Rightarrow> run_registry" where
  "mark_persistence cr i status error g = snd (update_record i (\<lambda>r.
     let receipt = set_member ''persistence_status'' (String status) (rr_receipt r);
         receipt' = (case error of None \<Rightarrow> receipt
           | Some e \<Rightarrow> set_member ''persistence_error'' (String e) receipt)
     in r\<lparr>rr_persistence_status := status, rr_persistence_error := error, rr_receipt := receipt',
          rr_bundle := run_bundle cr (rr_run_id r) (rr_graph_version r) (rr_input r) (rr_state r) receipt'\<rparr>) g)"

definition set_state_value ::
    "string \<Rightarrow> string \<Rightarrow> value \<Rightarrow> run_registry \<Rightarrow> (string + unit) \<times> run_registry" where
  "set_state_value i key v = update_record i (\<lambda>r. r\<lparr>rr_state := (case rr_state r of
     Object m \<Rightarrow> Object (bt_insert key v m) | _ \<Rightarrow> Object [(key, v)])\<rparr>)"

section \<open>The event window\<close>

definition event_entry :: "nat \<Rightarrow> value \<Rightarrow> value" where
  "event_entry c event = json_object [(''cursor'', json_u64 c), (''event'', redact event)]"

definition push_event :: "value \<Rightarrow> run_record \<Rightarrow> run_record" where
  "push_event event r =
     (let full = length (rr_events r) = MAX_EVENTS;
          kept = (if full then tl (rr_events r) else rr_events r);
          c = rr_next_cursor r
      in r\<lparr>rr_events := kept @ [event_entry c event], rr_next_cursor := c + 1,
           rr_dropped_events := rr_dropped_events r + (if full then 1 else 0)\<rparr>)"

definition entry_cursor :: "value \<Rightarrow> nat option" where
  "entry_cursor v = u64_at v ''cursor''"

definition first_cursor :: "run_record \<Rightarrow> nat" where
  "first_cursor r = (case rr_events r of
       [] \<Rightarrow> rr_next_cursor r | v # _ \<Rightarrow> or_else (entry_cursor v) (rr_next_cursor r))"

definition event_page :: "run_record \<Rightarrow> nat \<Rightarrow> nat \<Rightarrow> value list" where
  "event_page r c limit =
     take (min limit 200) (filter (\<lambda>v. c \<le> or_else (entry_cursor v) 0) (rr_events r))"

text \<open>The answer to a query for events; \<open>stored\<close> is what the durable store has for the run.\<close>

definition run_events ::
    "(string + value option) \<Rightarrow> string \<Rightarrow> nat \<Rightarrow> nat \<Rightarrow> run_registry \<Rightarrow> string + value" where
  "run_events stored i c limit g = (case get_run i g of
       None \<Rightarrow> (case stored of
           Inl e \<Rightarrow> Inl e | Inr (Some v) \<Rightarrow> Inr v | Inr None \<Rightarrow> Inl ''run not found'')
     | Some r \<Rightarrow> Inr (json_object
         [(''run_id'', String i), (''events'', Array (event_page r c limit)),
          (''next_cursor'', json_u64 (rr_next_cursor r)), (''gap'', Bool (c < first_cursor r)),
          (''truncated'', Bool (0 < rr_dropped_events r)), (''dropped'', json_u64 (rr_dropped_events r))]))"

section \<open>Outcomes and limits of an execution\<close>

definition terminal_outcome :: "bool \<Rightarrow> string option \<Rightarrow> string \<times> bool" where
  "terminal_outcome cancelled error =
     (if cancelled then (''cancelled'', False)
      else if error \<noteq> None then (''failed'', False) else (''completed'', True))"

definition next_frontier :: "graph_spec \<Rightarrow> string list \<Rightarrow> string list" where
  "next_frontier spec frontier = retain_unseen []
     (map es_to (filter (\<lambda>e. es_from e \<in> set frontier \<and> es_to e \<noteq> ''END'') (gs_edges spec)))"

text \<open>The loop over the supersteps that the graph's own limit allows.\<close>

fun budget_loop :: "graph_spec \<Rightarrow> nat \<Rightarrow> nat \<Rightarrow> nat \<Rightarrow> nat \<Rightarrow> string list \<Rightarrow> nat" where
  "budget_loop spec limit 0 observed allowed frontier = allowed"
| "budget_loop spec limit (Suc fuel) observed allowed frontier =
     (let live = filter (\<lambda>n. n \<noteq> ''END'') frontier in
      if live = [] then allowed
      else if limit < observed + length live then allowed
      else budget_loop spec limit fuel (observed + length live) (allowed + 1) (next_frontier spec live))"

definition budget_iteration_limit :: "graph_spec \<Rightarrow> nat \<Rightarrow> nat" where
  "budget_iteration_limit spec limit =
     max 1 (budget_loop spec limit (or_else (gs_max_iterations spec) 64) 0 0 [gs_entry spec])"

definition initial_state_for_input :: "value \<Rightarrow> value" where
  "initial_state_for_input input =
     json_object ((''__input__'', input) # (case input of Object m \<Rightarrow> m | _ \<Rightarrow> []))"

text \<open>A provider address without query, fragment and credentials.\<close>

definition before_any :: "string \<Rightarrow> string \<Rightarrow> string" where
  "before_any stops s = takeWhile (\<lambda>c. c \<notin> set stops) s"

fun split_scheme :: "string \<Rightarrow> (string \<times> string) option" where
  "split_scheme [] = None"
| "split_scheme (c # cs) =
     (if starts_with (c # cs) ''://'' then Some ([], drop 3 (c # cs))
      else map_option (\<lambda>(a, b). (c # a, b)) (split_scheme cs))"

definition after_last :: "char \<Rightarrow> string \<Rightarrow> string" where
  "after_last c s = rev (takeWhile (\<lambda>d. d \<noteq> c) (rev s))"

definition safe_provider_label :: "string \<Rightarrow> string" where
  "safe_provider_label url = (case split_scheme (before_any ''?#'' url) of
       None \<Rightarrow> ''server-configured''
     | Some (scheme, rest) \<Rightarrow> scheme @ ''://'' @ after_last (CHR ''@'') rest)"

end
