(* ===== verification/Run_Execution.thy ===== *)
theory Run_Execution
  imports Run_Registry Research_Evidence Spec_Validation Agent_State Graph_Events
begin

text \<open>
  \<open>agent-graph-mcp/src/run_manager.rs\<close>: what the server does around an execution of the
  engine. The record is read and marked as running, the state and the limits of the run are
  made from it, and when the engine has ended, the events, the state and the result are
  turned into budget counters, evidence dependencies, the error to report, a receipt, an
  integrity bundle and the terminal record. Other operations of the registry may happen in
  between, so that the two halves are operations of their own. The engine's run is given by
  its end; the serialization of an event and of its length are parameters.
\<close>

section \<open>Before the run\<close>

definition begin_execution :: "string \<Rightarrow> run_registry \<Rightarrow> (string + run_record) \<times> run_registry" where
  "begin_execution i g = (case update_record i (\<lambda>r. r\<lparr>rr_status := ''running''\<rparr>) g of
       (Inl e, g') \<Rightarrow> (Inl e, g')
     | (Inr _, g') \<Rightarrow> (case map_of (rg_runs g') i of
           None \<Rightarrow> (Inl ''run not found'', g') | Some r \<Rightarrow> (Inr r, g')))"

definition starting_state :: "value option \<Rightarrow> run_record \<Rightarrow> value" where
  "starting_state initial r = (case initial of
       Some v \<Rightarrow> v
     | None \<Rightarrow> if rr_resumed r then rr_state r else initial_state_for_input (rr_input r))"

definition run_limits :: state_limits where
  "run_limits = \<lparr>max_keys = 1000, max_value_bytes = 256 * 1024,
     max_history_len = 100, lock_timeout_ms = 5000\<rparr>"

definition base_limit :: "graph_spec \<Rightarrow> nat" where
  "base_limit spec = or_else (gs_max_iterations spec) 64"

definition node_budget_limit :: "graph_spec \<Rightarrow> run_record \<Rightarrow> budget_counters \<Rightarrow> nat option" where
  "node_budget_limit spec r initial = map_option
     (\<lambda>n. budget_iteration_limit spec (n - bc_nodes initial))
     (Option.bind (rr_budgets r) max_nodes)"

definition execution_config :: "graph_spec \<Rightarrow> run_record \<Rightarrow> budget_counters \<Rightarrow> graph_config" where
  "execution_config spec r initial =
     with_max_parallelism (or_else (gs_max_parallelism spec) 8)
       (with_recursion_limit (min (or_else (node_budget_limit spec r initial) (base_limit spec)) (base_limit spec))
         default_config)"

definition execution_setup ::
    "graph_spec \<Rightarrow> run_record \<Rightarrow> value option \<Rightarrow> budget_counters \<Rightarrow> string + agent_state \<times> graph_config" where
  "execution_setup spec r initial counters = (case starting_state initial r of
       Object m \<Rightarrow> Inr (with_data_and_limits m run_limits, execution_config spec r counters)
     | _ \<Rightarrow> Inl ''checkpoint state must be a JSON object'')"

section \<open>After the run\<close>

record execution_end =
  xe_result :: "string + unit"
  xe_state :: state_map
  xe_events :: "graph_event list"
  xe_timed_out :: bool
  xe_elapsed_ms :: nat

definition exported_value :: "execution_end \<Rightarrow> value" where
  "exported_value x = json_object (xe_state x)"

definition final_state :: "graph_spec \<Rightarrow> value \<Rightarrow> value" where
  "final_state spec v = (case Option.bind (gs_output_key spec) (get_key v) of
       Some out \<Rightarrow> out
     | None \<Rightarrow> or_else (get_key v ''__input__'') Null)"

definition step_output :: "state_map \<Rightarrow> value" where
  "step_output updates = (case map_of updates ''__input__'' of
       Some v \<Rightarrow> v
     | None \<Rightarrow> (case map_of updates ''__route__'' of Some v \<Rightarrow> v | None \<Rightarrow> json_object updates))"

fun step_of_event :: "graph_event \<Rightarrow> value option" where
  "step_of_event (StateUpdate _ node_id updates) =
     Some (json_object [(''node_id'', String node_id), (''output'', step_output updates)])"
| "step_of_event _ = None"

definition execution_steps :: "graph_event list \<Rightarrow> value list" where
  "execution_steps events = List.map_filter step_of_event events"

fun starts_node :: "graph_event \<Rightarrow> bool" where
  "starts_node (NodeStart _ _ _ _ _) = True"
| "starts_node _ = False"

definition saturating_add64 :: "nat \<Rightarrow> nat \<Rightarrow> nat" where
  "saturating_add64 a b = min (2 ^ 64 - 1) (a + b)"

definition counters_after :: "budget_counters \<Rightarrow> execution_end \<Rightarrow> budget_counters" where
  "counters_after initial x =
     \<lparr>bc_nodes = saturating_add64 (bc_nodes initial) (length (filter starts_node (xe_events x))),
      bc_llm_calls = bc_llm_calls initial,
      bc_wall_clock_ms = saturating_add64 (bc_wall_clock_ms initial) (min (2 ^ 64 - 1) (xe_elapsed_ms x))\<rparr>"

definition wall_exhausted :: "run_budgets option \<Rightarrow> budget_counters \<Rightarrow> execution_end \<Rightarrow> bool" where
  "wall_exhausted budgets c x = (case budgets of
       None \<Rightarrow> False
     | Some b \<Rightarrow> (case max_wall_clock_ms b of None \<Rightarrow> False | Some limit \<Rightarrow> limit \<le> bc_wall_clock_ms c)
         \<or> xe_timed_out x)"

definition nodes_exhausted ::
    "graph_spec \<Rightarrow> run_record \<Rightarrow> budget_counters \<Rightarrow> budget_counters \<Rightarrow> execution_end \<Rightarrow> bool" where
  "nodes_exhausted spec r initial c x = (case Option.bind (rr_budgets r) max_nodes of
       None \<Rightarrow> False
     | Some limit \<Rightarrow>
         let iteration_error = (case xe_result x of Inl e \<Rightarrow> contains_str e ''iteration'' | Inr _ \<Rightarrow> False);
             budget_limited = (case node_budget_limit spec r initial of
               None \<Rightarrow> False | Some n \<Rightarrow> n \<le> base_limit spec)
         in limit < bc_nodes c \<or> (limit \<le> bc_nodes c \<and> iteration_error \<and> budget_limited))"

definition budget_exhausted ::
    "graph_spec \<Rightarrow> run_record \<Rightarrow> budget_counters \<Rightarrow> execution_end \<Rightarrow> string option" where
  "budget_exhausted spec r initial x =
     (let c = counters_after initial x in
      if wall_exhausted (rr_budgets r) c x then Some ''max_wall_clock_ms''
      else if nodes_exhausted spec r initial c x then Some ''max_nodes''
      else None)"

section \<open>Evidence\<close>

type_synonym witness_lookup = "string \<Rightarrow> witness_error + witness_record option"

fun collect_dependencies ::
    "crypto \<Rightarrow> witness_lookup \<Rightarrow> value \<Rightarrow> node_spec list \<Rightarrow> string + value list" where
  "collect_dependencies cr get_witness v [] = Inr []"
| "collect_dependencies cr get_witness v (n # ns) =
     (case get_key v (or_else (str_at (ns_config n) ''output_key'') []) of
        None \<Rightarrow> Inl ''WITNESS_EVIDENCE_MISSING''
      | Some evidence \<Rightarrow> (case validate_witness_dependencies cr get_witness evidence of
            Inl e \<Rightarrow> Inl (we_code e)
          | Inr (Array ds) \<Rightarrow>
              bind_result (collect_dependencies cr get_witness v ns) (\<lambda>rest. Inr (ds @ rest))
          | Inr _ \<Rightarrow> Inl ''WITNESS_EVIDENCE_INVALID''))"

text \<open>One dependency per witness, in the order of the identifiers; the last one stays.\<close>

definition unique_dependencies :: "value list \<Rightarrow> value list" where
  "unique_dependencies ds = map snd (fold (\<lambda>(k, v). bt_insert k v)
     (List.map_filter (\<lambda>d. map_option (\<lambda>i. (i, d)) (str_at d ''witness_id'')) ds) [])"

text \<open>The error, the dependencies of the receipt, and whether they are complete.\<close>

definition evidence_outcome ::
    "crypto \<Rightarrow> witness_lookup option \<Rightarrow> graph_spec \<Rightarrow> execution_end \<Rightarrow> string option \<times> value \<times> bool" where
  "evidence_outcome cr store spec x =
     (let required = filter ns_evidence_required (gs_nodes spec) in
      if \<not> isl (xe_result x) \<and> required \<noteq> []
      then (case store of
          None \<Rightarrow> (Some ''WITNESS_STORE_REQUIRED'', Array [], False)
        | Some get_witness \<Rightarrow>
            (case collect_dependencies cr get_witness (exported_value x) required of
               Inl e \<Rightarrow> (Some e, Array [], False)
             | Inr ds \<Rightarrow> (None, Array (unique_dependencies ds), True)))
      else (None, Array [], False))"

definition first_reason :: "string option \<Rightarrow> string option \<Rightarrow> string + unit \<Rightarrow> string option" where
  "first_reason exhausted evidence result =
     (if exhausted \<noteq> None then Some ''BUDGET_EXHAUSTED''
      else if evidence \<noteq> None then evidence
      else (case result of Inl e \<Rightarrow> Some e | Inr _ \<Rightarrow> None))"

section \<open>Receipt and terminal record\<close>

definition model_entry :: "crypto \<Rightarrow> node_spec \<Rightarrow> value" where
  "model_entry cr n = json_object
     [(''node_id'', String (ns_id n)),
      (''model_alias'', String (or_else (ns_model n) ''server_default'')),
      (''prompt_digest'', String (digest cr (String (or_else (ns_prompt n) ''{input}''))))]"

definition core_receipt :: "value" where
  "core_receipt = json_object [(''api'', String ''execute_with_summary''),
     (''note'', String ''receipt not yet fully typed; upgrade to execute_with_config + receipt'')]"

definition execution_receipt ::
    "crypto \<Rightarrow> string \<Rightarrow> string \<Rightarrow> witness_lookup option \<Rightarrow> graph_spec \<Rightarrow> run_record \<Rightarrow> run_record
      \<Rightarrow> budget_counters \<Rightarrow> execution_end \<Rightarrow> value" where
  "execution_receipt cr provider default_model store spec started now initial x =
     (let models = map (model_entry cr) (filter (\<lambda>n. ns_type n = Type_llm) (gs_nodes spec));
          (_, dependencies, complete) = evidence_outcome cr store spec x
      in json_object
        [(''schema'', String ''agent-graph-mcp-receipt-v1''), (''run_id'', String (rr_run_id started)),
         (''trace'', String (rr_trace now)), (''graph_version'', String (rr_graph_version now)),
         (''input_digest'', String (digest cr (rr_input started))),
         (''output_digest'', String (digest cr (exported_value x))),
         (''step_count'', json_u64 (length (execution_steps (xe_events x)))),
         (''models'', Array models), (''provider'', String provider),
         (''default_model'', String default_model),
         (''model_labels'', Array (List.map_filter (\<lambda>m. get_key m ''model_alias'') models)),
         (''core'', core_receipt), (''dependency_envelopes'', dependencies),
         (''dependency_envelopes_complete'', Bool complete),
         (''replay_capability'', String (if rr_resumed started
           then ''deterministic_local_resume'' else ''integrity_only'')),
         (''resume_supported'', Bool (rr_resumed started)),
         (''checkpoint'', checkpoint_reference (rr_checkpoint_id started) (rr_checkpoint_digest started)),
         (''approval'', opt_value id (rr_approval started)),
         (''evidence_authority'', String (if complete
           then ''local_capture_receipt_only; source_authority_not_verified'' else ''structural_unverified'')),
         (''persistence_status'', String ''pending''),
         (''budgets'', opt_value requested_value (rr_budgets started)),
         (''budget_counters'', counters_value (counters_after initial x)),
         (''budget_exhausted'', opt_value String (budget_exhausted spec started initial x))])"

definition reported_error ::
    "crypto \<Rightarrow> witness_lookup option \<Rightarrow> graph_spec \<Rightarrow> run_record \<Rightarrow> budget_counters \<Rightarrow> execution_end
      \<Rightarrow> string option" where
  "reported_error cr store spec started initial x =
     first_reason (budget_exhausted spec started initial x)
       (fst (evidence_outcome cr store spec x)) (xe_result x)"

text \<open>The update of the record: whether the run is cancelled is read here, not before.\<close>

definition settle_record ::
    "crypto \<Rightarrow> (graph_event \<Rightarrow> value) \<Rightarrow> graph_spec \<Rightarrow> run_record \<Rightarrow> budget_counters \<Rightarrow> string option
      \<Rightarrow> value \<Rightarrow> string \<Rightarrow> execution_end \<Rightarrow> run_record \<Rightarrow> run_record" where
  "settle_record cr event_json spec started initial error receipt graph_version x r =
     (let terminal_error = (if rr_cancelled r then None else error);
          (status, success) = terminal_outcome (rr_cancelled r) terminal_error
      in fold push_event (map event_json (xe_events x)) (r\<lparr>
           rr_status := status, rr_success := Some success, rr_state := exported_value x,
           rr_final_state := final_state spec (exported_value x),
           rr_steps := execution_steps (xe_events x), rr_error := terminal_error,
           rr_budget_counters := counters_after initial x,
           rr_budget_exhausted := budget_exhausted spec started initial x,
           rr_receipt := receipt,
           rr_bundle := run_bundle cr (rr_run_id started) graph_version (rr_input started)
             (exported_value x) receipt,
           rr_persistence_status := ''pending''\<rparr>))"

definition settle_execution ::
    "crypto \<Rightarrow> (value \<Rightarrow> nat) \<Rightarrow> (graph_event \<Rightarrow> value) \<Rightarrow> string \<Rightarrow> string \<Rightarrow> witness_lookup option
      \<Rightarrow> graph_spec \<Rightarrow> run_record \<Rightarrow> budget_counters \<Rightarrow> execution_end \<Rightarrow> run_registry
      \<Rightarrow> (string + value) \<times> run_registry" where
  "settle_execution cr json_len event_json base_url default_model store spec started initial x g =
     (let i = rr_run_id started in
      case bind_result (ensure_size json_len (exported_value x) MAX_STATE_BYTES ''total state'') (\<lambda>_.
        bind_result (ensure_size json_len (final_state spec (exported_value x)) MAX_OUTPUT_BYTES ''execution output'') (\<lambda>_.
        case get_run i g of None \<Rightarrow> Inl ''run not found'' | Some now \<Rightarrow> Inr now)) of
        Inl e \<Rightarrow> (Inl e, g)
      | Inr now \<Rightarrow>
          let receipt = execution_receipt cr (safe_provider_label base_url) default_model store spec
                started now initial x;
              settled = settle_record cr event_json spec started initial
                (reported_error cr store spec started initial x) receipt (rr_graph_version now) x now
          in (Inr (public_value settled), g\<lparr>rg_runs := AList.update i settled (rg_runs g)\<rparr>))"

text \<open>An execution in the background that fails otherwise leaves a failed record.\<close>

definition fail_execution :: "string \<Rightarrow> string \<Rightarrow> run_registry \<Rightarrow> run_registry" where
  "fail_execution i error g = snd (update_record i
     (\<lambda>r. r\<lparr>rr_status := ''failed'', rr_success := Some False, rr_error := Some error\<rparr>) g)"

end
