(* ===== verification/Event_Laws.thy ===== *)
theory Event_Laws
  imports Run_Execution
begin

text \<open>
  The event window of a run and its pages, the frontiers of the budget loop, and what the
  record of a settled execution says.
\<close>

section \<open>The window\<close>

text \<open>A record that has no events yet.\<close>

definition no_events :: "run_record \<Rightarrow> bool" where
  "no_events r \<longleftrightarrow> rr_events r = [] \<and> rr_next_cursor r = 0 \<and> rr_dropped_events r = 0"

lemma no_events_accepted: "no_events (accepted_record i t gi gv v b)"
  by (simp add: no_events_def accepted_record_def)

lemma window_of_pushes:
  assumes "no_events r"
  shows "rr_next_cursor (fold push_event es r) = length es
    \<and> rr_dropped_events (fold push_event es r) = length es - MAX_EVENTS
    \<and> rr_events (fold push_event es r) =
        map (\<lambda>c. event_entry c (es ! c)) [length es - MAX_EVENTS ..< length es]"
proof (induction es rule: rev_induct)
  case Nil
  then show ?case using assms by (simp add: no_events_def)
next
  case (snoc e es)
  define n where "n = length es"
  have old: "map (\<lambda>c. event_entry c ((es @ [e]) ! c)) [a..<n] = map (\<lambda>c. event_entry c (es ! c)) [a..<n]" for a
    by (auto simp: nth_append n_def)
  show ?case
  proof (cases "n < MAX_EVENTS")
    case True
    then show ?thesis
      using snoc.IH old [of 0] by (simp add: push_event_def Let_def n_def [symmetric])
        (simp add: n_def)
  next
    case False
    then have "[n - MAX_EVENTS ..< n] = (n - MAX_EVENTS) # [Suc (n - MAX_EVENTS) ..< n]"
      by (intro upt_conv_Cons) (simp add: MAX_EVENTS_def)
    moreover have "Suc n - MAX_EVENTS = Suc (n - MAX_EVENTS)" "n - (n - MAX_EVENTS) = MAX_EVENTS"
        "Suc (n - MAX_EVENTS) \<le> n"
      using False by (auto simp: MAX_EVENTS_def)
    ultimately show ?thesis
      using snoc.IH old [of "Suc (n - MAX_EVENTS)"]
      by (simp add: push_event_def Let_def n_def [symmetric]) (simp add: n_def)
  qed
qed

section \<open>Pages\<close>

lemma entry_cursor_entry [simp]: "c < 2 ^ 64 \<Longrightarrow> entry_cursor (event_entry c e) = Some c"
  by (simp add: entry_cursor_def event_entry_def u64_at_def get_key_json_object json_u64_def
      unsigned_of_nat take_bit_nat_eq_self)

lemma filter_upt_from: "filter (\<lambda>k. c \<le> k) [a..<b] = [max c a..<b]"
  by (induction b) (auto simp: max_def)

lemma page_of_entries:
  assumes "b \<le> 2 ^ 64"
  shows "filter (\<lambda>v. c \<le> or_else (entry_cursor v) 0) (map (\<lambda>k. event_entry k (f k)) [a..<b])
    = map (\<lambda>k. event_entry k (f k)) [max c a..<b]"
proof -
  have "filter (\<lambda>k. c \<le> or_else (entry_cursor (event_entry k (f k))) 0) [a..<b] = filter (\<lambda>k. c \<le> k) [a..<b]"
    using assms by (intro filter_cong) auto
  then show ?thesis by (simp add: filter_map comp_def filter_upt_from)
qed

lemma take_upt_min: "take m [a..<b] = [a..<min b (a + m)]"
  by (cases "a + m \<le> b") (auto simp: min_def)

section \<open>Frontiers\<close>

fun frontier_at :: "graph_spec \<Rightarrow> string list \<Rightarrow> nat \<Rightarrow> string list" where
  "frontier_at spec frontier 0 = filter (\<lambda>n. n \<noteq> ''END'') frontier"
| "frontier_at spec frontier (Suc k) =
     frontier_at spec (next_frontier spec (filter (\<lambda>n. n \<noteq> ''END'') frontier)) k"

definition frontier_widths :: "graph_spec \<Rightarrow> string list \<Rightarrow> nat \<Rightarrow> nat" where
  "frontier_widths spec frontier k = sum_list (map (\<lambda>j. length (frontier_at spec frontier j)) [0..<k])"

lemma frontier_widths_Suc:
  "frontier_widths spec frontier (Suc k) = length (filter (\<lambda>n. n \<noteq> ''END'') frontier)
     + frontier_widths spec (next_frontier spec (filter (\<lambda>n. n \<noteq> ''END'') frontier)) k"
proof -
  have "[0..<Suc k] = 0 # map Suc [0..<k]" by (simp add: map_Suc_upt upt_conv_Cons del: upt_Suc)
  then show ?thesis by (simp add: frontier_widths_def comp_def del: upt_Suc)
qed

lemma budget_loop_count:
  "\<exists>k \<le> fuel. budget_loop spec limit fuel observed allowed frontier = allowed + k
     \<and> (observed \<le> limit \<longrightarrow> observed + frontier_widths spec frontier k \<le> limit)
     \<and> (k = fuel \<or> frontier_at spec frontier k = []
        \<or> limit < observed + frontier_widths spec frontier (Suc k))"
proof (induction fuel arbitrary: observed allowed frontier)
  case 0
  then show ?case by (simp add: frontier_widths_def)
next
  case (Suc fuel)
  define live where "live = filter (\<lambda>n. n \<noteq> ''END'') frontier"
  show ?case
  proof (cases "live = [] \<or> limit < observed + length live")
    case True
    then show ?thesis
      by (intro exI [of _ 0]) (auto simp: live_def Let_def frontier_widths_def)
  next
    case False
    obtain k where "k \<le> fuel"
        "budget_loop spec limit fuel (observed + length live) (allowed + 1) (next_frontier spec live)
          = allowed + 1 + k"
        "observed + length live + frontier_widths spec (next_frontier spec live) k \<le> limit"
        "k = fuel \<or> frontier_at spec (next_frontier spec live) k = []
          \<or> limit < observed + length live + frontier_widths spec (next_frontier spec live) (Suc k)"
      using Suc.IH [of "observed + length live" "allowed + 1" "next_frontier spec live"] False by auto
    then show ?thesis
      using False
      by (intro exI [of _ "Suc k"])
        (simp add: frontier_widths_Suc [of _ frontier] Let_def live_def [symmetric] add.assoc)
  qed
qed

section \<open>A settled execution\<close>

lemma push_events_outcome [simp]:
  "rr_success (fold push_event es r) = rr_success r" "rr_error (fold push_event es r) = rr_error r"
  "rr_state (fold push_event es r) = rr_state r" "rr_bundle (fold push_event es r) = rr_bundle r"
  "rr_status (fold push_event es r) = rr_status r"
  by (induction es arbitrary: r) (simp_all add: push_event_def Let_def)

lemma settled_fields:
  assumes "s = settle_record cr ej spec started initial error receipt gv x r"
    and "reported = (if rr_cancelled r then None else error)"
  shows "rr_status s = fst (terminal_outcome (rr_cancelled r) reported)"
    and "rr_success s = Some (snd (terminal_outcome (rr_cancelled r) reported))"
    and "rr_error s = reported"
    and "rr_state s = exported_value x"
    and "rr_bundle s = run_bundle cr (rr_run_id started) gv (rr_input started) (exported_value x) receipt"
  by (simp_all add: assms settle_record_def Let_def split: prod.splits)

text \<open>The evidence of every node in a list has been checked against the witnesses.\<close>

definition evidence_checked :: "crypto \<Rightarrow> witness_lookup \<Rightarrow> value \<Rightarrow> node_spec \<Rightarrow> bool" where
  "evidence_checked cr get_witness v n \<longleftrightarrow>
     (case get_key v (or_else (str_at (ns_config n) ''output_key'') []) of
        None \<Rightarrow> False | Some evidence \<Rightarrow> \<not> isl (validate_witness_dependencies cr get_witness evidence))"

lemma collected_is_checked:
  "collect_dependencies cr get_witness v ns = Inr ds \<Longrightarrow> list_all (evidence_checked cr get_witness v) ns"
  by (induction ns arbitrary: ds)
    (auto simp: evidence_checked_def bind_result_Inr_iff split: option.splits sum.splits "value.splits")

lemma evidence_accepted:
  assumes "fst (evidence_outcome cr store spec x) = None" and "xe_result x = Inr ()"
    and "n \<in> set (gs_nodes spec)" and "ns_evidence_required n"
  shows "\<exists>get_witness. store = Some get_witness \<and> evidence_checked cr get_witness (exported_value x) n"
proof -
  define required where "required = filter ns_evidence_required (gs_nodes spec)"
  have "n \<in> set required" using assms(3,4) by (simp add: required_def)
  then obtain get_witness ds where "store = Some get_witness"
      "collect_dependencies cr get_witness (exported_value x) required = Inr ds"
    using assms(1,2)
    by (auto simp: evidence_outcome_def required_def [symmetric] Let_def split: option.splits sum.splits if_splits)
  then show ?thesis
    using collected_is_checked \<open>n \<in> set required\<close> by (auto simp: list_all_iff)
qed

end
