(* ===== verification/Compiler_Properties.thy ===== *)
theory Compiler_Properties
  imports Compiler_Laws Event_Laws Superstep_Laws
begin

text \<open>
  The properties of compilation: the graph is the specification, nodes change declared keys
  only, and where an accepted specification is executed differently from what it says.
\<close>

section \<open>The graph\<close>

lemma hm_wf_map_of: "hm_wf m \<Longrightarrow> (k, v) \<in> set m \<Longrightarrow> map_of m k = Some v"
  by (simp add: hm_wf_def)

lemma accepted_graph_builds:
  assumes "validate spec = Inr ()"
    and "try_fold (add_spec_node nw cx) (gs_nodes spec) (start_builder spec) = Inr b"
  shows "build (add_spec_reducers spec (add_spec_edges spec b)) =
    Inr (add_spec_reducers spec (add_spec_edges spec b))"
proof -
  let ?g = "add_spec_edges spec b"
  note wf = validate_Inr [OF assms(1)]
  note nodes = add_spec_nodes_effect [OF assms(2) wf(1) [unfolded node_ids_def]]
  have edges_b: "g_edges b = []"
    using same_fields(1) [OF conjunct2 [OF conjunct2 [OF nodes]]] by simp
  then have none: "edges_at b f = []" for f by (simp add: edges_at_def)
  have "contains_key (g_nodes b) i" if i: "i \<in> set (node_ids spec)" for i
  proof -
    obtain n where "n \<in> set (gs_nodes spec)" "ns_id n = i" using i by (auto simp: node_ids_def)
    then obtain node where "map_of (g_nodes b) i = Some node" using nodes by blast
    from image_eqI [OF _ map_of_SomeD [OF this], of i fst] show ?thesis
      by (simp add: contains_key_iff)
  qed
  moreover have "g_nodes ?g = g_nodes b"
    using arg_cong [OF frame_add_edges, of g_nodes] by (simp add: frame_fields_def)
  moreover have "t = END \<or> t \<in> set (node_ids spec)"
    if "(f, es) \<in> set (g_edges ?g)" "Normal t \<in> set es" for f es t
  proof -
    have "hm_wf (g_edges ?g)" by (simp add: edges_b)
    then have "es = edges_at ?g f" using hm_wf_map_of that(1) by (force simp: edges_at_def)
    then show ?thesis
      using that(2) wf(2,3) none [of f]
      by (auto simp: edges_at_spec edge_target_def split: if_splits)
  qed
  ultimately show ?thesis by (auto simp: build_Inr add_reducers_effect)
qed

lemma accepted_compiles_iff:
  assumes "validate spec = Inr ()"
  shows "(\<exists>g. compile nw cx spec = Inr g) \<longleftrightarrow> list_all config_parses (gs_nodes spec)"
proof -
  note wf = validate_Inr [OF assms]
  have all: "(\<forall>n \<in> set (gs_nodes spec). \<exists>node. compile_node nw cx n = Inr node)
      \<longleftrightarrow> list_all config_parses (gs_nodes spec)"
    using compile_node_iff [of "node_ids spec"] wf(6) unfolding list_all_iff by blast
  have "compile nw cx spec = Inr (add_spec_reducers spec (add_spec_edges spec b))"
    if "try_fold (add_spec_node nw cx) (gs_nodes spec) (start_builder spec) = Inr b" for b
    using that accepted_graph_builds [OF assms that] by (simp add: compile_def)
  then have "(\<exists>g. compile nw cx spec = Inr g) \<longleftrightarrow>
      (\<exists>b. try_fold (add_spec_node nw cx) (gs_nodes spec) (start_builder spec) = Inr b)"
    using compile_Inr [of nw cx spec] by metis
  then show ?thesis using all add_spec_nodes_total [of nw cx "gs_nodes spec"] by blast
qed

text \<open>
  C20: An accepted specification compiles exactly if the configurations of its transform and
  router nodes parse and no node is of an external type. The graph then has the nodes of the
  specification under their identifiers and no others, the entry as the only edge from the
  start, the edges of every node in their order with END as the engine's end, the declared
  reducers and the iteration limit.
\<close>

theorem compiled_graph_is_the_specification:
  assumes "validate spec = Inr ()"
  shows "((\<exists>g. compile nw cx spec = Inr g) \<longleftrightarrow> list_all config_parses (gs_nodes spec))
    \<and> (\<forall>g. compile nw cx spec = Inr g \<longrightarrow>
        (\<forall>n \<in> set (gs_nodes spec). \<exists>node. compile_node nw cx n = Inr node
            \<and> map_of (g_nodes g) (ns_id n) = Some node)
        \<and> (\<forall>k. k \<notin> set (node_ids spec) \<longrightarrow> map_of (g_nodes g) k = None)
        \<and> (\<forall>f. edges_at g f = (if f = START then [Normal (gs_entry spec)] else [])
            @ map (\<lambda>e. Normal (edge_target e)) (filter (\<lambda>e. es_from e = f) (gs_edges spec)))
        \<and> g_reducers g = map (\<lambda>(k, kind). (k, reducer_of_kind kind)) (gs_reducers spec)
        \<and> g_max_iterations g = or_else (gs_max_iterations spec) 64)"
proof -
  note wf = validate_Inr [OF assms]
  have "(\<exists>g. compile nw cx spec = Inr g) \<longleftrightarrow> list_all config_parses (gs_nodes spec)"
    using accepted_compiles_iff [OF assms] .
  moreover have "(\<forall>n \<in> set (gs_nodes spec). \<exists>node. compile_node nw cx n = Inr node
            \<and> map_of (g_nodes g) (ns_id n) = Some node)
        \<and> (\<forall>k. k \<notin> set (node_ids spec) \<longrightarrow> map_of (g_nodes g) k = None)
        \<and> (\<forall>f. edges_at g f = (if f = START then [Normal (gs_entry spec)] else [])
            @ map (\<lambda>e. Normal (edge_target e)) (filter (\<lambda>e. es_from e = f) (gs_edges spec)))
        \<and> g_reducers g = map (\<lambda>(k, kind). (k, reducer_of_kind kind)) (gs_reducers spec)
        \<and> g_max_iterations g = or_else (gs_max_iterations spec) 64"
    if g: "compile nw cx spec = Inr g" for g
  proof -
    obtain b where b: "try_fold (add_spec_node nw cx) (gs_nodes spec) (start_builder spec) = Inr b"
        "g = add_spec_reducers spec (add_spec_edges spec b)"
      using compile_Inr [OF g] .
    note nodes = add_spec_nodes_effect [OF b(1) wf(1) [unfolded node_ids_def]]
    note same = same_fields [OF conjunct2 [OF conjunct2 [OF nodes]]]
    have "g_nodes (add_spec_edges spec b) = g_nodes b"
        "g_max_iterations (add_spec_edges spec b) = g_max_iterations b"
      using arg_cong [OF frame_add_edges, of g_nodes] arg_cong [OF frame_add_edges, of g_max_iterations]
      by (simp_all add: frame_fields_def)
    moreover have "g_reducers (add_spec_edges spec b) = []"
      by (simp add: reducers_add_edges same)
    moreover have "edges_at (add_spec_reducers spec (add_spec_edges spec b)) f = edges_at (add_spec_edges spec b) f" for f
      by (simp add: add_reducers_effect edges_at_def)
    moreover have "edges_at b f = []" for f by (simp add: edges_at_def same)
    ultimately show ?thesis
      using nodes same by (auto simp: b(2) edges_at_spec node_ids_def) (auto simp: add_reducers_effect)
  qed
  ultimately show ?thesis by blast
qed

definition sample_world :: "unit node_world" where
  "sample_world = \<lparr>nw_cancelled = (\<lambda>_. False), nw_render = (\<lambda>_. []), nw_size = (\<lambda>_. 1),
     nw_now = (\<lambda>_. []), nw_llm = (\<lambda>_ v w. (Llm_value v, w)), nw_serde_error = (\<lambda>_. [])\<rparr>"

definition sample_context :: compile_context where
  "sample_context = \<lparr>cc_base_url = ''http://h'', cc_default_model = ''m''\<rparr>"

theorem compiled_graph_is_the_specification_witness:
  "\<exists>g. compile sample_world sample_context two_writers = Inr g
    \<and> edges_at g START = [Normal ''a''] \<and> edges_at g ''a'' = [Normal ''b''] \<and> edges_at g ''b'' = [Normal END]"
proof -
  have "list_all config_parses (gs_nodes two_writers)" by code_simp
  moreover have "gs_entry two_writers = ''a''"
      "filter (\<lambda>e. es_from e = START) (gs_edges two_writers) = []"
      "map (\<lambda>e. Normal (edge_target e) :: unit edge_type) (filter (\<lambda>e. es_from e = ''a'') (gs_edges two_writers)) = [Normal ''b'']"
      "map (\<lambda>e. Normal (edge_target e) :: unit edge_type) (filter (\<lambda>e. es_from e = ''b'') (gs_edges two_writers)) = [Normal END]"
    by (simp_all add: two_writers_def START_def edge_target_def)
  moreover have "''a'' \<noteq> START" "''b'' \<noteq> START" by (simp_all add: START_def)
  ultimately show ?thesis
    using compiled_graph_is_the_specification [OF validate_two_writers, of sample_world sample_context] by auto
qed

text \<open>The configuration of a router may lack what its deserialization requires.\<close>

definition default_only :: graph_spec where
  "default_only = two_writers\<lparr>gs_entry := ''r'',
     gs_nodes := [plain_node ''r'' Type_router (Object [(''default'', Array [String ''END''])])],
     gs_edges := []\<rparr>"

lemma router_without_rules_is_accepted:
  "validate default_only = Inr () \<and> \<not> list_all config_parses (gs_nodes default_only)"
proof -
  have "parse_router_config (Object [(''default'', Array [String ''END''])]) = None" by code_simp
  then have "\<not> list_all config_parses (gs_nodes default_only)"
    by (simp add: default_only_def config_parses_def plain_node_def)
  moreover have "validate default_only = Inr ()" by code_simp
  ultimately show ?thesis by simp
qed

section \<open>Writes\<close>



section \<open>Where the check and the execution differ\<close>

definition edge :: "string \<Rightarrow> string \<Rightarrow> edge_spec" where
  "edge a b = \<lparr>es_from = a, es_to = b\<rparr>"

definition writer_node :: "string \<Rightarrow> node_spec" where
  "writer_node i = plain_node i Type_state_transform (Object [(''operations'', Array [set_op ''k''])])"

definition pass_node :: "string \<Rightarrow> node_spec" where
  "pass_node i = plain_node i Type_passthrough (Object [])"

text \<open>\<open>c\<close> is behind \<open>b\<close>, and also directly behind \<open>r\<close>.\<close>

definition two_ways :: graph_spec where
  "two_ways = two_writers\<lparr>gs_entry := ''r'',
     gs_nodes := [pass_node ''r'', writer_node ''b'', writer_node ''c''],
     gs_edges := [edge ''r'' ''b'', edge ''r'' ''c'', edge ''b'' ''c'', edge ''c'' ''END'']\<rparr>"

definition two_models :: graph_spec where
  "two_models = two_writers\<lparr>gs_entry := ''r'',
     gs_nodes := [pass_node ''r'', plain_node ''x'' Type_llm (Object []), plain_node ''y'' Type_llm (Object [])],
     gs_edges := [edge ''r'' ''x'', edge ''r'' ''y'', edge ''x'' ''END'', edge ''y'' ''END'']\<rparr>"

lemma validate_plain_llm: "validate_node ids (plain_node i Type_llm (Object [])) = Inr ()"
  by (simp add: validate_node_def validate_llm_def plain_node_def u64_at_def reject_if_def)

lemma validate_two_models: "validate two_models = Inr ()"
proof -
  have "valid_id ''g'' \<and> valid_id ''r'' \<and> valid_id ''x'' \<and> valid_id ''y''" by code_simp
  moreover have "validate_state_write_conflicts two_models = Inr ()" by code_simp
  moreover have "validate_node ids (pass_node ''r'') = Inr ()" for ids
    by (simp add: validate_node_def pass_node_def plain_node_def)
  ultimately show ?thesis
    using validate_plain_llm
    by (simp add: validate_def two_models_def two_writers_def MAX_NODES_def MAX_EDGES_def MAX_ITERATIONS_def
        node_ids_def Let_def pass_node_def edge_def plain_node_def bind_result_Inr_iff)
qed

text \<open>
  The check of write conflicts does not keep two writers of a key without a reducer from
  running in the same superstep: it takes any order by edges for an order in time, although
  a node that is reached by ways of different length runs in several supersteps; and it does
  not see that LLM nodes without an output key all write the input key.
\<close>

theorem accepted_writers_can_share_a_superstep:
  "validate two_ways = Inr () \<and> gs_reducers two_ways = []
   \<and> frontier_at two_ways [gs_entry two_ways] 1 = [''b'', ''c'']
   \<and> map (\<lambda>n. (ns_id n, write_keys n)) (gs_nodes two_ways) = [(''r'', []), (''b'', [''k'']), (''c'', [''k''])]
   \<and> validate two_models = Inr () \<and> gs_reducers two_models = []
   \<and> frontier_at two_models [gs_entry two_models] 1 = [''x'', ''y'']
   \<and> map (\<lambda>n. (ns_type n, write_keys n, ln_output_key (llm_node_of cx n))) (tl (gs_nodes two_models))
     = [(Type_llm, [], ''__input__''), (Type_llm, [], ''__input__'')]"
proof -
  have "validate two_ways = Inr ()" by code_simp
  note this validate_two_models
  moreover have "frontier_at two_ways [gs_entry two_ways] 1 = [''b'', ''c'']"
      "frontier_at two_models [gs_entry two_models] 1 = [''x'', ''y'']" by code_simp+
  moreover have "gs_reducers two_ways = []" "gs_reducers two_models = []"
    by (simp_all add: two_ways_def two_models_def two_writers_def)
  moreover have "map (\<lambda>n. (ns_id n, write_keys n)) (gs_nodes two_ways) = [(''r'', []), (''b'', [''k'']), (''c'', [''k''])]"
    by (simp add: two_ways_def pass_node_def writer_node_def plain_node_def write_keys_def items_at_def
        array_at_def str_at_def set_op_def List.map_filter_def)
  moreover have "map (\<lambda>n. (ns_type n, write_keys n, ln_output_key (llm_node_of cx n))) (tl (gs_nodes two_models))
      = [(Type_llm, [], ''__input__''), (Type_llm, [], ''__input__'')]"
    by (simp add: two_models_def pass_node_def plain_node_def llm_node_of_def str_at_def write_keys_def nonempty_at_def)
  ultimately show ?thesis by (intro conjI)
qed

lemma branch_has_node:
  assumes "possible_result run s0 r"
  shows "map_of (g_nodes (r_graph run)) (fst r) \<noteq> None"
  using assms by (auto simp: possible_result_def run_branch_def Let_def split: option.splits prod.splits)

lemma superstep_needs_every_node:
  assumes "execute_superstep run current x = (Inr next_nodes, x')" and "name \<in> set current"
  shows "map_of (g_nodes (r_graph run)) name \<noteq> None"
proof (cases "\<exists>n. current = [n]")
  case True
  then show ?thesis
    using assms by (auto simp: execute_superstep_def exec_then_Inr execute_single_node_def Let_def split: option.splits)
next
  case False
  then have "execute_parallel run current x = (Inr next_nodes, x')"
    using assms(1) by (auto simp: execute_superstep_def split: list.splits)
  then obtain results x1 where r: "run_branches run current x = (Inr results, x1)"
    by (auto simp: execute_parallel_def exec_then_Inr Let_def)
  have "name \<in> set (map fst results)"
    using run_branches_results(1) [OF r] assms(2) by (metis set_mset_mset)
  then show ?thesis
    using run_branches_results(2) [OF r] branch_has_node by (fastforce simp: list_all_iff)
qed

text \<open>
  A rule of a router may name END next to other targets, and the specification is
  accepted. When such a rule is the one that matches, the run fails: the targets are passed
  on as they are, END among them is not the engine's end but the name of a node that does
  not exist, and a superstep over them is an error whatever the other targets do.
\<close>

theorem end_among_router_targets_fails:
  assumes "validate spec = Inr ()" and "compile nw cx spec = Inr g" and "''END'' \<notin> set (node_ids spec)"
    and "1 < length targets" and "''END'' \<in> set targets" and "r_graph run = g"
  shows "resolve_output run name (Node_command \<lparr>cmd_update = u, cmd_goto = goto_of targets\<rparr>) x = (Inr targets, x)
    \<and> ''END'' \<noteq> END
    \<and> isl (fst (execute_superstep run (filter (\<lambda>n. n \<noteq> END) targets) x))"
proof -
  note wf = validate_Inr [OF assms(1)]
  obtain b where b: "try_fold (add_spec_node nw cx) (gs_nodes spec) (start_builder spec) = Inr b"
      "g = add_spec_reducers spec (add_spec_edges spec b)"
    using compile_Inr [OF assms(2)] .
  have "''END'' \<notin> ns_id ` set (gs_nodes spec)" using assms(3) by (simp add: node_ids_def)
  then have "map_of (g_nodes b) ''END'' = None"
    using add_spec_nodes_effect [OF b(1) wf(1) [unfolded node_ids_def]] by simp
  then have none: "map_of (g_nodes (r_graph run)) ''END'' = None"
    using arg_cong [OF frame_add_edges, of g_nodes spec b] assms(6)
    by (simp add: b(2) add_reducers_effect frame_fields_def)
  have goto: "goto_of targets = Goto_nodes targets" using assms(4,5) by (auto simp: goto_of_def)
  have ne: "''END'' \<noteq> END" by (simp add: END_def)
  have "isl (fst (execute_superstep run (filter (\<lambda>n. n \<noteq> END) targets) x))"
    using superstep_needs_every_node [of run "filter (\<lambda>n. n \<noteq> END) targets" x _ _ "''END''"] none ne assms(5)
    by (cases "execute_superstep run (filter (\<lambda>n. n \<noteq> END) targets) x"; cases "fst (execute_superstep run (filter (\<lambda>n. n \<noteq> END) targets) x)") auto
  then show ?thesis using goto ne by (simp add: resolve_output_def)
qed

definition forking_router :: graph_spec where
  "forking_router = two_writers\<lparr>gs_entry := ''r'',
     gs_nodes := [plain_node ''r'' Type_router (Object
         [(''default'', Array [String ''a'']), (''rules'', Array [Object [(''op'', String ''exists''),
            (''path'', String ''k''), (''targets'', Array [String ''a'', String ''END''])]])]),
       pass_node ''a''],
     gs_edges := [edge ''a'' ''END'']\<rparr>"

theorem end_among_router_targets_fails_witness:
  "\<exists>g. compile sample_world sample_context forking_router = Inr g
    \<and> (\<forall>run x. isl (fst (execute_superstep (run\<lparr>r_graph := g\<rparr>) [''a'', ''END''] x)))"
proof -
  have valid: "validate forking_router = Inr ()" by code_simp
  have "parse_router_config (Object
         [(''default'', Array [String ''a'']), (''rules'', Array [Object [(''op'', String ''exists''),
            (''path'', String ''k''), (''targets'', Array [String ''a'', String ''END''])]])]) =
      Some \<lparr>rc_rules = [\<lparr>rl_path = ''k'', rl_op = ''exists'', rl_value = Null, rl_targets = [''a'', ''END'']\<rparr>],
        rc_default = [''a'']\<rparr>"
    by code_simp
  then have "list_all config_parses (gs_nodes forking_router)"
    by (simp add: forking_router_def config_parses_def plain_node_def pass_node_def)
  then obtain g where g: "compile sample_world sample_context forking_router = Inr g"
    using accepted_compiles_iff [OF valid, of sample_world sample_context] by blast
  have ids: "''END'' \<notin> set (node_ids forking_router)"
    by (simp add: forking_router_def node_ids_def plain_node_def pass_node_def)
  have "isl (fst (execute_superstep (run\<lparr>r_graph := g\<rparr>) [''a'', ''END''] x))" for run x
    using end_among_router_targets_fails [OF valid g ids, of "[''a'', ''END'']" "run\<lparr>r_graph := g\<rparr>"]
    by (simp add: END_def)
  then show ?thesis using g by blast
qed

end
