(* ===== verification/Registry_Laws.thy ===== *)
theory Registry_Laws
  imports Run_Execution
begin

text \<open>
  The laws of the run registry: every operation as a label with its effect, histories of
  operations, and the invariants of every history: the registry is well-formed and within
  its retention limit, and the execution slots are within the limit of concurrent runs.
\<close>

section \<open>Operations and histories\<close>

datatype registry_op =
    Do_allocate nat string string "value" "run_budgets option"
  | Do_allocate_resumed nat string string string "value" "value" "run_budgets option" string string "value option"
  | Do_admit string
  | Do_reserve
  | Do_release
  | Do_admit_reserved string
  | Do_cancel string
  | Do_remove string
  | Do_mark_checkpointed string string string
  | Do_mark_persistence string string "string option"
  | Do_set_state string string "value"
  | Do_begin string
  | Do_settle string string graph_spec run_record budget_counters execution_end
  | Do_fail string string

record surroundings =
  su_crypto :: crypto
  su_json_len :: "value \<Rightarrow> nat"
  su_event_json :: "graph_event \<Rightarrow> value"
  su_store :: "witness_lookup option"

fun run_op :: "surroundings \<Rightarrow> registry_op \<Rightarrow> run_registry \<Rightarrow> run_registry" where
  "run_op su (Do_allocate ms gi gv v b) g = snd (allocate_with_budgets ms gi gv v b g)"
| "run_op su (Do_allocate_resumed ms i gi gv v st b cp d a) g =
     snd (allocate_resumed ms i gi gv v st b cp d a g)"
| "run_op su (Do_admit i) g = snd (admit_async i g)"
| "run_op su Do_reserve g = snd (reserve_async_slot g)"
| "run_op su Do_release g = release_async_slot g"
| "run_op su (Do_admit_reserved i) g = snd (admit_reserved_async i g)"
| "run_op su (Do_cancel i) g = snd (cancel_run i g)"
| "run_op su (Do_remove i) g = snd (remove_run i g)"
| "run_op su (Do_mark_checkpointed i cp d) g = snd (mark_checkpointed i cp d g)"
| "run_op su (Do_mark_persistence i s e) g = mark_persistence (su_crypto su) i s e g"
| "run_op su (Do_set_state i k v) g = snd (set_state_value i k v g)"
| "run_op su (Do_begin i) g = snd (begin_execution i g)"
| "run_op su (Do_settle url model spec started initial x) g =
     snd (settle_execution (su_crypto su) (su_json_len su) (su_event_json su) url model (su_store su)
       spec started initial x g)"
| "run_op su (Do_fail i e) g = fail_execution i e g"

definition history :: "surroundings \<Rightarrow> registry_op list \<Rightarrow> run_registry \<Rightarrow> run_registry" where
  "history su ops g = fold (run_op su) ops g"

lemma history_simps [simp]:
  "history su [] g = g" "history su (op # ops) g = history su ops (run_op su op g)"
  by (simp_all add: history_def)

text \<open>The identifier whose record an operation registers anew or removes.\<close>

fun replaces :: "registry_op \<Rightarrow> run_registry \<Rightarrow> string option" where
  "replaces (Do_allocate ms gi gv v b) g = Some (''run-'' @ show_hex ms @ ''-'' @ show_hex (rg_counter g))"
| "replaces (Do_allocate_resumed ms i gi gv v st b cp d a) g = Some i"
| "replaces (Do_remove i) g = Some i"
| "replaces _ g = None"

section \<open>Invariants\<close>

definition is_running :: "run_record \<Rightarrow> bool" where
  "is_running r \<longleftrightarrow> rr_status r = ''running''"

definition registry_ok :: "run_registry \<Rightarrow> bool" where
  "registry_ok g \<longleftrightarrow> hm_wf (rg_runs g) \<and> fst ` set (rg_runs g) = set (rg_order g)
     \<and> length (rg_order g) \<le> MAX_RUNS \<and> (\<forall>(i, r) \<in> set (rg_runs g). rr_run_id r = i)"

definition slots_ok :: "run_registry \<Rightarrow> bool" where
  "slots_ok g \<longleftrightarrow> active_runs g + rg_reserved g \<le> MAX_ACTIVE_RUNS"

lemma registry_ok_empty: "registry_ok empty_registry" "slots_ok empty_registry"
  by (simp_all add: registry_ok_def slots_ok_def empty_registry_def active_runs_def MAX_RUNS_def)

lemma registry_okD:
  assumes "registry_ok g" and "map_of (rg_runs g) i = Some r"
  shows "rr_run_id r = i" "i \<in> set (rg_order g)"
proof -
  have "(i, r) \<in> set (rg_runs g)" using assms(2) by (rule map_of_SomeD)
  moreover have "i \<in> fst ` set (rg_runs g)"
    using image_eqI [OF _ calculation, of i fst] by simp
  ultimately show "rr_run_id r = i" "i \<in> set (rg_order g)"
    using assms(1) unfolding registry_ok_def by blast+
qed

section \<open>Counting the running records\<close>

definition running_count :: "(string \<times> run_record) list \<Rightarrow> nat" where
  "running_count m = length (filter (\<lambda>(_, r). is_running r) m)"

lemma active_runs_count: "active_runs g = running_count (rg_runs g)"
  by (simp add: active_runs_def running_count_def is_running_def)

lemma running_count_simps [simp]:
  "running_count [] = 0"
  "running_count ((i, r) # m) = of_bool (is_running r) + running_count m"
  by (simp_all add: running_count_def)

lemma running_count_update:
  "map_of m i = Some r \<Longrightarrow>
   running_count (AList.update i r' m) + of_bool (is_running r) = running_count m + of_bool (is_running r')"
  by (induction m) (auto split: if_splits)

lemma running_count_put: "running_count (AList.update i r' m) \<le> running_count m + of_bool (is_running r')"
  by (induction m) auto

lemma running_count_put_le: "running_count (AList.update i r' m) \<le> running_count m + 1"
  by (rule le_trans [OF running_count_put]) simp

lemma running_count_delete: "running_count (AList.delete i m) \<le> running_count m"
  by (induction m) (auto simp: AList.delete_eq)

section \<open>Updates of a record\<close>

definition set_record :: "string \<Rightarrow> run_record \<Rightarrow> run_registry \<Rightarrow> run_registry" where
  "set_record i r g = g\<lparr>rg_runs := AList.update i r (rg_runs g)\<rparr>"

lemma set_record_ok:
  assumes "registry_ok g" and "map_of (rg_runs g) i = Some r" and "rr_run_id r' = rr_run_id r"
  shows "registry_ok (set_record i r' g)"
proof -
  have "i \<in> fst ` set (rg_runs g)" using map_of_SomeD [OF assms(2)] by force
  moreover have "rr_run_id r' = i" using registry_okD [OF assms(1,2)] assms(3) by simp
  moreover have "set (AList.update i r' (rg_runs g)) \<subseteq> insert (i, r') (set (rg_runs g))"
    by (rule set_update_subset)
  ultimately show ?thesis
    using assms(1) by (auto simp: registry_ok_def set_record_def dom_update insert_absorb)
qed

lemma set_status_ok:
  "registry_ok g \<Longrightarrow> map_of (rg_runs g) i = Some r \<Longrightarrow>
   registry_ok (set_record i (r\<lparr>rr_status := s\<rparr>) g)"
  by (rule set_record_ok) simp_all

lemma set_record_slots:
  assumes "slots_ok g" and "map_of (rg_runs g) i = Some r" and "is_running r' \<Longrightarrow> is_running r"
  shows "slots_ok (set_record i r' g)"
  using assms running_count_update [OF assms(2), of r']
  by (cases "is_running r"; cases "is_running r'") (auto simp: slots_ok_def active_runs_count set_record_def)

lemma set_record_registered [simp]:
  "map_of (rg_runs (set_record i r g)) j = (if j = i then Some r else map_of (rg_runs g) j)"
  by (simp add: set_record_def)

text \<open>
  An operation that changes a registered record at most: nothing is registered or removed,
  identifiers stay, the reserved slots stay, and what is running was running before.
\<close>

inductive touches :: "run_registry \<Rightarrow> run_registry \<Rightarrow> bool" where
  touch_none: "touches g g"
| touch_one: "map_of (rg_runs g) i = Some r \<Longrightarrow> rr_run_id r' = rr_run_id r \<Longrightarrow>
    (is_running r' \<Longrightarrow> is_running r) \<Longrightarrow> touches g (set_record i r' g)"

lemma touches_ok: "touches g g' \<Longrightarrow> registry_ok g \<Longrightarrow> registry_ok g'"
  by (induction rule: touches.induct) (auto intro: set_record_ok)

lemma touches_slots: "touches g g' \<Longrightarrow> slots_ok g \<Longrightarrow> slots_ok g'"
  by (induction rule: touches.induct) (auto intro: set_record_slots)

lemma touches_registered:
  "touches g g' \<Longrightarrow> map_of (rg_runs g) i = Some r \<Longrightarrow> \<exists>r'. map_of (rg_runs g') i = Some r'"
  by (induction rule: touches.induct) auto

lemma touches_update_record:
  assumes "\<And>r. rr_run_id (f r) = rr_run_id r" and "\<And>r. is_running (f r) \<Longrightarrow> is_running r"
  shows "touches g (snd (update_record i f g))"
proof (cases "map_of (rg_runs g) i")
  case None
  then show ?thesis by (simp add: update_record_def touch_none)
next
  case (Some r)
  then have "snd (update_record i f g) = set_record i (f r) g"
    by (simp add: update_record_def set_record_def)
  then show ?thesis using Some assms by (simp add: touch_one)
qed

section \<open>Every operation keeps the invariants\<close>

lemma push_event_fields [simp]:
  "rr_run_id (push_event e r) = rr_run_id r" "rr_status (push_event e r) = rr_status r"
  by (simp_all add: push_event_def Let_def)

lemma push_events_fields [simp]:
  "rr_run_id (fold push_event es r) = rr_run_id r" "rr_status (fold push_event es r) = rr_status r"
  by (induction es arbitrary: r) simp_all

lemma settle_record_fields [simp]:
  "rr_run_id (settle_record cr ej spec started initial e rc gv x r) = rr_run_id r"
  "\<not> is_running (settle_record cr ej spec started initial e rc gv x r)"
  by (simp_all add: settle_record_def terminal_outcome_def is_running_def Let_def)

lemma touches_settle: "touches g (snd (settle_execution cr len ej url model store spec started initial x g))"
proof -
  have "touches g (set_record i (settle_record cr ej spec started initial e rc gv x now) g)"
    if "map_of (rg_runs g) i = Some now" for i e rc gv now
    using that by (rule touch_one) simp_all
  then show ?thesis
    by (auto simp: settle_execution_def Let_def get_run_def set_record_def touch_none
        bind_result_Inr_iff split: sum.splits option.splits)
qed

lemma touches_cancel: "touches g (snd (cancel_run i g))"
  by (auto simp: cancel_run_def touch_none is_running_def
      intro!: touch_one [unfolded set_record_def] split: option.splits)

lemma admit_cases:
  obtains (refused) e where "admit i g = (Inl e, g)"
  | (admitted) r where "map_of (rg_runs g) i = Some r" "rr_status r = ''accepted''"
      "admit i g = (Inr (), set_record i (r\<lparr>rr_status := ''running''\<rparr>) g)"
proof (cases "map_of (rg_runs g) i")
  case None
  then show ?thesis using refused by (simp add: admit_def)
next
  case (Some r)
  then show ?thesis
    using refused admitted
    by (cases "rr_status r = ''accepted''") (simp_all add: admit_def set_record_def)
qed

lemma begin_execution_effect:
  "snd (begin_execution i g) = (case map_of (rg_runs g) i of
     None \<Rightarrow> g | Some r \<Rightarrow> set_record i (r\<lparr>rr_status := ''running''\<rparr>) g)"
  by (auto simp: begin_execution_def update_record_def set_record_def split: option.splits)

lemma put_record_ok:
  assumes "registry_ok g" and "length (rg_order g) < MAX_RUNS"
  shows "registry_ok (put_record r g)"
  using assms set_update_subset [of "rr_run_id r" r "rg_runs g"]
  by (auto simp: registry_ok_def put_record_def dom_update)

lemma keys_delete: "fst ` set (AList.delete i m) = fst ` set m - {i}"
  using arg_cong [OF AList.delete_keys [of i m], of set] by simp

lemma evict_ok:
  assumes "registry_ok g"
  shows "registry_ok (evict i g)"
proof -
  have "set (AList.delete i (rg_runs g)) \<subseteq> set (rg_runs g)"
    by (auto simp: AList.delete_eq)
  moreover have "length (filter (\<lambda>j. j \<noteq> i) (rg_order g)) \<le> MAX_RUNS"
    using assms by (auto simp: registry_ok_def intro: le_trans [OF length_filter_le])
  ultimately show ?thesis
    using assms by (auto simp: registry_ok_def evict_def keys_delete)
qed

lemma evict_shorter: "i \<in> set (rg_order g) \<Longrightarrow> length (rg_order (evict i g)) < length (rg_order g)"
  by (auto simp: evict_def intro: length_filter_less)

lemma oldest_terminal_Some:
  "oldest_terminal g = Some i \<Longrightarrow> i \<in> set (rg_order g)
     \<and> (\<exists>r. map_of (rg_runs g) i = Some r \<and> terminal_status (rr_status r))"
  by (auto simp: oldest_terminal_def find_Some_iff split: option.splits)

lemma insert_record_cases:
  obtains (full) e where "insert_record r g = (Inl e, g)" "length (rg_order g) = MAX_RUNS"
  | (evicted) old t where "insert_record r g = (Inr (rr_run_id r), put_record r (evict old g))"
      "old \<in> set (rg_order g)" "map_of (rg_runs g) old = Some t" "terminal_status (rr_status t)"
  | (room) "insert_record r g = (Inr (rr_run_id r), put_record r g)" "length (rg_order g) \<noteq> MAX_RUNS"
proof (cases "length (rg_order g) = MAX_RUNS")
  case True
  then show ?thesis
    using full evicted oldest_terminal_Some [of g]
    by (cases "oldest_terminal g") (auto simp: insert_record_def)
next
  case False
  then show ?thesis using room by (simp add: insert_record_def)
qed

lemma insert_record_ok:
  assumes "registry_ok g"
  shows "registry_ok (snd (insert_record r g))"
proof (cases rule: insert_record_cases [of r g])
  case (evicted old t)
  have "length (rg_order (evict old g)) < MAX_RUNS"
    using evict_shorter [OF evicted(2)] assms by (simp add: registry_ok_def)
  then show ?thesis using put_record_ok [OF evict_ok [OF assms]] evicted(1) by simp
next
  case room
  then show ?thesis using put_record_ok [OF assms] assms by (simp add: registry_ok_def)
qed (simp add: assms)

lemma evict_slots: "slots_ok g \<Longrightarrow> slots_ok (evict i g)"
  using running_count_delete [of i "rg_runs g"] by (simp add: slots_ok_def active_runs_count evict_def)

lemma put_record_slots: "slots_ok g \<Longrightarrow> \<not> is_running r \<Longrightarrow> slots_ok (put_record r g)"
  using running_count_put [of "rr_run_id r" r "rg_runs g"]
  by (simp add: slots_ok_def active_runs_count put_record_def)

lemma insert_record_slots: "slots_ok g \<Longrightarrow> \<not> is_running r \<Longrightarrow> slots_ok (snd (insert_record r g))"
  by (cases rule: insert_record_cases [of r g]) (simp_all add: evict_slots put_record_slots)

lemma insert_record_keeps:
  assumes "map_of (rg_runs g) i = Some r" and "\<not> terminal_status (rr_status r)" and "i \<noteq> rr_run_id new"
  shows "map_of (rg_runs (snd (insert_record new g))) i = Some r"
  using assms by (cases rule: insert_record_cases [of new g]) (auto simp: put_record_def evict_def)

lemma not_running_accepted [simp]: "\<not> is_running (accepted_record i t gi gv v b)"
  by (simp add: is_running_def accepted_record_def)

lemma not_running_resumed [simp]:
  "\<not> is_running ((accepted_record i t gi gv v b)\<lparr>rr_state := st, rr_checkpoint_id := c,
     rr_checkpoint_digest := d, rr_approval := a, rr_resumed := u\<rparr>)"
  by (simp add: is_running_def accepted_record_def)

lemma counter_irrelevant [simp]:
  "registry_ok (g\<lparr>rg_counter := n\<rparr>) = registry_ok g" "slots_ok (g\<lparr>rg_counter := n\<rparr>) = slots_ok g"
  "registry_ok (g\<lparr>rg_reserved := n\<rparr>) = registry_ok g"
  by (simp_all add: registry_ok_def slots_ok_def active_runs_def)

text \<open>What an operation does, apart from the slots: it registers, removes, or touches.\<close>

lemma admit_effect:
  "snd (admit i g) = g \<or> (\<exists>r. map_of (rg_runs g) i = Some r \<and> rr_status r = ''accepted''
     \<and> snd (admit i g) = set_record i (r\<lparr>rr_status := ''running''\<rparr>) g)"
  by (cases rule: admit_cases [of i g]) auto

lemma admit_ok: "registry_ok g \<Longrightarrow> registry_ok (snd (admit i g))"
  using admit_effect [of i g] by (auto intro: set_status_ok)

lemma admit_registered:
  "map_of (rg_runs g) j = Some r \<Longrightarrow> \<exists>r'. map_of (rg_runs (snd (admit i g))) j = Some r'"
  using admit_effect [of i g] by auto

lemma admit_active: "active_runs (snd (admit i g)) \<le> active_runs g + 1"
  using admit_effect [of i g] running_count_put_le [of i _ "rg_runs g"]
  by (auto simp: active_runs_count set_record_def)

lemma admit_reserved_effect:
  "snd (admit_reserved_async i g) = g \<or> (rg_reserved g \<noteq> 0
     \<and> snd (admit_reserved_async i g) = (snd (admit i g))\<lparr>rg_reserved := rg_reserved g - 1\<rparr>)"
  by (cases rule: admit_cases [of i g]) (auto simp: admit_reserved_async_def set_record_def)

lemma touches_op:
  assumes "op \<in> {Do_cancel i, Do_mark_checkpointed i a b, Do_mark_persistence i a e, Do_set_state i k v,
    Do_settle url model spec started initial x, Do_fail i a}"
  shows "touches g (run_op su op g)"
  using assms touches_cancel touches_settle
  by (auto simp: mark_checkpointed_def mark_persistence_def set_state_value_def fail_execution_def
      is_running_def Let_def intro!: touches_update_record)

lemma run_op_ok: "registry_ok g \<Longrightarrow> registry_ok (run_op su op g)"
proof (cases op)
  case (Do_remove i)
  then show "registry_ok g \<Longrightarrow> registry_ok (run_op su op g)"
    by (auto simp: remove_run_def evict_ok split: option.splits)
next
  case (Do_begin i)
  then show "registry_ok g \<Longrightarrow> registry_ok (run_op su op g)"
    by (auto simp: begin_execution_effect split: option.splits intro: set_status_ok)
next
  case (Do_admit_reserved i)
  then show "registry_ok g \<Longrightarrow> registry_ok (run_op su op g)"
    using admit_reserved_effect [of i g] by (auto simp: admit_ok)
qed (auto simp: allocate_with_budgets_def allocate_resumed_def admit_async_def admit_ok
    reserve_async_slot_def release_async_slot_def Let_def insert_record_ok
    simp del: run_op.simps(7,9,10,11,13,14) intro: touches_ok [OF touches_op])

section \<open>Slots\<close>

text \<open>
  A thread in the background begins a run that has been admitted. A synchronous execution
  begins a run without admission; the limit is one of asynchronous runs only.
\<close>

fun begins_admitted :: "registry_op \<Rightarrow> run_registry \<Rightarrow> bool" where
  "begins_admitted (Do_begin i) g =
     (case map_of (rg_runs g) i of None \<Rightarrow> True | Some r \<Rightarrow> is_running r)"
| "begins_admitted _ g = True"

fun asynchronous :: "surroundings \<Rightarrow> registry_op list \<Rightarrow> run_registry \<Rightarrow> bool" where
  "asynchronous su [] g \<longleftrightarrow> True"
| "asynchronous su (op # ops) g \<longleftrightarrow> begins_admitted op g \<and> asynchronous su ops (run_op su op g)"

lemma touches_begin: "begins_admitted (Do_begin i) g \<Longrightarrow> touches g (snd (begin_execution i g))"
  by (auto simp: begin_execution_effect touch_none split: option.splits intro!: touch_one)

lemma admit_async_slots: "slots_ok g \<Longrightarrow> slots_ok (snd (admit_async i g))"
  using admit_active [of i g] admit_effect [of i g]
  by (auto simp: admit_async_def slots_ok_def set_record_def)

lemma admit_reserved_slots: "slots_ok g \<Longrightarrow> slots_ok (snd (admit_reserved_async i g))"
  using admit_active [of i g] admit_reserved_effect [of i g]
  by (auto simp: slots_ok_def active_runs_def)

lemma run_op_slots:
  assumes "slots_ok g" and "begins_admitted op g"
  shows "slots_ok (run_op su op g)"
proof (cases op)
  case (Do_begin i)
  then show ?thesis using assms touches_slots [OF touches_begin] by simp
next
  case (Do_remove i)
  then show ?thesis using assms by (auto simp: remove_run_def evict_slots split: option.splits)
qed (use assms in \<open>auto simp: allocate_with_budgets_def allocate_resumed_def Let_def
      insert_record_slots admit_async_slots admit_reserved_slots
    simp del: run_op.simps(4,5,7,9,10,11,13,14) intro: touches_slots [OF touches_op]\<close>,
  auto simp: slots_ok_def reserve_async_slot_def release_async_slot_def active_runs_def)

lemma history_ok: "registry_ok g \<Longrightarrow> registry_ok (history su ops g)"
  by (induction ops arbitrary: g) (simp_all add: run_op_ok)

lemma history_slots: "slots_ok g \<Longrightarrow> asynchronous su ops g \<Longrightarrow> slots_ok (history su ops g)"
  by (induction ops arbitrary: g) (simp_all add: run_op_slots)

section \<open>Retention\<close>

lemma run_op_keeps:
  assumes "map_of (rg_runs g) i = Some r" and "\<not> terminal_status (rr_status r)"
    and "replaces op g \<noteq> Some i"
  shows "map_of (rg_runs (run_op su op g)) i \<noteq> None"
proof (cases op)
  case (Do_allocate ms gi gv v b)
  then have "i \<noteq> rr_run_id (accepted_record (''run-'' @ show_hex ms @ ''-'' @ show_hex (rg_counter g)) t gi gv v b)" for t
    using assms(3) by (auto simp: accepted_record_def)
  then show ?thesis
    using Do_allocate insert_record_keeps [of "g\<lparr>rg_counter := n\<rparr>" for n] assms(1,2)
    by (simp add: allocate_with_budgets_def Let_def)
next
  case (Do_allocate_resumed ms j gi gv v st b cp d a)
  then show ?thesis
    using insert_record_keeps [OF assms(1,2)] assms(3)
    by (simp add: allocate_resumed_def accepted_record_def)
next
  case (Do_remove j)
  then show ?thesis
    using assms by (auto simp: remove_run_def evict_def split: option.splits)
next
  case (Do_begin j)
  then show ?thesis using assms by (auto simp: begin_execution_effect split: option.splits)
next
  case (Do_admit_reserved j)
  then show ?thesis
    using admit_reserved_effect [of j g] admit_registered [OF assms(1), of j] assms(1) by auto
qed (use assms in \<open>auto simp: admit_async_def admit_registered reserve_async_slot_def release_async_slot_def
    simp del: run_op.simps(7,9,10,11,13,14) intro: touches_registered [OF touches_op]\<close>)

end
