(* ===== verification/Frame_Transport.thy ===== *)
theory Frame_Transport
  imports Graph_Prelude "HOL-Library.Word"
begin

text \<open>
  \<open>agent-graph-mcp/src/transport.rs\<close>: frames of at most one mebibyte with a big-endian
  length of four bytes, as daemon and proxy exchange them. A byte is an \<open>8 word\<close>, a stream
  the bytes that are still to be read or have been written. A reader gets the bytes in
  order; \<open>read_exact\<close> fails with \<open>UnexpectedEof\<close> when fewer are left, after it has
  consumed them.
\<close>

type_synonym byte = "8 word"

definition MAX_FRAME :: nat where "MAX_FRAME = 1024 * 1024"

datatype frame_error = Frame_io string | Frame_too_large

fun frame_error_text :: "frame_error \<Rightarrow> string" where
  "frame_error_text (Frame_io e) = ''transport io error: '' @ e"
| "frame_error_text Frame_too_large = ''frame exceeds maximum size''"

section \<open>Lengths\<close>

definition to_be_bytes :: "32 word \<Rightarrow> byte list" where
  "to_be_bytes w = [ucast (drop_bit 24 w), ucast (drop_bit 16 w), ucast (drop_bit 8 w), ucast w]"

definition from_be_bytes :: "byte list \<Rightarrow> 32 word" where
  "from_be_bytes bs = fold (\<lambda>b w. push_bit 8 w + ucast b) bs 0"

section \<open>Frames\<close>

definition read_exact :: "nat \<Rightarrow> byte list \<Rightarrow> (frame_error + byte list) \<times> byte list" where
  "read_exact n input =
     (if length input < n then (Inl (Frame_io ''failed to fill whole buffer''), [])
      else (Inr (take n input), drop n input))"

definition read_frame :: "byte list \<Rightarrow> (frame_error + byte list) \<times> byte list" where
  "read_frame input = (case read_exact 4 input of
       (Inl e, rest) \<Rightarrow> (Inl e, rest)
     | (Inr header, rest) \<Rightarrow>
         (let n = unat (from_be_bytes header)
          in if MAX_FRAME < n then (Inl Frame_too_large, rest) else read_exact n rest))"

text \<open>The writer keeps the bytes it is given; its own failures stop the frame.\<close>

definition write_frame :: "byte list \<Rightarrow> byte list \<Rightarrow> (frame_error + unit) \<times> byte list" where
  "write_frame b written =
     (if MAX_FRAME < length b then (Inl Frame_too_large, written)
      else (Inr (), written @ to_be_bytes (of_nat (length b)) @ b))"

text \<open>The asynchronous writer reports the same refusal as an I/O error.\<close>

definition write_frame_async :: "byte list \<Rightarrow> byte list \<Rightarrow> (string + unit) \<times> byte list" where
  "write_frame_async b written =
     (if MAX_FRAME < length b then (Inl ''frame exceeds maximum size'', written)
      else (Inr (), written @ to_be_bytes (of_nat (length b)) @ b))"

section \<open>Round trip\<close>

lemma length_to_be_bytes [simp]: "length (to_be_bytes w) = 4"
  by (simp add: to_be_bytes_def)

lemma from_to_be_bytes: "from_be_bytes (to_be_bytes w) = w"
proof -
  define n where "n = unat w"
  have n: "n < 2 ^ 32" using unsigned_less [of w] by (simp add: n_def)
  have p: "unat (ucast (drop_bit k w) :: byte) = n div 2 ^ k mod 256" for k
    by (simp add: n_def unsigned_ucast_eq unat_drop_bit_eq take_bit_eq_mod drop_bit_eq_div [of k "unat w"])
  have p0: "unat (ucast w :: byte) = n mod 256"
    using p [of 0] by simp
  have up: "unat (ucast b :: 32 word) = unat b" for b :: byte
  proof -
    have "unat b < 2 ^ 8" using unsigned_less [of b] by simp
    then show ?thesis by (simp add: unsigned_ucast_eq take_bit_nat_eq_self)
  qed
  define b3 b2 b1 b0 where "b3 = n div 2 ^ 24 mod 256" and "b2 = n div 2 ^ 16 mod 256"
    and "b1 = n div 2 ^ 8 mod 256" and "b0 = n mod 256"
  have shift: "unat (push_bit 8 v + ucast b :: 32 word) = unat v * 256 + unat b"
    if "unat v < 2 ^ 24" for v :: "32 word" and b :: byte
  proof -
    have b: "unat b < 256" using unsigned_less [of b] by simp
    have "unat (push_bit 8 v) = unat v * 256"
      using that unat_mult_lem [of v 256] by (simp add: push_bit_eq_mult)
    then show ?thesis
      using that b by (simp add: unat_plus_if' up)
  qed
  have lt: "b3 < 256" "b2 < 256" "b1 < 256" "b0 < 256"
    by (simp_all add: b3_def b2_def b1_def b0_def)
  define v1 v2 v3 where "v1 = push_bit 8 (0 :: 32 word) + ucast (ucast (drop_bit 24 w) :: byte)"
    and "v2 = push_bit 8 v1 + ucast (ucast (drop_bit 16 w) :: byte)"
    and "v3 = push_bit 8 v2 + ucast (ucast (drop_bit 8 w) :: byte)"
  have v1: "unat v1 = b3"
    by (simp add: v1_def up p b3_def)
  have v2: "unat v2 = b3 * 256 + b2"
    using shift [of v1] v1 lt by (simp add: v2_def p b2_def)
  have v3: "unat v3 = (b3 * 256 + b2) * 256 + b1"
    using shift [of v2] v2 lt by (simp add: v3_def p b1_def)
  have "unat (push_bit 8 v3 + ucast (ucast w :: byte)) = ((b3 * 256 + b2) * 256 + b1) * 256 + b0"
    using shift [of v3] v3 lt by (simp add: p0 b0_def)
  moreover have "((b3 * 256 + b2) * 256 + b1) * 256 + b0 = n"
  proof -
    have split: "n div 2 ^ k = n div 2 ^ (k + 8) * 256 + n div 2 ^ k mod 256" for k
      using div_mult_mod_eq [of "n div 2 ^ k" 256] by (simp add: power_add div_mult2_eq)
    have "n div 2 ^ 24 = b3" using n by (simp add: b3_def)
    then show ?thesis
      using split [of 0] split [of 8] split [of 16] by (simp add: b2_def b1_def b0_def)
  qed
  moreover have "from_be_bytes (to_be_bytes w) = push_bit 8 v3 + ucast (ucast w :: byte)"
    by (simp add: from_be_bytes_def to_be_bytes_def v1_def v2_def v3_def)
  ultimately show ?thesis by (simp add: word_unat_eq_iff n_def)
qed

section \<open>Sequences of frames\<close>

fun write_frames :: "byte list list \<Rightarrow> byte list \<Rightarrow> byte list" where
  "write_frames [] written = written"
| "write_frames (b # bs) written = write_frames bs (snd (write_frame b written))"

fun read_frames :: "nat \<Rightarrow> byte list \<Rightarrow> (frame_error + byte list) list \<times> byte list" where
  "read_frames 0 input = ([], input)"
| "read_frames (Suc n) input = (case read_frame input of
     (r, rest) \<Rightarrow> (case read_frames n rest of (rs, rest') \<Rightarrow> (r # rs, rest')))"

lemma frame_length: "length b \<le> MAX_FRAME \<Longrightarrow> unat (of_nat (length b) :: 32 word) = length b"
  by (simp add: MAX_FRAME_def unsigned_of_nat take_bit_nat_eq_self)

lemma read_header: "length h = 4 \<Longrightarrow> read_exact 4 (h @ rest) = (Inr h, rest)"
  by (simp add: read_exact_def)

lemma read_written: "length b \<le> MAX_FRAME \<Longrightarrow>
   read_frame (to_be_bytes (of_nat (length b)) @ b @ rest) = (Inr b, rest)"
  by (simp add: read_frame_def read_header from_to_be_bytes frame_length read_exact_def)

lemma write_frames_append:
  "list_all (\<lambda>b. length b \<le> MAX_FRAME) bs \<Longrightarrow>
   write_frames bs written = written @ concat (map (\<lambda>b. to_be_bytes (of_nat (length b)) @ b) bs)"
  by (induction bs arbitrary: written) (simp_all add: write_frame_def)

lemma read_frames_concat:
  "list_all (\<lambda>b. length b \<le> MAX_FRAME) bs \<Longrightarrow>
   read_frames (length bs) (concat (map (\<lambda>b. to_be_bytes (of_nat (length b)) @ b) bs) @ rest) = (map Inr bs, rest)"
  by (induction bs) (simp_all add: read_written)

lemma read_truncated:
  assumes "length b \<le> MAX_FRAME" and "k < 4 + length b"
  shows "fst (read_frame (take k (to_be_bytes (of_nat (length b)) @ b))) =
    Inl (Frame_io ''failed to fill whole buffer'')"
proof (cases "k < 4")
  case True
  then show ?thesis by (simp add: read_frame_def read_exact_def)
next
  case False
  then have "take k (to_be_bytes (of_nat (length b)) @ b) = to_be_bytes (of_nat (length b)) @ take (k - 4) b"
    by simp
  moreover have "length (take (k - 4) b) < length b" using assms(2) False by simp
  ultimately show ?thesis
    using assms(1)
    by (simp add: read_frame_def read_header from_to_be_bytes frame_length)
      (simp add: read_exact_def)
qed

lemma read_oversized:
  "length h = 4 \<Longrightarrow> MAX_FRAME < unat (from_be_bytes h) \<Longrightarrow> read_frame (h @ rest) = (Inl Frame_too_large, rest)"
  by (simp add: read_frame_def read_header)

end
