(* ===== verification/Template_Promotion.thy ===== *)
theory Template_Promotion
  imports Evidence
begin

text \<open>
  \<open>agent-graph-mcp/src/promotion.rs\<close>: the promotion of a template from a candidate to an
  approved one. Outcomes are advisory; a promotion needs an authenticated operator's
  receipt whose nonce has never been used. The set of used nonces is a global of the
  process: it is passed along with the store.
\<close>

datatype candidate_state = Legacy_unverified | Candidate | Quarantined | Approved | Revoked

fun candidate_text :: "candidate_state \<Rightarrow> string" where
  "candidate_text Legacy_unverified = ''legacy_unverified''"
| "candidate_text Candidate = ''candidate''"
| "candidate_text Quarantined = ''quarantined''"
| "candidate_text Approved = ''approved''"
| "candidate_text Revoked = ''revoked''"

fun can_transition :: "candidate_state \<Rightarrow> candidate_state \<Rightarrow> bool" where
  "can_transition Legacy_unverified t \<longleftrightarrow> t = Quarantined"
| "can_transition Candidate t \<longleftrightarrow> t \<in> set [Candidate, Quarantined, Approved]"
| "can_transition Approved t \<longleftrightarrow> t \<in> set [Approved, Quarantined, Revoked]"
| "can_transition Quarantined t \<longleftrightarrow> t = Candidate"
| "can_transition Revoked t \<longleftrightarrow> False"

record template_outcome =
  to_template_id :: string
  to_run_id :: string
  to_terminal_receipt_id :: string
  to_receipt_digest :: string
  to_disposition :: string
  to_evidence_digest :: string

record operator_receipt =
  or_operator_id :: string
  or_nonce :: string
  or_authenticated :: bool

datatype promotion_error =
    Unauthorized | Authorization_replayed | Not_found | Invalid_transition | Not_eligible
  | Receipt_mismatch string | Non_terminal

record promotion_store =
  ps_template_id :: string
  ps_spec_digest :: string
  ps_graph_id :: string
  ps_graph_version :: string
  ps_state :: candidate_state
  ps_outcomes :: "template_outcome list"
  ps_decisions :: "string list"

definition new_promotion_store :: "string \<Rightarrow> string \<Rightarrow> string \<Rightarrow> string \<Rightarrow> promotion_store" where
  "new_promotion_store template_id spec_digest graph_id graph_version =
     \<lparr>ps_template_id = template_id, ps_spec_digest = spec_digest, ps_graph_id = graph_id,
      ps_graph_version = graph_version, ps_state = Candidate, ps_outcomes = [], ps_decisions = []\<rparr>"

text \<open>\<open>eq_ignore_ascii_case\<close> with a lower-case text.\<close>

definition disposition_in :: "string list \<Rightarrow> template_outcome \<Rightarrow> bool" where
  "disposition_in texts t \<longleftrightarrow> to_lower (to_disposition t) \<in> set texts"

definition add_outcome ::
    "template_outcome \<Rightarrow> promotion_store \<Rightarrow> (promotion_error + unit) \<times> promotion_store" where
  "add_outcome t p =
     (if to_template_id t \<noteq> ps_template_id p then (Inl (Receipt_mismatch ''template_id''), p)
      else if list_ex (\<lambda>x. to_run_id x = to_run_id t) (ps_outcomes p) then (Inr (), p)
      else (Inr (), p\<lparr>
        ps_state := (if disposition_in [''bad'', ''failed'', ''contradicted''] t
          then Quarantined else ps_state p),
        ps_outcomes := ps_outcomes p @ [t]\<rparr>))"

definition good_outcomes :: "promotion_store \<Rightarrow> nat" where
  "good_outcomes p = length (filter (disposition_in [''good'', ''supported'']) (ps_outcomes p))"

definition eligible :: "promotion_store \<Rightarrow> bool" where
  "eligible p \<longleftrightarrow> ps_state p = Candidate \<and> 3 \<le> good_outcomes p"

text \<open>The nonces come first: they are used up even when the promotion is refused afterwards.\<close>

definition promote_template ::
    "operator_receipt \<Rightarrow> string list \<Rightarrow> promotion_store
      \<Rightarrow> (promotion_error + unit) \<times> string list \<times> promotion_store" where
  "promote_template r nonces p =
     (if \<not> or_authenticated r \<or> \<not> starts_with (or_operator_id r) ''operator:''
      then (Inl Unauthorized, nonces, p)
      else if or_nonce r \<in> set nonces then (Inl Authorization_replayed, nonces, p)
      else let nonces' = or_nonce r # nonces in
        if \<not> eligible p then (Inl Not_eligible, nonces', p)
        else if \<not> can_transition (ps_state p) Approved then (Inl Invalid_transition, nonces', p)
        else (Inr (), nonces', p\<lparr>ps_state := Approved, ps_decisions := ps_decisions p @ [or_nonce r]\<rparr>))"

record canonical_receipt =
  cn_run_id :: string
  cn_receipt_digest :: string
  cn_graph_id :: string
  cn_graph_version :: string
  cn_template_id :: string
  cn_spec_digest :: string

definition verify_canonical_receipt ::
    "canonical_receipt \<Rightarrow> canonical_receipt \<Rightarrow> bool \<Rightarrow> promotion_error + unit" where
  "verify_canonical_receipt claimed actual terminal =
     bind_result (try_fold
       (\<lambda>(name, field) _. if field claimed \<noteq> field actual then Inl (Receipt_mismatch name) else Inr ())
       [(''run_id'', cn_run_id), (''receipt_digest'', cn_receipt_digest),
        (''graph_id'', cn_graph_id), (''graph_version'', cn_graph_version),
        (''template_id'', cn_template_id), (''spec_digest'', cn_spec_digest)] ())
       (\<lambda>_. if \<not> terminal then Inl Non_terminal else Inr ())"

definition outcome_line :: "template_outcome \<Rightarrow> string" where
  "outcome_line t = join_with '':'' [to_template_id t, to_run_id t, to_terminal_receipt_id t,
     to_receipt_digest t, to_disposition t, to_evidence_digest t] @ [char_of (10 :: nat)]"

definition evidence_digest :: "crypto \<Rightarrow> template_outcome list \<Rightarrow> string" where
  "evidence_digest cr outcomes = hex_of (sha256 cr (concat (map outcome_line outcomes)))"

section \<open>Steps of a store\<close>

text \<open>What the server can do to the stores and the nonces of a process.\<close>

inductive promotion_step ::
    "string list \<times> promotion_store \<Rightarrow> string list \<times> promotion_store \<Rightarrow> bool" where
  step_outcome: "add_outcome t p = (r, p') \<Longrightarrow> promotion_step (nonces, p) (nonces, p')"
| step_promote: "promote_template receipt nonces p = (r, nonces', p') \<Longrightarrow>
    promotion_step (nonces, p) (nonces', p')"
| step_elsewhere: "set nonces \<subseteq> set nonces' \<Longrightarrow> promotion_step (nonces, p) (nonces', p)"

inductive_simps promotion_step_iff: "promotion_step (nonces, p) (nonces', p')"

definition promotion_ok :: "string list \<times> promotion_store \<Rightarrow> bool" where
  "promotion_ok s \<longleftrightarrow> (case s of (nonces, p) \<Rightarrow>
     set (ps_decisions p) \<subseteq> set nonces \<and> distinct (ps_decisions p)
     \<and> distinct (map to_run_id (ps_outcomes p))
     \<and> (\<forall>t \<in> set (ps_outcomes p). to_template_id t = ps_template_id p)
     \<and> (ps_state p = Approved \<longrightarrow> 3 \<le> good_outcomes p \<and> ps_decisions p \<noteq> [])
     \<and> ps_state p \<in> {Candidate, Quarantined, Approved}
     \<and> (list_ex (disposition_in [''bad'', ''failed'', ''contradicted'']) (ps_outcomes p)
        \<longrightarrow> ps_state p = Quarantined))"

lemma promotion_ok_start: "promotion_ok ([], new_promotion_store i d g v)"
  by (simp add: promotion_ok_def new_promotion_store_def)

lemma good_outcomes_add:
  "good_outcomes (p\<lparr>ps_state := c, ps_outcomes := ps_outcomes p @ [t]\<rparr>) =
   good_outcomes p + (if disposition_in [''good'', ''supported''] t then 1 else 0)"
  by (simp add: good_outcomes_def)

lemma promotion_ok_outcome:
  assumes "promotion_ok (nonces, p)"
  shows "promotion_ok (nonces, snd (add_outcome t p))"
proof (cases "to_template_id t \<noteq> ps_template_id p \<or> list_ex (\<lambda>x. to_run_id x = to_run_id t) (ps_outcomes p)")
  case True
  then show ?thesis using assms by (auto simp: add_outcome_def)
next
  case False
  define bad where "bad = disposition_in [''bad'', ''failed'', ''contradicted'']"
  have new: "snd (add_outcome t p) = p\<lparr>ps_state := (if bad t then Quarantined else ps_state p),
      ps_outcomes := ps_outcomes p @ [t]\<rparr>"
    using False by (simp add: add_outcome_def bad_def)
  have "to_run_id t \<notin> to_run_id ` set (ps_outcomes p)"
    using False by (auto simp: list_ex_iff)
  then show ?thesis
    using assms False
    unfolding new promotion_ok_def bad_def [symmetric] by (auto simp: good_outcomes_add)
qed

lemma promotion_ok_promote:
  assumes "promotion_ok (nonces, p)" and "promote_template receipt nonces p = (r, nonces', p')"
  shows "promotion_ok (nonces', p')"
proof (cases "ps_state p' = ps_state p")
  case True
  then have "p' = p" "set nonces \<subseteq> set nonces'"
    using assms(2)
    by (auto simp: promote_template_def Let_def eligible_def split: if_splits)
  then show ?thesis using assms(1) by (auto simp: promotion_ok_def)
next
  case False
  then have "p' = p\<lparr>ps_state := Approved, ps_decisions := ps_decisions p @ [or_nonce receipt]\<rparr>"
      "nonces' = or_nonce receipt # nonces" "or_nonce receipt \<notin> set nonces" "eligible p"
    using assms(2) by (auto simp: promote_template_def Let_def split: if_splits)
  then show ?thesis
    using assms(1) by (auto simp: promotion_ok_def eligible_def good_outcomes_def)
qed

lemma promotion_ok_step:
  assumes "promotion_step s s'" and "promotion_ok s"
  shows "promotion_ok s'"
  using assms(1)
proof (cases rule: promotion_step.cases)
  case (step_outcome t p r p' nonces)
  then show ?thesis
    using assms(2) promotion_ok_outcome [of nonces p t] by simp
next
  case (step_promote receipt nonces p r nonces' p')
  then show ?thesis
    using assms(2) promotion_ok_promote by blast
next
  case (step_elsewhere nonces nonces' p)
  then show ?thesis
    using assms(2) by (auto simp: promotion_ok_def)
qed

lemma promotion_ok_reachable:
  "promotion_step\<^sup>*\<^sup>* s s' \<Longrightarrow> promotion_ok s \<Longrightarrow> promotion_ok s'"
  by (induction rule: rtranclp_induct) (auto intro: promotion_ok_step)

end
