(* ===== verification/Server_Properties.thy ===== *)
theory Server_Properties
  imports Registry_Laws Event_Laws Frame_Transport Template_Promotion
begin

text \<open>
  The properties of the server's registry of runs, of the executions it starts, of its
  frames and of the promotion of templates, with concrete instances.
\<close>

section \<open>Concrete surroundings\<close>

definition plain_crypto :: crypto where
  "plain_crypto = \<lparr>sha256 = (\<lambda>s. take 32 s), json_text = (\<lambda>v. case v of String s \<Rightarrow> s | _ \<Rightarrow> ''{}'')\<rparr>"

definition plain_surroundings :: surroundings where
  "plain_surroundings = \<lparr>su_crypto = plain_crypto, su_json_len = (\<lambda>_. 2), su_event_json = (\<lambda>_. Null),
     su_store = None\<rparr>"

definition zero_counters :: budget_counters where
  "zero_counters = \<lparr>bc_nodes = 0, bc_llm_calls = 0, bc_wall_clock_ms = 0\<rparr>"

definition one_node :: graph_spec where
  "one_node = \<lparr>gs_spec_version = ''2'', gs_name = ''one'', gs_entry = ''a'', gs_output_key = None,
     gs_nodes = [\<lparr>ns_id = ''a'', ns_type = Type_passthrough, ns_prompt = None, ns_model = None,
       ns_json_mode = False, ns_evidence_required = False, ns_max_tokens = None, ns_routes = None,
       ns_config = Object []\<rparr>],
     gs_edges = [\<lparr>es_from = ''a'', es_to = ''a''\<rparr>], gs_max_iterations = None,
     gs_max_parallelism = None, gs_reducers = []\<rparr>"

section \<open>The registry\<close>

text \<open>
  C21: After any history of operations the registry of runs has one record per identifier,
  lists exactly the registered ones, and at most 100; when every execution that begins has
  been admitted, at most 8 runs are executing or have a slot reserved; and no further
  operation drops a run that is not finished, unless it removes or registers that very run.
\<close>

theorem registry_keeps_its_bounds:
  assumes "g = history su ops empty_registry"
  shows "distinct (map fst (rg_runs g)) \<and> fst ` set (rg_runs g) = set (rg_order g)
    \<and> length (rg_order g) \<le> 100 \<and> (\<forall>(i, r) \<in> set (rg_runs g). rr_run_id r = i)
    \<and> (asynchronous su ops empty_registry \<longrightarrow> active_runs g + rg_reserved g \<le> 8)
    \<and> (\<forall>op i r. map_of (rg_runs g) i = Some r \<and> \<not> terminal_status (rr_status r)
        \<and> replaces op g \<noteq> Some i \<longrightarrow> map_of (rg_runs (run_op su op g)) i \<noteq> None)"
proof -
  have "registry_ok g" unfolding assms by (rule history_ok [OF registry_ok_empty(1)])
  moreover have "asynchronous su ops empty_registry \<Longrightarrow> slots_ok g"
    unfolding assms by (rule history_slots [OF registry_ok_empty(2)])
  ultimately show ?thesis
    using run_op_keeps [of g]
    by (simp add: registry_ok_def slots_ok_def hm_wf_def MAX_RUNS_def MAX_ACTIVE_RUNS_def) blast
qed

definition sample_ops :: "registry_op list" where
  "sample_ops = [Do_allocate_resumed 10 ''r'' ''g'' ''v'' Null (Object []) None ''c'' ''d'' None,
     Do_reserve, Do_admit_reserved ''r'', Do_begin ''r'']"

lemmas sample_ops_simps = sample_ops_def allocate_resumed_def insert_record_def put_record_def
  empty_registry_def reserve_async_slot_def admit_reserved_async_def admit_def
  begin_execution_effect set_record_def MAX_RUNS_def MAX_ACTIVE_RUNS_def active_runs_def
  accepted_record_def is_running_def

theorem registry_keeps_its_bounds_witness:
  "active_runs (history plain_surroundings sample_ops empty_registry)
     + rg_reserved (history plain_surroundings sample_ops empty_registry) \<le> 8
   \<and> asynchronous plain_surroundings sample_ops empty_registry
   \<and> active_runs (history plain_surroundings sample_ops empty_registry) = 1
   \<and> map_of (rg_runs (run_op plain_surroundings (Do_cancel ''r'')
        (history plain_surroundings sample_ops empty_registry))) ''r'' \<noteq> None"
proof -
  have a: "asynchronous plain_surroundings sample_ops empty_registry"
      "active_runs (history plain_surroundings sample_ops empty_registry) = 1"
    by (simp_all add: sample_ops_simps)
  have "map_option rr_status (map_of (rg_runs (history plain_surroundings sample_ops empty_registry)) ''r'')
      = Some ''running''"
    by (simp add: sample_ops_simps)
  then obtain r where "map_of (rg_runs (history plain_surroundings sample_ops empty_registry)) ''r'' = Some r"
      "\<not> terminal_status (rr_status r)"
    by (auto simp: terminal_status_def)
  then show ?thesis
    using registry_keeps_its_bounds [OF refl, of plain_surroundings sample_ops] a
    by (auto simp del: run_op.simps)
qed

section \<open>Events\<close>

text \<open>
  C37: Once n events have been pushed to a new run, its window holds the last 512 of them,
  numbered without a gap, and the number of the dropped ones is n - 512. A query answers
  with at most 200 of the events from the given cursor on, in order, secrets redacted; the
  cursor it gives for the next query is n, the end of the window, so that the next query
  has no events even when the page did not reach the end.
\<close>

theorem event_pages_show_the_window:
  assumes "no_events r0" and "length es < 2 ^ 64" and "r = fold push_event es r0"
    and "get_run i g = Some r"
  shows "rr_dropped_events r = length es - 512
    \<and> rr_events r = map (\<lambda>k. event_entry k (es ! k)) [length es - 512 ..< length es]
    \<and> event_page r c limit = map (\<lambda>k. event_entry k (es ! k))
        [max c (length es - 512) ..< min (length es) (max c (length es - 512) + min limit 200)]
    \<and> list_all (\<lambda>v. \<not> discloses v) (event_page r c limit)
    \<and> (\<exists>answer. run_events stored i c limit g = Inr answer
        \<and> array_at answer ''events'' = Some (event_page r c limit)
        \<and> u64_at answer ''next_cursor'' = Some (length es))
    \<and> event_page r (length es) limit' = []"
proof -
  note w = window_of_pushes [OF assms(1), of es, folded assms(3), unfolded MAX_EVENTS_def]
  have page: "event_page r c limit = map (\<lambda>k. event_entry k (es ! k))
      [max c (length es - 512) ..< min (length es) (max c (length es - 512) + min limit 200)]" for c limit
    using page_of_entries [of "length es" c "(!) es"] assms(2) w
    by (simp add: event_page_def take_map take_upt_min)
  have "\<not> discloses (event_entry k e)" for k e
  proof -
    have "\<not> secret_key ''cursor''" "\<not> secret_key ''event''" by code_simp+
    then show ?thesis
      by (simp add: event_entry_def json_object_def json_u64_def redact_discloses_nothing)
  qed
  moreover have "event_page r (length es) limit' = []"
    by (simp add: page)
  moreover have "\<exists>answer. run_events stored i c limit g = Inr answer
      \<and> array_at answer ''events'' = Some (event_page r c limit)
      \<and> u64_at answer ''next_cursor'' = Some (length es)"
    using assms(2,4) w
    by (simp add: run_events_def array_at_def u64_at_def get_key_json_object json_u64_def
        unsigned_of_nat take_bit_nat_eq_self)
  ultimately show ?thesis using w page by (auto simp: list_all_iff)
qed

definition sample_run :: run_record where
  "sample_run = accepted_record ''run-1'' ''trace-1'' ''g'' ''v'' Null None"

theorem event_pages_show_the_window_witness:
  "event_page (fold push_event (replicate 201 (Bool True)) sample_run) 0 500 =
     map (\<lambda>k. event_entry k (replicate 201 (Bool True) ! k)) [0..<200]
   \<and> event_page (fold push_event (replicate 201 (Bool True)) sample_run) 201 500 = []"
proof -
  have new: "no_events sample_run" by (simp add: sample_run_def no_events_accepted)
  have "get_run ''run-1'' (empty_registry\<lparr>rg_runs := [(''run-1'', r)]\<rparr>) = Some r" for r
    by (simp add: get_run_def)
  from event_pages_show_the_window [OF new _ refl this, of "replicate 201 (Bool True)" 0 500 "Inr None" 500]
  show ?thesis by simp
qed

section \<open>Budgets\<close>

lemma frontier_widths_mono: "j \<le> k \<Longrightarrow> frontier_widths spec f j \<le> frontier_widths spec f k"
  by (induction k) (auto simp: frontier_widths_def le_Suc_eq)

lemma budget_iteration_limit_bounds:
  assumes "1 \<le> limit" and "gs_entry spec \<noteq> ''END''" and "b = budget_iteration_limit spec limit"
    and "m = or_else (gs_max_iterations spec) 64"
  shows "frontier_widths spec [gs_entry spec] b \<le> limit \<and> b \<le> max 1 m
    \<and> (b = max 1 m \<or> frontier_at spec [gs_entry spec] b = []
       \<or> limit < frontier_widths spec [gs_entry spec] (Suc b))"
proof -
  have one: "frontier_widths spec [gs_entry spec] (Suc 0) = 1"
    using assms(2) by (simp add: frontier_widths_def)
  obtain k where k: "k \<le> m" "budget_loop spec limit m 0 0 [gs_entry spec] = k"
      "frontier_widths spec [gs_entry spec] k \<le> limit"
      "k = m \<or> frontier_at spec [gs_entry spec] k = []
        \<or> limit < frontier_widths spec [gs_entry spec] (Suc k)"
    using budget_loop_count [of m spec limit 0 0 "[gs_entry spec]"] by auto
  show ?thesis
  proof (cases "k = 0")
    case True
    then have "m = 0" using k(4) one assms(1,2) by simp
    then show ?thesis
      using assms(1,3,4) k(2) one by (simp add: budget_iteration_limit_def)
  next
    case False
    then show ?thesis
      using k assms(3,4) by (auto simp: budget_iteration_limit_def)
  qed
qed

text \<open>
  C38: When a run has a budget of nodes that is not used up, the recursion limit it is
  executed with admits only supersteps whose frontiers along the edges, together with the
  nodes already counted, stay within the budget; and the limit is not smaller than needed:
  it is the graph's own limit, or the frontier after it is empty, or does not fit.
\<close>

theorem node_budget_bounds_the_frontiers:
  assumes "rr_budgets r = Some budgets" and "max_nodes budgets = Some limit"
    and "bc_nodes initial < limit" and "gs_entry spec \<noteq> ''END''"
    and "b = cfg_recursion_limit (execution_config spec r initial)"
  shows "bc_nodes initial + frontier_widths spec [gs_entry spec] b \<le> limit
    \<and> b \<le> base_limit spec
    \<and> (b = base_limit spec \<or> frontier_at spec [gs_entry spec] b = []
       \<or> limit < bc_nodes initial + frontier_widths spec [gs_entry spec] (Suc b))"
proof -
  define c where "c = budget_iteration_limit spec (limit - bc_nodes initial)"
  have b: "b = min c (base_limit spec)"
    using assms by (simp add: execution_config_def node_budget_limit_def with_max_parallelism_def
        with_recursion_limit_def c_def)
  have bounds: "frontier_widths spec [gs_entry spec] c \<le> limit - bc_nodes initial"
      "base_limit spec \<le> c \<or> frontier_at spec [gs_entry spec] c = []
        \<or> limit - bc_nodes initial < frontier_widths spec [gs_entry spec] (Suc c)"
    using budget_iteration_limit_bounds [OF _ assms(4) c_def base_limit_def] assms(3) by auto
  have "frontier_widths spec [gs_entry spec] b \<le> limit - bc_nodes initial"
    using bounds(1) frontier_widths_mono [of b c] b by (meson le_trans min.cobounded1)
  then show ?thesis using bounds(2) b assms(3) by (auto simp: min_def)
qed

theorem node_budget_bounds_the_frontiers_witness:
  "bc_nodes (rr_budget_counters sample_run) + frontier_widths one_node [''a'']
     (cfg_recursion_limit (execution_config one_node
        (sample_run\<lparr>rr_budgets := Some (no_budgets\<lparr>max_nodes := Some 3\<rparr>)\<rparr>)
        (rr_budget_counters sample_run))) \<le> 3"
  using node_budget_bounds_the_frontiers [OF _ _ _ _ refl,
      of "sample_run\<lparr>rr_budgets := Some (no_budgets\<lparr>max_nodes := Some 3\<rparr>)\<rparr>"
        "no_budgets\<lparr>max_nodes := Some 3\<rparr>" 3 "rr_budget_counters sample_run" one_node]
  by (simp add: sample_run_def accepted_record_def one_node_def)

section \<open>Frames\<close>

text \<open>
  C39: A sequence of frames of at most a mebibyte each is read back as it was written, to
  the last byte; a frame that is cut short is refused, never delivered in part; a larger
  frame is refused by the writer, which writes nothing, and its announcement by the reader.
\<close>

theorem written_frames_are_read_back:
  shows "(list_all (\<lambda>b. length b \<le> 1048576) frames \<longrightarrow>
      read_frames (length frames) (write_frames frames [] @ rest) = (map Inr frames, rest))
    \<and> (length b \<le> 1048576 \<and> k < 4 + length b \<longrightarrow>
      fst (read_frame (take k (snd (write_frame b [])))) = Inl (Frame_io ''failed to fill whole buffer''))
    \<and> (1048576 < length b \<longrightarrow> write_frame b written = (Inl Frame_too_large, written)
        \<and> isl (fst (write_frame_async b written)) \<and> snd (write_frame_async b written) = written)
    \<and> (length h = 4 \<and> 1048576 < unat (from_be_bytes h) \<longrightarrow>
      read_frame (h @ rest) = (Inl Frame_too_large, rest))"
proof -
  have m: "MAX_FRAME = 1048576" by (simp add: MAX_FRAME_def)
  show ?thesis
    using read_frames_concat [of frames rest, unfolded m] write_frames_append [of frames "[]", unfolded m]
      read_truncated [of b k, unfolded m] read_oversized [of h rest, unfolded m]
    by (simp add: write_frame_def write_frame_async_def m)
qed

theorem written_frames_are_read_back_witness:
  "read_frames 2 (write_frames [[1, 2], []] [] @ [7]) = ([Inr [1, 2], Inr []], [7])
   \<and> fst (read_frame (take 5 (snd (write_frame [1, 2] [])))) = Inl (Frame_io ''failed to fill whole buffer'')
   \<and> read_frame ([1, 0, 0, 0] @ [9]) = (Inl Frame_too_large, [9])"
proof -
  have "1048576 < unat (from_be_bytes [1, 0, 0, 0])" by (simp add: from_be_bytes_def)
  then show ?thesis
    using written_frames_are_read_back [of "[[1, 2], []]" "[7]" "[1, 2]" 5 "[]" "[1, 0, 0, 0]"]
      written_frames_are_read_back [of "[]" "[9]" "[]" 0 "[]" "[1, 0, 0, 0]"]
    by (simp add: numeral_2_eq_2)
qed

section \<open>Promotion\<close>

text \<open>
  C35: However outcomes and promotions follow each other, and whatever happens to the other
  templates: a template that is approved has three good outcomes of different runs and a
  decision, each decision used up a nonce of its own, outcomes are those of the template,
  and a single bad outcome keeps the template in quarantine for good.
\<close>

theorem approval_needs_outcomes_and_a_fresh_nonce:
  assumes "promotion_step\<^sup>*\<^sup>* ([], new_promotion_store i d v w) (nonces, p)"
  shows "(ps_state p = Approved \<longrightarrow> 3 \<le> good_outcomes p \<and> ps_decisions p \<noteq> [])
    \<and> distinct (ps_decisions p) \<and> set (ps_decisions p) \<subseteq> set nonces
    \<and> distinct (map to_run_id (ps_outcomes p))
    \<and> (\<forall>t \<in> set (ps_outcomes p). to_template_id t = ps_template_id p)
    \<and> (list_ex (disposition_in [''bad'', ''failed'', ''contradicted'']) (ps_outcomes p)
        \<longrightarrow> ps_state p = Quarantined \<and> isl (fst (promote_template receipt nonces p)))"
proof -
  have "promotion_ok (nonces, p)"
    using promotion_ok_reachable [OF assms promotion_ok_start] .
  then show ?thesis
    by (auto simp: promotion_ok_def promote_template_def eligible_def Let_def)
qed

definition outcome_of :: "string \<Rightarrow> string \<Rightarrow> template_outcome" where
  "outcome_of run d = \<lparr>to_template_id = ''t'', to_run_id = run, to_terminal_receipt_id = ''r'',
     to_receipt_digest = ''d'', to_disposition = d, to_evidence_digest = ''e''\<rparr>"

theorem approval_needs_outcomes_and_a_fresh_nonce_witness:
  "ps_state (snd (add_outcome (outcome_of ''1'' ''Failed'') (new_promotion_store ''t'' ''d'' ''g'' ''v''))) = Quarantined
   \<and> list_ex (disposition_in [''bad'', ''failed'', ''contradicted''])
       (ps_outcomes (snd (add_outcome (outcome_of ''1'' ''Failed'') (new_promotion_store ''t'' ''d'' ''g'' ''v''))))"
proof -
  define p where "p = snd (add_outcome (outcome_of ''1'' ''Failed'') (new_promotion_store ''t'' ''d'' ''g'' ''v''))"
  have "promotion_step ([], new_promotion_store ''t'' ''d'' ''g'' ''v'') ([], p)"
    unfolding p_def by (rule step_outcome [OF prod.collapse [symmetric]])
  then have "promotion_step\<^sup>*\<^sup>* ([], new_promotion_store ''t'' ''d'' ''g'' ''v'') ([], p)" by blast
  moreover have "list_ex (disposition_in [''bad'', ''failed'', ''contradicted'']) (ps_outcomes p)"
    unfolding p_def by code_simp
  ultimately show ?thesis
    using approval_needs_outcomes_and_a_fresh_nonce by (fold p_def) blast
qed

section \<open>Executions\<close>

text \<open>
  C22: When an execution is settled, the caller gets the public form of the record that the
  registry now has, and its integrity bundle verifies. The run is reported as completed
  exactly if it was not cancelled, no budget was exhausted, the engine returned no error and
  the evidence was accepted; then every node that requires evidence left in the state
  evidence whose witnesses were found in the store. Success is reported for completed runs only.
\<close>

theorem settled_run_completed_iff:
  assumes "settle_execution cr len ej url model store spec started initial x g = (Inr v, g')"
    and "get_run (rr_run_id started) g = Some now"
  shows "\<exists>r. get_run (rr_run_id started) g' = Some r \<and> v = public_value r
    \<and> get_key (verify cr (rr_bundle r)) ''verified'' = Some (Bool True)
    \<and> rr_status r \<in> {''completed'', ''failed'', ''cancelled''}
    \<and> rr_success r = Some (rr_status r = ''completed'')
    \<and> (rr_status r = ''completed'' \<longleftrightarrow> \<not> rr_cancelled now
        \<and> budget_exhausted spec started initial x = None \<and> xe_result x = Inr ()
        \<and> fst (evidence_outcome cr store spec x) = None)
    \<and> (rr_status r = ''cancelled'' \<longleftrightarrow> rr_cancelled now)
    \<and> (rr_status r = ''completed'' \<longrightarrow> (\<forall>n \<in> set (gs_nodes spec). ns_evidence_required n \<longrightarrow>
        (\<exists>get_witness. store = Some get_witness \<and> evidence_checked cr get_witness (exported_value x) n)))"
proof -
  define error where "error = reported_error cr store spec started initial x"
  define reported where "reported = (if rr_cancelled now then None else error)"
  obtain receipt gv where r: "get_run (rr_run_id started) g' =
        Some (settle_record cr ej spec started initial error receipt gv x now)"
      "v = public_value (settle_record cr ej spec started initial error receipt gv x now)"
    using assms by (auto simp: settle_execution_def Let_def get_run_def error_def bind_result_Inr_iff
        split: sum.splits)
  define settled where "settled = settle_record cr ej spec started initial error receipt gv x now"
  note fields = settled_fields [OF settled_def reported_def]
  have none: "error = None \<longleftrightarrow> budget_exhausted spec started initial x = None
      \<and> fst (evidence_outcome cr store spec x) = None \<and> xe_result x = Inr ()"
    by (auto simp: error_def reported_error_def first_reason_def split: sum.splits)
  have "get_key (verify cr (rr_bundle settled)) ''verified'' = Some (Bool True)"
    unfolding fields by (rule bundle_verifies)
  moreover have "rr_status settled = (if rr_cancelled now then ''cancelled''
      else if error = None then ''completed'' else ''failed'')"
      "rr_success settled = Some (\<not> rr_cancelled now \<and> error = None)"
    by (simp_all add: fields terminal_outcome_def reported_def)
  ultimately show ?thesis
    using r none evidence_accepted unfolding settled_def [symmetric]
    by (intro exI [of _ settled]) auto
qed

definition sample_end :: execution_end where
  "sample_end = \<lparr>xe_result = Inr (), xe_state = [(''__input__'', Null)], xe_events = [],
     xe_timed_out = False, xe_elapsed_ms = 5\<rparr>"

theorem settled_run_completed_iff_witness:
  "\<exists>v g' r. settle_execution plain_crypto (\<lambda>_. 2) (\<lambda>_. Null) ''http://h'' ''m'' None one_node sample_run
      zero_counters sample_end (put_record sample_run empty_registry) = (Inr v, g')
    \<and> get_run ''run-1'' g' = Some r \<and> v = public_value r \<and> rr_status r = ''completed''"
proof -
  have id: "rr_run_id sample_run = ''run-1''" "\<not> rr_cancelled sample_run"
    by (simp_all add: sample_run_def accepted_record_def)
  have now: "get_run (rr_run_id sample_run) (put_record sample_run empty_registry) = Some sample_run"
    by (simp add: get_run_def put_record_def)
  have "budget_exhausted one_node sample_run zero_counters sample_end = None"
    by (simp add: budget_exhausted_def wall_exhausted_def nodes_exhausted_def sample_run_def
        accepted_record_def Let_def)
  moreover have "xe_result sample_end = Inr ()" "fst (evidence_outcome plain_crypto None one_node sample_end) = None"
    by (simp_all add: sample_end_def evidence_outcome_def one_node_def)
  moreover obtain v g' where s: "settle_execution plain_crypto (\<lambda>_. 2) (\<lambda>_. Null) ''http://h'' ''m'' None one_node
      sample_run zero_counters sample_end (put_record sample_run empty_registry) = (Inr v, g')"
    using now by (simp add: settle_execution_def ensure_size_def reject_if_def MAX_STATE_BYTES_def
        MAX_OUTPUT_BYTES_def Let_def)
  ultimately show ?thesis
    using settled_run_completed_iff [OF s now] id by auto
qed

end
