(* ===== verification/Access_Policy.thy ===== *)
theory Access_Policy
  imports Graph_Spec
begin

text \<open>
  The small decision modules of the server: \<open>lifecycle.rs\<close> (what a stored status means),
  \<open>auth.rs\<close> (capabilities), \<open>operator_auth.rs\<close> (the window in which an operator's
  authorization counts), \<open>policy.rs\<close> (the advisory preflight) and \<open>safety.rs\<close> (pattern
  classifiers for commands and paths).
\<close>

section \<open>Lifecycle\<close>

datatype lifecycle =
    Life_accepted | Life_running | Life_completed | Life_failed | Life_cancelled | Life_interrupted

definition classify :: "string \<Rightarrow> lifecycle" where
  "classify status =
     (if status = ''accepted'' then Life_accepted
      else if status = ''running'' then Life_running
      else if status = ''completed'' then Life_completed
      else if status = ''failed'' then Life_failed
      else if status = ''cancelled'' then Life_cancelled
      else if status \<in> set [''interrupted'', ''interrupted_non_resumable'', ''interrupted_resumable'']
      then Life_interrupted
      else Life_failed)"

fun life_is_terminal :: "lifecycle \<Rightarrow> bool" where
  "life_is_terminal Life_accepted = False"
| "life_is_terminal Life_running = False"
| "life_is_terminal l = True"

record timeout_disposition =
  completion_unknown :: bool
  cancellation_requested :: bool

definition synchronous_timeout :: timeout_disposition where
  "synchronous_timeout = \<lparr>completion_unknown = True, cancellation_requested = True\<rparr>"

section \<open>Capabilities\<close>

datatype capability =
    Graph_read | Graph_create | Graph_run | Graph_cancel | Witness_capture | Witness_read
  | Checkpoint_request | Checkpoint_read | Approval_decide | Graph_delete | Database_migration
  | Config_install

datatype principal = Model_client | Stdio_proxy | Daemon | Local_operator

record capability_policy =
  cap_principal :: principal
  cap_capabilities :: "capability list"

definition model_policy :: capability_policy where
  "model_policy = \<lparr>cap_principal = Model_client,
     cap_capabilities = [Graph_read, Graph_create, Graph_run, Graph_cancel, Witness_capture,
       Witness_read, Checkpoint_request, Checkpoint_read]\<rparr>"

definition allows :: "capability_policy \<Rightarrow> capability \<Rightarrow> bool" where
  "allows p c \<longleftrightarrow> c \<in> set (cap_capabilities p)"

definition require :: "capability_policy \<Rightarrow> capability \<Rightarrow> string + unit" where
  "require p c = (if allows p c then Inr () else Inl ''FORBIDDEN'')"

section \<open>Operator authorizations\<close>

datatype operator_action = Op_approve | Op_reject | Op_delete_graph | Op_promote_template | Op_migrate | Op_install

record authenticated_operator =
  ao_uid :: nat
  ao_gid :: nat
  ao_action :: operator_action
  ao_resource_kind :: string
  ao_resource_id :: string
  ao_expected_state_digest :: string
  ao_nonce :: string
  ao_issued_at :: int
  ao_expires_at :: int

definition validate_window :: "authenticated_operator \<Rightarrow> int \<Rightarrow> string + unit" where
  "validate_window op now =
     (if ao_nonce op = [] then Inl ''AUTHORIZATION_NONCE_REQUIRED''
      else if ao_expires_at op \<le> ao_issued_at op \<or> ao_expires_at op \<le> now
      then Inl ''AUTHORIZATION_EXPIRED''
      else if now < ao_issued_at op then Inl ''AUTHORIZATION_NOT_YET_VALID''
      else Inr ())"

section \<open>Preflight\<close>

record policy_finding =
  pf_code :: string
  pf_detail :: string

record policy_report =
  pr_substantive :: bool
  pr_findings :: "policy_finding list"

definition finding_if :: "bool \<Rightarrow> string \<Rightarrow> string \<Rightarrow> policy_finding list" where
  "finding_if b code detail = (if b then [\<lparr>pf_code = code, pf_detail = detail\<rparr>] else [])"

definition node_findings :: "node_spec \<Rightarrow> policy_finding list" where
  "node_findings n =
     (case executable_node_type (ns_type n) of
        Inl e \<Rightarrow> [\<lparr>pf_code = ''UNSUPPORTED_NODE_TYPE'', pf_detail = e\<rparr>] | Inr _ \<Rightarrow> [])
     @ finding_if (ns_evidence_required n) ''WITNESS_REQUIREMENT'' (ns_id n)"

definition preflight :: "graph_spec \<Rightarrow> string \<Rightarrow> policy_report" where
  "preflight spec provider = \<lparr>pr_substantive = True, pr_findings =
     finding_if (gs_spec_version spec \<noteq> ''2'') ''GRAPH_VERSION_UNSUPPORTED'' (gs_spec_version spec)
     @ finding_if (MAX_ITERATIONS < or_else (gs_max_iterations spec) MAX_ITERATIONS)
         ''BUDGET_EXCEEDED'' ''max_iterations''
     @ finding_if (blank provider) ''PROVIDER_DESTINATION_MISSING'' ''provider destination is empty''
     @ finding_if (list_ex (\<lambda>n. MAX_OUTPUT_BYTES < or_else (ns_max_tokens n) 0) (gs_nodes spec))
         ''OUTPUT_BUDGET_EXCEEDED'' ''max_tokens''
     @ concat (map node_findings (gs_nodes spec))\<rparr>"

section \<open>Safety classes\<close>

datatype safety_class = Safe | Destructive string | Sensitive_file string

definition destructive_checks :: "(string \<times> string) list" where
  "destructive_checks =
     [(''rm -rf'', ''rm -rf (recursive force delete)''),
      (''rm -r '', ''rm -r (recursive delete)''),
      (''--no-preserve-root'', ''rm with --no-preserve-root''),
      (''rmdir'', ''rmdir (directory deletion)''),
      (''drop table'', ''DROP statement (data loss)''),
      (''drop database'', ''DROP statement (data loss)''),
      (''drop schema'', ''DROP statement (data loss)''),
      (''truncate table'', ''TRUNCATE TABLE (data loss)''),
      (''mkfs'', ''mkfs (filesystem creation)''),
      (''git push --force'', ''git push --force (history rewrite)''),
      (''git push -f '', ''git push --force (history rewrite)''),
      (''git reset --hard'', ''git reset --hard (uncommitted changes lost)''),
      (''git clean -fd'', ''git clean -fd (untracked files deleted)'')]"

definition sensitive_checks :: "(string \<times> string) list" where
  "sensitive_checks =
     [(''.env'', ''.env file (may contain secrets)''), (''credentials'', ''credentials file''),
      (''.ssh/'', ''SSH directory''), (''package-lock.json'', ''package-lock.json (lockfile)''),
      (''yarn.lock'', ''yarn.lock (lockfile)''), (''poetry.lock'', ''poetry.lock (lockfile)''),
      (''cargo.lock'', ''Cargo.lock (lockfile)'')]"

definition first_match :: "(string \<times> string) list \<Rightarrow> string \<Rightarrow> string option" where
  "first_match checks text = map_option snd (find (\<lambda>(pattern, _). contains_str (to_lower text) pattern) checks)"

definition classify_command :: "string \<Rightarrow> safety_class" where
  "classify_command command = (case first_match destructive_checks command of
     None \<Rightarrow> Safe | Some desc \<Rightarrow> Destructive desc)"

definition classify_path :: "string \<Rightarrow> safety_class" where
  "classify_path path = (case first_match sensitive_checks path of
     None \<Rightarrow> Safe | Some desc \<Rightarrow> Sensitive_file desc)"

section \<open>Laws\<close>

text \<open>An upper-case spelling cannot evade a classifier.\<close>

lemma lower_char_lower: "lower_char (lower_char c) = lower_char c"
  by (auto simp: lower_char_def)

lemma to_lower_to_lower: "to_lower (to_lower s) = to_lower s"
  by (simp add: to_lower_def lower_char_lower)

lemma classify_command_Safe:
  "classify_command c = Safe \<longleftrightarrow> (\<forall>(p, _) \<in> set destructive_checks. \<not> (\<exists>u v. to_lower c = u @ p @ v))"
proof -
  have "classify_command c = Safe \<longleftrightarrow>
      find (\<lambda>(pattern, _). contains_str (to_lower c) pattern) destructive_checks = None"
    by (auto simp: classify_command_def first_match_def split: option.splits)
  then show ?thesis by (auto simp: find_None_iff contains_str_iff)
qed

end
