(* ===== verification/Store_Tables.thy ===== *)
theory Store_Tables
  imports Evidence
begin

text \<open>
  The database behind \<open>agent-graph-mcp/src/store.rs\<close>: its tables as lists of rows with the
  columns that a statement of the store reads or writes, the statements as functions on the
  tables, and the transactions. SQLite checks the primary keys, the unique columns and the
  foreign keys that the schema of \<open>migrate\<close> declares. Any statement can also fail for a
  reason of its own (disk, lock, I/O): a connection has a schedule of faults, one entry for
  each statement to come, and no entry is no fault. A statement that fails has no effect;
  a transaction that is dropped without a commit is rolled back.
\<close>

section \<open>Rows\<close>

record graph_row =
  gt_name :: string
  gt_spec_json :: string
  gt_topology_hash :: string
  gt_created_at :: string
  gt_updated_at :: string

record version_row =
  vt_graph_name :: string
  vt_topology_hash :: string
  vt_spec_json :: string
  vt_created_at :: string

record execution_row =
  xt_run_id :: string
  xt_graph_name :: string
  xt_graph_hash :: string
  xt_status :: string
  xt_input_json :: "string option"
  xt_budgets_json :: "string option"
  xt_final_state_json :: "string option"
  xt_started_at :: string
  xt_finished_at :: "string option"
  xt_total_nodes :: int
  xt_failed_attempts :: int

record checkpoint_row =
  kt_run_id :: string
  kt_node_id :: string
  kt_attempt :: nat
  kt_input_json :: "string option"
  kt_output_json :: "string option"
  kt_status :: string
  kt_error :: "string option"
  kt_checkpoint_id :: "string option"
  kt_graph_id :: "string option"
  kt_graph_version :: "string option"
  kt_next_cursor :: "string option"
  kt_state_json :: "string option"
  kt_state_digest :: "string option"
  kt_budgets_json :: "string option"
  kt_budget_counters_json :: "string option"
  kt_dependency_json :: "string option"
  kt_dependency_digest :: "string option"
  kt_terminal_cursor :: "int option"
  kt_event_cursor :: "int option"
  kt_checkpoint_digest :: "string option"
  kt_created_at :: "string option"
  kt_consumed_at :: "string option"

record event_row =
  et_run_id :: string
  et_seq :: nat
  et_event_type :: string
  et_event_json :: string

record receipt_row =
  rt_run_id :: string
  rt_receipt_json :: string
  rt_bundle_json :: string
  rt_receipt_digest :: string

record approval_row =
  at_approval_id :: string
  at_run_id :: string
  at_checkpoint_id :: "string option"
  at_graph_id :: "string option"
  at_graph_version :: "string option"
  at_checkpoint_digest :: "string option"
  at_audience :: string
  at_prompt_digest :: "string option"
  at_allowed_decisions :: string
  at_approval_digest :: "string option"
  at_status :: string
  at_decision :: "string option"
  at_decided_by :: "string option"
  at_decided_at :: "string option"
  at_expires_at :: string
  at_created_at :: string

record idempotency_row =
  it_key :: string
  it_request_digest :: "string option"
  it_result_json :: string
  it_valid :: bool

record tables =
  tb_graphs :: "graph_row list"
  tb_versions :: "version_row list"
  tb_executions :: "execution_row list"
  tb_checkpoints :: "checkpoint_row list"
  tb_events :: "event_row list"
  tb_receipts :: "receipt_row list"
  tb_approvals :: "approval_row list"
  tb_idempotency :: "idempotency_row list"
  tb_witnesses :: "witness_record list"

definition no_tables :: tables where
  "no_tables = \<lparr>tb_graphs = [], tb_versions = [], tb_executions = [], tb_checkpoints = [],
     tb_events = [], tb_receipts = [], tb_approvals = [], tb_idempotency = [], tb_witnesses = []\<rparr>"

section \<open>Rows by condition\<close>

text \<open>\<open>UPDATE ... SET ... WHERE\<close> and the number of rows it reports.\<close>

definition update_where :: "('a \<Rightarrow> bool) \<Rightarrow> ('a \<Rightarrow> 'a) \<Rightarrow> 'a list \<Rightarrow> 'a list" where
  "update_where p f rows = map (\<lambda>r. if p r then f r else r) rows"

definition count_where :: "('a \<Rightarrow> bool) \<Rightarrow> 'a list \<Rightarrow> nat" where
  "count_where p rows = length (filter p rows)"

text \<open>\<open>INSERT ... ON CONFLICT DO UPDATE\<close> and \<open>INSERT OR IGNORE\<close> on a key.\<close>

definition upsert :: "('a \<Rightarrow> bool) \<Rightarrow> 'a \<Rightarrow> ('a \<Rightarrow> 'a) \<Rightarrow> 'a list \<Rightarrow> 'a list" where
  "upsert p r f rows = (if list_ex p rows then update_where p f rows else rows @ [r])"

definition insert_or_ignore :: "('a \<Rightarrow> bool) \<Rightarrow> 'a \<Rightarrow> 'a list \<Rightarrow> 'a list" where
  "insert_or_ignore p r rows = (if list_ex p rows then rows else rows @ [r])"

lemma set_update_where: "set (update_where p f rows) = (\<lambda>r. if p r then f r else r) ` set rows"
  by (simp add: update_where_def)

lemma map_update_where:
  "(\<And>r. p r \<Longrightarrow> g (f r) = g r) \<Longrightarrow> map g (update_where p f rows) = map g rows"
  by (simp add: update_where_def)

lemma find_update_where:
  "(\<And>r. p r \<Longrightarrow> q (f r) = q r) \<Longrightarrow>
   find q (update_where p f rows) = map_option (\<lambda>r. if p r then f r else r) (find q rows)"
  by (induction rows) (auto simp: update_where_def)

lemma update_where_id: "\<not> list_ex p rows \<Longrightarrow> update_where p f rows = rows"
  by (induction rows) (auto simp: update_where_def)

lemma count_where_0_iff: "count_where p rows = 0 \<longleftrightarrow> \<not> list_ex p rows"
  by (induction rows) (auto simp: count_where_def)

lemma find_append: "find p (xs @ ys) = (case find p xs of None \<Rightarrow> find p ys | Some x \<Rightarrow> Some x)"
  by (induction xs) auto

lemma find_None_iff_list_ex: "find p xs = None \<longleftrightarrow> \<not> list_ex p xs"
  by (induction xs) auto

lemma find_Some_in: "find p xs = Some x \<Longrightarrow> x \<in> set xs \<and> p x"
  by (induction xs) (auto split: if_splits)

lemma find_insert_or_ignore:
  "find q (insert_or_ignore p r rows) =
     (case find q rows of Some x \<Rightarrow> Some x | None \<Rightarrow> if \<not> list_ex p rows \<and> q r then Some r else None)"
  by (auto simp: insert_or_ignore_def find_append split: option.splits)

text \<open>\<open>ORDER BY key DESC\<close>; rows with equal keys keep the order of the table.\<close>

definition order_desc :: "('a \<Rightarrow> 'k::linorder) \<Rightarrow> 'a list \<Rightarrow> 'a list" where
  "order_desc key rows = rev (sort_key key (rev rows))"

lemma set_order_desc [simp]: "set (order_desc key rows) = set rows"
  by (simp add: order_desc_def)

lemma order_desc_Nil_iff [simp]: "order_desc key rows = [] \<longleftrightarrow> rows = []"
  by (metis set_order_desc set_empty)

section \<open>Statements\<close>

record connection =
  db_tables :: tables
  db_faults :: "string option list"

text \<open>A step on a state: early exits are on the left, as \<open>return\<close> and \<open>?\<close> make them.\<close>

type_synonym ('s, 'e, 'a) step = "'s \<Rightarrow> ('e + 'a) \<times> 's"
type_synonym ('e, 'a) sql = "(connection, 'e, 'a) step"

definition give :: "'a \<Rightarrow> ('s, 'e, 'a) step" where
  "give x s = (Inr x, s)"

definition refuse :: "'e \<Rightarrow> ('s, 'e, 'a) step" where
  "refuse e s = (Inl e, s)"

definition pure_result :: "'e + 'a \<Rightarrow> ('s, 'e, 'a) step" where
  "pure_result r s = (r, s)"

definition bind_step :: "('s, 'e, 'a) step \<Rightarrow> ('a \<Rightarrow> ('s, 'e, 'b) step) \<Rightarrow> ('s, 'e, 'b) step" where
  "bind_step m f s = (case m s of (Inl e, s') \<Rightarrow> (Inl e, s') | (Inr x, s') \<Rightarrow> f x s')"

definition statement :: "(string \<Rightarrow> 'e) \<Rightarrow> (tables \<Rightarrow> string + 'a \<times> tables) \<Rightarrow> ('e, 'a) sql" where
  "statement err f con = (case db_faults con of
       Some m # fs \<Rightarrow> (Inl (err m), con\<lparr>db_faults := fs\<rparr>)
     | fs \<Rightarrow> (case f (db_tables con) of
           Inl m \<Rightarrow> (Inl (err m), con\<lparr>db_faults := tl fs\<rparr>)
         | Inr (x, t) \<Rightarrow> (Inr x, con\<lparr>db_tables := t, db_faults := tl fs\<rparr>)))"

text \<open>A query does not change the tables and violates no constraint.\<close>

definition query :: "(string \<Rightarrow> 'e) \<Rightarrow> (tables \<Rightarrow> 'a) \<Rightarrow> ('e, 'a) sql" where
  "query err f = statement err (\<lambda>t. Inr (f t, t))"

definition execute_sql :: "(string \<Rightarrow> 'e) \<Rightarrow> (tables \<Rightarrow> tables) \<Rightarrow> ('e, unit) sql" where
  "execute_sql err f = statement err (\<lambda>t. Inr ((), f t))"

definition prefixed :: "string \<Rightarrow> string \<Rightarrow> string" where
  "prefixed context m = context @ '': '' @ m"

lemma give_simp [simp]: "give x s = (Inr x, s)"
  by (simp add: give_def)

lemma refuse_simp [simp]: "refuse e s = (Inl e, s)"
  by (simp add: refuse_def)

lemma pure_result_simp [simp]: "pure_result r s = (r, s)"
  by (simp add: pure_result_def)

section \<open>Transactions\<close>

text \<open>How the body of a transaction ends: with a commit, or dropped with a result.\<close>

datatype 'r tx_end = Committed 'r | Dropped 'r

definition in_transaction ::
    "(string \<Rightarrow> 'e) \<Rightarrow> (string \<Rightarrow> 'e) \<Rightarrow> ('e, ('e + 'a) tx_end) sql \<Rightarrow> ('e, 'a) sql" where
  "in_transaction begin_err commit_err body con =
     (case execute_sql begin_err id con of
        (Inl e, con1) \<Rightarrow> (Inl e, con1)
      | (Inr _, con1) \<Rightarrow> (case body con1 of
            (Inl e, con2) \<Rightarrow> (Inl e, con2\<lparr>db_tables := db_tables con1\<rparr>)
          | (Inr (Dropped r), con2) \<Rightarrow> (r, con2\<lparr>db_tables := db_tables con1\<rparr>)
          | (Inr (Committed r), con2) \<Rightarrow> (case execute_sql commit_err id con2 of
                (Inl e, con3) \<Rightarrow> (Inl e, con3\<lparr>db_tables := db_tables con1\<rparr>)
              | (Inr _, con3) \<Rightarrow> (r, con3))))"

section \<open>What statements and transactions guarantee\<close>

text \<open>A computation on the connection that only reads.\<close>

definition reads_only :: "('e, 'a) sql \<Rightarrow> bool" where
  "reads_only m \<longleftrightarrow> (\<forall>con. db_tables (snd (m con)) = db_tables con)"

named_theorems reads_intros \<open>computations that do not change the tables\<close>

lemma reads_only_tables: "reads_only m \<Longrightarrow> m con = (r, con') \<Longrightarrow> db_tables con' = db_tables con"
  by (metis reads_only_def snd_conv)

lemma reads_only_give [reads_intros]: "reads_only (give x)"
  by (simp add: reads_only_def)

lemma reads_only_refuse [reads_intros]: "reads_only (refuse e)"
  by (simp add: reads_only_def)

lemma reads_only_pure [reads_intros]: "reads_only (pure_result r)"
  by (simp add: reads_only_def)

lemma reads_only_query [reads_intros]: "reads_only (query err f)"
  by (auto simp: reads_only_def query_def statement_def split: list.splits option.splits)

lemma reads_only_bind [reads_intros]:
  assumes "reads_only m" and "\<And>x. reads_only (f x)"
  shows "reads_only (bind_step m f)"
proof -
  have "db_tables (snd (bind_step m f con)) = db_tables con" for con
    using assms by (auto simp: reads_only_def bind_step_def split: prod.splits sum.splits)
      (metis snd_conv)+
  then show ?thesis by (simp add: reads_only_def)
qed

lemma reads_only_if [reads_intros]:
  "reads_only m \<Longrightarrow> reads_only n \<Longrightarrow> reads_only (if b then m else n)"
  by simp

lemma execute_sql_fails:
  "execute_sql err f con = (Inl e, con') \<Longrightarrow> db_tables con' = db_tables con"
  by (auto simp: execute_sql_def statement_def split: list.splits option.splits)

lemma execute_sql_succeeds:
  "execute_sql err f con = (Inr x, con') \<Longrightarrow> db_tables con' = f (db_tables con)"
  by (auto simp: execute_sql_def statement_def split: list.splits option.splits)

lemma statement_cases:
  assumes "statement err f con = (r, con')"
  shows "(\<exists>e. r = Inl e \<and> db_tables con' = db_tables con)
    \<or> (\<exists>x. r = Inr x \<and> f (db_tables con) = Inr (x, db_tables con'))"
  using assms by (auto simp: statement_def split: list.splits option.splits sum.splits prod.splits)

text \<open>
  A transaction either changes nothing or does all that its body did, and it changes
  nothing unless the body asked for a commit.
\<close>

lemma in_transaction_cases:
  assumes "in_transaction begin_err commit_err body con = (r, con')"
  shows "db_tables con' = db_tables con
    \<or> (\<exists>con1 con2. db_tables con1 = db_tables con \<and> body con1 = (Inr (Committed r), con2)
        \<and> db_tables con' = db_tables con2)"
proof (cases "execute_sql begin_err id con")
  case (Pair r1 con1)
  show ?thesis
  proof (cases r1)
    case (Inl e)
    with Pair assms show ?thesis
      by (auto simp: in_transaction_def dest: execute_sql_fails)
  next
    case (Inr u)
    have start: "db_tables con1 = db_tables con"
      using execute_sql_succeeds [of begin_err id con u con1] Pair Inr by simp
    show ?thesis
    proof (cases "body con1")
      case body: (Pair r2 con2)
      show ?thesis
        using assms start Pair Inr body
        by (auto simp: in_transaction_def split: sum.splits tx_end.splits prod.splits
            dest: execute_sql_fails) (metis execute_sql_succeeds id_apply)
    qed
  qed
qed

lemma in_transaction_invariant:
  assumes "in_transaction begin_err commit_err body con = (r, con')" and "P (db_tables con)"
    and "\<And>c c' r'. body c = (Inr (Committed r'), c') \<Longrightarrow> P (db_tables c) \<Longrightarrow> P (db_tables c')"
  shows "P (db_tables con')"
  using in_transaction_cases [OF assms(1)] assms(2,3) by metis

text \<open>A computation that succeeds: what its parts gave, and the tables they left.\<close>

lemma bind_step_Inr_iff:
  "bind_step m f con = (Inr y, con') \<longleftrightarrow> (\<exists>x c. m con = (Inr x, c) \<and> f x c = (Inr y, con'))"
  by (auto simp: bind_step_def split: prod.splits sum.splits)

lemma if_refuse_Inr_iff:
  "(if b then refuse e else m) con = (Inr x, con') \<longleftrightarrow> \<not> b \<and> m con = (Inr x, con')"
  by simp

lemma query_InrD: "query err f con = (Inr x, con') \<Longrightarrow> x = f (db_tables con) \<and> db_tables con' = db_tables con"
  by (auto simp: query_def dest: statement_cases)

lemma statement_InrD: "statement err f con = (Inr x, con') \<Longrightarrow>
    \<exists>t. f (db_tables con) = Inr (x, t) \<and> db_tables con' = t"
  by (auto dest: statement_cases)

lemma execute_sql_InrD: "execute_sql err f con = (Inr x, con') \<Longrightarrow> db_tables con' = f (db_tables con)"
  by (rule execute_sql_succeeds)

lemmas sql_InrD = query_InrD statement_InrD execute_sql_InrD

section \<open>Without faults\<close>

lemma statement_no_fault:
  "db_faults con = [] \<Longrightarrow> statement err f con = (case f (db_tables con) of
     Inl m \<Rightarrow> (Inl (err m), con) | Inr (x, t) \<Rightarrow> (Inr x, con\<lparr>db_tables := t\<rparr>))"
  by (auto simp: statement_def split: sum.splits prod.splits)

lemma query_no_fault [simp]:
  "db_faults con = [] \<Longrightarrow> query err f con = (Inr (f (db_tables con)), con)"
  by (simp add: query_def statement_no_fault)

lemma execute_sql_no_fault [simp]:
  "db_faults con = [] \<Longrightarrow> execute_sql err f con = (Inr (), con\<lparr>db_tables := f (db_tables con)\<rparr>)"
  by (simp add: execute_sql_def statement_no_fault)

end
