(* ===== verification/Store_Records.thy ===== *)
theory Store_Records
  imports Store_Tables
begin

text \<open>
  \<open>agent-graph-mcp/src/store.rs\<close>: the resume checkpoints and approvals that the store hands
  out, their errors, how they are read from rows, and the authentication codes that bind
  all their fields. JSON text, timestamps and SHA-256 are parameters; the integrity key is
  part of the environment and may be missing.
\<close>

record store_env =
  se_crypto :: crypto
  se_parse :: "string \<Rightarrow> string + value"
  se_time :: "string \<Rightarrow> int option"
  se_show_time :: "int \<Rightarrow> string"
  se_key :: "string option"

abbreviation se_text :: "store_env \<Rightarrow> value \<Rightarrow> string" where
  "se_text env \<equiv> json_text (se_crypto env)"

definition parsed :: "store_env \<Rightarrow> string \<Rightarrow> value option" where
  "parsed env s = (case se_parse env s of Inl _ \<Rightarrow> None | Inr v \<Rightarrow> Some v)"

text \<open>A key of less than 32 bytes is no key.\<close>

definition load_integrity_key :: "string option \<Rightarrow> string option" where
  "load_integrity_key contents = (case contents of
     None \<Rightarrow> None | Some key \<Rightarrow> if 32 \<le> length key then Some key else None)"

definition require_integrity_key :: "store_env \<Rightarrow> 'e \<Rightarrow> 'e + string" where
  "require_integrity_key env e = (case se_key env of None \<Rightarrow> Inl e | Some key \<Rightarrow> Inr key)"

definition has_integrity_key :: "store_env \<Rightarrow> bool" where
  "has_integrity_key env \<longleftrightarrow> se_key env \<noteq> None"

lemma require_integrity_key_simps [simp]:
  "se_key env = None \<Longrightarrow> require_integrity_key env e = Inl e"
  "se_key env = Some key \<Longrightarrow> require_integrity_key env e = Inr key"
  by (simp_all add: require_integrity_key_def)

section \<open>Errors\<close>

datatype checkpoint_error =
  Ck_not_found | Ck_consumed | Ck_integrity | Ck_persistence | Ck_key_required

fun checkpoint_code :: "checkpoint_error \<Rightarrow> string" where
  "checkpoint_code Ck_not_found = ''CHECKPOINT_NOT_FOUND''"
| "checkpoint_code Ck_consumed = ''CHECKPOINT_CONSUMED''"
| "checkpoint_code Ck_integrity = ''CHECKPOINT_INTEGRITY_FAILURE''"
| "checkpoint_code Ck_persistence = ''CHECKPOINT_PERSISTENCE_FAILURE''"
| "checkpoint_code Ck_key_required = ''INTEGRITY_KEY_REQUIRED''"

fun checkpoint_message :: "checkpoint_error \<Rightarrow> string" where
  "checkpoint_message Ck_not_found = ''checkpoint was not found''"
| "checkpoint_message Ck_consumed = ''checkpoint has already been consumed''"
| "checkpoint_message Ck_integrity = ''checkpoint integrity validation failed''"
| "checkpoint_message Ck_persistence =
     ''checkpoint persistence failed; resumability was not advertised''"
| "checkpoint_message Ck_key_required =
     ''integrity key is required for durable checkpoint operations''"

datatype approval_error =
    Av_not_found | Av_conflict | Av_already_decided | Av_expired | Av_decision_not_allowed
  | Av_integrity | Av_checkpoint checkpoint_error | Av_persistence | Av_key_required

fun approval_code :: "approval_error \<Rightarrow> string" where
  "approval_code Av_not_found = ''APPROVAL_NOT_FOUND''"
| "approval_code Av_conflict = ''APPROVAL_REQUEST_CONFLICT''"
| "approval_code Av_already_decided = ''APPROVAL_ALREADY_DECIDED''"
| "approval_code Av_expired = ''APPROVAL_EXPIRED''"
| "approval_code Av_decision_not_allowed = ''APPROVAL_DECISION_NOT_ALLOWED''"
| "approval_code Av_integrity = ''APPROVAL_INTEGRITY_FAILURE''"
| "approval_code (Av_checkpoint e) = checkpoint_code e"
| "approval_code Av_persistence = ''APPROVAL_PERSISTENCE_FAILURE''"
| "approval_code Av_key_required = ''INTEGRITY_KEY_REQUIRED''"

fun approval_message :: "approval_error \<Rightarrow> string" where
  "approval_message Av_not_found = ''approval was not found''"
| "approval_message Av_conflict =
     ''a conflicting pending approval already exists for this checkpoint and audience''"
| "approval_message Av_already_decided = ''approval has already been decided''"
| "approval_message Av_expired = ''approval has expired''"
| "approval_message Av_decision_not_allowed = ''decision is not allowed by this approval''"
| "approval_message Av_integrity = ''approval integrity validation failed''"
| "approval_message (Av_checkpoint e) = checkpoint_message e"
| "approval_message Av_persistence = ''approval persistence failed''"
| "approval_message Av_key_required =
     ''integrity key is required for durable approval operations''"

section \<open>Checkpoints\<close>

record checkpoint_record =
  cp_checkpoint_id :: string
  cp_run_id :: string
  cp_graph_id :: string
  cp_graph_version :: string
  cp_next_node_cursor :: string
  cp_state :: "value"
  cp_state_digest :: string
  cp_budgets :: "value"
  cp_budget_counters :: "value"
  cp_dependency_summary :: "value"
  cp_dependency_digest :: string
  cp_terminal_cursor :: "64 word"
  cp_event_cursor :: "64 word"
  cp_checkpoint_digest :: string
  cp_created_at :: string
  cp_consumed_at :: "string option"

text \<open>\<open>u64::try_from(i64)\<close>: a negative column is no cursor.\<close>

definition cursor_of :: "int \<Rightarrow> 64 word option" where
  "cursor_of i = (if 0 \<le> i then Some (of_int i) else None)"

lemma cursor_of_sint: "cursor_of (sint w) = (if sint w < 0 then None else Some w)"
  for w :: "64 word"
  by (simp add: cursor_of_def)

text \<open>\<open>checkpoint_row\<close> reads the graph columns as text that is there; older rows have none.\<close>

definition checkpoint_row_readable :: "checkpoint_row \<Rightarrow> bool" where
  "checkpoint_row_readable r \<longleftrightarrow> kt_graph_id r \<noteq> None \<and> kt_graph_version r \<noteq> None"

definition json_column :: "store_env \<Rightarrow> string option \<Rightarrow> value option" where
  "json_column env column = Option.bind column (parsed env)"

definition checkpoint_from_parts :: "store_env \<Rightarrow> checkpoint_row \<Rightarrow> checkpoint_record option" where
  "checkpoint_from_parts env r =
     Option.bind (kt_checkpoint_id r) (\<lambda>checkpoint_id.
     Option.bind (kt_graph_id r) (\<lambda>graph_id.
     Option.bind (kt_graph_version r) (\<lambda>graph_version.
     Option.bind (kt_next_cursor r) (\<lambda>next_cursor.
     Option.bind (json_column env (kt_state_json r)) (\<lambda>st.
     Option.bind (kt_state_digest r) (\<lambda>state_digest.
     Option.bind (json_column env (kt_budgets_json r)) (\<lambda>budgets.
     Option.bind (json_column env (kt_budget_counters_json r)) (\<lambda>counters.
     Option.bind (json_column env (kt_dependency_json r)) (\<lambda>dependency.
     Option.bind (kt_dependency_digest r) (\<lambda>dependency_digest.
     Option.bind (Option.bind (kt_terminal_cursor r) cursor_of) (\<lambda>terminal_cursor.
     Option.bind (Option.bind (kt_event_cursor r) cursor_of) (\<lambda>event_cursor.
     Option.bind (kt_checkpoint_digest r) (\<lambda>checkpoint_digest.
     Option.bind (kt_created_at r) (\<lambda>created_at.
       Some \<lparr>cp_checkpoint_id = checkpoint_id, cp_run_id = kt_run_id r, cp_graph_id = graph_id,
         cp_graph_version = graph_version, cp_next_node_cursor = next_cursor, cp_state = st,
         cp_state_digest = state_digest, cp_budgets = budgets, cp_budget_counters = counters,
         cp_dependency_summary = dependency, cp_dependency_digest = dependency_digest,
         cp_terminal_cursor = terminal_cursor, cp_event_cursor = event_cursor,
         cp_checkpoint_digest = checkpoint_digest, cp_created_at = created_at,
         cp_consumed_at = kt_consumed_at r\<rparr>))))))))))))))"

definition checkpoint_fields :: "checkpoint_record \<Rightarrow> value" where
  "checkpoint_fields c = json_object
     [(''checkpoint_id'', String (cp_checkpoint_id c)), (''run_id'', String (cp_run_id c)),
      (''graph_id'', String (cp_graph_id c)), (''graph_version'', String (cp_graph_version c)),
      (''next_node_cursor'', String (cp_next_node_cursor c)), (''state'', cp_state c),
      (''state_digest'', String (cp_state_digest c)), (''budgets'', cp_budgets c),
      (''budget_counters'', cp_budget_counters c),
      (''dependency_summary'', cp_dependency_summary c),
      (''dependency_digest'', String (cp_dependency_digest c)),
      (''terminal_cursor'', Number (PosInt (cp_terminal_cursor c))),
      (''event_cursor'', Number (PosInt (cp_event_cursor c))),
      (''created_at'', String (cp_created_at c))]"

definition checkpoint_digest :: "crypto \<Rightarrow> checkpoint_record \<Rightarrow> string \<Rightarrow> string" where
  "checkpoint_digest cr c key = hmac_sha256 cr (checkpoint_fields c) key"

definition resume_checkpoint_id :: "string \<Rightarrow> string \<Rightarrow> string" where
  "resume_checkpoint_id run_id cursor = ''checkpoint-'' @ run_id @ ''-'' @ cursor"

definition validate_checkpoint_record ::
    "crypto \<Rightarrow> string \<Rightarrow> checkpoint_record \<Rightarrow> checkpoint_error + unit" where
  "validate_checkpoint_record cr key c =
     (if cp_checkpoint_id c \<noteq> resume_checkpoint_id (cp_run_id c) (cp_next_node_cursor c)
         \<or> cp_state_digest c \<noteq> digest cr (cp_state c)
         \<or> cp_dependency_digest c \<noteq> digest cr (cp_dependency_summary c)
         \<or> cp_checkpoint_digest c \<noteq> checkpoint_digest cr c key
      then Inl Ck_integrity else Inr ())"

text \<open>From the row that a query found to the record: \<open>None\<close> is \<open>QueryReturnedNoRows\<close>.\<close>

definition read_checkpoint ::
    "store_env \<Rightarrow> string \<Rightarrow> checkpoint_row option \<Rightarrow> checkpoint_error + checkpoint_record option" where
  "read_checkpoint env key row = (case row of
       None \<Rightarrow> Inr None
     | Some r \<Rightarrow>
         if \<not> checkpoint_row_readable r then Inl Ck_persistence
         else (case checkpoint_from_parts env r of
             None \<Rightarrow> Inl Ck_integrity
           | Some c \<Rightarrow> bind_result (validate_checkpoint_record (se_crypto env) key c) (\<lambda>_. Inr (Some c))))"

section \<open>Approvals\<close>

record approval_record =
  av_approval_id :: string
  av_checkpoint_id :: string
  av_run_id :: string
  av_graph_id :: string
  av_graph_version :: string
  av_checkpoint_digest :: string
  av_audience :: string
  av_prompt_digest :: string
  av_allowed_decisions :: "string list"
  av_approval_digest :: string
  av_status :: string
  av_decision :: "string option"
  av_decided_by :: "string option"
  av_decided_at :: "string option"
  av_expires_at :: string
  av_created_at :: string

text \<open>\<open>serde_json::from_str::<Vec<String>>\<close>.\<close>

definition parse_strings :: "store_env \<Rightarrow> string \<Rightarrow> string list option" where
  "parse_strings env s = (case parsed env s of
       Some (Array items) \<Rightarrow>
         if list_all (\<lambda>v. as_str v \<noteq> None) items then Some (List.map_filter as_str items) else None
     | _ \<Rightarrow> None)"

definition strings_value :: "string list \<Rightarrow> value" where
  "strings_value ss = Array (map String ss)"

lemma parse_strings_text:
  "parsed env s = Some (strings_value ss) \<Longrightarrow> parse_strings env s = Some ss"
  by (simp add: parse_strings_def strings_value_def list_all_iff List.map_filter_def comp_def)

text \<open>The prompt digest is read as text that is there.\<close>

definition approval_row_readable :: "approval_row \<Rightarrow> bool" where
  "approval_row_readable r \<longleftrightarrow> at_prompt_digest r \<noteq> None"

definition approval_from_parts :: "store_env \<Rightarrow> approval_row \<Rightarrow> approval_record option" where
  "approval_from_parts env r =
     Option.bind (parse_strings env (at_allowed_decisions r)) (\<lambda>allowed.
     Option.bind (at_checkpoint_id r) (\<lambda>checkpoint_id.
     Option.bind (at_graph_id r) (\<lambda>graph_id.
     Option.bind (at_graph_version r) (\<lambda>graph_version.
     Option.bind (at_checkpoint_digest r) (\<lambda>checkpoint_digest.
     Option.bind (at_prompt_digest r) (\<lambda>prompt_digest.
     Option.bind (at_approval_digest r) (\<lambda>approval_digest.
       Some \<lparr>av_approval_id = at_approval_id r, av_checkpoint_id = checkpoint_id,
         av_run_id = at_run_id r, av_graph_id = graph_id, av_graph_version = graph_version,
         av_checkpoint_digest = checkpoint_digest, av_audience = at_audience r,
         av_prompt_digest = prompt_digest, av_allowed_decisions = allowed,
         av_approval_digest = approval_digest, av_status = at_status r,
         av_decision = at_decision r, av_decided_by = at_decided_by r,
         av_decided_at = at_decided_at r, av_expires_at = at_expires_at r,
         av_created_at = at_created_at r\<rparr>)))))))"

definition approval_fields :: "approval_record \<Rightarrow> value" where
  "approval_fields a = json_object
     [(''approval_id'', String (av_approval_id a)), (''checkpoint_id'', String (av_checkpoint_id a)),
      (''run_id'', String (av_run_id a)), (''graph_id'', String (av_graph_id a)),
      (''graph_version'', String (av_graph_version a)),
      (''checkpoint_digest'', String (av_checkpoint_digest a)),
      (''audience'', String (av_audience a)), (''prompt_digest'', String (av_prompt_digest a)),
      (''allowed_decisions'', strings_value (av_allowed_decisions a)),
      (''status'', String (av_status a)), (''decision'', (case av_decision a of None \<Rightarrow> Null | Some s \<Rightarrow> String s)),
      (''decided_by'', (case av_decided_by a of None \<Rightarrow> Null | Some s \<Rightarrow> String s)),
      (''decided_at'', (case av_decided_at a of None \<Rightarrow> Null | Some s \<Rightarrow> String s)),
      (''expires_at'', String (av_expires_at a)), (''created_at'', String (av_created_at a))]"

definition approval_digest :: "crypto \<Rightarrow> approval_record \<Rightarrow> string \<Rightarrow> string" where
  "approval_digest cr a key = hmac_sha256 cr (approval_fields a) key"

definition parse_approval_parts ::
    "store_env \<Rightarrow> string \<Rightarrow> approval_row \<Rightarrow> approval_error + approval_record" where
  "parse_approval_parts env key r =
     (case approval_from_parts env r of
        None \<Rightarrow> Inl Av_integrity
      | Some a \<Rightarrow>
          if av_approval_digest a \<noteq> approval_digest (se_crypto env) a key then Inl Av_integrity
          else Inr a)"

definition read_approval ::
    "store_env \<Rightarrow> string \<Rightarrow> approval_row \<Rightarrow> approval_error + approval_record" where
  "read_approval env key r =
     (if \<not> approval_row_readable r then Inl Av_persistence else parse_approval_parts env key r)"

text \<open>The identifier of an approval: the digest of the time, without its prefix.\<close>

definition uuid_like :: "store_env \<Rightarrow> int \<Rightarrow> string" where
  "uuid_like env now = drop 7 (digest (se_crypto env) (String (se_show_time env now)))"

definition approval_receipt_value :: "crypto \<Rightarrow> approval_record \<Rightarrow> value" where
  "approval_receipt_value cr a =
     (let by_digest = (case av_decided_by a of None \<Rightarrow> Null | Some actor \<Rightarrow> String (digest cr (String actor)));
          decided_at = (case av_decided_at a of None \<Rightarrow> Null | Some s \<Rightarrow> String s);
          decision_digest = digest cr (json_object
            [(''approval_digest'', String (av_approval_digest a)),
             (''decision'', String (or_else (av_decision a) [])),
             (''decided_by_digest'', by_digest), (''decided_at'', decided_at)])
      in json_object
        [(''approval_id'', String (av_approval_id a)),
         (''approval_digest'', String (av_approval_digest a)),
         (''checkpoint_id'', String (av_checkpoint_id a)),
         (''checkpoint_digest'', String (av_checkpoint_digest a)),
         (''decision'', (case av_decision a of None \<Rightarrow> Null | Some s \<Rightarrow> String s)),
         (''decided_by_digest'', by_digest), (''decided_at'', decided_at),
         (''allowed_decisions_digest'', String (digest cr (strings_value (av_allowed_decisions a)))),
         (''audience_digest'', String (digest cr (String (av_audience a)))),
         (''prompt_digest'', String (av_prompt_digest a)),
         (''decision_digest'', String decision_digest)])"

end
