(* ===== verification/Durable_Store.thy ===== *)
theory Durable_Store
  imports Store_Records
begin

text \<open>
  \<open>agent-graph-mcp/src/store.rs\<close>: the operations of the store on graphs and their versions,
  executions, terminal receipts, events, idempotency keys and witnesses. The connection is
  behind a mutex, so that an operation has it to itself; \<open>now\<close> is the clock of the
  database. Operations that are not in a transaction keep what their first statements did
  when a later one fails.
\<close>

definition foreign_key_failed :: string where
  "foreign_key_failed = ''FOREIGN KEY constraint failed''"

text \<open>\<open>query_row(...).ok()\<close>: a failure reads as no row.\<close>

definition row_ok :: "(string, 'a option) sql \<Rightarrow> ('e, 'a option) sql" where
  "row_ok m con = (case m con of (Inl _, con') \<Rightarrow> (Inr None, con') | (Inr x, con') \<Rightarrow> (Inr x, con'))"

lemma reads_only_row_ok [reads_intros]: "reads_only m \<Longrightarrow> reads_only (row_ok m)"
  by (auto simp: reads_only_def row_ok_def split: prod.splits sum.splits) (metis snd_conv)+

section \<open>Graphs\<close>

definition graph_named :: "string \<Rightarrow> tables \<Rightarrow> graph_row option" where
  "graph_named name t = find (\<lambda>g. gt_name g = name) (tb_graphs t)"

definition insert_graph_version :: "string \<Rightarrow> string \<Rightarrow> string \<Rightarrow> string \<Rightarrow> tables \<Rightarrow> tables" where
  "insert_graph_version now name hash spec_json t = t\<lparr>tb_versions :=
     insert_or_ignore (\<lambda>v. vt_graph_name v = name \<and> vt_topology_hash v = hash)
       \<lparr>vt_graph_name = name, vt_topology_hash = hash, vt_spec_json = spec_json, vt_created_at = now\<rparr>
       (tb_versions t)\<rparr>"

definition upsert_graph :: "string \<Rightarrow> string \<Rightarrow> string \<Rightarrow> string \<Rightarrow> tables \<Rightarrow> tables" where
  "upsert_graph now name spec_json hash t = t\<lparr>tb_graphs := upsert (\<lambda>g. gt_name g = name)
     \<lparr>gt_name = name, gt_spec_json = spec_json, gt_topology_hash = hash, gt_created_at = now, gt_updated_at = now\<rparr>
     (\<lambda>g. g\<lparr>gt_spec_json := spec_json, gt_topology_hash := hash, gt_updated_at := now\<rparr>) (tb_graphs t)\<rparr>"

definition runs_graph :: "string \<Rightarrow> execution_row \<Rightarrow> bool" where
  "runs_graph name x \<longleftrightarrow> xt_graph_name x = name"

definition version_pinned_message :: "string \<Rightarrow> string \<Rightarrow> string" where
  "version_pinned_message name current = ''graph '' @ quoted name @ '' current version '' @ current
     @ '' is referenced by a durable execution; explicit overwrite is required''"

definition save_graph ::
    "string \<Rightarrow> string \<Rightarrow> string \<Rightarrow> string \<Rightarrow> bool \<Rightarrow> (string, unit) sql" where
  "save_graph now name spec_json hash overwrite =
     bind_step (row_ok (query id (\<lambda>t. map_option gt_topology_hash (graph_named name t)))) (\<lambda>current.
     bind_step (case current of
         Some c \<Rightarrow> if c = hash then give ()
           else bind_step (query (prefixed ''graph version reference check error'')
               (\<lambda>t. list_ex (\<lambda>x. runs_graph name x \<and> xt_graph_hash x = c) (tb_executions t))) (\<lambda>referenced.
             if referenced \<and> \<not> overwrite then refuse (version_pinned_message name c) else give ())
       | None \<Rightarrow> give ()) (\<lambda>_.
     bind_step (execute_sql (prefixed ''save graph version error'') (insert_graph_version now name hash spec_json)) (\<lambda>_.
     execute_sql (prefixed ''save_graph error'') (upsert_graph now name spec_json hash))))"

definition load_graph :: "string \<Rightarrow> (string, (string \<times> string) option) sql" where
  "load_graph name =
     bind_step (query (prefixed ''load_graph error'') (\<lambda>_. ())) (\<lambda>_.
     row_ok (query id (\<lambda>t. map_option (\<lambda>g. (gt_spec_json g, gt_topology_hash g)) (graph_named name t))))"

definition list_graphs :: "(string, (string \<times> string \<times> string) list) sql" where
  "list_graphs = query (prefixed ''list_graphs error'') (\<lambda>t.
     map (\<lambda>g. (gt_name g, gt_topology_hash g, gt_created_at g)) (sort_key gt_name (tb_graphs t)))"

datatype graph_delete_result = Graph_deleted | Graph_absent | Graph_referenced

definition delete_graph_row :: "string \<Rightarrow> tables \<Rightarrow> string + nat \<times> tables" where
  "delete_graph_row name t =
     (let gone = count_where (\<lambda>g. gt_name g = name) (tb_graphs t) in
      if 0 < gone \<and> list_ex (runs_graph name) (tb_executions t) then Inl foreign_key_failed
      else Inr (gone, t\<lparr>tb_graphs := filter (\<lambda>g. gt_name g \<noteq> name) (tb_graphs t)\<rparr>))"

definition delete_graph :: "string \<Rightarrow> (string, graph_delete_result) sql" where
  "delete_graph name = in_transaction (prefixed ''delete_graph transaction begin error'')
     (prefixed ''delete_graph transaction commit error'')
     (bind_step (query (prefixed ''delete_graph reference check error'')
         (\<lambda>t. list_ex (runs_graph name) (tb_executions t))) (\<lambda>referenced.
      if referenced then give (Dropped (Inr Graph_referenced))
      else bind_step (statement (prefixed ''delete_graph error'') (delete_graph_row name)) (\<lambda>affected.
        if affected = 0 then give (Dropped (Inr Graph_absent))
        else bind_step (execute_sql (prefixed ''delete_graph versions error'')
            (\<lambda>t. t\<lparr>tb_versions := filter (\<lambda>v. vt_graph_name v \<noteq> name) (tb_versions t)\<rparr>)) (\<lambda>_.
          give (Committed (Inr Graph_deleted))))))"

definition version_spec :: "string \<Rightarrow> string \<Rightarrow> tables \<Rightarrow> string option" where
  "version_spec name hash t = map_option vt_spec_json
     (find (\<lambda>v. vt_graph_name v = name \<and> vt_topology_hash v = hash) (tb_versions t))"

definition load_graph_version :: "string \<Rightarrow> string \<Rightarrow> (string, string option) sql" where
  "load_graph_version name hash = row_ok (query id (version_spec name hash))"

definition list_graph_versions :: "string \<Rightarrow> (string, string list) sql" where
  "list_graph_versions name = query (prefixed ''list graph versions error'') (\<lambda>t.
     map vt_topology_hash (sort_key vt_created_at (sort_key vt_topology_hash
       (filter (\<lambda>v. vt_graph_name v = name) (tb_versions t)))))"

section \<open>Executions\<close>

definition final_status :: "string \<Rightarrow> bool" where
  "final_status s \<longleftrightarrow> s \<in> set [''completed'', ''failed'', ''cancelled'']"

definition finished_when :: "string \<Rightarrow> string \<Rightarrow> string option \<Rightarrow> string option" where
  "finished_when now status old = (if final_status status then Some now else old)"

definition execution_of :: "string \<Rightarrow> tables \<Rightarrow> execution_row option" where
  "execution_of run_id t = find (\<lambda>x. xt_run_id x = run_id) (tb_executions t)"

definition coalesce :: "'a option \<Rightarrow> 'a option \<Rightarrow> 'a option" where
  "coalesce x y = (case x of None \<Rightarrow> y | Some _ \<Rightarrow> x)"

definition upsert_execution ::
    "string \<Rightarrow> string \<Rightarrow> string \<Rightarrow> string \<Rightarrow> string \<Rightarrow> string \<Rightarrow> string option \<Rightarrow> tables \<Rightarrow> string + unit \<times> tables" where
  "upsert_execution now run_id graph_name graph_hash status input_json budgets t =
     (if execution_of run_id t = None \<and> graph_named graph_name t = None then Inl foreign_key_failed
      else Inr ((), t\<lparr>tb_executions := upsert (\<lambda>x. xt_run_id x = run_id)
        \<lparr>xt_run_id = run_id, xt_graph_name = graph_name, xt_graph_hash = graph_hash, xt_status = status,
         xt_input_json = Some input_json, xt_budgets_json = budgets, xt_final_state_json = None,
         xt_started_at = now, xt_finished_at = None, xt_total_nodes = 0, xt_failed_attempts = 0\<rparr>
        (\<lambda>x. x\<lparr>xt_status := status, xt_budgets_json := coalesce budgets (xt_budgets_json x),
           xt_finished_at := finished_when now status (xt_finished_at x)\<rparr>) (tb_executions t)\<rparr>))"

definition save_execution_with_budgets ::
    "string \<Rightarrow> string \<Rightarrow> string \<Rightarrow> string \<Rightarrow> string \<Rightarrow> string \<Rightarrow> string option \<Rightarrow> (string, unit) sql" where
  "save_execution_with_budgets now run_id graph_name graph_hash status input_json budgets =
     statement (prefixed ''save_execution error'')
       (upsert_execution now run_id graph_name graph_hash status input_json budgets)"

definition save_execution ::
    "string \<Rightarrow> string \<Rightarrow> string \<Rightarrow> string \<Rightarrow> string \<Rightarrow> string \<Rightarrow> (string, unit) sql" where
  "save_execution now run_id graph_name graph_hash status input_json =
     save_execution_with_budgets now run_id graph_name graph_hash status input_json None"

text \<open>\<open>usize as i64\<close>.\<close>

definition as_i64 :: "nat \<Rightarrow> int" where
  "as_i64 n = sint (of_nat n :: 64 word)"

definition set_execution ::
    "string \<Rightarrow> (execution_row \<Rightarrow> execution_row) \<Rightarrow> tables \<Rightarrow> string + nat \<times> tables" where
  "set_execution run_id f t = Inr (count_where (\<lambda>x. xt_run_id x = run_id) (tb_executions t),
     t\<lparr>tb_executions := update_where (\<lambda>x. xt_run_id x = run_id) f (tb_executions t)\<rparr>)"

definition update_execution_status ::
    "string \<Rightarrow> string \<Rightarrow> string \<Rightarrow> string option \<Rightarrow> nat option \<Rightarrow> nat option \<Rightarrow> (string, unit) sql" where
  "update_execution_status now run_id status final_state node_count failed =
     bind_step (statement (prefixed ''update_execution error'') (set_execution run_id (\<lambda>x. x\<lparr>
         xt_status := status,
         xt_final_state_json := coalesce final_state (xt_final_state_json x),
         xt_total_nodes := or_else (map_option as_i64 node_count) (xt_total_nodes x),
         xt_failed_attempts := or_else (map_option as_i64 failed) (xt_failed_attempts x),
         xt_finished_at := finished_when now status (xt_finished_at x)\<rparr>))) (\<lambda>changed.
     if changed \<noteq> 1 then refuse (''update_execution error: run '' @ quoted run_id @ '' was not found'')
     else give ())"

definition out_of_range_text :: string where
  "out_of_range_text = ''out of range integral type conversion attempted''"

definition insert_event :: "string \<Rightarrow> nat \<times> string \<times> string \<Rightarrow> tables \<Rightarrow> string + unit \<times> tables" where
  "insert_event run_id e t = (case e of (seq, event_type, event_json) \<Rightarrow>
     if 2 ^ 63 \<le> seq then Inl out_of_range_text
     else if list_ex (\<lambda>r. et_run_id r = run_id \<and> et_seq r = seq) (tb_events t)
     then Inl ''UNIQUE constraint failed: events.run_id, events.seq''
     else if execution_of run_id t = None then Inl foreign_key_failed
     else Inr ((), t\<lparr>tb_events := tb_events t @ [\<lparr>et_run_id = run_id, et_seq = seq,
       et_event_type = event_type, et_event_json = event_json\<rparr>]\<rparr>))"

fun insert_events :: "string \<Rightarrow> (nat \<times> string \<times> string) list \<Rightarrow> (string, unit) sql" where
  "insert_events run_id [] = give ()"
| "insert_events run_id (e # es) =
     bind_step (statement (prefixed ''terminal event insert error'') (insert_event run_id e))
       (\<lambda>_. insert_events run_id es)"

definition upsert_receipt :: "string \<Rightarrow> string \<Rightarrow> string \<Rightarrow> string \<Rightarrow> tables \<Rightarrow> string + unit \<times> tables" where
  "upsert_receipt run_id receipt bundle rdigest t =
     (if execution_of run_id t = None then Inl foreign_key_failed
      else Inr ((), t\<lparr>tb_receipts := upsert (\<lambda>r. rt_run_id r = run_id)
        \<lparr>rt_run_id = run_id, rt_receipt_json = receipt, rt_bundle_json = bundle, rt_receipt_digest = rdigest\<rparr>
        (\<lambda>r. r\<lparr>rt_receipt_json := receipt, rt_bundle_json := bundle, rt_receipt_digest := rdigest\<rparr>)
        (tb_receipts t)\<rparr>))"

definition terminal_body ::
    "string \<Rightarrow> string \<Rightarrow> string \<Rightarrow> string \<Rightarrow> nat \<Rightarrow> (nat \<times> string \<times> string) list \<Rightarrow> string \<Rightarrow> string
      \<Rightarrow> string \<Rightarrow> (string, (string + string) tx_end) sql" where
  "terminal_body now run_id status final_state node_count events receipt_json bundle_json receipt_digest =
     bind_step (statement (prefixed ''terminal execution update error'') (set_execution run_id (\<lambda>x. x\<lparr>
         xt_status := status, xt_final_state_json := Some final_state,
         xt_total_nodes := as_i64 node_count,
         xt_finished_at := finished_when now status (xt_finished_at x)\<rparr>))) (\<lambda>changed.
     if changed \<noteq> 1
     then refuse (''terminal projection run '' @ quoted run_id @ '' was not found'')
     else bind_step (execute_sql (prefixed ''terminal event reset error'')
         (\<lambda>t. t\<lparr>tb_events := filter (\<lambda>r. et_run_id r \<noteq> run_id) (tb_events t)\<rparr>)) (\<lambda>_.
       bind_step (insert_events run_id events) (\<lambda>_.
       bind_step (statement (prefixed ''terminal receipt insert error'')
           (upsert_receipt run_id receipt_json bundle_json receipt_digest)) (\<lambda>_.
       give (Committed (Inr receipt_digest))))))"

definition terminal_digest :: "store_env \<Rightarrow> string \<Rightarrow> string + string" where
  "terminal_digest env receipt_json =
     bind_result (require_integrity_key env ''INTEGRITY_KEY_REQUIRED'') (\<lambda>key.
     case se_parse env receipt_json of
       Inl e \<Rightarrow> Inl (prefixed ''terminal receipt JSON error'' e)
     | Inr receipt \<Rightarrow> Inr (hmac_sha256 (se_crypto env) receipt key))"

definition persist_terminal_projection ::
    "store_env \<Rightarrow> string \<Rightarrow> string \<Rightarrow> string \<Rightarrow> string \<Rightarrow> nat \<Rightarrow> (nat \<times> string \<times> string) list \<Rightarrow> string \<Rightarrow> string
      \<Rightarrow> (string, string) sql" where
  "persist_terminal_projection env now run_id status final_state node_count events receipt_json bundle_json =
     bind_step (pure_result (terminal_digest env receipt_json)) (\<lambda>receipt_digest.
     in_transaction (prefixed ''terminal transaction begin error'')
       (prefixed ''terminal transaction commit error'')
       (terminal_body now run_id status final_state node_count events receipt_json bundle_json receipt_digest))"

definition load_terminal_receipt :: "store_env \<Rightarrow> string \<Rightarrow> (string, value option) sql" where
  "load_terminal_receipt env run_id =
     bind_step (pure_result (require_integrity_key env ''INTEGRITY_KEY_REQUIRED'')) (\<lambda>key.
     bind_step (query (prefixed ''load terminal receipt error'')
         (\<lambda>t. find (\<lambda>r. rt_run_id r = run_id) (tb_receipts t))) (\<lambda>row.
     case row of
       None \<Rightarrow> give None
     | Some r \<Rightarrow> (case se_parse env (rt_receipt_json r) of
           Inl e \<Rightarrow> refuse (prefixed ''stored receipt JSON error'' e)
         | Inr receipt \<Rightarrow>
             if hmac_sha256 (se_crypto env) receipt key \<noteq> rt_receipt_digest r
             then refuse ''RECEIPT_INTEGRITY_FAILURE''
             else give (Some (json_object [(''receipt'', receipt),
               (''receipt_digest'', String (rt_receipt_digest r)),
               (''storage_class'', String ''sqlite_terminal_receipt''),
               (''replay_capability'', String ''integrity_only'')])))))"

definition live_status :: "string \<Rightarrow> bool" where
  "live_status s \<longleftrightarrow> s \<in> set [''accepted'', ''running'']"

definition interrupt_rows :: "string \<Rightarrow> tables \<Rightarrow> tables" where
  "interrupt_rows now t = t\<lparr>tb_executions := update_where (\<lambda>x. live_status (xt_status x))
     (\<lambda>x. x\<lparr>xt_status := ''interrupted_non_resumable'', xt_finished_at := Some now\<rparr>) (tb_executions t)\<rparr>"

definition recover_incomplete_executions :: "string \<Rightarrow> (string, unit) sql" where
  "recover_incomplete_executions now =
     execute_sql (prefixed ''recover executions error'') (interrupt_rows now)"

definition opt_string :: "string option \<Rightarrow> value" where
  "opt_string s = (case s of None \<Rightarrow> Null | Some s \<Rightarrow> String s)"

text \<open>\<open>column.as_deref().map(serde_json::from_str).transpose()?.unwrap_or(Value::Null)\<close>\<close>

definition column_value :: "store_env \<Rightarrow> string option \<Rightarrow> string + value" where
  "column_value env column = (case column of None \<Rightarrow> Inr Null | Some s \<Rightarrow> se_parse env s)"

definition execution_value :: "execution_row \<Rightarrow> value \<Rightarrow> value" where
  "execution_value x final_state = json_object
     [(''run_id'', String (xt_run_id x)), (''graph_id'', String (xt_graph_name x)),
      (''graph_version'', String (xt_graph_hash x)), (''status'', String (xt_status x)),
      (''success'', Bool (xt_status x = ''completed'')), (''final_state'', final_state),
      (''started_at'', String (xt_started_at x)), (''finished_at'', opt_string (xt_finished_at x)),
      (''storage_class'', String ''sqlite_terminal_record''), (''durable_resume'', Bool False),
      (''replay_capability'', String ''integrity_only'')]"

definition load_execution :: "store_env \<Rightarrow> string \<Rightarrow> (string, value option) sql" where
  "load_execution env run_id =
     bind_step (query (prefixed ''load execution error'') (execution_of run_id)) (\<lambda>row.
     case row of
       None \<Rightarrow> give None
     | Some x \<Rightarrow> (case column_value env (xt_final_state_json x) of
           Inl e \<Rightarrow> refuse (prefixed ''stored final state JSON error'' e)
         | Inr v \<Rightarrow> give (Some (execution_value x v))))"

record execution_contract =
  xc_graph_id :: string
  xc_graph_version :: string
  xc_input :: "value"
  xc_budgets :: "value"

definition load_execution_contract :: "store_env \<Rightarrow> string \<Rightarrow> (string, execution_contract option) sql" where
  "load_execution_contract env run_id =
     bind_step (query (prefixed ''load execution contract error'') (execution_of run_id)) (\<lambda>row.
     case row of
       None \<Rightarrow> give None
     | Some x \<Rightarrow> pure_result (case bind_result (column_value env (xt_input_json x)) (\<lambda>input.
           bind_result (column_value env (xt_budgets_json x)) (\<lambda>budgets.
             Inr (Some \<lparr>xc_graph_id = xt_graph_name x, xc_graph_version = xt_graph_hash x,
               xc_input = input, xc_budgets = budgets\<rparr>))) of
           Inl e \<Rightarrow> Inl (prefixed ''load execution contract error'' e) | Inr c \<Rightarrow> Inr c))"

section \<open>Events\<close>

definition run_event_rows :: "string \<Rightarrow> tables \<Rightarrow> event_row list" where
  "run_event_rows run_id t = sort_key et_seq (filter (\<lambda>r. et_run_id r = run_id) (tb_events t))"

definition save_event :: "string \<Rightarrow> nat \<Rightarrow> string \<Rightarrow> string \<Rightarrow> (string, unit) sql" where
  "save_event run_id seq event_type event_json = statement (prefixed ''save_event error'') (\<lambda>t.
     if 2 ^ 63 \<le> seq then Inl out_of_range_text
     else if list_ex (\<lambda>r. et_run_id r = run_id \<and> et_seq r = seq) (tb_events t) then Inr ((), t)
     else insert_event run_id (seq, event_type, event_json) t)"

definition stored_event_value :: "store_env \<Rightarrow> event_row \<Rightarrow> value" where
  "stored_event_value env r = json_object [(''cursor'', json_u64 (et_seq r)),
     (''event'', or_else (parsed env (et_event_json r))
       (json_object [(''receipt'', String ''terminal event persisted with reduced fidelity'')]))]"

definition stored_event_page :: "store_env \<Rightarrow> string \<Rightarrow> nat \<Rightarrow> nat \<Rightarrow> tables \<Rightarrow> value list" where
  "stored_event_page env run_id cursor limit t =
     map (stored_event_value env) (take (min limit 200) (filter (\<lambda>r. cursor \<le> et_seq r) (run_event_rows run_id t)))"

text \<open>\<open>MAX(seq) + 1\<close> is an integer unless it overflows 64 bits; then it is a real number.\<close>

definition last_seq :: "event_row list \<Rightarrow> nat" where
  "last_seq rows = Max (set (map et_seq rows))"

definition first_seq :: "event_row list \<Rightarrow> nat" where
  "first_seq rows = Min (set (map et_seq rows))"

definition next_seq :: "string \<Rightarrow> tables \<Rightarrow> string + nat \<times> tables" where
  "next_seq run_id t = (let rows = run_event_rows run_id t; n = last_seq rows + 1 in
     if 2 ^ 63 \<le> n then Inl ''Invalid column type Real at index: 0, name: COALESCE(MAX(seq) + 1, 0)''
     else Inr (n, t))"

definition event_page_value :: "string \<Rightarrow> value list \<Rightarrow> nat \<Rightarrow> nat \<Rightarrow> nat \<Rightarrow> value" where
  "event_page_value run_id events cursor first next = json_object
     [(''run_id'', String run_id), (''events'', Array events), (''next_cursor'', json_u64 next),
      (''gap'', Bool (cursor < first)), (''truncated'', Bool False), (''dropped'', json_u64 first),
      (''projection'', String ''terminal_persisted_projection''),
      (''replay_capability'', String ''integrity_only''), (''replayable_execution'', Bool False),
      (''resume_supported'', Bool False)]"

definition load_events :: "store_env \<Rightarrow> string \<Rightarrow> nat \<Rightarrow> nat \<Rightarrow> (string, value option) sql" where
  "load_events env run_id cursor limit =
     bind_step (statement (prefixed ''load events error'') (\<lambda>t.
        if 2 ^ 63 \<le> cursor then Inl out_of_range_text
        else Inr (stored_event_page env run_id cursor limit t, t))) (\<lambda>events.
     bind_step (query (prefixed ''load events existence error'') (\<lambda>t. run_event_rows run_id t \<noteq> [])) (\<lambda>there.
     if \<not> there then give None
     else bind_step (query (prefixed ''load events first cursor error'')
         (\<lambda>t. first_seq (run_event_rows run_id t))) (\<lambda>first.
       bind_step (statement (prefixed ''load events next cursor error'') (next_seq run_id)) (\<lambda>next.
       give (Some (event_page_value run_id events cursor first next))))))"

section \<open>Idempotency keys\<close>

definition replayable :: "string \<Rightarrow> idempotency_row \<Rightarrow> bool" where
  "replayable key r \<longleftrightarrow> it_key r = key \<and> it_request_digest r \<noteq> None \<and> it_valid r"

definition stored_reply :: "string \<Rightarrow> tables \<Rightarrow> (string option \<times> string) option" where
  "stored_reply key t = map_option (\<lambda>r. (it_request_digest r, it_result_json r))
     (find (replayable key) (tb_idempotency t))"

definition check_idempotency :: "store_env \<Rightarrow> string \<Rightarrow> (string, (string option \<times> value) option) sql" where
  "check_idempotency env key =
     bind_step (query (prefixed ''idempotency error'') (\<lambda>_. ())) (\<lambda>_.
     bind_step (row_ok (query id (stored_reply key))) (\<lambda>row.
     case row of
       None \<Rightarrow> give None
     | Some (request_digest, text) \<Rightarrow> (case se_parse env text of
           Inl e \<Rightarrow> refuse (prefixed ''json parse error'' e)
         | Inr v \<Rightarrow> give (Some (request_digest, v)))))"

definition insert_reply :: "string \<Rightarrow> string \<Rightarrow> string \<Rightarrow> tables \<Rightarrow> tables" where
  "insert_reply key request_digest text t = t\<lparr>tb_idempotency := insert_or_ignore (\<lambda>r. it_key r = key)
     \<lparr>it_key = key, it_request_digest = Some request_digest, it_result_json = text, it_valid = True\<rparr>
     (tb_idempotency t)\<rparr>"

definition save_idempotency :: "string \<Rightarrow> string \<Rightarrow> string \<Rightarrow> (string, bool) sql" where
  "save_idempotency key request_digest text = statement (prefixed ''idempotency error'') (\<lambda>t.
     Inr (\<not> list_ex (\<lambda>r. it_key r = key) (tb_idempotency t), insert_reply key request_digest text t))"

section \<open>Witnesses\<close>

definition witness_store_error :: "string \<Rightarrow> string \<Rightarrow> witness_error" where
  "witness_store_error what m = witness_error_of ''WITNESS_STORE_ERROR'' what"

definition witness_key_required :: "string \<Rightarrow> witness_error" where
  "witness_key_required what = witness_error_of ''INTEGRITY_KEY_REQUIRED''
     (''an external integrity key is required for durable witness '' @ what)"

definition is_rfc3339 :: "store_env \<Rightarrow> string \<Rightarrow> bool" where
  "is_rfc3339 env s \<longleftrightarrow> se_time env s \<noteq> None"

definition get_witness :: "store_env \<Rightarrow> string \<Rightarrow> (witness_error, witness_record option) sql" where
  "get_witness env witness_id =
     bind_step (pure_result (require_integrity_key env (witness_key_required ''reads''))) (\<lambda>key.
     bind_step (query (witness_store_error ''witness SQLite read failed'')
         (\<lambda>t. find (\<lambda>w. wr_witness_id w = witness_id) (tb_witnesses t))) (\<lambda>row.
     case row of
       None \<Rightarrow> give None
     | Some w \<Rightarrow> bind_step (pure_result (verify_witness_record (se_crypto env) (is_rfc3339 env) (Some key) w))
         (\<lambda>_. give (Some w))))"

definition insert_witness :: "witness_record \<Rightarrow> tables \<Rightarrow> tables" where
  "insert_witness w t = t\<lparr>tb_witnesses := insert_or_ignore
     (\<lambda>r. wr_witness_id r = wr_witness_id w \<or> wr_digest r = wr_digest w) w (tb_witnesses t)\<rparr>"

definition capture_witness :: "store_env \<Rightarrow> witness_capture \<Rightarrow> (witness_error, witness_record) sql" where
  "capture_witness env c =
     bind_step (pure_result (require_integrity_key env (witness_key_required ''capture''))) (\<lambda>key.
     bind_step (pure_result (validate_witness_capture (se_crypto env) (is_rfc3339 env) (Some key) c)) (\<lambda>expected.
     bind_step (execute_sql (witness_store_error ''witness SQLite write failed'') (insert_witness expected)) (\<lambda>_.
     bind_step (get_witness env (wr_witness_id expected)) (\<lambda>row.
     case row of
       None \<Rightarrow> refuse (witness_store_error ''witness SQLite write did not produce a row'' [])
     | Some w \<Rightarrow> give w))))"

end
