(* ===== verification/Durable_Checkpoints.thy ===== *)
theory Durable_Checkpoints
  imports Store_Records "HOL-Library.Option_ord"
begin

text \<open>
  \<open>agent-graph-mcp/src/store.rs\<close>: durable checkpoints and the approvals bound to them.
  Creating, consuming and deciding are transactions. The readings of the clock are
  arguments: nanoseconds since the epoch, rendered by \<open>se_show_time\<close>.
\<close>

definition ck_failed :: "string \<Rightarrow> checkpoint_error" where
  "ck_failed m = Ck_persistence"

definition av_failed :: "string \<Rightarrow> approval_error" where
  "av_failed m = Av_persistence"

section \<open>Checkpoints\<close>

definition has_checkpoint_id :: "string \<Rightarrow> checkpoint_row \<Rightarrow> bool" where
  "has_checkpoint_id i r \<longleftrightarrow> kt_checkpoint_id r = Some i"

definition checkpoint_by_id :: "string \<Rightarrow> tables \<Rightarrow> checkpoint_row option" where
  "checkpoint_by_id i t = find (has_checkpoint_id i) (tb_checkpoints t)"

definition latest_checkpoint :: "string \<Rightarrow> tables \<Rightarrow> checkpoint_row option" where
  "latest_checkpoint run_id t = (case order_desc kt_created_at (order_desc kt_checkpoint_id
       (filter (\<lambda>r. kt_run_id r = run_id \<and> kt_checkpoint_id r \<noteq> None) (tb_checkpoints t))) of
     [] \<Rightarrow> None | r # _ \<Rightarrow> Some r)"

definition new_checkpoint ::
    "crypto \<Rightarrow> string \<Rightarrow> string \<Rightarrow> string \<Rightarrow> string \<Rightarrow> string \<Rightarrow> string \<Rightarrow> value \<Rightarrow> value \<Rightarrow> value \<Rightarrow> value
      \<Rightarrow> 64 word \<Rightarrow> 64 word \<Rightarrow> checkpoint_record" where
  "new_checkpoint cr key created_at run_id graph_id graph_version cursor st budgets counters dependency
     terminal event =
     (let c = \<lparr>cp_checkpoint_id = resume_checkpoint_id run_id cursor, cp_run_id = run_id,
          cp_graph_id = graph_id, cp_graph_version = graph_version, cp_next_node_cursor = cursor,
          cp_state = st, cp_state_digest = digest cr st, cp_budgets = budgets,
          cp_budget_counters = counters, cp_dependency_summary = dependency,
          cp_dependency_digest = digest cr dependency, cp_terminal_cursor = terminal,
          cp_event_cursor = event, cp_checkpoint_digest = [], cp_created_at = created_at,
          cp_consumed_at = None\<rparr>
      in c\<lparr>cp_checkpoint_digest := checkpoint_digest cr c key\<rparr>)"

definition row_of_checkpoint :: "crypto \<Rightarrow> checkpoint_record \<Rightarrow> checkpoint_row" where
  "row_of_checkpoint cr c =
     \<lparr>kt_run_id = cp_run_id c, kt_node_id = cp_next_node_cursor c, kt_attempt = 0,
      kt_input_json = Some (json_text cr (cp_state c)), kt_output_json = None,
      kt_status = ''available'', kt_error = None, kt_checkpoint_id = Some (cp_checkpoint_id c),
      kt_graph_id = Some (cp_graph_id c), kt_graph_version = Some (cp_graph_version c),
      kt_next_cursor = Some (cp_next_node_cursor c), kt_state_json = Some (json_text cr (cp_state c)),
      kt_state_digest = Some (cp_state_digest c), kt_budgets_json = Some (json_text cr (cp_budgets c)),
      kt_budget_counters_json = Some (json_text cr (cp_budget_counters c)),
      kt_dependency_json = Some (json_text cr (cp_dependency_summary c)),
      kt_dependency_digest = Some (cp_dependency_digest c),
      kt_terminal_cursor = Some (sint (cp_terminal_cursor c)),
      kt_event_cursor = Some (sint (cp_event_cursor c)),
      kt_checkpoint_digest = Some (cp_checkpoint_digest c), kt_created_at = Some (cp_created_at c),
      kt_consumed_at = None\<rparr>"

definition has_run :: "string \<Rightarrow> tables \<Rightarrow> bool" where
  "has_run run_id t \<longleftrightarrow> list_ex (\<lambda>x. xt_run_id x = run_id) (tb_executions t)"

text \<open>The primary key, the unique index on the identifier, and the foreign key of a run.\<close>

definition insert_checkpoint :: "checkpoint_row \<Rightarrow> tables \<Rightarrow> string + unit \<times> tables" where
  "insert_checkpoint r t =
     (if list_ex (\<lambda>k. kt_run_id k = kt_run_id r \<and> kt_node_id k = kt_node_id r \<and> kt_attempt k = kt_attempt r)
         (tb_checkpoints t)
      then Inl ''UNIQUE constraint failed: checkpoints.run_id, checkpoints.node_id, checkpoints.attempt''
      else if kt_checkpoint_id r \<noteq> None \<and> list_ex (\<lambda>k. kt_checkpoint_id k = kt_checkpoint_id r) (tb_checkpoints t)
      then Inl ''UNIQUE constraint failed: checkpoints.checkpoint_id''
      else if \<not> has_run (kt_run_id r) t then Inl ''FOREIGN KEY constraint failed''
      else Inr ((), t\<lparr>tb_checkpoints := tb_checkpoints t @ [r]\<rparr>))"

definition create_resume_checkpoint ::
    "store_env \<Rightarrow> int \<Rightarrow> string \<Rightarrow> string \<Rightarrow> string \<Rightarrow> string \<Rightarrow> value \<Rightarrow> value \<Rightarrow> value \<Rightarrow> value
      \<Rightarrow> 64 word \<Rightarrow> 64 word \<Rightarrow> (checkpoint_error, checkpoint_record) sql" where
  "create_resume_checkpoint env now run_id graph_id graph_version cursor st budgets counters dependency
     terminal event =
     bind_step (pure_result (require_integrity_key env Ck_key_required)) (\<lambda>key.
     let c = new_checkpoint (se_crypto env) key (se_show_time env now) run_id graph_id graph_version
           cursor st budgets counters dependency terminal event
     in in_transaction ck_failed ck_failed
       (bind_step (statement ck_failed (insert_checkpoint (row_of_checkpoint (se_crypto env) c))) (\<lambda>_.
        give (Committed (Inr c)))))"

definition load_resume_checkpoint ::
    "store_env \<Rightarrow> string option \<Rightarrow> string option \<Rightarrow> (checkpoint_error, checkpoint_record option) sql" where
  "load_resume_checkpoint env checkpoint_id run_id =
     bind_step (pure_result (require_integrity_key env Ck_key_required)) (\<lambda>key.
     bind_step (query ck_failed (case checkpoint_id of
         Some i \<Rightarrow> checkpoint_by_id i
       | None \<Rightarrow> latest_checkpoint (or_else run_id []))) (\<lambda>row.
     pure_result (read_checkpoint env key row)))"

text \<open>\<open>load_checkpoint_from_tx\<close>, and the first half of consuming a checkpoint.\<close>

definition load_checkpoint_from_tx ::
    "store_env \<Rightarrow> string \<Rightarrow> string \<Rightarrow> (checkpoint_error, checkpoint_record) sql" where
  "load_checkpoint_from_tx env key checkpoint_id =
     bind_step (query ck_failed (checkpoint_by_id checkpoint_id)) (\<lambda>row.
     pure_result (bind_result (read_checkpoint env key row) (\<lambda>c.
       case c of None \<Rightarrow> Inl Ck_not_found | Some c \<Rightarrow> Inr c)))"

definition unconsumed :: "string \<Rightarrow> checkpoint_row \<Rightarrow> bool" where
  "unconsumed i r \<longleftrightarrow> has_checkpoint_id i r \<and> kt_consumed_at r = None"

definition consume_rows :: "string \<Rightarrow> string \<Rightarrow> tables \<Rightarrow> tables" where
  "consume_rows i stamp t = t\<lparr>tb_checkpoints := update_where (unconsumed i)
     (\<lambda>r. r\<lparr>kt_consumed_at := Some stamp, kt_status := ''consumed''\<rparr>) (tb_checkpoints t)\<rparr>"

definition mark_consumed :: "(string \<Rightarrow> 'e) \<Rightarrow> string \<Rightarrow> string \<Rightarrow> ('e, nat) sql" where
  "mark_consumed err i stamp = statement err (\<lambda>t.
     Inr (count_where (unconsumed i) (tb_checkpoints t), consume_rows i stamp t))"

definition consume_body ::
    "store_env \<Rightarrow> string \<Rightarrow> int \<Rightarrow> string
      \<Rightarrow> (checkpoint_error, (checkpoint_error + checkpoint_record) tx_end) sql" where
  "consume_body env key now checkpoint_id =
     bind_step (load_checkpoint_from_tx env key checkpoint_id) (\<lambda>c.
     if cp_consumed_at c \<noteq> None then refuse Ck_consumed
     else bind_step (mark_consumed ck_failed checkpoint_id (se_show_time env now)) (\<lambda>changed.
       if changed \<noteq> 1 then refuse Ck_consumed
       else give (Committed (Inr (c\<lparr>cp_consumed_at := Some (se_show_time env now)\<rparr>)))))"

definition consume_resume_checkpoint ::
    "store_env \<Rightarrow> int \<Rightarrow> string \<Rightarrow> (checkpoint_error, checkpoint_record) sql" where
  "consume_resume_checkpoint env now checkpoint_id =
     bind_step (pure_result (require_integrity_key env Ck_key_required)) (\<lambda>key.
     in_transaction ck_failed ck_failed (consume_body env key now checkpoint_id))"

text \<open>The legacy per-node records share the table; they have no checkpoint identifier.\<close>

definition legacy_checkpoint ::
    "string \<Rightarrow> string \<Rightarrow> nat \<Rightarrow> string \<Rightarrow> string option \<Rightarrow> string \<Rightarrow> string option \<Rightarrow> checkpoint_row" where
  "legacy_checkpoint run_id node_id attempt input_json output_json status err =
     \<lparr>kt_run_id = run_id, kt_node_id = node_id, kt_attempt = attempt, kt_input_json = Some input_json,
      kt_output_json = output_json, kt_status = status, kt_error = err, kt_checkpoint_id = None,
      kt_graph_id = None, kt_graph_version = None, kt_next_cursor = None, kt_state_json = None,
      kt_state_digest = None, kt_budgets_json = None, kt_budget_counters_json = None,
      kt_dependency_json = None, kt_dependency_digest = None, kt_terminal_cursor = None,
      kt_event_cursor = None, kt_checkpoint_digest = None, kt_created_at = None, kt_consumed_at = None\<rparr>"

definition first_some :: "'a option \<Rightarrow> 'a option \<Rightarrow> 'a option" where
  "first_some x y = (case x of None \<Rightarrow> y | Some _ \<Rightarrow> x)"

definition save_node_checkpoint ::
    "string \<Rightarrow> string \<Rightarrow> nat \<Rightarrow> string \<Rightarrow> string option \<Rightarrow> string \<Rightarrow> string option \<Rightarrow> (string, unit) sql" where
  "save_node_checkpoint run_id node_id attempt input_json output_json status err =
     statement (prefixed ''save_node_checkpoint error'') (\<lambda>t.
       let same = (\<lambda>k. kt_run_id k = run_id \<and> kt_node_id k = node_id \<and> kt_attempt k = attempt) in
       if list_ex same (tb_checkpoints t)
       then Inr ((), t\<lparr>tb_checkpoints := update_where same (\<lambda>k. k\<lparr>
         kt_output_json := first_some output_json (kt_output_json k), kt_status := status,
         kt_error := first_some err (kt_error k)\<rparr>) (tb_checkpoints t)\<rparr>)
       else insert_checkpoint (legacy_checkpoint run_id node_id attempt input_json output_json status err) t)"

section \<open>Approvals\<close>

definition row_of_approval :: "crypto \<Rightarrow> approval_record \<Rightarrow> approval_row" where
  "row_of_approval cr a =
     \<lparr>at_approval_id = av_approval_id a, at_run_id = av_run_id a,
      at_checkpoint_id = Some (av_checkpoint_id a), at_graph_id = Some (av_graph_id a),
      at_graph_version = Some (av_graph_version a),
      at_checkpoint_digest = Some (av_checkpoint_digest a), at_audience = av_audience a,
      at_prompt_digest = Some (av_prompt_digest a),
      at_allowed_decisions = json_text cr (strings_value (av_allowed_decisions a)),
      at_approval_digest = Some (av_approval_digest a), at_status = ''pending'',
      at_decision = None, at_decided_by = None, at_decided_at = None,
      at_expires_at = av_expires_at a, at_created_at = av_created_at a\<rparr>"

definition insert_approval :: "approval_row \<Rightarrow> tables \<Rightarrow> string + unit \<times> tables" where
  "insert_approval r t =
     (if list_ex (\<lambda>a. at_approval_id a = at_approval_id r) (tb_approvals t)
      then Inl ''UNIQUE constraint failed: approval_requests.approval_id''
      else if \<not> has_run (at_run_id r) t then Inl ''FOREIGN KEY constraint failed''
      else Inr ((), t\<lparr>tb_approvals := tb_approvals t @ [r]\<rparr>))"

text \<open>What the caller believes of the checkpoint it asks an approval for.\<close>

record expected_checkpoint =
  ec_graph_id :: string
  ec_graph_version :: string
  ec_next_node_cursor :: string
  ec_state :: "value"
  ec_budgets :: "value"
  ec_budget_counters :: "value"
  ec_dependency_summary :: "value"

definition meets_expectation :: "checkpoint_record \<Rightarrow> expected_checkpoint \<Rightarrow> bool" where
  "meets_expectation c x \<longleftrightarrow> cp_graph_id c = ec_graph_id x \<and> cp_graph_version c = ec_graph_version x
     \<and> cp_next_node_cursor c = ec_next_node_cursor x \<and> cp_state c = ec_state x
     \<and> cp_budgets c = ec_budgets x \<and> cp_budget_counters c = ec_budget_counters x
     \<and> cp_dependency_summary c = ec_dependency_summary x
     \<and> cp_terminal_cursor c = 0 \<and> cp_event_cursor c = 0"

definition pending_for :: "string \<Rightarrow> string \<Rightarrow> approval_row \<Rightarrow> bool" where
  "pending_for checkpoint_id audience r \<longleftrightarrow> at_checkpoint_id r = Some checkpoint_id
     \<and> at_audience r = audience \<and> at_status r = ''pending''"

definition new_approval ::
    "store_env \<Rightarrow> string \<Rightarrow> int \<Rightarrow> int \<Rightarrow> checkpoint_record \<Rightarrow> expected_checkpoint \<Rightarrow> string \<Rightarrow> string
      \<Rightarrow> string list \<Rightarrow> string \<Rightarrow> approval_record" where
  "new_approval env key now later c x audience prompt_digest allowed expires_at =
     (let a = \<lparr>av_approval_id = ''approval-'' @ uuid_like env later,
          av_checkpoint_id = cp_checkpoint_id c, av_run_id = cp_run_id c,
          av_graph_id = ec_graph_id x, av_graph_version = ec_graph_version x,
          av_checkpoint_digest = cp_checkpoint_digest c, av_audience = audience,
          av_prompt_digest = prompt_digest, av_allowed_decisions = allowed, av_approval_digest = [],
          av_status = ''pending'', av_decision = None, av_decided_by = None, av_decided_at = None,
          av_expires_at = expires_at, av_created_at = se_show_time env now\<rparr>
      in a\<lparr>av_approval_digest := approval_digest (se_crypto env) a key\<rparr>)"

definition lifted_load ::
    "store_env \<Rightarrow> string \<Rightarrow> string \<Rightarrow> (approval_error, checkpoint_record) sql" where
  "lifted_load env key checkpoint_id con =
     (case load_checkpoint_from_tx env key checkpoint_id con of
        (Inl e, con') \<Rightarrow> (Inl (Av_checkpoint e), con') | (Inr c, con') \<Rightarrow> (Inr c, con'))"

text \<open>The body of the transaction: an identical request gives the pending approval again.\<close>

definition request_body ::
    "store_env \<Rightarrow> string \<Rightarrow> int \<Rightarrow> int \<Rightarrow> string \<Rightarrow> expected_checkpoint \<Rightarrow> string \<Rightarrow> string \<Rightarrow> string list
      \<Rightarrow> string \<Rightarrow> (approval_error, (approval_error + approval_record) tx_end) sql" where
  "request_body env key now later checkpoint_id x audience prompt_digest allowed expires_at =
     bind_step (lifted_load env key checkpoint_id) (\<lambda>c.
     if cp_consumed_at c \<noteq> None then refuse (Av_checkpoint Ck_consumed)
     else if \<not> meets_expectation c x then refuse (Av_checkpoint Ck_integrity)
     else bind_step (query av_failed (\<lambda>t. find (pending_for checkpoint_id audience) (tb_approvals t))) (\<lambda>existing.
       case existing of
         Some row \<Rightarrow> bind_step (pure_result (read_approval env key row)) (\<lambda>current.
           if av_graph_id current = ec_graph_id x \<and> av_graph_version current = ec_graph_version x
              \<and> av_checkpoint_digest current = cp_checkpoint_digest c
              \<and> av_prompt_digest current = prompt_digest \<and> av_allowed_decisions current = allowed
              \<and> av_expires_at current = expires_at
           then give (Committed (Inr current)) else refuse Av_conflict)
       | None \<Rightarrow>
           let a = new_approval env key now later c x audience prompt_digest allowed expires_at in
           bind_step (statement av_failed (insert_approval (row_of_approval (se_crypto env) a))) (\<lambda>_.
           give (Committed (Inr a)))))"

definition create_checkpoint_approval ::
    "store_env \<Rightarrow> int \<Rightarrow> int \<Rightarrow> string \<Rightarrow> expected_checkpoint \<Rightarrow> string \<Rightarrow> string \<Rightarrow> string list \<Rightarrow> string
      \<Rightarrow> (approval_error, approval_record) sql" where
  "create_checkpoint_approval env now later checkpoint_id x audience prompt_digest allowed expires_at =
     bind_step (pure_result (require_integrity_key env Av_key_required)) (\<lambda>key.
     in_transaction av_failed av_failed
       (request_body env key now later checkpoint_id x audience prompt_digest allowed expires_at))"

definition bound_approval :: "string \<Rightarrow> approval_row \<Rightarrow> bool" where
  "bound_approval approval_id r \<longleftrightarrow> at_approval_id r = approval_id \<and> at_checkpoint_id r \<noteq> None"

definition get_checkpoint_approval :: "store_env \<Rightarrow> string \<Rightarrow> (approval_error, approval_record option) sql" where
  "get_checkpoint_approval env approval_id =
     bind_step (pure_result (require_integrity_key env Av_key_required)) (\<lambda>key.
     bind_step (query av_failed (\<lambda>t. find (bound_approval approval_id) (tb_approvals t))) (\<lambda>row.
     case row of
       None \<Rightarrow> give None
     | Some r \<Rightarrow> bind_step (pure_result (read_approval env key r)) (\<lambda>a. give (Some a))))"

definition listed_approvals ::
    "string option \<Rightarrow> string option \<Rightarrow> nat \<Rightarrow> tables \<Rightarrow> approval_row list" where
  "listed_approvals run_id status limit t = take (min limit 200)
     (order_desc at_created_at (order_desc at_approval_id (filter (\<lambda>r. at_checkpoint_id r \<noteq> None
        \<and> (run_id = None \<or> run_id = Some (at_run_id r)) \<and> (status = None \<or> status = Some (at_status r)))
        (tb_approvals t))))"

fun read_approvals :: "store_env \<Rightarrow> string \<Rightarrow> approval_row list \<Rightarrow> approval_error + approval_record list" where
  "read_approvals env key [] = Inr []"
| "read_approvals env key (r # rs) = bind_result (read_approval env key r) (\<lambda>a.
     bind_result (read_approvals env key rs) (\<lambda>as. Inr (a # as)))"

definition list_checkpoint_approvals ::
    "store_env \<Rightarrow> string option \<Rightarrow> string option \<Rightarrow> nat \<Rightarrow> (approval_error, approval_record list) sql" where
  "list_checkpoint_approvals env run_id status limit =
     bind_step (pure_result (require_integrity_key env Av_key_required)) (\<lambda>key.
     bind_step (query av_failed (listed_approvals run_id status limit)) (\<lambda>rows.
     pure_result (read_approvals env key rows)))"

text \<open>The status of the approval requested last: no key is needed, and no digest is checked.\<close>

definition latest_status :: "string \<Rightarrow> tables \<Rightarrow> string option" where
  "latest_status checkpoint_id t = (case order_desc at_created_at
       (filter (\<lambda>r. at_checkpoint_id r = Some checkpoint_id) (tb_approvals t)) of
     [] \<Rightarrow> None | r # _ \<Rightarrow> Some (at_status r))"

definition checkpoint_approval_status :: "string \<Rightarrow> (approval_error, string option) sql" where
  "checkpoint_approval_status checkpoint_id = query av_failed (latest_status checkpoint_id)"

section \<open>Decisions\<close>

definition pending_row :: "string \<Rightarrow> approval_row \<Rightarrow> bool" where
  "pending_row approval_id r \<longleftrightarrow> at_approval_id r = approval_id \<and> at_status r = ''pending''"

text \<open>Writing the decided fields of the record into its row, if it is still pending.\<close>

definition decide_rows :: "approval_record \<Rightarrow> tables \<Rightarrow> tables" where
  "decide_rows a t = t\<lparr>tb_approvals := update_where (pending_row (av_approval_id a)) (\<lambda>r. r\<lparr>
     at_status := av_status a, at_decision := av_decision a, at_decided_by := av_decided_by a,
     at_decided_at := av_decided_at a, at_approval_digest := Some (av_approval_digest a)\<rparr>) (tb_approvals t)\<rparr>"

definition mark_decided :: "approval_record \<Rightarrow> (approval_error, nat) sql" where
  "mark_decided a = statement av_failed (\<lambda>t.
     Inr (count_where (pending_row (av_approval_id a)) (tb_approvals t), decide_rows a t))"

definition sealed :: "crypto \<Rightarrow> string \<Rightarrow> approval_record \<Rightarrow> approval_record" where
  "sealed cr key a = a\<lparr>av_approval_digest := approval_digest cr a key\<rparr>"

definition expire_approval :: "store_env \<Rightarrow> string \<Rightarrow> int \<Rightarrow> approval_record \<Rightarrow> approval_record" where
  "expire_approval env key now a = sealed (se_crypto env) key (a\<lparr>av_status := ''expired'',
     av_decision := None, av_decided_by := None, av_decided_at := Some (se_show_time env now)\<rparr>)"

definition settle_approval ::
    "store_env \<Rightarrow> string \<Rightarrow> int \<Rightarrow> string \<Rightarrow> string \<Rightarrow> approval_record \<Rightarrow> approval_record" where
  "settle_approval env key now decision actor a = sealed (se_crypto env) key (a\<lparr>
     av_status := (if decision = ''approve'' then ''approved'' else ''rejected''),
     av_decision := Some decision, av_decided_by := Some actor,
     av_decided_at := Some (se_show_time env now)\<rparr>)"

definition same_subject :: "checkpoint_record \<Rightarrow> approval_record \<Rightarrow> bool" where
  "same_subject c a \<longleftrightarrow> cp_run_id c = av_run_id a \<and> cp_graph_id c = av_graph_id a
     \<and> cp_graph_version c = av_graph_version a \<and> cp_checkpoint_digest c = av_checkpoint_digest a"

definition bound_checkpoint ::
    "store_env \<Rightarrow> string \<Rightarrow> approval_record \<Rightarrow> (approval_error, checkpoint_record) sql" where
  "bound_checkpoint env key a =
     bind_step (lifted_load env key (av_checkpoint_id a)) (\<lambda>c.
     if same_subject c a then give c else refuse Av_integrity)"

text \<open>An approval that has expired is closed, with its checkpoint, before the error is given.\<close>

definition close_expired ::
    "store_env \<Rightarrow> string \<Rightarrow> int \<Rightarrow> approval_record
      \<Rightarrow> (approval_error, (approval_error + approval_record \<times> checkpoint_record) tx_end) sql" where
  "close_expired env key now a =
     bind_step (bound_checkpoint env key a) (\<lambda>c.
     bind_step (mark_decided (expire_approval env key now a)) (\<lambda>changed.
     if changed \<noteq> 1 then refuse Av_already_decided
     else bind_step (if cp_consumed_at c = None
         then mark_consumed av_failed (av_checkpoint_id a) (se_show_time env now) else give 0) (\<lambda>_.
       give (Committed (Inl Av_expired)))))"

definition close_decided ::
    "store_env \<Rightarrow> string \<Rightarrow> int \<Rightarrow> string \<Rightarrow> string \<Rightarrow> approval_record
      \<Rightarrow> (approval_error, (approval_error + approval_record \<times> checkpoint_record) tx_end) sql" where
  "close_decided env key now decision actor a =
     (if decision \<notin> set (av_allowed_decisions a) then refuse Av_decision_not_allowed
      else bind_step (bound_checkpoint env key a) (\<lambda>c.
        if cp_consumed_at c \<noteq> None then refuse (Av_checkpoint Ck_consumed)
        else bind_step (mark_decided (settle_approval env key now decision actor a)) (\<lambda>changed.
          if changed \<noteq> 1 then refuse Av_already_decided
          else bind_step (mark_consumed av_failed (av_checkpoint_id a) (se_show_time env now)) (\<lambda>consumed.
            if consumed \<noteq> 1 then refuse (Av_checkpoint Ck_consumed)
            else give (Committed (Inr (settle_approval env key now decision actor a, c)))))))"

definition decide_body ::
    "store_env \<Rightarrow> string \<Rightarrow> int \<Rightarrow> string \<Rightarrow> string \<Rightarrow> string
      \<Rightarrow> (approval_error, (approval_error + approval_record \<times> checkpoint_record) tx_end) sql" where
  "decide_body env key now approval_id decision actor =
     bind_step (query av_failed (\<lambda>t. find (bound_approval approval_id) (tb_approvals t))) (\<lambda>row.
     case row of
       None \<Rightarrow> refuse Av_not_found
     | Some r \<Rightarrow> bind_step (pure_result (read_approval env key r)) (\<lambda>a.
         if av_status a = ''expired'' then refuse Av_expired
         else if av_status a \<noteq> ''pending'' then refuse Av_already_decided
         else (case se_time env (av_expires_at a) of
             None \<Rightarrow> refuse Av_integrity
           | Some expiry \<Rightarrow>
               if expiry \<le> now then close_expired env key now a
               else close_decided env key now decision actor a)))"

definition decide_checkpoint_approval ::
    "store_env \<Rightarrow> int \<Rightarrow> string \<Rightarrow> string \<Rightarrow> string
      \<Rightarrow> (approval_error, approval_record \<times> checkpoint_record) sql" where
  "decide_checkpoint_approval env now approval_id decision actor =
     bind_step (pure_result (require_integrity_key env Av_key_required)) (\<lambda>key.
     in_transaction av_failed av_failed (decide_body env key now approval_id decision actor))"

end
