(* ===== verification/Store_Laws.thy ===== *)
theory Store_Laws
  imports Durable_Store Durable_Checkpoints
begin

text \<open>
  What the operations of the store can do to its tables, as a relation between tables, and
  the invariants of that relation. Every operation, under any schedule of faults, is a
  sequence of such changes: the relation is the specification that the operations refine,
  and an invariant is proved once for the relation.
\<close>

section \<open>The changes of the tables\<close>

definition same_pin :: "(execution_row \<Rightarrow> execution_row) \<Rightarrow> bool" where
  "same_pin f \<longleftrightarrow> (\<forall>x. xt_run_id (f x) = xt_run_id x \<and> xt_graph_name (f x) = xt_graph_name x
     \<and> xt_graph_hash (f x) = xt_graph_hash x)"

text \<open>A row of a checkpoint as it was created: what later operations may change is blanked.\<close>

definition resume_view :: "checkpoint_row \<Rightarrow> checkpoint_row" where
  "resume_view k = k\<lparr>kt_output_json := None, kt_status := [], kt_error := None, kt_consumed_at := None\<rparr>"

definition same_resume :: "(checkpoint_row \<Rightarrow> checkpoint_row) \<Rightarrow> bool" where
  "same_resume f \<longleftrightarrow> (\<forall>k. resume_view (f k) = resume_view k \<and> kt_consumed_at (f k) = kt_consumed_at k)"

lemma resume_view_simps [simp]:
  "kt_checkpoint_id (resume_view k) = kt_checkpoint_id k" "kt_run_id (resume_view k) = kt_run_id k"
  "has_checkpoint_id i (resume_view k) = has_checkpoint_id i k"
  by (simp_all add: resume_view_def has_checkpoint_id_def)

lemma resume_view_fields:
  assumes "resume_view k = resume_view k'"
  shows "kt_checkpoint_id k = kt_checkpoint_id k'" "kt_run_id k = kt_run_id k'"
    and "has_checkpoint_id i k = has_checkpoint_id i k'"
  using assms by (metis resume_view_simps)+

definition drop_graph :: "string \<Rightarrow> tables \<Rightarrow> tables" where
  "drop_graph name t = t\<lparr>tb_graphs := filter (\<lambda>g. gt_name g \<noteq> name) (tb_graphs t),
     tb_versions := filter (\<lambda>v. vt_graph_name v \<noteq> name) (tb_versions t)\<rparr>"

inductive store_change :: "tables \<Rightarrow> tables \<Rightarrow> bool" where
  ch_version: "store_change t (insert_graph_version now name hash spec_json t)"
| ch_graph: "store_change t (upsert_graph now name spec_json hash t)"
| ch_drop: "\<not> list_ex (runs_graph name) (tb_executions t) \<Longrightarrow> store_change t (drop_graph name t)"
| ch_execution: "upsert_execution now i name hash status input budgets t = Inr (u, t') \<Longrightarrow> store_change t t'"
| ch_update: "same_pin f \<Longrightarrow> store_change t (t\<lparr>tb_executions := update_where p f (tb_executions t)\<rparr>)"
| ch_events: "(\<And>e. e \<in> set es \<Longrightarrow> e \<in> set (tb_events t) \<or> has_run (et_run_id e) t) \<Longrightarrow>
    store_change t (t\<lparr>tb_events := es\<rparr>)"
| ch_receipt: "upsert_receipt i receipt bundle d t = Inr (u, t') \<Longrightarrow> store_change t t'"
| ch_reply: "store_change t (insert_reply key d text t)"
| ch_witness: "store_change t (insert_witness w t)"
| ch_checkpoint: "insert_checkpoint r t = Inr (u, t') \<Longrightarrow> kt_consumed_at r = None \<Longrightarrow> store_change t t'"
| ch_record: "same_resume f \<Longrightarrow>
    store_change t (t\<lparr>tb_checkpoints := update_where p f (tb_checkpoints t)\<rparr>)"
| ch_consume: "store_change t (consume_rows i stamp t)"
| ch_request: "insert_approval r t = Inr (u, t') \<Longrightarrow> at_status r = ''pending'' \<Longrightarrow>
    at_checkpoint_id r = Some i \<Longrightarrow> list_ex (has_checkpoint_id i) (tb_checkpoints t) \<Longrightarrow> store_change t t'"
| ch_decide: "(\<And>r. r \<in> set (tb_approvals t) \<Longrightarrow> pending_row (av_approval_id a) r \<Longrightarrow>
      at_checkpoint_id r = Some i) \<Longrightarrow>
    (\<And>k. k \<in> set (tb_checkpoints t) \<Longrightarrow> has_checkpoint_id i k \<Longrightarrow> kt_consumed_at k \<noteq> None) \<Longrightarrow>
    store_change t (decide_rows a t)"

definition changes :: "('e, 'a) sql \<Rightarrow> bool" where
  "changes m \<longleftrightarrow> (\<forall>con. store_change\<^sup>*\<^sup>* (db_tables con) (db_tables (snd (m con))))"

named_theorems change_intros \<open>computations whose effect is a sequence of changes\<close>

lemma changesD: "changes m \<Longrightarrow> m con = (r, con') \<Longrightarrow> store_change\<^sup>*\<^sup>* (db_tables con) (db_tables con')"
  by (metis changes_def snd_conv)

lemma changes_reads: "reads_only m \<Longrightarrow> changes m"
  by (simp add: changes_def reads_only_def)

lemma changes_bind [change_intros]:
  assumes "changes m" and "\<And>x. changes (f x)"
  shows "changes (bind_step m f)"
  unfolding changes_def
proof
  fix con
  obtain r con1 where m: "m con = (r, con1)" by (cases "m con")
  have step: "store_change\<^sup>*\<^sup>* (db_tables con) (db_tables con1)"
    using assms(1) m by (rule changesD)
  show "store_change\<^sup>*\<^sup>* (db_tables con) (db_tables (snd (bind_step m f con)))"
  proof (cases r)
    case (Inl e)
    then show ?thesis using m step by (simp add: bind_step_def)
  next
    case (Inr x)
    have "store_change\<^sup>*\<^sup>* (db_tables con1) (db_tables (snd (f x con1)))"
      using assms(2) by (simp add: changes_def)
    with step show ?thesis using m Inr by (simp add: bind_step_def)
  qed
qed

lemma changes_statement:
  assumes "\<And>t x t'. f t = Inr (x, t') \<Longrightarrow> store_change\<^sup>*\<^sup>* t t'"
  shows "changes (statement err f)"
proof -
  have "store_change\<^sup>*\<^sup>* (db_tables con) (db_tables (snd (statement err f con)))" for con
  proof -
    obtain r con' where r: "statement err f con = (r, con')" by (cases "statement err f con")
    from statement_cases [OF r] show ?thesis
      using assms r by auto
  qed
  then show ?thesis by (simp add: changes_def)
qed

lemma changes_transaction [change_intros]:
  assumes "changes body"
  shows "changes (in_transaction b c body)"
proof -
  have "store_change\<^sup>*\<^sup>* (db_tables con) (db_tables (snd (in_transaction b c body con)))" for con
  proof -
    obtain r con' where r: "in_transaction b c body con = (r, con')"
      by (cases "in_transaction b c body con")
    from in_transaction_cases [OF r] show ?thesis
      using r changesD [OF assms] by (metis rtranclp.rtrancl_refl snd_conv)
  qed
  then show ?thesis by (simp add: changes_def)
qed

lemma changes_execute:
  "(\<And>t. store_change\<^sup>*\<^sup>* t (f t)) \<Longrightarrow> changes (execute_sql err f)"
  by (auto simp: execute_sql_def intro: changes_statement)

lemma changes_let: "(\<And>x. changes (f x)) \<Longrightarrow> changes (let x = v in f x)"
  by simp

lemma changes_option [change_intros]:
  "changes m \<Longrightarrow> (\<And>x. changes (f x)) \<Longrightarrow> changes (case v of None \<Rightarrow> m | Some x \<Rightarrow> f x)"
  by (cases v) auto

lemma changes_if [change_intros]: "changes m \<Longrightarrow> changes n \<Longrightarrow> changes (if b then m else n)"
  by simp

lemmas changes_atoms [change_intros] =
  reads_only_give [THEN changes_reads] reads_only_refuse [THEN changes_reads]
  reads_only_pure [THEN changes_reads] reads_only_query [THEN changes_reads]

section \<open>The operations refine the changes\<close>

lemma row_ok_query_changes [change_intros]: "changes (row_ok (query err f))"
  by (intro changes_reads reads_intros)

lemma save_graph_changes: "changes (save_graph now name spec_json hash overwrite)"
  unfolding save_graph_def
  by (intro change_intros changes_execute r_into_rtranclp ch_version ch_graph)

lemma upsert_execution_changes:
  "changes (save_execution_with_budgets now i name hash status input budgets)"
  unfolding save_execution_with_budgets_def by (intro changes_statement) (blast intro: ch_execution)

lemma set_execution_changes:
  "same_pin f \<Longrightarrow> changes (statement err (set_execution i f))"
  by (rule changes_statement) (auto simp: set_execution_def intro: ch_update)

lemma update_execution_changes: "changes (update_execution_status now i status st n k)"
  unfolding update_execution_status_def
  by (intro change_intros set_execution_changes) (simp add: same_pin_def)

lemma insert_event_changes:
  assumes "insert_event i e t = Inr (x, t')"
  shows "store_change\<^sup>*\<^sup>* t t'"
proof -
  obtain seq ty js where e: "e = (seq, ty, js)" by (cases e)
  have run: "has_run i t"
    using assms e by (auto simp: insert_event_def execution_of_def find_None_iff_list_ex has_run_def
        split: if_splits)
  have "t' = t\<lparr>tb_events := tb_events t @ [\<lparr>et_run_id = i, et_seq = seq, et_event_type = ty, et_event_json = js\<rparr>]\<rparr>"
    using assms e by (auto simp: insert_event_def split: if_splits)
  moreover have "store_change t (t\<lparr>tb_events := tb_events t
      @ [\<lparr>et_run_id = i, et_seq = seq, et_event_type = ty, et_event_json = js\<rparr>]\<rparr>)"
    by (rule ch_events) (use run in auto)
  ultimately show ?thesis by auto
qed

lemma insert_events_changes [change_intros]: "changes (insert_events i es)"
proof (induction es)
  case Nil
  show ?case unfolding insert_events.simps by (intro change_intros)
next
  case (Cons e es)
  then show ?case
    unfolding insert_events.simps by (intro change_intros changes_statement) (rule insert_event_changes)
qed

lemma clear_events_changes: "store_change\<^sup>*\<^sup>* t (t\<lparr>tb_events := filter p (tb_events t)\<rparr>)"
  by (intro r_into_rtranclp ch_events) auto

lemma persist_terminal_changes:
  "changes (persist_terminal_projection env now i status st n events receipt bundle)"
  unfolding persist_terminal_projection_def terminal_body_def
  by (intro change_intros set_execution_changes changes_execute changes_statement)
    (auto simp: same_pin_def intro: clear_events_changes ch_receipt)

lemma recover_changes: "changes (recover_incomplete_executions now)"
  unfolding recover_incomplete_executions_def interrupt_rows_def
  by (intro changes_execute r_into_rtranclp ch_update) (simp add: same_pin_def)

lemma save_event_changes: "changes (save_event i seq ty js)"
  unfolding save_event_def
  by (intro changes_statement) (auto split: if_splits intro: insert_event_changes)

lemma save_idempotency_changes: "changes (save_idempotency key d text)"
  unfolding save_idempotency_def by (intro changes_statement) (auto intro: ch_reply)

lemma get_witness_reads: "reads_only (get_witness env i)"
proof -
  have "reads_only (case row of None \<Rightarrow> give None | Some w \<Rightarrow> bind_step
      (pure_result (verify_witness_record (se_crypto env) (is_rfc3339 env) (Some key) w)) (\<lambda>_. give (Some w)))"
    for row key by (cases row) (auto intro!: reads_intros)
  then show ?thesis unfolding get_witness_def by (intro reads_intros)
qed

lemma capture_witness_changes: "changes (capture_witness env c)"
  unfolding capture_witness_def
  by (intro change_intros changes_execute r_into_rtranclp ch_witness get_witness_reads [THEN changes_reads])

lemma save_node_checkpoint_changes: "changes (save_node_checkpoint i node attempt input out status err)"
  unfolding save_node_checkpoint_def Let_def
  by (intro changes_statement)
    (auto split: if_splits intro!: r_into_rtranclp ch_record ch_checkpoint
      simp: same_resume_def resume_view_def legacy_checkpoint_def)

lemma create_checkpoint_changes:
  "changes (create_resume_checkpoint env now i gid gv cursor st b c d te ev)"
  unfolding create_resume_checkpoint_def Let_def
  by (intro change_intros changes_statement) (auto intro!: ch_checkpoint simp: row_of_checkpoint_def)

lemma load_checkpoint_reads [reads_intros]: "reads_only (load_checkpoint_from_tx env key i)"
  unfolding load_checkpoint_from_tx_def by (intro reads_intros)

lemma mark_consumed_changes [change_intros]: "changes (mark_consumed err i stamp)"
  unfolding mark_consumed_def by (intro changes_statement) (auto intro: ch_consume)

lemma consume_checkpoint_changes: "changes (consume_resume_checkpoint env now i)"
  unfolding consume_resume_checkpoint_def consume_body_def
  by (intro change_intros load_checkpoint_reads [THEN changes_reads])

lemma delete_graph_row_InrD:
  assumes "statement err (delete_graph_row name) con = (Inr n, con')"
  shows "db_tables con' = (db_tables con)\<lparr>tb_graphs := filter (\<lambda>g. gt_name g \<noteq> name) (tb_graphs (db_tables con))\<rparr>"
  using statement_InrD [OF assms] by (auto simp: delete_graph_row_def Let_def split: if_splits)

lemma delete_graph_changes: "changes (delete_graph name)"
  unfolding changes_def
proof
  fix con
  obtain r con' where r: "delete_graph name con = (r, con')" by (cases "delete_graph name con")
  from in_transaction_cases [OF r [unfolded delete_graph_def]]
  have "db_tables con' = db_tables con \<or> db_tables con' = drop_graph name (db_tables con)
      \<and> \<not> list_ex (runs_graph name) (tb_executions (db_tables con))"
    by (auto simp: bind_step_Inr_iff drop_graph_def split: if_splits
        dest!: query_InrD delete_graph_row_InrD execute_sql_InrD)
  then show "store_change\<^sup>*\<^sup>* (db_tables con) (db_tables (snd (delete_graph name con)))"
    using r by (elim disjE conjE) (simp_all add: r_into_rtranclp [where r = store_change] ch_drop)
qed

text \<open>What a checkpoint or an approval that was read says of its row.\<close>

lemma checkpoint_from_partsD:
  "checkpoint_from_parts env r = Some c \<Longrightarrow> kt_checkpoint_id r = Some (cp_checkpoint_id c)
     \<and> kt_run_id r = cp_run_id c \<and> kt_consumed_at r = cp_consumed_at c"
  by (auto simp: checkpoint_from_parts_def bind_eq_Some_conv)

lemma read_checkpointD:
  "read_checkpoint env key row = Inr (Some c) \<Longrightarrow>
     \<exists>r. row = Some r \<and> checkpoint_from_parts env r = Some c
       \<and> validate_checkpoint_record (se_crypto env) key c = Inr ()"
  by (auto simp: read_checkpoint_def bind_result_Inr_iff split: option.splits if_splits)

lemma load_checkpoint_InrD:
  assumes "load_checkpoint_from_tx env key i con = (Inr c, con')"
  shows "db_tables con' = db_tables con" (is ?same)
    and "\<exists>r. checkpoint_by_id i (db_tables con) = Some r \<and> checkpoint_from_parts env r = Some c
      \<and> validate_checkpoint_record (se_crypto env) key c = Inr ()"
proof -
  show ?same using reads_only_tables [OF load_checkpoint_reads assms] .
  from assms obtain row con1 where q: "query ck_failed (checkpoint_by_id i) con = (Inr row, con1)"
      and c: "read_checkpoint env key row = Inr (Some c)"
    by (auto simp: load_checkpoint_from_tx_def bind_step_Inr_iff bind_result_Inr_iff split: option.splits)
  from read_checkpointD [OF c] query_InrD [OF q]
  show "\<exists>r. checkpoint_by_id i (db_tables con) = Some r \<and> checkpoint_from_parts env r = Some c
      \<and> validate_checkpoint_record (se_crypto env) key c = Inr ()" by auto
qed

lemma checkpoint_by_idD:
  "checkpoint_by_id i t = Some r \<Longrightarrow> r \<in> set (tb_checkpoints t) \<and> kt_checkpoint_id r = Some i"
  by (auto simp: checkpoint_by_id_def has_checkpoint_id_def dest: find_Some_in)

lemma loaded_checkpoint:
  assumes "load_checkpoint_from_tx env key i con = (Inr c, con')"
  shows "\<exists>r \<in> set (tb_checkpoints (db_tables con)). has_checkpoint_id i r \<and> cp_checkpoint_id c = i
    \<and> kt_run_id r = cp_run_id c \<and> kt_consumed_at r = cp_consumed_at c"
  using load_checkpoint_InrD(2) [OF assms]
  by (auto simp: has_checkpoint_id_def dest!: checkpoint_by_idD checkpoint_from_partsD)

lemma read_approvalD:
  "read_approval env key r = Inr a \<Longrightarrow> av_approval_id a = at_approval_id r
     \<and> at_checkpoint_id r = Some (av_checkpoint_id a) \<and> av_status a = at_status r
     \<and> av_approval_digest a = approval_digest (se_crypto env) a key"
  by (auto simp: read_approval_def parse_approval_parts_def approval_from_parts_def bind_eq_Some_conv
      split: option.splits if_splits)

lemma lifted_load_InrD:
  "lifted_load env key i con = (Inr c, con') \<Longrightarrow> load_checkpoint_from_tx env key i con = (Inr c, con')"
  by (auto simp: lifted_load_def split: prod.splits sum.splits)

text \<open>A transaction behind the check for the key.\<close>

lemma keyed_transaction_changes:
  assumes "m = bind_step (pure_result (require_integrity_key env e)) (\<lambda>key. in_transaction b c (body key))"
    and "\<And>key con1 r con2. db_tables con1 = db_tables con \<Longrightarrow> body key con1 = (Inr (Committed r), con2) \<Longrightarrow>
      store_change\<^sup>*\<^sup>* (db_tables con) (db_tables con2)"
  shows "store_change\<^sup>*\<^sup>* (db_tables con) (db_tables (snd (m con)))"
proof (cases "se_key env")
  case None
  then show ?thesis by (simp add: assms(1) bind_step_def)
next
  case (Some key)
  obtain r con' where r: "in_transaction b c (body key) con = (r, con')"
    by (cases "in_transaction b c (body key) con")
  then have "m con = (r, con')" using Some by (simp add: assms(1) bind_step_def)
  with in_transaction_cases [OF r] show ?thesis using assms(2) by auto
qed

lemma request_body_effect:
  assumes "request_body env key now later i x audience pd allowed expires con = (Inr (Committed r), con')"
  shows "db_tables con' = db_tables con
    \<or> (\<exists>row u. at_status row = ''pending'' \<and> at_checkpoint_id row = Some i
        \<and> list_ex (has_checkpoint_id i) (tb_checkpoints (db_tables con))
        \<and> insert_approval row (db_tables con) = Inr (u, db_tables con'))"
proof -
  from assms obtain c con1 where l: "load_checkpoint_from_tx env key i con = (Inr c, con1)"
    by (auto simp: request_body_def bind_step_Inr_iff dest!: lifted_load_InrD)
  from loaded_checkpoint [OF l] have there: "list_ex (has_checkpoint_id i) (tb_checkpoints (db_tables con))"
      and c: "cp_checkpoint_id c = i"
    by (auto simp: list_ex_iff)
  have ll: "lifted_load env key i con = (Inr c, con1)" using l by (simp add: lifted_load_def)
  show ?thesis
    using assms there c load_checkpoint_InrD(1) [OF l]
    by (auto simp: request_body_def bind_step_Inr_iff ll new_approval_def row_of_approval_def Let_def
        split: if_splits option.splits dest!: query_InrD statement_InrD)
qed

lemma create_approval_changes:
  "changes (create_checkpoint_approval env now later i x audience pd allowed expires)"
  unfolding changes_def
proof
  fix con
  show "store_change\<^sup>*\<^sup>* (db_tables con)
    (db_tables (snd (create_checkpoint_approval env now later i x audience pd allowed expires con)))"
  proof (rule keyed_transaction_changes [OF create_checkpoint_approval_def])
    fix key con1 r con2
    assume "db_tables con1 = db_tables con"
      and "request_body env key now later i x audience pd allowed expires con1 = (Inr (Committed r), con2)"
    with request_body_effect show "store_change\<^sup>*\<^sup>* (db_tables con) (db_tables con2)"
      by (metis ch_request r_into_rtranclp rtranclp.rtrancl_refl)
  qed
qed

end
