(* ===== verification/Store_Invariants.thy ===== *)
theory Store_Invariants
  imports Store_Laws
begin

text \<open>
  The invariants of the store's tables: keys are unique, foreign keys refer to rows that are
  there, and an approval that is no longer pending has a checkpoint that is consumed. They
  hold for every sequence of operations under every schedule of faults. On the way: which
  version of a graph a run is pinned to never changes, and a consumed checkpoint stays so.
\<close>

section \<open>Unique keys\<close>

definition checkpoint_ids :: "tables \<Rightarrow> string list" where
  "checkpoint_ids t = List.map_filter kt_checkpoint_id (tb_checkpoints t)"

definition keys_ok :: "tables \<Rightarrow> bool" where
  "keys_ok t \<longleftrightarrow> distinct (map gt_name (tb_graphs t)) \<and> distinct (map xt_run_id (tb_executions t))
     \<and> distinct (checkpoint_ids t) \<and> distinct (map at_approval_id (tb_approvals t))
     \<and> distinct (map it_key (tb_idempotency t))"

lemma distinct_map_update_where:
  "(\<And>r. p r \<Longrightarrow> g (f r) = g r) \<Longrightarrow> distinct (map g (update_where p f rows)) = distinct (map g rows)"
  by (simp add: map_update_where)

lemma distinct_map_upsert:
  assumes "distinct (map g rows)" and "\<And>x. p x \<longleftrightarrow> g x = g r" and "\<And>x. p x \<Longrightarrow> g (f x) = g x"
  shows "distinct (map g (upsert p r f rows))"
proof (cases "list_ex p rows")
  case True
  then show ?thesis
    using assms(1) distinct_map_update_where [of p g f rows, OF assms(3)] by (simp add: upsert_def)
next
  case False
  then show ?thesis using assms(1,2) by (auto simp: upsert_def list_ex_iff)
qed

lemma distinct_map_insert_or_ignore:
  assumes "distinct (map g rows)" and "\<And>x. p x \<longleftrightarrow> g x = g r"
  shows "distinct (map g (insert_or_ignore p r rows))"
  using assms by (auto simp: insert_or_ignore_def list_ex_iff)

lemma map_filter_update_where:
  "(\<And>r. p r \<Longrightarrow> g (f r) = g r) \<Longrightarrow> List.map_filter g (update_where p f rows) = List.map_filter g rows"
  by (induction rows) (auto simp: update_where_def List.map_filter_simps split: option.splits)

lemma same_resumeD:
  "same_resume f \<Longrightarrow> kt_checkpoint_id (f k) = kt_checkpoint_id k"
  "same_resume f \<Longrightarrow> kt_run_id (f k) = kt_run_id k"
  by (auto simp: same_resume_def dest: resume_view_fields)

lemma map_filter_append: "List.map_filter g (xs @ ys) = List.map_filter g xs @ List.map_filter g ys"
  by (induction xs) (auto simp: List.map_filter_simps split: option.splits)

lemma set_map_filter: "y \<in> set (List.map_filter g xs) \<longleftrightarrow> (\<exists>x \<in> set xs. g x = Some y)"
  by (force simp: List.map_filter_def)

lemma keys_ok_change: "store_change t t' \<Longrightarrow> keys_ok t \<Longrightarrow> keys_ok t'"
proof (induction rule: store_change.induct)
  case (ch_graph t now name spec_json hash)
  then show ?case
    by (simp add: keys_ok_def checkpoint_ids_def upsert_graph_def distinct_map_upsert)
next
  case (ch_execution now i name hash status input budgets t u t')
  then show ?case
    by (auto simp: keys_ok_def checkpoint_ids_def upsert_execution_def split: if_splits
        intro!: distinct_map_upsert)
next
  case (ch_checkpoint r t u t')
  then show ?case
    by (auto simp: keys_ok_def checkpoint_ids_def insert_checkpoint_def map_filter_append
        List.map_filter_simps set_map_filter list_ex_iff split: if_splits option.splits)
next
  case (ch_reply t key d reply)
  then show ?case
    by (simp add: keys_ok_def checkpoint_ids_def insert_reply_def distinct_map_insert_or_ignore)
next
  case (ch_request r t u t' i)
  then have fresh: "at_approval_id r \<notin> at_approval_id ` set (tb_approvals t)"
    by (auto simp: insert_approval_def list_ex_iff split: if_splits)
  with ch_request show ?case
    by (simp add: keys_ok_def checkpoint_ids_def insert_approval_def split: if_splits) auto
qed (auto simp: keys_ok_def checkpoint_ids_def insert_graph_version_def drop_graph_def distinct_map_filter
    distinct_map_update_where map_filter_update_where same_pin_def same_resumeD upsert_receipt_def
    insert_witness_def consume_rows_def decide_rows_def split: if_splits)

section \<open>References\<close>

definition refs_ok :: "tables \<Rightarrow> bool" where
  "refs_ok t \<longleftrightarrow> (\<forall>x \<in> set (tb_executions t). list_ex (\<lambda>g. gt_name g = xt_graph_name x) (tb_graphs t))
     \<and> (\<forall>e \<in> set (tb_events t). has_run (et_run_id e) t)
     \<and> (\<forall>r \<in> set (tb_receipts t). has_run (rt_run_id r) t)
     \<and> (\<forall>k \<in> set (tb_checkpoints t). has_run (kt_run_id k) t)
     \<and> (\<forall>a \<in> set (tb_approvals t). has_run (at_run_id a) t)"

definition run_ids :: "tables \<Rightarrow> string set" where
  "run_ids t = xt_run_id ` set (tb_executions t)"

definition graph_names :: "tables \<Rightarrow> string set" where
  "graph_names t = gt_name ` set (tb_graphs t)"

lemma has_run_iff: "has_run i t \<longleftrightarrow> i \<in> run_ids t"
  by (auto simp: has_run_def run_ids_def list_ex_iff)

lemma refs_ok_iff:
  "refs_ok t \<longleftrightarrow> xt_graph_name ` set (tb_executions t) \<subseteq> graph_names t
     \<and> et_run_id ` set (tb_events t) \<subseteq> run_ids t \<and> rt_run_id ` set (tb_receipts t) \<subseteq> run_ids t
     \<and> kt_run_id ` set (tb_checkpoints t) \<subseteq> run_ids t \<and> at_run_id ` set (tb_approvals t) \<subseteq> run_ids t"
  by (auto simp: refs_ok_def has_run_iff graph_names_def list_ex_iff image_subset_iff image_iff)
    (metis (no_types, lifting))+

lemma image_update_where:
  "(\<And>r. p r \<Longrightarrow> g (f r) = g r) \<Longrightarrow> g ` set (update_where p f rows) = g ` set rows"
  by (metis map_update_where set_map)

lemma image_upsert:
  assumes "\<And>x. p x \<Longrightarrow> g (f x) = g x"
  shows "g ` set (upsert p r f rows) = g ` set rows \<union> (if list_ex p rows then {} else {g r})"
  using image_update_where [of p g f rows] assms by (auto simp: upsert_def)

lemma not_runs_graph: "\<not> list_ex (runs_graph name) xs \<longleftrightarrow> name \<notin> xt_graph_name ` set xs"
  by (auto simp: list_ex_iff runs_graph_def)

lemma upsert_execution_effect:
  assumes "upsert_execution now i name hash status input budgets t = Inr (u, t')"
  obtains rows where "t' = t\<lparr>tb_executions := rows\<rparr>"
    and "xt_run_id ` set (tb_executions t) \<subseteq> xt_run_id ` set rows"
    and "xt_graph_name ` set rows \<subseteq> xt_graph_name ` set (tb_executions t) \<union> gt_name ` set (tb_graphs t)"
proof -
  define new where "new = \<lparr>xt_run_id = i, xt_graph_name = name, xt_graph_hash = hash, xt_status = status,
    xt_input_json = Some input, xt_budgets_json = budgets, xt_final_state_json = None,
    xt_started_at = now, xt_finished_at = None, xt_total_nodes = 0, xt_failed_attempts = 0\<rparr>"
  define again where "again = (\<lambda>x :: execution_row. x\<lparr>xt_status := status, xt_budgets_json := coalesce budgets (xt_budgets_json x),
    xt_finished_at := finished_when now status (xt_finished_at x)\<rparr>)"
  define rows where "rows = upsert (\<lambda>x. xt_run_id x = i) new again (tb_executions t)"
  have t': "t' = t\<lparr>tb_executions := rows\<rparr>"
    and known: "list_ex (\<lambda>x. xt_run_id x = i) (tb_executions t) \<or> name \<in> gt_name ` set (tb_graphs t)"
    using assms by (auto simp: upsert_execution_def rows_def new_def again_def execution_of_def
        graph_named_def find_None_iff_list_ex list_ex_iff split: if_splits)
  have "xt_run_id ` set (tb_executions t) \<subseteq> xt_run_id ` set rows"
    by (simp add: rows_def image_upsert again_def)
  moreover have "xt_graph_name ` set rows \<subseteq> xt_graph_name ` set (tb_executions t) \<union> gt_name ` set (tb_graphs t)"
    using known by (auto simp: rows_def image_upsert again_def new_def)
  ultimately show ?thesis using t' that by blast
qed

lemma refs_ok_change: "store_change t t' \<Longrightarrow> refs_ok t \<Longrightarrow> refs_ok t'"
  unfolding refs_ok_iff run_ids_def graph_names_def
proof (induction rule: store_change.induct)
  case (ch_drop name t)
  have "gt_name ` {g \<in> set (tb_graphs t). gt_name g \<noteq> name} = gt_name ` set (tb_graphs t) - {name}"
    by auto
  with ch_drop show ?case by (auto simp: drop_graph_def not_runs_graph)
next
  case (ch_execution now i name hash status input budgets t u t')
  obtain rows where t': "t' = t\<lparr>tb_executions := rows\<rparr>"
    and runs: "xt_run_id ` set (tb_executions t) \<subseteq> xt_run_id ` set rows"
    and names: "xt_graph_name ` set rows \<subseteq> xt_graph_name ` set (tb_executions t) \<union> gt_name ` set (tb_graphs t)"
    using ch_execution.hyps by (rule upsert_execution_effect)
  have "xt_graph_name ` set rows \<subseteq> gt_name ` set (tb_graphs t)"
    using names ch_execution.prems by (metis Un_absorb1)
  then show ?case
    using ch_execution.prems subset_trans [OF _ runs] by (simp add: t')
next
  case (ch_events es t)
  then show ?case by (auto simp: has_run_iff run_ids_def) (metis image_eqI subsetD)
next
  case (ch_receipt i receipt b d t u t')
  have run: "i \<in> xt_run_id ` set (tb_executions t)"
    using ch_receipt.hyps
    by (auto simp: upsert_receipt_def execution_of_def find_None_iff_list_ex list_ex_iff split: if_splits)
  define rows where "rows = upsert (\<lambda>r. rt_run_id r = i)
    \<lparr>rt_run_id = i, rt_receipt_json = receipt, rt_bundle_json = b, rt_receipt_digest = d\<rparr>
    (\<lambda>r. r\<lparr>rt_receipt_json := receipt, rt_bundle_json := b, rt_receipt_digest := d\<rparr>) (tb_receipts t)"
  have t': "t' = t\<lparr>tb_receipts := rows\<rparr>"
    using ch_receipt.hyps by (simp add: upsert_receipt_def rows_def split: if_splits)
  have rows: "rt_run_id ` set rows \<subseteq> insert i (rt_run_id ` set (tb_receipts t))"
    by (simp add: rows_def image_upsert subset_insertI)
  have "rt_run_id ` set rows \<subseteq> xt_run_id ` set (tb_executions t)"
    using rows run ch_receipt.prems by (metis insert_subset order_trans)
  then show ?case using ch_receipt.prems by (simp add: t')
next
  case (ch_checkpoint r t u t')
  then have "t' = t\<lparr>tb_checkpoints := tb_checkpoints t @ [r]\<rparr>"
      "kt_run_id r \<in> xt_run_id ` set (tb_executions t)"
    by (simp_all add: insert_checkpoint_def has_run_iff run_ids_def split: if_splits)
  then show ?case using ch_checkpoint.prems by simp
next
  case (ch_request r t u t' i)
  then have "t' = t\<lparr>tb_approvals := tb_approvals t @ [r]\<rparr>"
      "at_run_id r \<in> xt_run_id ` set (tb_executions t)"
    by (simp_all add: insert_approval_def has_run_iff run_ids_def split: if_splits)
  then show ?case using ch_request.prems by simp
qed (simp_all add: insert_graph_version_def upsert_graph_def image_upsert image_update_where same_pin_def
    same_resumeD insert_reply_def insert_witness_def consume_rows_def decide_rows_def
    subset_insertI2)

section \<open>Consumed checkpoints\<close>

definition consumed :: "string \<Rightarrow> tables \<Rightarrow> bool" where
  "consumed i t \<longleftrightarrow> list_ex (\<lambda>k. has_checkpoint_id i k \<and> kt_consumed_at k \<noteq> None) (tb_checkpoints t)"

definition known_checkpoint :: "string \<Rightarrow> tables \<Rightarrow> bool" where
  "known_checkpoint i t \<longleftrightarrow> list_ex (has_checkpoint_id i) (tb_checkpoints t)"

lemma update_where_member: "k \<in> set rows \<Longrightarrow> (if p k then f k else k) \<in> set (update_where p f rows)"
  by (simp only: set_update_where) (rule imageI)

lemma checkpoints_change:
  assumes "store_change t t'" and "k \<in> set (tb_checkpoints t)"
  shows "\<exists>k' \<in> set (tb_checkpoints t'). resume_view k' = resume_view k
    \<and> (kt_consumed_at k \<noteq> None \<longrightarrow> kt_consumed_at k' \<noteq> None)"
  using assms
proof (induction rule: store_change.induct)
  case (ch_record f t p)
  then show ?case
    using update_where_member [of k "tb_checkpoints t" p f] by (auto simp: same_resume_def split: if_splits)
next
  case (ch_consume t i stamp)
  let ?f = "\<lambda>r. r\<lparr>kt_consumed_at := Some stamp, kt_status := ''consumed''\<rparr>"
  have rows: "tb_checkpoints (consume_rows i stamp t) = update_where (unconsumed i) ?f (tb_checkpoints t)"
    by (simp add: consume_rows_def)
  have "(if unconsumed i k then ?f k else k) \<in> set (tb_checkpoints (consume_rows i stamp t))"
    unfolding rows using ch_consume.prems by (rule update_where_member)
  then show ?case by (rule rev_bexI) (simp add: resume_view_def)
qed (auto simp: insert_graph_version_def upsert_graph_def drop_graph_def upsert_execution_def
      upsert_receipt_def insert_reply_def insert_witness_def insert_checkpoint_def
      insert_approval_def decide_rows_def split: if_splits)

lemma checkpoints_changes:
  "store_change\<^sup>*\<^sup>* t t' \<Longrightarrow> k \<in> set (tb_checkpoints t) \<Longrightarrow>
    \<exists>k' \<in> set (tb_checkpoints t'). resume_view k' = resume_view k"
proof (induction rule: rtranclp_induct)
  case base
  then show ?case by blast
next
  case (step t1 t2)
  then show ?case using checkpoints_change by metis
qed

lemma consumed_iff:
  "consumed i t \<longleftrightarrow> (\<exists>k \<in> set (tb_checkpoints t). has_checkpoint_id i k \<and> kt_consumed_at k \<noteq> None)"
  by (simp add: consumed_def list_ex_iff)

lemma known_checkpoint_iff:
  "known_checkpoint i t \<longleftrightarrow> (\<exists>k \<in> set (tb_checkpoints t). has_checkpoint_id i k)"
  by (simp add: known_checkpoint_def list_ex_iff)

lemma consumed_change: "store_change t t' \<Longrightarrow> consumed i t \<Longrightarrow> consumed i t'"
  unfolding consumed_iff using checkpoints_change resume_view_fields(3) by meson

lemma known_checkpoint_change: "store_change t t' \<Longrightarrow> known_checkpoint i t \<Longrightarrow> known_checkpoint i t'"
  unfolding known_checkpoint_iff using checkpoints_change resume_view_fields(3) by meson

text \<open>With unique identifiers a checkpoint has one row.\<close>

lemma checkpoint_row_unique:
  assumes "distinct (List.map_filter kt_checkpoint_id rows)"
    and "k \<in> set rows" "k' \<in> set rows" "has_checkpoint_id i k" "has_checkpoint_id i k'"
  shows "k = k'"
  using assms
  by (induction rows) (auto simp: List.map_filter_simps has_checkpoint_id_def set_map_filter
      split: option.splits)

lemma unconsumed_not_consumed:
  assumes "keys_ok t" and "k \<in> set (tb_checkpoints t)" and "unconsumed i k"
  shows "\<not> consumed i t"
  using assms checkpoint_row_unique [of "tb_checkpoints t" k]
  by (auto simp: keys_ok_def checkpoint_ids_def consumed_def list_ex_iff unconsumed_def)

section \<open>Approvals\<close>

definition approval_ok :: "tables \<Rightarrow> approval_row \<Rightarrow> bool" where
  "approval_ok t a \<longleftrightarrow> (case at_checkpoint_id a of None \<Rightarrow> False
     | Some i \<Rightarrow> known_checkpoint i t \<and> (at_status a \<noteq> ''pending'' \<longrightarrow> consumed i t))"

definition gate_ok :: "tables \<Rightarrow> bool" where
  "gate_ok t \<longleftrightarrow> (\<forall>a \<in> set (tb_approvals t). approval_ok t a)"

lemma approval_ok_change: "store_change t t' \<Longrightarrow> approval_ok t a \<Longrightarrow> approval_ok t' a"
  by (auto simp: approval_ok_def split: option.splits intro: consumed_change known_checkpoint_change)

text \<open>A row of the changed table is an old one, a new pending one, or has a consumed checkpoint.\<close>

lemma approvals_change:
  assumes "store_change t t'" and "a \<in> set (tb_approvals t')"
  shows "a \<in> set (tb_approvals t)
    \<or> (\<exists>i. at_checkpoint_id a = Some i \<and> at_status a = ''pending'' \<and> known_checkpoint i t)
    \<or> (\<exists>i b. at_checkpoint_id a = Some i \<and> b \<in> set (tb_approvals t) \<and> at_checkpoint_id b = Some i
        \<and> (known_checkpoint i t \<longrightarrow> consumed i t))"
  using assms
proof (induction rule: store_change.induct)
  case (ch_request r t u t' i)
  then show ?case
    by (auto simp: insert_approval_def known_checkpoint_def split: if_splits)
next
  case (ch_decide t b i)
  from ch_decide.prems obtain r where r: "r \<in> set (tb_approvals t)"
      and a: "a = r \<or> pending_row (av_approval_id b) r \<and> at_checkpoint_id a = at_checkpoint_id r"
    by (auto simp: decide_rows_def set_update_where)
  have "consumed i t" if "known_checkpoint i t"
    using that ch_decide.hyps(2) by (auto simp: known_checkpoint_def consumed_def list_ex_iff)
  with r a ch_decide.hyps(1) show ?case by (metis (no_types))
qed (auto simp: insert_graph_version_def upsert_graph_def drop_graph_def upsert_execution_def
    upsert_receipt_def insert_reply_def insert_witness_def insert_checkpoint_def consume_rows_def
    split: if_splits)

lemma gate_ok_change:
  assumes change: "store_change t t'" and ok: "gate_ok t"
  shows "gate_ok t'"
  unfolding gate_ok_def
proof
  fix a
  assume "a \<in> set (tb_approvals t')"
  from approvals_change [OF change this] show "approval_ok t' a"
  proof (elim disjE exE conjE)
    assume "a \<in> set (tb_approvals t)"
    then show ?thesis using ok approval_ok_change [OF change] by (simp add: gate_ok_def)
  next
    fix i
    assume "at_checkpoint_id a = Some i" "at_status a = ''pending''" "known_checkpoint i t"
    then show ?thesis using known_checkpoint_change [OF change] by (simp add: approval_ok_def)
  next
    fix i b
    assume i: "at_checkpoint_id a = Some i" and b: "b \<in> set (tb_approvals t)" "at_checkpoint_id b = Some i"
      and c: "known_checkpoint i t \<longrightarrow> consumed i t"
    have "known_checkpoint i t" using ok b by (auto simp: gate_ok_def approval_ok_def)
    then show ?thesis
      using c i consumed_change [OF change] known_checkpoint_change [OF change]
      by (simp add: approval_ok_def)
  qed
qed

definition store_ok :: "tables \<Rightarrow> bool" where
  "store_ok t \<longleftrightarrow> keys_ok t \<and> refs_ok t \<and> gate_ok t"

lemma store_ok_no_tables: "store_ok no_tables"
  by (simp add: store_ok_def keys_ok_def refs_ok_def gate_ok_def no_tables_def checkpoint_ids_def
      List.map_filter_simps)

lemma store_ok_changes: "store_change\<^sup>*\<^sup>* t t' \<Longrightarrow> store_ok t \<Longrightarrow> store_ok t'"
  by (induction rule: rtranclp_induct) (auto simp: store_ok_def keys_ok_change refs_ok_change gate_ok_change)

lemma consumed_changes: "store_change\<^sup>*\<^sup>* t t' \<Longrightarrow> consumed i t \<Longrightarrow> consumed i t'"
  by (induction rule: rtranclp_induct) (auto intro: consumed_change)

end
