(* ===== verification/Store_Runs.thy ===== *)
theory Store_Runs
  imports Store_Invariants
begin

text \<open>
  Histories of a store: lists of operations, each with its own schedule of faults. What an
  operation does is a sequence of changes when the keys are unique, so that a history keeps
  the invariants; and an operation that grants the right to resume a checkpoint finds it
  unconsumed and leaves it consumed.
\<close>

section \<open>Decisions refine the changes\<close>

lemma decide_after_consume:
  "consume_rows i stamp (decide_rows a t) = decide_rows a (consume_rows i stamp t)"
  by (simp add: consume_rows_def decide_rows_def)

lemma consume_rows_consumes:
  "k \<in> set (tb_checkpoints (consume_rows i stamp t)) \<Longrightarrow> has_checkpoint_id i k \<Longrightarrow> kt_consumed_at k \<noteq> None"
  by (auto simp: consume_rows_def set_update_where unconsumed_def has_checkpoint_id_def split: if_splits)

lemma approval_row_unique:
  assumes "keys_ok t" "r \<in> set (tb_approvals t)" "r' \<in> set (tb_approvals t)"
    and "at_approval_id r = at_approval_id r'"
  shows "r = r'"
  using assms by (auto simp: keys_ok_def distinct_map dest: inj_onD)

lemma decided_and_consumed_changes:
  assumes "keys_ok t" "row \<in> set (tb_approvals t)" "at_approval_id row = av_approval_id a"
    and "at_checkpoint_id row = Some i"
  shows "store_change\<^sup>*\<^sup>* t (consume_rows i stamp (decide_rows a t))"
proof -
  have "store_change (consume_rows i stamp t) (decide_rows a (consume_rows i stamp t))"
  proof (rule ch_decide)
    fix r
    assume "r \<in> set (tb_approvals (consume_rows i stamp t))" and "pending_row (av_approval_id a) r"
    then have "r = row"
      using assms approval_row_unique [of t r row] by (simp add: consume_rows_def pending_row_def)
    then show "at_checkpoint_id r = Some i" using assms(4) by simp
  qed (rule consume_rows_consumes)
  then show ?thesis
    by (metis ch_consume decide_after_consume r_into_rtranclp rtranclp.rtrancl_into_rtrancl)
qed

lemma decided_when_consumed_changes:
  assumes "keys_ok t" "row \<in> set (tb_approvals t)" "at_approval_id row = av_approval_id a"
    and "at_checkpoint_id row = Some i"
    and k: "k \<in> set (tb_checkpoints t)" "has_checkpoint_id i k" "kt_consumed_at k \<noteq> None"
  shows "store_change\<^sup>*\<^sup>* t (decide_rows a t)"
proof (rule r_into_rtranclp, rule ch_decide)
  fix r
  assume "r \<in> set (tb_approvals t)" "pending_row (av_approval_id a) r"
  then show "at_checkpoint_id r = Some i"
    using assms approval_row_unique [of t r row] by (simp add: pending_row_def)
next
  fix k'
  assume "k' \<in> set (tb_checkpoints t)" "has_checkpoint_id i k'"
  then show "kt_consumed_at k' \<noteq> None"
    using assms(1) k checkpoint_row_unique [of "tb_checkpoints t" k k' i]
    by (simp add: keys_ok_def checkpoint_ids_def)
qed

lemma mark_decided_InrD:
  "mark_decided a con = (Inr n, con') \<Longrightarrow> db_tables con' = decide_rows a (db_tables con)"
  by (auto simp: mark_decided_def dest!: statement_InrD)

lemma mark_consumed_InrD:
  "mark_consumed err i stamp con = (Inr n, con') \<Longrightarrow>
     n = count_where (unconsumed i) (tb_checkpoints (db_tables con))
     \<and> db_tables con' = consume_rows i stamp (db_tables con)"
  by (auto simp: mark_consumed_def dest!: statement_InrD)

lemma bound_checkpoint_InrD:
  assumes "bound_checkpoint env key a con = (Inr c, con')"
  shows "db_tables con' = db_tables con" "cp_checkpoint_id c = av_checkpoint_id a" "same_subject c a"
    and "\<exists>k \<in> set (tb_checkpoints (db_tables con)). has_checkpoint_id (av_checkpoint_id a) k
      \<and> kt_consumed_at k = cp_consumed_at c"
proof -
  from assms have l: "load_checkpoint_from_tx env key (av_checkpoint_id a) con = (Inr c, con')"
      and s: "same_subject c a"
    by (auto simp: bound_checkpoint_def bind_step_Inr_iff split: if_splits dest!: lifted_load_InrD)
  show "db_tables con' = db_tables con" using load_checkpoint_InrD(1) [OF l] .
  show "same_subject c a" by (rule s)
  show "cp_checkpoint_id c = av_checkpoint_id a"
    and "\<exists>k \<in> set (tb_checkpoints (db_tables con)). has_checkpoint_id (av_checkpoint_id a) k
      \<and> kt_consumed_at k = cp_consumed_at c"
    using loaded_checkpoint [OF l] by auto
qed

text \<open>What the two ways of closing an approval leave behind.\<close>

lemma close_expired_InrD:
  assumes "close_expired env key now a con = (Inr (Committed r), con')"
  shows "r = Inl Av_expired \<and> (\<exists>k \<in> set (tb_checkpoints (db_tables con)).
      has_checkpoint_id (av_checkpoint_id a) k
      \<and> db_tables con' = (if kt_consumed_at k = None
          then consume_rows (av_checkpoint_id a) (se_show_time env now)
            (decide_rows (expire_approval env key now a) (db_tables con))
          else decide_rows (expire_approval env key now a) (db_tables con)))"
proof -
  from assms obtain c con1 n con2 m con3 where
    b: "bound_checkpoint env key a con = (Inr c, con1)"
    and d: "mark_decided (expire_approval env key now a) con1 = (Inr n, con2)"
    and m: "(if cp_consumed_at c = None then mark_consumed av_failed (av_checkpoint_id a) (se_show_time env now)
        else give 0) con2 = (Inr m, con3)"
    and r: "r = Inl Av_expired" "con' = con3"
    by (auto simp: close_expired_def bind_step_Inr_iff if_refuse_Inr_iff simp del: if_split)
  from m have "db_tables con3 = (if cp_consumed_at c = None
      then consume_rows (av_checkpoint_id a) (se_show_time env now) (db_tables con2) else db_tables con2)"
    by (auto split: if_splits dest!: mark_consumed_InrD)
  then show ?thesis
    using r bound_checkpoint_InrD(1,4) [OF b] mark_decided_InrD [OF d] by (metis (no_types))
qed

lemma close_decided_InrD:
  assumes "close_decided env key now decision actor a con = (Inr (Committed r), con')"
  shows "\<exists>c. r = Inr (settle_approval env key now decision actor a, c)
      \<and> decision \<in> set (av_allowed_decisions a) \<and> same_subject c a
      \<and> cp_checkpoint_id c = av_checkpoint_id a \<and> cp_consumed_at c = None
      \<and> (\<exists>k \<in> set (tb_checkpoints (db_tables con)). unconsumed (av_checkpoint_id a) k)
      \<and> db_tables con' = consume_rows (av_checkpoint_id a) (se_show_time env now)
            (decide_rows (settle_approval env key now decision actor a) (db_tables con))"
proof -
  from assms obtain c con1 n con2 m where
    b: "bound_checkpoint env key a con = (Inr c, con1)"
    and d: "mark_decided (settle_approval env key now decision actor a) con1 = (Inr n, con2)"
    and m: "mark_consumed av_failed (av_checkpoint_id a) (se_show_time env now) con2 = (Inr m, con')"
    and r: "r = Inr (settle_approval env key now decision actor a, c)"
      "decision \<in> set (av_allowed_decisions a)" "cp_consumed_at c = None"
    by (auto simp: close_decided_def bind_step_Inr_iff split: if_splits)
  show ?thesis
    using r bound_checkpoint_InrD [OF b] mark_decided_InrD [OF d] mark_consumed_InrD [OF m]
    by (auto simp: unconsumed_def)
qed

lemma decide_body_InrD:
  assumes "decide_body env key now approval_id decision actor con = (Inr (Committed r), con')"
  obtains row a con1 expiry where "row \<in> set (tb_approvals (db_tables con))"
    and "at_approval_id row = approval_id" and "read_approval env key row = Inr a"
    and "av_status a = ''pending''" and "db_tables con1 = db_tables con"
    and "se_time env (av_expires_at a) = Some expiry"
    and "(if expiry \<le> now then close_expired env key now a
      else close_decided env key now decision actor a) con1 = (Inr (Committed r), con')"
proof -
  from assms obtain row a con1 expiry where
    q: "query av_failed (\<lambda>t. find (bound_approval approval_id) (tb_approvals t)) con = (Inr (Some row), con1)"
    and "read_approval env key row = Inr a" "av_status a = ''pending''"
    and "se_time env (av_expires_at a) = Some expiry"
    and "(if expiry \<le> now then close_expired env key now a
      else close_decided env key now decision actor a) con1 = (Inr (Committed r), con')"
    by (auto simp: decide_body_def bind_step_Inr_iff split: option.splits if_splits)
  moreover have "row \<in> set (tb_approvals (db_tables con))" "at_approval_id row = approval_id"
      "db_tables con1 = db_tables con"
    using query_InrD [OF q] by (auto dest: find_Some_in [OF sym] simp: bound_approval_def)
  ultimately show ?thesis using that by blast
qed

lemma decide_changes:
  assumes "keys_ok (db_tables con)"
  shows "store_change\<^sup>*\<^sup>* (db_tables con)
    (db_tables (snd (decide_checkpoint_approval env now approval_id decision actor con)))"
proof (rule keyed_transaction_changes [OF decide_checkpoint_approval_def])
  fix key con1 r con2
  assume same: "db_tables con1 = db_tables con"
    and body: "decide_body env key now approval_id decision actor con1 = (Inr (Committed r), con2)"
  from body obtain row a con3 expiry where row: "row \<in> set (tb_approvals (db_tables con1))"
    and a: "at_approval_id row = approval_id" "read_approval env key row = Inr a"
    and con3: "db_tables con3 = db_tables con1"
    and close: "(if expiry \<le> now then close_expired env key now a
      else close_decided env key now decision actor a) con3 = (Inr (Committed r), con2)"
    by (rule decide_body_InrD)
  have ids: "at_approval_id row = av_approval_id a" "at_checkpoint_id row = Some (av_checkpoint_id a)"
    using read_approvalD [OF a(2)] by simp_all
  have eids: "at_approval_id row = av_approval_id (expire_approval env key now a)"
      "at_approval_id row = av_approval_id (settle_approval env key now decision actor a)"
    using ids by (simp_all add: expire_approval_def settle_approval_def sealed_def)
  have keys: "keys_ok (db_tables con3)" and row3: "row \<in> set (tb_approvals (db_tables con3))"
    using assms same row con3 by simp_all
  have "store_change\<^sup>*\<^sup>* (db_tables con3) (db_tables con2)"
  proof (cases "expiry \<le> now")
    case True
    with close have "close_expired env key now a con3 = (Inr (Committed r), con2)" by simp
    from close_expired_InrD [OF this] obtain k where
      k: "k \<in> set (tb_checkpoints (db_tables con3))" "has_checkpoint_id (av_checkpoint_id a) k"
      and after: "db_tables con2 = (if kt_consumed_at k = None
          then consume_rows (av_checkpoint_id a) (se_show_time env now)
            (decide_rows (expire_approval env key now a) (db_tables con3))
          else decide_rows (expire_approval env key now a) (db_tables con3))" by blast
    show ?thesis
      unfolding after
      using decided_and_consumed_changes [OF keys row3 eids(1) ids(2)]
        decided_when_consumed_changes [OF keys row3 eids(1) ids(2) k] by simp
  next
    case False
    with close have "close_decided env key now decision actor a con3 = (Inr (Committed r), con2)" by simp
    from close_decided_InrD [OF this] show ?thesis
      using decided_and_consumed_changes [OF keys row3 eids(2) ids(2)] by auto
  qed
  then show "store_change\<^sup>*\<^sup>* (db_tables con) (db_tables con2)" using same con3 by simp
qed

section \<open>Operations and histories\<close>

datatype store_op =
    Do_save_graph string string string string bool
  | Do_delete_graph string
  | Do_save_execution string string string string string string "string option"
  | Do_update_execution string string string "string option" "nat option" "nat option"
  | Do_persist_terminal string string string string nat "(nat \<times> string \<times> string) list" string string
  | Do_recover string
  | Do_create_checkpoint int string string string string "value" "value" "value" "value" "64 word" "64 word"
  | Do_consume int string
  | Do_request int int string expected_checkpoint string string "string list" string
  | Do_decide int string string string
  | Do_save_checkpoint string string nat string "string option" string "string option"
  | Do_save_event string nat string string
  | Do_save_reply string string string
  | Do_capture witness_capture

fun store_call :: "store_env \<Rightarrow> store_op \<Rightarrow> connection \<Rightarrow> connection" where
  "store_call env (Do_save_graph now name spec hash overwrite) con = snd (save_graph now name spec hash overwrite con)"
| "store_call env (Do_delete_graph name) con = snd (delete_graph name con)"
| "store_call env (Do_save_execution now i name hash status input budgets) con =
     snd (save_execution_with_budgets now i name hash status input budgets con)"
| "store_call env (Do_update_execution now i status st n k) con =
     snd (update_execution_status now i status st n k con)"
| "store_call env (Do_persist_terminal now i status st n events receipt bundle_json) con =
     snd (persist_terminal_projection env now i status st n events receipt bundle_json con)"
| "store_call env (Do_recover now) con = snd (recover_incomplete_executions now con)"
| "store_call env (Do_create_checkpoint now i gid gv cursor st b c d te ev) con =
     snd (create_resume_checkpoint env now i gid gv cursor st b c d te ev con)"
| "store_call env (Do_consume now i) con = snd (consume_resume_checkpoint env now i con)"
| "store_call env (Do_request now later i x audience pd allowed expires) con =
     snd (create_checkpoint_approval env now later i x audience pd allowed expires con)"
| "store_call env (Do_decide now i decision actor) con =
     snd (decide_checkpoint_approval env now i decision actor con)"
| "store_call env (Do_save_checkpoint i node k input out status err) con =
     snd (save_node_checkpoint i node k input out status err con)"
| "store_call env (Do_save_event i seq ty js) con = snd (save_event i seq ty js con)"
| "store_call env (Do_save_reply key d js) con = snd (save_idempotency key d js con)"
| "store_call env (Do_capture c) con = snd (capture_witness env c con)"

type_synonym fault_schedule = "string option list"

definition opened :: "fault_schedule \<Rightarrow> tables \<Rightarrow> connection" where
  "opened faults t = \<lparr>db_tables = t, db_faults = faults\<rparr>"

lemma opened_simps [simp]: "db_tables (opened faults t) = t" "db_faults (opened faults t) = faults"
  by (simp_all add: opened_def)

definition store_step :: "store_env \<Rightarrow> fault_schedule \<times> store_op \<Rightarrow> tables \<Rightarrow> tables" where
  "store_step env x t = (case x of (faults, op) \<Rightarrow> db_tables (store_call env op (opened faults t)))"

definition store_history :: "store_env \<Rightarrow> (fault_schedule \<times> store_op) list \<Rightarrow> tables \<Rightarrow> tables" where
  "store_history env ops t = fold (store_step env) ops t"

lemma store_call_changes:
  assumes "keys_ok (db_tables con)"
  shows "store_change\<^sup>*\<^sup>* (db_tables con) (db_tables (store_call env op con))"
  using assms decide_changes
    save_graph_changes delete_graph_changes upsert_execution_changes update_execution_changes
    persist_terminal_changes recover_changes create_checkpoint_changes consume_checkpoint_changes
    create_approval_changes save_node_checkpoint_changes save_event_changes save_idempotency_changes
    capture_witness_changes
  by (cases op) (simp_all add: changes_def)

lemma store_step_changes: "keys_ok t \<Longrightarrow> store_change\<^sup>*\<^sup>* t (store_step env x t)"
  using store_call_changes [of "opened (fst x) t" env "snd x"]
  by (cases x) (simp add: store_step_def)

lemma store_ok_step: "store_ok t \<Longrightarrow> store_ok (store_step env x t)"
  using store_step_changes store_ok_changes by (metis store_ok_def)

lemma store_history_changes: "store_ok t \<Longrightarrow> store_change\<^sup>*\<^sup>* t (store_history env ops t)"
proof (induction ops arbitrary: t)
  case Nil
  then show ?case by (simp add: store_history_def)
next
  case (Cons x ops)
  have "store_change\<^sup>*\<^sup>* (store_step env x t) (store_history env ops (store_step env x t))"
    using Cons.IH store_ok_step [OF Cons.prems] .
  moreover have "store_change\<^sup>*\<^sup>* t (store_step env x t)"
    using store_step_changes Cons.prems by (simp add: store_ok_def)
  ultimately show ?case by (simp add: store_history_def)
qed

lemma store_ok_history: "store_ok t \<Longrightarrow> store_ok (store_history env ops t)"
  using store_history_changes store_ok_changes by blast

section \<open>Grants\<close>

text \<open>The checkpoint that an operation gives out for resumption, if it gives one.\<close>

fun granted :: "store_env \<Rightarrow> store_op \<Rightarrow> connection \<Rightarrow> string list" where
  "granted env (Do_consume now i) con = (case fst (consume_resume_checkpoint env now i con) of
     Inl _ \<Rightarrow> [] | Inr c \<Rightarrow> [cp_checkpoint_id c])"
| "granted env (Do_decide now i decision actor) con =
     (case fst (decide_checkpoint_approval env now i decision actor con) of
        Inl _ \<Rightarrow> [] | Inr (a, c) \<Rightarrow> [cp_checkpoint_id c])"
| "granted env _ con = []"

fun grants :: "store_env \<Rightarrow> (fault_schedule \<times> store_op) list \<Rightarrow> tables \<Rightarrow> string list" where
  "grants env [] t = []"
| "grants env (x # ops) t = granted env (snd x) (opened (fst x) t) @ grants env ops (store_step env x t)"

lemma keyed_transaction_InrD:
  assumes "m = bind_step (pure_result (require_integrity_key env e)) (\<lambda>key. in_transaction b c (body key))"
    and "m con = (Inr x, con')"
  obtains key con1 con2 d where "se_key env = Some key" "db_tables con1 = db_tables con"
    and "body key con1 = (Inr d, con2)"
    and "d = Committed (Inr x) \<and> db_tables con' = db_tables con2 \<or> d = Dropped (Inr x)"
proof (cases "se_key env")
  case None
  with assms have False by (simp add: bind_step_def)
  then show ?thesis ..
next
  case (Some key)
  with assms have tx: "in_transaction b c (body key) con = (Inr x, con')" by (simp add: bind_step_def)
  obtain u con1 where u: "execute_sql b id con = (Inr u, con1)"
    using tx by (auto simp: in_transaction_def split: prod.splits sum.splits)
  obtain r2 con2 where r2: "body key con1 = (r2, con2)" by (cases "body key con1")
  have start: "db_tables con1 = db_tables con" using execute_sql_InrD [OF u] by simp
  show ?thesis
  proof (cases r2)
    case (Inl e)
    with tx u r2 have False by (simp add: in_transaction_def)
    then show ?thesis ..
  next
    case (Inr d)
    have "d = Committed (Inr x) \<and> db_tables con' = db_tables con2 \<or> d = Dropped (Inr x)"
      using tx u r2 Inr
      by (auto simp: in_transaction_def split: tx_end.splits prod.splits sum.splits dest: execute_sql_InrD)
    then show ?thesis using that Some start r2 Inr by blast
  qed
qed

text \<open>Consuming the rows of a checkpoint that has an unconsumed one leaves it consumed.\<close>

lemma consume_rows_consumed:
  assumes "k \<in> set (tb_checkpoints t)" and "unconsumed i k"
  shows "consumed i (consume_rows i stamp t)"
proof -
  let ?f = "\<lambda>r. r\<lparr>kt_consumed_at := Some stamp, kt_status := ''consumed''\<rparr>"
  have "(if unconsumed i k then ?f k else k) \<in> set (update_where (unconsumed i) ?f (tb_checkpoints t))"
    using assms(1) by (rule update_where_member)
  then have "?f k \<in> set (tb_checkpoints (consume_rows i stamp t))"
    using assms(2) by (simp add: consume_rows_def)
  moreover have "has_checkpoint_id i (?f k) \<and> kt_consumed_at (?f k) \<noteq> None"
    using assms(2) by (simp add: unconsumed_def has_checkpoint_id_def)
  ultimately show ?thesis unfolding consumed_def list_ex_iff by blast
qed

lemma consume_grant:
  assumes "consume_resume_checkpoint env now i con = (Inr c, con')"
  shows "cp_checkpoint_id c = i \<and> (\<exists>k \<in> set (tb_checkpoints (db_tables con)). unconsumed i k)
    \<and> consumed i (db_tables con')"
proof (rule keyed_transaction_InrD [OF consume_resume_checkpoint_def assms])
  fix key con1 con2 d
  assume same: "db_tables con1 = db_tables con" and b: "consume_body env key now i con1 = (Inr d, con2)"
    and e: "d = Committed (Inr c) \<and> db_tables con' = db_tables con2 \<or> d = Dropped (Inr c)"
  from b obtain c0 con3 where l: "load_checkpoint_from_tx env key i con1 = (Inr c0, con3)"
    and n: "cp_consumed_at c0 = None"
    and m: "mark_consumed ck_failed i (se_show_time env now) con3 = (Inr 1, con2)"
    and d: "d = Committed (Inr (c0\<lparr>cp_consumed_at := Some (se_show_time env now)\<rparr>))"
    by (auto simp: consume_body_def bind_step_Inr_iff if_refuse_Inr_iff simp del: if_split)
  from loaded_checkpoint [OF l] n obtain k where k: "k \<in> set (tb_checkpoints (db_tables con1))"
      "unconsumed i k" and c0: "cp_checkpoint_id c0 = i"
    by (auto simp: unconsumed_def)
  have after: "db_tables con' = consume_rows i (se_show_time env now) (db_tables con1)"
    using e d mark_consumed_InrD [OF m] load_checkpoint_InrD(1) [OF l] by auto
  have "consumed i (db_tables con')" unfolding after using consume_rows_consumed [OF k] .
  moreover have "cp_checkpoint_id c = i" using c0 d e by auto
  ultimately show ?thesis using k same by auto
qed

lemma decide_grant:
  assumes "decide_checkpoint_approval env now i decision actor con = (Inr (a, c), con')"
  shows "(\<exists>k \<in> set (tb_checkpoints (db_tables con)). unconsumed (cp_checkpoint_id c) k)
    \<and> consumed (cp_checkpoint_id c) (db_tables con')"
proof (rule keyed_transaction_InrD [OF decide_checkpoint_approval_def assms])
  fix key con1 con2 d
  assume same: "db_tables con1 = db_tables con"
    and b: "decide_body env key now i decision actor con1 = (Inr d, con2)"
    and e: "d = Committed (Inr (a, c)) \<and> db_tables con' = db_tables con2 \<or> d = Dropped (Inr (a, c))"
  show ?thesis
  proof (cases d)
    case (Dropped r)
    with b have False
      by (auto simp: decide_body_def close_expired_def close_decided_def bind_step_Inr_iff
          if_refuse_Inr_iff simp del: if_split split: option.splits if_split_asm)
    then show ?thesis ..
  next
    case (Committed r)
    with e have r: "r = Inr (a, c)" and after: "db_tables con' = db_tables con2" by auto
    from b [unfolded Committed] obtain a0 con3 expiry where con3: "db_tables con3 = db_tables con1"
      and close: "(if expiry \<le> now then close_expired env key now a0
        else close_decided env key now decision actor a0) con3 = (Inr (Committed r), con2)"
      by (rule decide_body_InrD)
    have "\<not> expiry \<le> now" using close close_expired_InrD [of env key now a0 con3 r con2] r by auto
    with close have "close_decided env key now decision actor a0 con3 = (Inr (Committed r), con2)" by simp
    from close_decided_InrD [OF this] r obtain k where
      "cp_checkpoint_id c = av_checkpoint_id a0" "k \<in> set (tb_checkpoints (db_tables con3))"
      "unconsumed (av_checkpoint_id a0) k"
      "db_tables con2 = consume_rows (av_checkpoint_id a0) (se_show_time env now)
        (decide_rows (settle_approval env key now decision actor a0) (db_tables con3))" by auto
    moreover from this have "consumed (av_checkpoint_id a0) (db_tables con2)"
      by (simp add: consume_rows_consumed [of k] decide_rows_def)
    ultimately show ?thesis using same con3 after by auto
  qed
qed

lemma granted_once:
  assumes "granted env op con = is" and "i \<in> set is"
  shows "is = [i]" "\<exists>k \<in> set (tb_checkpoints (db_tables con)). unconsumed i k"
    and "consumed i (db_tables (store_call env op con))"
proof -
  have "is = [i] \<and> (\<exists>k \<in> set (tb_checkpoints (db_tables con)). unconsumed i k)
      \<and> consumed i (db_tables (store_call env op con))"
  proof (cases op)
    case (Do_consume now j)
    then show ?thesis
      using assms consume_grant [of env now j con]
      by (cases "consume_resume_checkpoint env now j con") (auto split: sum.splits)
  next
    case (Do_decide now j decision actor)
    then show ?thesis
      using assms decide_grant [of env now j decision actor con]
      by (cases "decide_checkpoint_approval env now j decision actor con") (auto split: sum.splits prod.splits)
  qed (use assms in auto)
  then show "is = [i]" "\<exists>k \<in> set (tb_checkpoints (db_tables con)). unconsumed i k"
    and "consumed i (db_tables (store_call env op con))" by auto
qed

lemma consumed_not_granted:
  assumes "keys_ok (db_tables con)" and "consumed i (db_tables con)"
  shows "i \<notin> set (granted env op con)"
  using granted_once(2) [OF refl] unconsumed_not_consumed [OF assms(1)] assms(2) by blast

lemma consumed_no_grants:
  "store_ok t \<Longrightarrow> consumed i t \<Longrightarrow> i \<notin> set (grants env ops t)"
proof (induction ops arbitrary: t)
  case Nil
  then show ?case by simp
next
  case (Cons x ops)
  have "keys_ok t" using Cons.prems(1) by (simp add: store_ok_def)
  then have "consumed i (store_step env x t)"
    using store_step_changes consumed_changes Cons.prems(2) by blast
  with Cons show ?case
    using consumed_not_granted [of "opened (fst x) t" i env "snd x"] store_ok_step \<open>keys_ok t\<close> by simp
qed

lemma grants_distinct: "store_ok t \<Longrightarrow> distinct (grants env ops t)"
proof (induction ops arbitrary: t)
  case Nil
  then show ?case by simp
next
  case (Cons x ops)
  let ?g = "granted env (snd x) (opened (fst x) t)"
  have tail: "distinct (grants env ops (store_step env x t))"
    using Cons store_ok_step by blast
  have "i \<notin> set (grants env ops (store_step env x t))" if "i \<in> set ?g" for i
  proof -
    have "consumed i (store_step env x t)"
      using granted_once(3) [OF refl that] by (cases x) (simp add: store_step_def)
    then show ?thesis using consumed_no_grants store_ok_step Cons.prems by blast
  qed
  moreover have "distinct ?g"
  proof (cases ?g)
    case (Cons i rest)
    have "i # rest = [i]" using granted_once(1) [OF Cons, of i] by simp
    with Cons show ?thesis by simp
  qed simp
  ultimately show ?case using tail by auto
qed

lemma grants_consumed: "store_ok t \<Longrightarrow> i \<in> set (grants env ops t) \<Longrightarrow> consumed i (store_history env ops t)"
proof (induction ops arbitrary: t)
  case Nil
  then show ?case by simp
next
  case (Cons x ops)
  have ok: "store_ok (store_step env x t)" using store_ok_step Cons.prems(1) .
  show ?case
  proof (cases "i \<in> set (grants env ops (store_step env x t))")
    case True
    then show ?thesis using Cons.IH ok by (simp add: store_history_def)
  next
    case False
    then have "i \<in> set (granted env (snd x) (opened (fst x) t))" using Cons.prems(2) by simp
    then have "consumed i (store_step env x t)"
      using granted_once(3) [OF refl] by (cases x) (simp add: store_step_def)
    then have "consumed i (store_history env ops (store_step env x t))"
      using consumed_changes store_history_changes ok by blast
    then show ?thesis by (simp add: store_history_def)
  qed
qed

end
