(* ===== verification/Store_Properties.thy ===== *)
theory Store_Properties
  imports Store_Runs
begin

text \<open>
  What a client of the durable store can rely on, for every history of operations and every
  schedule of faults: single use of checkpoints, approvals that hold their checkpoint,
  immutable versions and replies, transactions without partial effects, and checkpoints
  that are read back as they were made.
\<close>

section \<open>Tables that are written once\<close>

text \<open>
  \<open>INSERT OR IGNORE\<close> on a key: the first value for a key is the one that stays. \<open>stored\<close> is
  what a value looks like in the table.
\<close>

locale write_once =
  fixes put :: "'k \<Rightarrow> 'v \<Rightarrow> tables \<Rightarrow> tables"
    and look :: "'k \<Rightarrow> tables \<Rightarrow> 'w option"
    and stored :: "'v \<Rightarrow> 'w"
  assumes look_put: "look k' (put k v t) = (if k' = k \<and> look k t = None then Some (stored v) else look k' t)"
begin

lemma kept: "look k t = Some w \<Longrightarrow> look k (put k' v' t) = Some w"
  by (auto simp: look_put)

lemma first_wins: "look k (put k v' (put k v t)) = look k (put k v t)"
  by (auto simp: look_put)

lemma look_after: "look k (put k v t) = Some (case look k t of None \<Rightarrow> stored v | Some w \<Rightarrow> w)"
  by (auto simp: look_put split: option.splits)

lemma look_many:
  "look k (fold (\<lambda>(k, v). put k v) kvs t)
     = (case look k t of Some w \<Rightarrow> Some w | None \<Rightarrow> map_option stored (map_of kvs k))"
  by (induction kvs arbitrary: t) (auto simp: look_put split: option.splits)

end

definition put_reply :: "string \<Rightarrow> string \<times> string \<Rightarrow> tables \<Rightarrow> tables" where
  "put_reply key v t = insert_reply key (fst v) (snd v) t"

definition reply_under :: "string \<Rightarrow> tables \<Rightarrow> (string option \<times> string \<times> bool) option" where
  "reply_under key t = map_option (\<lambda>r. (it_request_digest r, it_result_json r, it_valid r))
     (find (\<lambda>r. it_key r = key) (tb_idempotency t))"

definition put_version :: "string \<times> string \<Rightarrow> string \<times> string \<Rightarrow> tables \<Rightarrow> tables" where
  "put_version k v t = insert_graph_version (fst v) (fst k) (snd k) (snd v) t"

interpretation replies: write_once put_reply reply_under "\<lambda>(d, js). (Some d, js, True)"
proof
  fix k' k :: string and v :: "string \<times> string" and t
  show "reply_under k' (put_reply k v t) =
    (if k' = k \<and> reply_under k t = None then Some (case v of (d, js) \<Rightarrow> (Some d, js, True)) else reply_under k' t)"
    by (auto simp: reply_under_def put_reply_def insert_reply_def find_insert_or_ignore
        find_None_iff_list_ex [symmetric] split: option.splits prod.splits)
qed

interpretation versions: write_once put_version "\<lambda>k. version_spec (fst k) (snd k)" snd
proof
  fix k' k v :: "string \<times> string" and t
  show "version_spec (fst k') (snd k') (put_version k v t) =
    (if k' = k \<and> version_spec (fst k) (snd k) t = None then Some (snd v) else version_spec (fst k') (snd k') t)"
    by (cases k; cases k') (auto simp: version_spec_def put_version_def insert_graph_version_def
        find_insert_or_ignore find_None_iff_list_ex [symmetric] split: option.splits)
qed

lemma reply_kept_by_change:
  "store_change t t' \<Longrightarrow> reply_under key t = Some r \<Longrightarrow> reply_under key t' = Some r"
proof (induction rule: store_change.induct)
  case (ch_reply t k d js)
  then show ?case using replies.kept [of key t r k "(d, js)"] by (simp add: put_reply_def)
qed (auto simp: reply_under_def insert_graph_version_def upsert_graph_def drop_graph_def
    upsert_execution_def upsert_receipt_def insert_witness_def insert_checkpoint_def consume_rows_def
    insert_approval_def decide_rows_def split: if_splits)

lemma reply_kept_by_changes:
  "store_change\<^sup>*\<^sup>* t t' \<Longrightarrow> reply_under key t = Some r \<Longrightarrow> reply_under key t' = Some r"
  by (induction rule: rtranclp_induct) (auto intro: reply_kept_by_change)

section \<open>Pinned versions\<close>

text \<open>A run that is pinned to a version, and the specification stored for it.\<close>

definition pins :: "string \<Rightarrow> string \<Rightarrow> tables \<Rightarrow> bool" where
  "pins name hash t \<longleftrightarrow> list_ex (\<lambda>x. xt_graph_name x = name \<and> xt_graph_hash x = hash) (tb_executions t)"

lemma pins_update_where:
  "same_pin f \<Longrightarrow> pins name hash (t\<lparr>tb_executions := update_where p f (tb_executions t)\<rparr>) = pins name hash t"
  by (auto simp: pins_def list_ex_iff set_update_where same_pin_def)

lemma pins_change: "store_change t t' \<Longrightarrow> pins name hash t \<Longrightarrow> pins name hash t'"
proof (induction rule: store_change.induct)
  case (ch_execution now i nm h status input budgets t u t')
  have upd: "same_pin (\<lambda>x :: execution_row. x\<lparr>xt_status := status, xt_budgets_json := coalesce budgets (xt_budgets_json x),
      xt_finished_at := finished_when now status (xt_finished_at x)\<rparr>)"
    by (simp add: same_pin_def)
  from ch_execution show ?case
    using pins_update_where [OF upd, where name = name and hash = hash and t = t and p = "\<lambda>x. xt_run_id x = i"]
    by (auto simp: upsert_execution_def upsert_def pins_def list_ex_append split: if_splits)
next
  case (ch_update f t p)
  then show ?case by (simp add: pins_update_where)
qed (auto simp: pins_def insert_graph_version_def upsert_graph_def drop_graph_def insert_reply_def
    upsert_receipt_def insert_witness_def insert_checkpoint_def consume_rows_def
    insert_approval_def decide_rows_def split: if_splits)

lemma version_spec_drop:
  "name' \<noteq> name \<Longrightarrow> version_spec name' hash (drop_graph name t) = version_spec name' hash t"
proof -
  assume "name' \<noteq> name"
  then have "find (\<lambda>v. vt_graph_name v = name' \<and> vt_topology_hash v = hash)
      (filter (\<lambda>v. vt_graph_name v \<noteq> name) vs)
    = find (\<lambda>v. vt_graph_name v = name' \<and> vt_topology_hash v = hash) vs" for vs :: "version_row list"
    by (induction vs) auto
  then show ?thesis by (simp add: version_spec_def drop_graph_def)
qed

lemma pinned_spec_change:
  "store_change t t' \<Longrightarrow> pins name hash t \<Longrightarrow> version_spec name hash t = Some s \<Longrightarrow>
   version_spec name hash t' = Some s"
proof (induction rule: store_change.induct)
  case (ch_version t now nm h js)
  then show ?case using versions.kept [of "(name, hash)" t s "(nm, h)" "(now, js)"]
    by (simp add: put_version_def)
next
  case (ch_drop nm t)
  then have "name \<noteq> nm" by (auto simp: pins_def list_ex_iff runs_graph_def)
  then show ?case using ch_drop.prems by (simp add: version_spec_drop)
qed (auto simp: version_spec_def upsert_graph_def upsert_execution_def insert_reply_def
    upsert_receipt_def insert_witness_def insert_checkpoint_def consume_rows_def
    insert_approval_def decide_rows_def split: if_splits)

lemma pinned_spec_changes:
  "store_change\<^sup>*\<^sup>* t t' \<Longrightarrow> pins name hash t \<Longrightarrow> version_spec name hash t = Some s \<Longrightarrow>
   pins name hash t' \<and> version_spec name hash t' = Some s"
  by (induction rule: rtranclp_induct) (auto intro: pins_change pinned_spec_change)

section \<open>Checkpoints that are read back\<close>

lemma checkpoint_from_view:
  "checkpoint_from_parts env k = map_option (\<lambda>c. c\<lparr>cp_consumed_at := kt_consumed_at k\<rparr>)
     (checkpoint_from_parts env (resume_view k))"
  by (auto simp: checkpoint_from_parts_def resume_view_def split: bind_split)

lemma validate_ignores_consumption:
  "validate_checkpoint_record cr key (c\<lparr>cp_consumed_at := x\<rparr>) = validate_checkpoint_record cr key c"
  by (simp add: validate_checkpoint_record_def checkpoint_digest_def checkpoint_fields_def)

lemma validate_new_checkpoint:
  "validate_checkpoint_record cr key (new_checkpoint cr key stamp run gid gv cursor st b c d te ev) = Inr ()"
  by (simp add: validate_checkpoint_record_def new_checkpoint_def Let_def checkpoint_digest_def
      checkpoint_fields_def)

definition survives :: "store_env \<Rightarrow> value \<Rightarrow> bool" where
  "survives env v \<longleftrightarrow> parsed env (se_text env v) = Some v"

lemma row_of_checkpoint_read:
  assumes "survives env (cp_state c)" "survives env (cp_budgets c)" "survives env (cp_budget_counters c)"
    and "survives env (cp_dependency_summary c)"
    and "0 \<le> sint (cp_terminal_cursor c)" "0 \<le> sint (cp_event_cursor c)" "cp_consumed_at c = None"
  shows "checkpoint_from_parts env (row_of_checkpoint (se_crypto env) c) = Some c"
  using assms
  by (simp add: checkpoint_from_parts_def row_of_checkpoint_def json_column_def survives_def cursor_of_sint)

lemma find_unique:
  assumes "distinct (List.map_filter kt_checkpoint_id rows)" "k \<in> set rows" "has_checkpoint_id i k"
  shows "find (has_checkpoint_id i) rows = Some k"
proof (cases "find (has_checkpoint_id i) rows")
  case None
  with assms show ?thesis by (auto simp: find_None_iff_list_ex list_ex_iff)
next
  case (Some k')
  with assms show ?thesis using checkpoint_row_unique [of rows k k' i] find_Some_in [OF Some] by simp
qed

text \<open>What creating a checkpoint leaves in the table.\<close>

lemma insert_checkpoint_appends:
  "insert_checkpoint r t = Inr (u, t') \<Longrightarrow> tb_checkpoints t' = tb_checkpoints t @ [r]"
  by (auto simp: insert_checkpoint_def split: if_splits)

lemma inserted_checkpoint:
  assumes "statement err (insert_checkpoint r) con = (Inr u, con')"
  shows "r \<in> set (tb_checkpoints (db_tables con'))"
proof -
  obtain t where t: "insert_checkpoint r (db_tables con) = Inr (u, t)" "db_tables con' = t"
    using statement_InrD [OF assms] by blast
  show ?thesis using insert_checkpoint_appends [OF t(1)] t(2) by simp
qed

lemma create_checkpoint_InrD:
  assumes "create_resume_checkpoint env now run gid gv cursor st b cn dep te ev con = (Inr c, con')"
  obtains key where "se_key env = Some key"
    and "c = new_checkpoint (se_crypto env) key (se_show_time env now) run gid gv cursor st b cn dep te ev"
    and "row_of_checkpoint (se_crypto env) c \<in> set (tb_checkpoints (db_tables con'))"
proof (rule keyed_transaction_InrD [OF create_resume_checkpoint_def [unfolded Let_def] assms])
  fix key con1 con2 d
  assume key: "se_key env = Some key"
    and body: "bind_step (statement ck_failed (insert_checkpoint (row_of_checkpoint (se_crypto env)
        (new_checkpoint (se_crypto env) key (se_show_time env now) run gid gv cursor st b cn dep te ev))))
      (\<lambda>_. give (Committed (Inr (new_checkpoint (se_crypto env) key (se_show_time env now) run gid gv cursor
        st b cn dep te ev)))) con1 = (Inr d, con2)"
    and e: "d = Committed (Inr c) \<and> db_tables con' = db_tables con2 \<or> d = Dropped (Inr c)"
  from body have d: "d = Committed (Inr (new_checkpoint (se_crypto env) key (se_show_time env now) run gid gv
      cursor st b cn dep te ev))"
    and row: "row_of_checkpoint (se_crypto env) (new_checkpoint (se_crypto env) key (se_show_time env now) run
      gid gv cursor st b cn dep te ev) \<in> set (tb_checkpoints (db_tables con2))"
    by (auto simp: bind_step_Inr_iff dest: inserted_checkpoint)
  show thesis using that [OF key] d row e by auto
qed

lemma checkpoint_survives:
  assumes create: "create_resume_checkpoint env now run gid gv cursor st b cn dep te ev con = (Inr c, con')"
    and texts: "survives env st" "survives env b" "survives env cn" "survives env dep"
    and cursors: "0 \<le> sint te" "0 \<le> sint ev"
    and ok: "store_ok t'" and later: "store_change\<^sup>*\<^sup>* (db_tables con') t'"
  shows "\<exists>x. load_resume_checkpoint env (Some (cp_checkpoint_id c)) None (opened [] t') =
    (Inr (Some (c\<lparr>cp_consumed_at := x\<rparr>)), opened [] t')"
proof -
  obtain key where key: "se_key env = Some key"
    and c: "c = new_checkpoint (se_crypto env) key (se_show_time env now) run gid gv cursor st b cn dep te ev"
    and row: "row_of_checkpoint (se_crypto env) c \<in> set (tb_checkpoints (db_tables con'))"
    using create by (rule create_checkpoint_InrD)
  obtain k where k: "k \<in> set (tb_checkpoints t')"
    and view: "resume_view k = resume_view (row_of_checkpoint (se_crypto env) c)"
    using checkpoints_changes [OF later row] by blast
  have "checkpoint_from_parts env (row_of_checkpoint (se_crypto env) c) = Some c"
    using texts cursors by (intro row_of_checkpoint_read) (simp_all add: c new_checkpoint_def Let_def)
  moreover have "kt_consumed_at (row_of_checkpoint (se_crypto env) c) = None"
    by (simp add: row_of_checkpoint_def)
  ultimately obtain c0 where "checkpoint_from_parts env (resume_view k) = Some c0"
      and "c0\<lparr>cp_consumed_at := None\<rparr> = c"
    using checkpoint_from_view [of env "row_of_checkpoint (se_crypto env) c"] by (auto simp: view)
  then have read: "checkpoint_from_parts env k = Some (c\<lparr>cp_consumed_at := kt_consumed_at k\<rparr>)"
    using checkpoint_from_view [of env k] by auto
  have "kt_graph_id k \<noteq> None \<and> kt_graph_version k \<noteq> None"
    using read by (auto simp: checkpoint_from_parts_def bind_eq_Some_conv)
  moreover have "validate_checkpoint_record (se_crypto env) key (c\<lparr>cp_consumed_at := kt_consumed_at k\<rparr>) = Inr ()"
    unfolding validate_ignores_consumption by (simp add: c validate_new_checkpoint)
  moreover have "has_checkpoint_id (cp_checkpoint_id c) k"
    using checkpoint_from_partsD [OF read] by (simp add: has_checkpoint_id_def)
  then have "checkpoint_by_id (cp_checkpoint_id c) t' = Some k"
    using find_unique k ok by (simp add: checkpoint_by_id_def store_ok_def keys_ok_def checkpoint_ids_def)
  ultimately show ?thesis
    using key read by (intro exI [of _ "kt_consumed_at k"]) (simp add: load_resume_checkpoint_def bind_step_def read_checkpoint_def
        checkpoint_row_readable_def)
qed

section \<open>Failures\<close>

text \<open>
  The failure of an operation that is a transaction. A decision on an expired approval is
  an error too, but one that is committed.
\<close>

fun transaction_fails :: "store_env \<Rightarrow> store_op \<Rightarrow> connection \<Rightarrow> bool" where
  "transaction_fails env (Do_delete_graph name) con = isl (fst (delete_graph name con))"
| "transaction_fails env (Do_persist_terminal now i status st n events receipt bundle_json) con =
     isl (fst (persist_terminal_projection env now i status st n events receipt bundle_json con))"
| "transaction_fails env (Do_create_checkpoint now i gid gv cursor st b c d te ev) con =
     isl (fst (create_resume_checkpoint env now i gid gv cursor st b c d te ev con))"
| "transaction_fails env (Do_consume now i) con = isl (fst (consume_resume_checkpoint env now i con))"
| "transaction_fails env (Do_request now later i x audience pd allowed expires) con =
     isl (fst (create_checkpoint_approval env now later i x audience pd allowed expires con))"
| "transaction_fails env (Do_decide now i decision actor) con =
     (case fst (decide_checkpoint_approval env now i decision actor con) of
        Inl e \<Rightarrow> e \<noteq> Av_expired | Inr _ \<Rightarrow> False)"
| "transaction_fails env _ con = False"

lemma in_transaction_fails:
  assumes "in_transaction b c body con = (Inl e, con')"
    and "\<And>con1 con2. body con1 \<noteq> (Inr (Committed (Inl e)), con2)"
  shows "db_tables con' = db_tables con"
  using in_transaction_cases [OF assms(1)] assms(2) by blast

lemma keyed_transaction_fails:
  assumes "m = bind_step (pure_result (require_integrity_key env e0)) (\<lambda>key. in_transaction b c (body key))"
    and "m con = (Inl e, con')" and "\<And>key con1 con2. body key con1 \<noteq> (Inr (Committed (Inl e)), con2)"
  shows "db_tables con' = db_tables con"
proof (cases "se_key env")
  case None
  with assms show ?thesis by (simp add: bind_step_def)
next
  case (Some key)
  with assms(1,2) have "in_transaction b c (body key) con = (Inl e, con')" by (simp add: bind_step_def)
  then show ?thesis using assms(3) by (rule in_transaction_fails)
qed

lemma delete_graph_fails:
  "delete_graph name con = (Inl e, con') \<Longrightarrow> db_tables con' = db_tables con"
  unfolding delete_graph_def
  by (erule in_transaction_fails) (auto simp: bind_step_Inr_iff split: if_splits)

lemma persist_terminal_fails:
  assumes "persist_terminal_projection env now i status st n events receipt b con = (Inl e, con')"
  shows "db_tables con' = db_tables con"
proof (cases "terminal_digest env receipt")
  case (Inl m)
  with assms show ?thesis by (simp add: persist_terminal_projection_def bind_step_def)
next
  case (Inr d)
  with assms have "in_transaction (prefixed ''terminal transaction begin error'')
      (prefixed ''terminal transaction commit error'') (terminal_body now i status st n events receipt b d) con
    = (Inl e, con')"
    by (simp add: persist_terminal_projection_def bind_step_def)
  then show ?thesis
    by (rule in_transaction_fails) (auto simp: terminal_body_def bind_step_Inr_iff split: if_splits)
qed

lemma create_checkpoint_fails:
  "create_resume_checkpoint env now run gid gv cursor st b cn dep te ev con = (Inl e, con') \<Longrightarrow>
   db_tables con' = db_tables con"
  by (erule keyed_transaction_fails [OF create_resume_checkpoint_def [unfolded Let_def]])
    (auto simp: bind_step_Inr_iff)

lemma consume_fails:
  "consume_resume_checkpoint env now i con = (Inl e, con') \<Longrightarrow> db_tables con' = db_tables con"
  by (erule keyed_transaction_fails [OF consume_resume_checkpoint_def])
    (auto simp: consume_body_def bind_step_Inr_iff if_refuse_Inr_iff simp del: if_split)

lemma request_fails:
  "create_checkpoint_approval env now later i x audience pd allowed expires con = (Inl e, con') \<Longrightarrow>
   db_tables con' = db_tables con"
  by (erule keyed_transaction_fails [OF create_checkpoint_approval_def])
    (auto simp: request_body_def bind_step_Inr_iff Let_def split: option.splits if_splits)

lemma decide_fails:
  assumes "decide_checkpoint_approval env now i decision actor con = (Inl e, con')" and "e \<noteq> Av_expired"
  shows "db_tables con' = db_tables con"
proof (rule keyed_transaction_fails [OF decide_checkpoint_approval_def assms(1)])
  fix key con1 con2
  show "decide_body env key now i decision actor con1 \<noteq> (Inr (Committed (Inl e)), con2)"
    using assms(2) by (auto elim!: decide_body_InrD split: if_splits dest: close_expired_InrD close_decided_InrD)
qed

lemma failed_transaction:
  assumes "transaction_fails env op con"
  shows "db_tables (store_call env op con) = db_tables con"
proof -
  have failed: "\<exists>e con'. r = (Inl e, con')" if "isl (fst r)" for r :: "('e + 'a) \<times> connection"
    using that by (cases r) (auto simp: isl_def)
  show ?thesis
  proof (cases op)
    case (Do_decide now i decision actor)
    then show ?thesis
      using assms decide_fails
      by (cases "decide_checkpoint_approval env now i decision actor con") (auto split: sum.splits)
  qed (use assms in \<open>auto dest!: failed
      intro: delete_graph_fails persist_terminal_fails create_checkpoint_fails consume_fails request_fails\<close>)
qed

end
