(* ===== verification/Store_Claims.thy ===== *)
theory Store_Claims
  imports Store_Properties
begin

text \<open>
  The properties of the durable store, over every history of its operations from an empty
  database and every schedule of faults, with the sample histories that witness them.
\<close>

section \<open>Samples\<close>

definition sample_env :: store_env where
  "sample_env = \<lparr>se_crypto = \<lparr>sha256 = (\<lambda>_. []), json_text = (\<lambda>_. ''null'')\<rparr>, se_parse = (\<lambda>_. Inr Null),
     se_time = (\<lambda>_. Some 10), se_show_time = (\<lambda>_. ''now''), se_key = Some (replicate 32 (CHR ''k''))\<rparr>"

definition run_store_ops :: "store_op list" where
  "run_store_ops = [Do_save_graph ''t'' ''g'' ''null'' ''v1'' False,
     Do_save_execution ''t'' ''r'' ''g'' ''v1'' ''running'' ''null'' None,
     Do_create_checkpoint 0 ''r'' ''g'' ''v1'' ''n'' Null Null Null Null 0 0]"

definition faultless :: "store_op list \<Rightarrow> (fault_schedule \<times> store_op) list" where
  "faultless ops = map (Pair []) ops"

definition sample_checkpoint_id :: string where
  "sample_checkpoint_id = resume_checkpoint_id ''r'' ''n''"

definition sample_expected :: expected_checkpoint where
  "sample_expected = \<lparr>ec_graph_id = ''g'', ec_graph_version = ''v1'', ec_next_node_cursor = ''n'',
     ec_state = Null, ec_budgets = Null, ec_budget_counters = Null, ec_dependency_summary = Null\<rparr>"

definition sample_store :: tables where
  "sample_store = store_history sample_env (faultless run_store_ops) no_tables"

lemma sample_codes [simp]:
  "hmac_sha256 (se_crypto sample_env) v key = ''hmac-sha256:''" "digest (se_crypto sample_env) v = ''sha256:''"
  "se_text sample_env v = ''null''" "parsed sample_env s = Some Null" "se_show_time sample_env now = ''now''"
  "se_key sample_env = Some (replicate 32 (CHR ''k''))"
  by (simp_all add: sample_env_def hmac_sha256_def digest_def hex_of_def parsed_def Let_def)

definition sample_checkpoint :: checkpoint_record where
  "sample_checkpoint = \<lparr>cp_checkpoint_id = sample_checkpoint_id, cp_run_id = ''r'',
     cp_graph_id = ''g'', cp_graph_version = ''v1'', cp_next_node_cursor = ''n'', cp_state = Null,
     cp_state_digest = ''sha256:'', cp_budgets = Null, cp_budget_counters = Null,
     cp_dependency_summary = Null, cp_dependency_digest = ''sha256:'', cp_terminal_cursor = 0,
     cp_event_cursor = 0, cp_checkpoint_digest = ''hmac-sha256:'', cp_created_at = ''now'',
     cp_consumed_at = None\<rparr>"

lemma sample_new_checkpoint:
  "new_checkpoint (se_crypto sample_env) key ''now'' ''r'' ''g'' ''v1'' ''n'' Null Null Null Null 0 0 = sample_checkpoint"
  by (simp add: new_checkpoint_def sample_checkpoint_def sample_checkpoint_id_def Let_def
      checkpoint_digest_def)

definition sample_execution :: execution_row where
  "sample_execution = \<lparr>xt_run_id = ''r'', xt_graph_name = ''g'', xt_graph_hash = ''v1'', xt_status = ''running'',
     xt_input_json = Some ''null'', xt_budgets_json = None, xt_final_state_json = None,
     xt_started_at = ''t'', xt_finished_at = None, xt_total_nodes = 0, xt_failed_attempts = 0\<rparr>"

definition sample_row :: checkpoint_row where
  "sample_row = row_of_checkpoint (se_crypto sample_env) sample_checkpoint"

lemma sample_store_is:
  "sample_store = no_tables\<lparr>
     tb_graphs := [\<lparr>gt_name = ''g'', gt_spec_json = ''null'', gt_topology_hash = ''v1'',
       gt_created_at = ''t'', gt_updated_at = ''t''\<rparr>],
     tb_versions := [\<lparr>vt_graph_name = ''g'', vt_topology_hash = ''v1'', vt_spec_json = ''null'', vt_created_at = ''t''\<rparr>],
     tb_executions := [sample_execution],
     tb_checkpoints := [sample_row]\<rparr>"
  by (simp add: sample_store_def store_history_def faultless_def run_store_ops_def store_step_def
      save_graph_def row_ok_def bind_step_def graph_named_def no_tables_def give_def upsert_graph_def
      insert_graph_version_def upsert_def insert_or_ignore_def save_execution_with_budgets_def
      upsert_execution_def execution_of_def statement_def query_def execute_sql_def sample_execution_def
      create_resume_checkpoint_def sample_new_checkpoint in_transaction_def
      insert_checkpoint_def has_run_def pure_result_def opened_def Let_def sample_row_def
      row_of_checkpoint_def sample_checkpoint_def)

lemma sample_row_fields [simp]:
  "kt_checkpoint_id sample_row = Some sample_checkpoint_id" "kt_consumed_at sample_row = None"
  "read_checkpoint sample_env key (Some sample_row) = Inr (Some sample_checkpoint)"
  by (simp_all add: sample_row_def read_checkpoint_def checkpoint_row_readable_def checkpoint_from_parts_def
      row_of_checkpoint_def json_column_def sample_checkpoint_def cursor_of_def
      validate_checkpoint_record_def sample_checkpoint_id_def checkpoint_digest_def)

lemma sample_checkpoint_fields [simp]:
  "cp_consumed_at sample_checkpoint = None" "cp_checkpoint_id sample_checkpoint = sample_checkpoint_id"
  "cp_run_id sample_checkpoint = ''r''"
  by (simp_all add: sample_checkpoint_def)

lemma sample_tables [simp]:
  "tb_checkpoints sample_store = [sample_row]" "tb_approvals sample_store = []"
  "tb_executions sample_store = [sample_execution]"
  by (simp_all add: sample_store_is no_tables_def)

lemma sample_found [simp]:
  "checkpoint_by_id sample_checkpoint_id sample_store = Some sample_row"
  by (simp add: checkpoint_by_id_def has_checkpoint_id_def)

lemma sample_loaded [simp]:
  "load_checkpoint_from_tx sample_env key sample_checkpoint_id (opened [] sample_store)
     = (Inr sample_checkpoint, opened [] sample_store)"
  by (simp add: load_checkpoint_from_tx_def bind_step_def pure_result_def)

lemma opened_begin [simp]: "execute_sql err id (opened [] t) = (Inr (), opened [] t)"
  by (simp add: execute_sql_def statement_def opened_def)

lemma sample_consumed:
  "consume_resume_checkpoint sample_env 1 sample_checkpoint_id (opened [] sample_store)
     = (Inr (sample_checkpoint\<lparr>cp_consumed_at := Some ''now''\<rparr>),
        opened [] (consume_rows sample_checkpoint_id ''now'' sample_store))"
proof -
  have "mark_consumed ck_failed sample_checkpoint_id ''now'' (opened [] sample_store)
    = (Inr 1, opened [] (consume_rows sample_checkpoint_id ''now'' sample_store))"
    by (simp add: mark_consumed_def statement_def count_where_def unconsumed_def has_checkpoint_id_def
        opened_def)
  then show ?thesis
    by (simp add: consume_resume_checkpoint_def consume_body_def bind_step_def in_transaction_def
        pure_result_def give_def)
qed

lemma sample_requested:
  "latest_status sample_checkpoint_id (store_step sample_env
     ([], Do_request 1 2 sample_checkpoint_id sample_expected ''ops'' ''p'' [''approve''] ''later'') sample_store)
   = Some ''pending''"
proof -
  have "meets_expectation sample_checkpoint sample_expected"
    by (simp add: meets_expectation_def sample_checkpoint_def sample_expected_def)
  then show ?thesis
    by (simp add: store_step_def create_checkpoint_approval_def request_body_def lifted_load_def
        bind_step_def in_transaction_def query_no_fault statement_no_fault pure_result_def give_def
        insert_approval_def has_run_def sample_execution_def new_approval_def row_of_approval_def
        latest_status_def order_desc_def Let_def)
qed

lemma store_history_append:
  "store_history env (xs @ ys) t = store_history env ys (store_history env xs t)"
  by (simp add: store_history_def)

lemma sample_history: "store_history sample_env (faultless (run_store_ops @ ops)) no_tables
    = store_history sample_env (faultless ops) sample_store"
  by (simp add: sample_store_def faultless_def store_history_append)

section \<open>Checkpoints are used once\<close>

text \<open>
  The sample history hands out its checkpoint, so that the property below is not about
  histories that grant nothing.
\<close>

lemma grants_append:
  "grants env (xs @ ys) t = grants env xs t @ grants env ys (store_history env xs t)"
  by (induction xs arbitrary: t) (simp_all add: store_history_def)

lemma sample_history_grants:
  "grants sample_env (faultless (run_store_ops @ [Do_consume 1 sample_checkpoint_id])) no_tables
     = [sample_checkpoint_id]"
proof -
  have "grants sample_env (faultless run_store_ops) no_tables = []"
    by (simp add: faultless_def run_store_ops_def)
  then show ?thesis
    by (simp add: faultless_def grants_append sample_store_def [symmetric, unfolded faultless_def]
        sample_consumed)
qed

text \<open>
  C9: In every history of store operations, with every schedule of failing statements and
  commits, the right to resume is handed out at most once for each checkpoint, whether by
  consuming the checkpoint or by deciding an approval of it; and whatever is handed out is
  consumed in the tables that the history leaves.
\<close>

theorem checkpoint_resumed_at_most_once:
  "distinct (grants env ops no_tables)
   \<and> filter (\<lambda>i. \<not> consumed i (store_history env ops no_tables)) (grants env ops no_tables) = []"
  using grants_distinct [OF store_ok_no_tables] grants_consumed [OF store_ok_no_tables]
  by (auto simp: filter_empty_conv)

section \<open>Approvals\<close>

text \<open>
  C33: In every store that a history leaves, an approval is for a checkpoint and a run that
  exist, and it is pending unless its checkpoint is consumed: no approval is decided or
  expired while its checkpoint can still be resumed.
\<close>

theorem decided_approvals_have_consumed_checkpoints:
  assumes "a \<in> set (tb_approvals (store_history env ops no_tables))"
  shows "\<exists>i. at_checkpoint_id a = Some i \<and> known_checkpoint i (store_history env ops no_tables)
    \<and> has_run (at_run_id a) (store_history env ops no_tables)
    \<and> (at_status a = ''pending'' \<or> consumed i (store_history env ops no_tables))"
proof -
  have "store_ok (store_history env ops no_tables)" using store_ok_history store_ok_no_tables .
  then show ?thesis
    using assms by (auto simp: store_ok_def gate_ok_def approval_ok_def refs_ok_def split: option.splits)
qed

theorem decided_approvals_have_consumed_checkpoints_witness:
  "\<exists>a. a \<in> set (tb_approvals (store_history sample_env (faultless (run_store_ops @ [Do_request 1 2
       sample_checkpoint_id sample_expected ''ops'' ''p'' [''approve''] ''later''])) no_tables))
    \<and> has_run (at_run_id a) (store_history sample_env (faultless (run_store_ops @ [Do_request 1 2
       sample_checkpoint_id sample_expected ''ops'' ''p'' [''approve''] ''later''])) no_tables)"
proof -
  let ?ops = "faultless (run_store_ops @ [Do_request 1 2 sample_checkpoint_id sample_expected ''ops'' ''p''
    [''approve''] ''later''])"
  have "latest_status sample_checkpoint_id (store_history sample_env ?ops no_tables) = Some ''pending''"
    unfolding sample_history using sample_requested by (simp add: faultless_def store_history_def)
  then have "tb_approvals (store_history sample_env ?ops no_tables) \<noteq> []"
    by (auto simp: latest_status_def order_desc_def)
  then obtain a where "a \<in> set (tb_approvals (store_history sample_env ?ops no_tables))"
    by (metis list.set_intros(1) neq_Nil_conv)
  then show ?thesis using decided_approvals_have_consumed_checkpoints by blast
qed

section \<open>Versions\<close>

text \<open>
  C34: The specification stored for the version that a run is pinned to stays the same in
  every later history, whatever is saved or deleted under the name of its graph and
  whatever fails; and the graph keeps its row.
\<close>

theorem pinned_version_is_kept:
  assumes "load_graph_version name hash (opened [] (store_history env ops no_tables))
      = (Inr (Some s), opened [] (store_history env ops no_tables))"
    and "pins name hash (store_history env ops no_tables)"
  shows "load_graph_version name hash (opened [] (store_history env (ops @ later) no_tables))
      = (Inr (Some s), opened [] (store_history env (ops @ later) no_tables))
    \<and> graph_named name (store_history env (ops @ later) no_tables) \<noteq> None"
proof -
  let ?t = "store_history env ops no_tables" and ?t' = "store_history env (ops @ later) no_tables"
  have "version_spec name hash ?t = Some s" using assms(1) by (simp add: load_graph_version_def row_ok_def)
  moreover have "store_change\<^sup>*\<^sup>* ?t ?t'"
    using store_history_changes store_ok_history store_ok_no_tables by (simp add: store_history_append)
  ultimately have "pins name hash ?t' \<and> version_spec name hash ?t' = Some s"
    using pinned_spec_changes assms(2) by blast
  moreover have "refs_ok ?t'" using store_ok_history [OF store_ok_no_tables] by (simp add: store_ok_def)
  ultimately show ?thesis
    by (auto simp: load_graph_version_def row_ok_def pins_def refs_ok_def list_ex_iff graph_named_def
        find_None_iff)
qed

theorem pinned_version_is_kept_witness:
  "load_graph_version ''g'' ''v1'' (opened [] (store_history sample_env
     (faultless run_store_ops @ faultless [Do_save_graph ''u'' ''g'' ''[]'' ''v2'' True, Do_delete_graph ''g'']) no_tables))
   = (Inr (Some ''null''), opened [] (store_history sample_env
     (faultless run_store_ops @ faultless [Do_save_graph ''u'' ''g'' ''[]'' ''v2'' True, Do_delete_graph ''g'']) no_tables))"
proof -
  have "load_graph_version ''g'' ''v1'' (opened [] (store_history sample_env (faultless run_store_ops) no_tables))
      = (Inr (Some ''null''), opened [] (store_history sample_env (faultless run_store_ops) no_tables))"
    "pins ''g'' ''v1'' (store_history sample_env (faultless run_store_ops) no_tables)"
    unfolding sample_store_def [symmetric]
    by (simp_all add: load_graph_version_def row_ok_def version_spec_def sample_store_is no_tables_def
        pins_def sample_execution_def)
  then show ?thesis using pinned_version_is_kept by blast
qed

section \<open>Replies\<close>

lemma find_stronger:
  "find p rows = Some r \<Longrightarrow> q r \<Longrightarrow> (\<And>x. q x \<Longrightarrow> p x) \<Longrightarrow> find q rows = Some r"
  by (induction rows) (auto split: if_splits)



section \<open>Failures\<close>

text \<open>
  C26: An operation that is a transaction and fails, at whatever statement or at its commit,
  leaves every table as it was, so that the checkpoint it would have consumed can still be
  consumed; the exception is the decision on an expired approval.
\<close>

theorem failed_transaction_changes_nothing:
  assumes "transaction_fails env op (opened faults t)"
  shows "store_step env (faults, op) t = t"
  using failed_transaction [OF assms] by (simp add: store_step_def)

theorem failed_transaction_changes_nothing_witness:
  "store_step sample_env ([None, None, Some ''disk I/O error''], Do_consume 1 sample_checkpoint_id) sample_store
     = sample_store"
proof (rule failed_transaction_changes_nothing)
  show "transaction_fails sample_env (Do_consume 1 sample_checkpoint_id)
      (opened [None, None, Some ''disk I/O error''] sample_store)"
    by (simp add: consume_resume_checkpoint_def consume_body_def load_checkpoint_from_tx_def bind_step_def
        in_transaction_def execute_sql_def query_def statement_def pure_result_def opened_def give_def
        mark_consumed_def)
qed

section \<open>Checkpoints are read back\<close>

text \<open>
  C30: A checkpoint that was created is loaded again, after any later history of operations
  and failures, with every field as it was made except the time of its consumption, and its
  digests are accepted; provided that its JSON texts parse back and its cursors are below
  \<open>2^63\<close>.
\<close>

theorem created_checkpoint_is_read_back:
  assumes "create_resume_checkpoint env now run gid gv cursor st b cn dep te ev
      (opened faults (store_history env ops no_tables)) = (Inr c, con)"
    and "survives env st" "survives env b" "survives env cn" "survives env dep"
    and "0 \<le> sint te" "0 \<le> sint ev"
  shows "\<exists>x. load_resume_checkpoint env (Some (cp_checkpoint_id c)) None
      (opened [] (store_history env later (db_tables con)))
    = (Inr (Some (c\<lparr>cp_consumed_at := x\<rparr>)), opened [] (store_history env later (db_tables con)))"
proof (rule checkpoint_survives [OF assms(1) assms(2-5) assms(6,7)])
  have "store_ok (db_tables con)"
    using changesD [OF create_checkpoint_changes assms(1)] store_ok_changes
      store_ok_history [OF store_ok_no_tables] by simp
  then show "store_ok (store_history env later (db_tables con))"
    and "store_change\<^sup>*\<^sup>* (db_tables con) (store_history env later (db_tables con))"
    using store_ok_history store_history_changes by blast+
qed

theorem created_checkpoint_is_read_back_witness:
  "\<exists>con x. create_resume_checkpoint sample_env 0 ''r'' ''g'' ''v1'' ''n'' Null Null Null Null 0 0
      (opened [] (store_history sample_env (faultless (take 2 run_store_ops)) no_tables))
      = (Inr sample_checkpoint, con)
    \<and> load_resume_checkpoint sample_env (Some sample_checkpoint_id) None
        (opened [] (store_history sample_env (faultless [Do_consume 1 sample_checkpoint_id, Do_recover ''u'']) (db_tables con)))
      = (Inr (Some (sample_checkpoint\<lparr>cp_consumed_at := x\<rparr>)), opened [] (store_history sample_env
        (faultless [Do_consume 1 sample_checkpoint_id, Do_recover ''u'']) (db_tables con)))"
proof -
  have "tb_checkpoints (store_history sample_env (faultless (take 2 run_store_ops)) no_tables) = []"
    and "has_run ''r'' (store_history sample_env (faultless (take 2 run_store_ops)) no_tables)"
    by (simp_all add: store_history_def faultless_def run_store_ops_def store_step_def save_graph_def row_ok_def
        bind_step_def graph_named_def no_tables_def give_def upsert_graph_def insert_graph_version_def
        upsert_def insert_or_ignore_def save_execution_with_budgets_def upsert_execution_def
        execution_of_def statement_no_fault execute_sql_def has_run_def)
  then obtain con where con: "create_resume_checkpoint sample_env 0 ''r'' ''g'' ''v1'' ''n'' Null Null Null Null 0 0
      (opened [] (store_history sample_env (faultless (take 2 run_store_ops)) no_tables))
      = (Inr sample_checkpoint, con)"
    by (simp add: create_resume_checkpoint_def sample_new_checkpoint bind_step_def pure_result_def
        in_transaction_def insert_checkpoint_def statement_no_fault give_def row_of_checkpoint_def Let_def)
  then show ?thesis
    using created_checkpoint_is_read_back [OF con, of "faultless [Do_consume 1 sample_checkpoint_id, Do_recover ''u'']"]
    by (auto simp: survives_def)
qed

end
