(* ===== verification/Terminal_Projection.thy ===== *)
theory Terminal_Projection
  imports Store_Claims
begin

text \<open>
  The projection of a finished run that the store keeps: its row, its events and its signed
  receipt, written in one transaction, and what is read back from it.
\<close>

section \<open>What the transaction writes\<close>

definition event_row_of :: "string \<Rightarrow> nat \<times> string \<times> string \<Rightarrow> event_row" where
  "event_row_of run_id e = \<lparr>et_run_id = run_id, et_seq = fst e, et_event_type = fst (snd e),
     et_event_json = snd (snd e)\<rparr>"

lemma event_row_of_simps [simp]:
  "et_run_id (event_row_of i e) = i" "et_seq (event_row_of i e) = fst e"
  "et_event_json (event_row_of i e) = snd (snd e)" "et_event_type (event_row_of i e) = fst (snd e)"
  by (simp_all add: event_row_of_def)

lemma insert_event_InrD:
  assumes "insert_event i e t = Inr (x, t')"
  shows "t' = t\<lparr>tb_events := tb_events t @ [event_row_of i e]\<rparr> \<and> fst e < 2 ^ 63
    \<and> fst e \<notin> et_seq ` {r \<in> set (tb_events t). et_run_id r = i}"
  using assms by (cases e) (auto simp: insert_event_def event_row_of_def list_ex_iff split: if_splits)

lemma insert_events_InrD:
  "insert_events i es con = (Inr x, con') \<Longrightarrow>
     db_tables con' = (db_tables con)\<lparr>tb_events := tb_events (db_tables con) @ map (event_row_of i) es\<rparr>
     \<and> (\<forall>e \<in> set es. fst e < 2 ^ 63) \<and> distinct (map fst es)
     \<and> fst ` set es \<inter> et_seq ` {r \<in> set (tb_events (db_tables con)). et_run_id r = i} = {}"
proof (induction es arbitrary: con)
  case Nil
  then show ?case by (simp add: give_def)
next
  case (Cons e es)
  from Cons.prems obtain u con1 where s: "statement (prefixed ''terminal event insert error'') (insert_event i e) con = (Inr u, con1)"
    and r: "insert_events i es con1 = (Inr x, con')"
    by (auto simp: bind_step_Inr_iff)
  obtain t where t: "insert_event i e (db_tables con) = Inr (u, t)" "db_tables con1 = t"
    using statement_InrD [OF s] by blast
  note one = insert_event_InrD [OF t(1)] and rest = Cons.IH [OF r, unfolded t(2)]
  have "{r \<in> set (tb_events t). et_run_id r = i}
      = insert (event_row_of i e) {r \<in> set (tb_events (db_tables con)). et_run_id r = i}"
    using one by auto
  with one rest show ?case by auto
qed

text \<open>The row of the run, the events and the receipt after the transaction.\<close>

definition projected :: "string \<Rightarrow> string \<Rightarrow> string \<Rightarrow> (nat \<times> string \<times> string) list \<Rightarrow> string \<Rightarrow> string \<Rightarrow> string
    \<Rightarrow> tables \<Rightarrow> bool" where
  "projected i status st events receipt bundle_json d t \<longleftrightarrow>
     (\<exists>x. execution_of i t = Some x \<and> xt_status x = status \<and> xt_final_state_json x = Some st)
     \<and> filter (\<lambda>r. et_run_id r = i) (tb_events t) = map (event_row_of i) events
     \<and> distinct (map fst events) \<and> (\<forall>e \<in> set events. fst e < 2 ^ 63)
     \<and> find (\<lambda>r. rt_run_id r = i) (tb_receipts t)
       = Some \<lparr>rt_run_id = i, rt_receipt_json = receipt, rt_bundle_json = bundle_json, rt_receipt_digest = d\<rparr>"

lemma find_upsert:
  assumes "\<And>x. p x \<Longrightarrow> p (f x)" "p r"
  shows "find p (upsert p r f xs) = Some (case find p xs of None \<Rightarrow> r | Some x \<Rightarrow> f x)"
proof (cases "list_ex p xs")
  case True
  then obtain x where x: "find p xs = Some x" by (metis find_None_iff_list_ex option.exhaust)
  with find_Some_in [OF x] find_update_where [of p p f xs] assms(1) True show ?thesis
    by (simp add: upsert_def)
next
  case False
  then have "find p xs = None" by (simp add: find_None_iff_list_ex)
  moreover from this have "find p (xs @ [r]) = Some r" using assms(2) by (induction xs) (auto split: if_splits)
  ultimately show ?thesis using False by (simp add: upsert_def)
qed

lemma terminal_body_InrD:
  assumes "terminal_body now i status st n events receipt bundle_json d con = (Inr e, con')"
  shows "e = Committed (Inr d) \<and> projected i status st events receipt bundle_json d (db_tables con')
    \<and> filter (\<lambda>r. et_run_id r \<noteq> i) (tb_events (db_tables con')) = filter (\<lambda>r. et_run_id r \<noteq> i) (tb_events (db_tables con))"
proof -
  let ?f = "\<lambda>x :: execution_row. x\<lparr>xt_status := status, xt_final_state_json := Some st, xt_total_nodes := as_i64 n,
    xt_finished_at := finished_when now status (xt_finished_at x)\<rparr>"
  from assms obtain con1 con2 u2 con3 u3 where
    s: "statement (prefixed ''terminal execution update error'') (set_execution i ?f) con = (Inr 1, con1)"
    and x: "execute_sql (prefixed ''terminal event reset error'')
      (\<lambda>t. t\<lparr>tb_events := filter (\<lambda>r. et_run_id r \<noteq> i) (tb_events t)\<rparr>) con1 = (Inr (), con2)"
    and es: "insert_events i events con2 = (Inr u2, con3)"
    and rc: "statement (prefixed ''terminal receipt insert error'') (upsert_receipt i receipt bundle_json d) con3 = (Inr u3, con')"
    and e: "e = Committed (Inr d)"
    by (auto simp: terminal_body_def bind_step_Inr_iff if_refuse_Inr_iff simp del: if_split)
  obtain t4 where t4: "upsert_receipt i receipt bundle_json d (db_tables con3) = Inr (u3, t4)" "db_tables con' = t4"
    using statement_InrD [OF rc] by blast
  define t where "t = db_tables con"
  have t1: "db_tables con1 = t\<lparr>tb_executions := update_where (\<lambda>x. xt_run_id x = i) ?f (tb_executions t)\<rparr>"
    and there: "count_where (\<lambda>x. xt_run_id x = i) (tb_executions t) = 1"
    using statement_InrD [OF s] by (auto simp: set_execution_def t_def)
  have t2: "db_tables con2 = (db_tables con1)\<lparr>tb_events := filter (\<lambda>r. et_run_id r \<noteq> i) (tb_events t)\<rparr>"
    using execute_sql_InrD [OF x] by (simp add: t1)
  have t3: "db_tables con3 = (db_tables con2)\<lparr>tb_events := filter (\<lambda>r. et_run_id r \<noteq> i) (tb_events t)
      @ map (event_row_of i) events\<rparr>"
    and ev: "distinct (map fst events)" "\<forall>e \<in> set events. fst e < 2 ^ 63"
    using insert_events_InrD [OF es] by (simp_all add: t2)
  have after: "db_tables con' = (db_tables con3)\<lparr>tb_receipts := upsert (\<lambda>r. rt_run_id r = i)
      \<lparr>rt_run_id = i, rt_receipt_json = receipt, rt_bundle_json = bundle_json, rt_receipt_digest = d\<rparr>
      (\<lambda>r. r\<lparr>rt_receipt_json := receipt, rt_bundle_json := bundle_json, rt_receipt_digest := d\<rparr>)
      (tb_receipts (db_tables con3))\<rparr>"
    using t4 by (simp add: upsert_receipt_def split: if_splits)
  obtain x0 where x0: "find (\<lambda>x. xt_run_id x = i) (tb_executions t) = Some x0"
    using there count_where_0_iff [of "\<lambda>x. xt_run_id x = i" "tb_executions t"] find_None_iff_list_ex
    by (metis (mono_tags, lifting) option.exhaust zero_neq_one)
  have "execution_of i (db_tables con') = Some (?f x0)"
    using x0 find_Some_in [OF x0] by (simp add: after t3 t2 t1 execution_of_def find_update_where)
  moreover have "find (\<lambda>r. rt_run_id r = i) (tb_receipts (db_tables con'))
      = Some \<lparr>rt_run_id = i, rt_receipt_json = receipt, rt_bundle_json = bundle_json, rt_receipt_digest = d\<rparr>"
    by (auto simp: after find_upsert split: option.splits dest!: find_Some_in)
  moreover have "filter (\<lambda>r. et_run_id r = i) (tb_events (db_tables con')) = map (event_row_of i) events"
    "filter (\<lambda>r. et_run_id r \<noteq> i) (tb_events (db_tables con')) = filter (\<lambda>r. et_run_id r \<noteq> i) (tb_events t)"
    by (simp_all add: after t3 filter_map o_def)
  ultimately show ?thesis using e ev by (simp add: projected_def t_def)
qed

lemma persist_terminal_InrD:
  assumes "persist_terminal_projection env now i status st n events receipt bundle_json con = (Inr d, con')"
  obtains key v where "se_key env = Some key" "se_parse env receipt = Inr v"
    and "d = hmac_sha256 (se_crypto env) v key"
    and "projected i status st events receipt bundle_json d (db_tables con')"
    and "filter (\<lambda>r. et_run_id r \<noteq> i) (tb_events (db_tables con')) = filter (\<lambda>r. et_run_id r \<noteq> i) (tb_events (db_tables con))"
proof -
  from assms obtain d0 where d0: "terminal_digest env receipt = Inr d0"
    and tx: "in_transaction (prefixed ''terminal transaction begin error'')
       (prefixed ''terminal transaction commit error'')
       (terminal_body now i status st n events receipt bundle_json d0) con = (Inr d, con')"
    by (auto simp: persist_terminal_projection_def bind_step_Inr_iff)
  from d0 obtain key v where "se_key env = Some key" "se_parse env receipt = Inr v"
      "d0 = hmac_sha256 (se_crypto env) v key"
    by (auto simp: terminal_digest_def require_integrity_key_def split: option.splits sum.splits)
  moreover from tx obtain con1 con2 e where
    "execute_sql (prefixed ''terminal transaction begin error'') id con = (Inr (), con1)"
    "terminal_body now i status st n events receipt bundle_json d0 con1 = (Inr e, con2)"
    and e: "e = Committed (Inr d) \<and> db_tables con' = db_tables con2 \<or> (\<exists>r. e = Dropped r)"
    by (auto simp: in_transaction_def split: prod.splits sum.splits tx_end.splits dest: execute_sql_InrD)
  moreover have "db_tables con1 = db_tables con" using execute_sql_InrD calculation(4) by fastforce
  ultimately show ?thesis using terminal_body_InrD that by fastforce
qed

section \<open>What is read back\<close>

lemma sort_increasing: "sorted (map f xs) \<Longrightarrow> sort_key f xs = xs"
  by (simp add: sort_key_id_if_sorted)

lemma projected_event_rows:
  assumes "projected i status st events receipt bundle_json d t" and "sorted (map fst events)"
  shows "run_event_rows i t = map (event_row_of i) events"
  using assms by (simp add: projected_def run_event_rows_def sort_increasing o_def)

lemma projected_receipt:
  assumes "projected i status st events receipt bundle_json d t" and "se_key env = Some key"
    and "se_parse env receipt = Inr v" and "d = hmac_sha256 (se_crypto env) v key"
  shows "load_terminal_receipt env i (opened [] t) = (Inr (Some (json_object [(''receipt'', v),
      (''receipt_digest'', String d), (''storage_class'', String ''sqlite_terminal_receipt''),
      (''replay_capability'', String ''integrity_only'')])), opened [] t)"
  using assms by (simp add: projected_def load_terminal_receipt_def bind_step_def pure_result_def give_def)

lemma projected_execution:
  assumes "projected i status st events receipt bundle_json d t" and "se_parse env st = Inr v"
  shows "\<exists>x. execution_of i t = Some x \<and> xt_status x = status
    \<and> load_execution env i (opened [] t) = (Inr (Some (execution_value x v)), opened [] t)"
  using assms by (auto simp: projected_def load_execution_def bind_step_def give_def column_value_def)

text \<open>
  C23: When the projection of a finished run is stored, all of it is: the status and final
  state are in its row, the signed receipt is accepted when it is read, its events are the
  stored ones, and the events of other runs are as before.
\<close>

theorem terminal_projection_is_whole:
  assumes "persist_terminal_projection env now i status st n events receipt bundle_json con = (Inr d, con')"
    and "se_parse env st = Inr v"
  shows "(\<exists>x. load_execution env i (opened [] (db_tables con'))
        = (Inr (Some (execution_value x v)), opened [] (db_tables con')) \<and> xt_status x = status)
    \<and> (\<exists>r. load_terminal_receipt env i (opened [] (db_tables con')) = (Inr (Some r), opened [] (db_tables con'))
        \<and> get_key r ''receipt_digest'' = Some (String d)
        \<and> map_option Inr (get_key r ''receipt'') = Some (se_parse env receipt))
    \<and> map (\<lambda>r. (et_seq r, et_event_type r, et_event_json r)) (filter (\<lambda>r. et_run_id r = i) (tb_events (db_tables con')))
        = events
    \<and> filter (\<lambda>r. et_run_id r \<noteq> i) (tb_events (db_tables con')) = filter (\<lambda>r. et_run_id r \<noteq> i) (tb_events (db_tables con))"
proof (rule persist_terminal_InrD [OF assms(1)])
  fix key r
  assume key: "se_key env = Some key" "se_parse env receipt = Inr r" "d = hmac_sha256 (se_crypto env) r key"
    and p: "projected i status st events receipt bundle_json d (db_tables con')"
    and others: "filter (\<lambda>r. et_run_id r \<noteq> i) (tb_events (db_tables con')) = filter (\<lambda>r. et_run_id r \<noteq> i) (tb_events (db_tables con))"
  have "map (\<lambda>r. (et_seq r, et_event_type r, et_event_json r)) (map (event_row_of i) events) = events"
    by (simp add: o_def)
  then show ?thesis
    using p others projected_execution [OF p assms(2)] projected_receipt [OF p key]
    by (auto simp: projected_def get_key_json_object key)
qed

definition sample_events :: "(nat \<times> string \<times> string) list" where
  "sample_events = [(0, ''node_start'', ''a''), (1, ''node_end'', ''b''), (2, ''done'', ''c'')]"

lemma sample_projection:
  "\<exists>con. persist_terminal_projection sample_env ''u'' ''r'' ''completed'' ''{}'' 1 sample_events ''{}'' ''{}''
     (opened [] sample_store) = (Inr ''hmac-sha256:'', con)"
proof -
  have no_events: "tb_events sample_store = []" "tb_receipts sample_store = []"
    by (simp_all add: sample_store_is no_tables_def)
  have p: "se_parse sample_env x = Inr Null" for x by (simp add: sample_env_def)
  show ?thesis
    by (simp add: persist_terminal_projection_def terminal_digest_def p pure_result_def bind_step_def
        in_transaction_def terminal_body_def statement_no_fault set_execution_def count_where_def
        sample_execution_def execution_of_def insert_event_def sample_events_def no_events
        upsert_receipt_def give_def update_where_def finished_when_def)
qed

theorem terminal_projection_is_whole_witness:
  "\<exists>con x. persist_terminal_projection sample_env ''u'' ''r'' ''completed'' ''{}'' 1 sample_events ''{}'' ''{}''
      (opened [] sample_store) = (Inr ''hmac-sha256:'', con)
    \<and> load_execution sample_env ''r'' (opened [] (db_tables con))
        = (Inr (Some (execution_value x Null)), opened [] (db_tables con)) \<and> xt_status x = ''completed''"
proof -
  obtain con where con: "persist_terminal_projection sample_env ''u'' ''r'' ''completed'' ''{}'' 1 sample_events ''{}'' ''{}''
      (opened [] sample_store) = (Inr ''hmac-sha256:'', con)"
    using sample_projection by blast
  have "se_parse sample_env ''{}'' = Inr Null" by (simp add: sample_env_def)
  then show ?thesis using con terminal_projection_is_whole [OF con] by blast
qed

section \<open>Pages of stored events\<close>

definition stored_pair :: "store_env \<Rightarrow> nat \<times> string \<times> string \<Rightarrow> value" where
  "stored_pair env e = stored_event_value env (event_row_of [] e)"

lemma stored_event_value_row: "stored_event_value env (event_row_of i e) = stored_pair env e"
  by (simp add: stored_pair_def stored_event_value_def)

lemma sorted_list_bounds:
  assumes "sorted (map f xs)" and "xs \<noteq> []"
  shows "Max (f ` set xs) = f (last xs)" "Min (f ` set xs) = f (hd xs)"
proof -
  have "f x \<le> f (last xs) \<and> f (hd xs) \<le> f x" if "x \<in> set xs" for x
    using assms that
  proof (induction xs)
    case (Cons y ys)
    then show ?case by (cases "ys = []") (auto intro: order_trans)
  qed simp
  then show "Max (f ` set xs) = f (last xs)" "Min (f ` set xs) = f (hd xs)"
    using assms(2) by (auto intro!: Max_eqI Min_eqI)
qed

lemma projected_page:
  assumes "projected i status st events receipt bundle_json d t" and "sorted (map fst events)" and "events \<noteq> []"
    and "cursor < 2 ^ 63" and "fst (last events) + 1 < 2 ^ 63"
  shows "load_events env i cursor limit (opened [] t) = (Inr (Some (event_page_value i
      (map (stored_pair env) (take (min limit 200) (filter (\<lambda>e. cursor \<le> fst e) events)))
      cursor (fst (hd events)) (fst (last events) + 1))), opened [] t)"
proof -
  note rows = projected_event_rows [OF assms(1,2)]
  have seqs: "last_seq (map (event_row_of i) events) = fst (last events)"
    "first_seq (map (event_row_of i) events) = fst (hd events)"
    using sorted_list_bounds [OF assms(2)] assms(3) by (simp_all add: last_seq_def first_seq_def o_def)
  have "stored_event_page env i cursor limit t
      = map (stored_pair env) (take (min limit 200) (filter (\<lambda>e. cursor \<le> fst e) events))"
    by (simp add: stored_event_page_def rows filter_map o_def take_map stored_event_value_row)
  then show ?thesis
    using assms(3-5) by (simp add: load_events_def bind_step_def statement_no_fault opened_def next_seq_def
        rows seqs Let_def give_def)
qed

text \<open>
  The events of a stored run are read in pages of at most 200 that start at a cursor; but
  the cursor that every page gives for the next one lies behind the last event of the run, so
  that a reader who follows it gets no further event, however many the page left out.
\<close>

theorem stored_page_ends_the_reading:
  assumes "persist_terminal_projection env now i status st n events receipt bundle_json con = (Inr d, con')"
    and "sorted (map fst events)" and "events \<noteq> []"
    and "cursor < 2 ^ 63" and "fst (last events) + 1 < 2 ^ 63"
  shows "\<exists>page empty. load_events env i cursor limit (opened [] (db_tables con')) = (Inr (Some page), opened [] (db_tables con'))
    \<and> get_key page ''events'' = Some (Array (map (stored_pair env)
        (take (min limit 200) (filter (\<lambda>e. cursor \<le> fst e) events))))
    \<and> get_key page ''next_cursor'' = Some (json_u64 (fst (last events) + 1))
    \<and> load_events env i (fst (last events) + 1) limit (opened [] (db_tables con')) = (Inr (Some empty), opened [] (db_tables con'))
    \<and> get_key empty ''events'' = Some (Array [])"
proof (rule persist_terminal_InrD [OF assms(1)])
  assume p: "projected i status st events receipt bundle_json d (db_tables con')"
  have "e \<notin> set events \<or> \<not> fst (last events) + 1 \<le> fst e" for e
    using sorted_list_bounds(1) [OF assms(2,3)] Max_ge [of "fst ` set events" "fst e"] by auto
  then have none: "filter (\<lambda>e. fst (last events) + 1 \<le> fst e) events = []" by (auto simp: filter_empty_conv)
  show ?thesis
    unfolding projected_page [OF p assms(2-5)] projected_page [OF p assms(2,3,5,5)] none
    by (auto simp: event_page_value_def get_key_json_object)
qed

theorem stored_page_ends_the_reading_witness:
  "\<exists>con page. persist_terminal_projection sample_env ''u'' ''r'' ''completed'' ''{}'' 1 sample_events ''{}'' ''{}''
      (opened [] sample_store) = (Inr ''hmac-sha256:'', con)
    \<and> load_events sample_env ''r'' 0 2 (opened [] (db_tables con)) = (Inr (Some page), opened [] (db_tables con))
    \<and> get_key page ''events'' = Some (Array (map (stored_pair sample_env) (take 2 sample_events)))
    \<and> get_key page ''next_cursor'' = Some (json_u64 3)"
proof -
  obtain con where con: "persist_terminal_projection sample_env ''u'' ''r'' ''completed'' ''{}'' 1 sample_events ''{}'' ''{}''
      (opened [] sample_store) = (Inr ''hmac-sha256:'', con)"
    using sample_projection by blast
  have "sorted (map fst sample_events)" "sample_events \<noteq> []" "fst (last sample_events) + 1 = 3"
    "filter (\<lambda>e. 0 \<le> fst e) sample_events = sample_events"
    by (simp_all add: sample_events_def)
  then show ?thesis using con stored_page_ends_the_reading [OF con, of 0 2] by auto
qed

end
