(* ===== verification/Spec_Codec.thy ===== *)
theory Spec_Codec
  imports Write_Conflicts
begin

text \<open>
  The derived serialization and deserialization of the types of
  \<open>agent-graph-mcp/src/spec.rs\<close>. A struct is read from an object, whose unknown members are
  ignored, or from an array with its fields in order; a missing field is an error unless it
  has a default. A unit variant is read from its name, or from an object whose only member
  is the name with \<open>null\<close>. Why a value was refused is the text of the error, which is not
  modelled: decoding gives \<open>None\<close>.
\<close>

section \<open>Fields\<close>

type_synonym fields = "string \<Rightarrow> value option"

definition struct_fields :: "string list \<Rightarrow> value \<Rightarrow> fields option" where
  "struct_fields names v = (case v of
       Object m \<Rightarrow> Some (map_of m)
     | Array xs \<Rightarrow> if length xs \<le> length names then Some (map_of (zip names xs)) else None
     | _ \<Rightarrow> None)"

definition required :: "fields \<Rightarrow> string \<Rightarrow> (value \<Rightarrow> 'a option) \<Rightarrow> 'a option" where
  "required look k decode = Option.bind (look k) decode"

definition defaulted :: "fields \<Rightarrow> string \<Rightarrow> (value \<Rightarrow> 'a option) \<Rightarrow> 'a \<Rightarrow> 'a option" where
  "defaulted look k decode d = (case look k of None \<Rightarrow> Some d | Some v \<Rightarrow> decode v)"

text \<open>A field with an alias: both names at once are a duplicate field.\<close>

definition aliased :: "fields \<Rightarrow> string \<Rightarrow> string \<Rightarrow> (value \<Rightarrow> 'a option) \<Rightarrow> 'a \<Rightarrow> 'a option" where
  "aliased look k k' decode d = (case (look k, look k') of
       (Some _, Some _) \<Rightarrow> None
     | (None, Some v) \<Rightarrow> decode v
     | _ \<Rightarrow> defaulted look k decode d)"

definition nullable :: "(value \<Rightarrow> 'a option) \<Rightarrow> value \<Rightarrow> 'a option option" where
  "nullable decode v = (if is_null v then Some None else map_option Some (decode v))"

definition list_of_value :: "(value \<Rightarrow> 'a option) \<Rightarrow> value \<Rightarrow> 'a list option" where
  "list_of_value decode v = Option.bind (as_array v) (\<lambda>xs. those (map decode xs))"

definition map_of_value :: "(value \<Rightarrow> 'a option) \<Rightarrow> value \<Rightarrow> (string \<times> 'a) list option" where
  "map_of_value decode v = Option.bind (as_object v) (\<lambda>m.
     those (map (\<lambda>(k, x). map_option (Pair k) (decode x)) m))"

definition variant_name :: "value \<Rightarrow> string option" where
  "variant_name v = (case v of
       String s \<Rightarrow> Some s
     | Object [(k, x)] \<Rightarrow> if is_null x then Some k else None
     | _ \<Rightarrow> None)"

definition value_of_option :: "('a \<Rightarrow> value) \<Rightarrow> 'a option \<Rightarrow> value" where
  "value_of_option encode x = (case x of None \<Rightarrow> Null | Some a \<Rightarrow> encode a)"

section \<open>Enumerations\<close>

fun node_type_name :: "node_type \<Rightarrow> string" where
  "node_type_name Type_llm = ''llm''"
| "node_type_name Type_router = ''router''"
| "node_type_name Type_passthrough = ''passthrough''"
| "node_type_name Type_state_transform = ''state_transform''"
| "node_type_name Type_join = ''join''"
| "node_type_name Type_parallel = ''parallel''"
| "node_type_name Type_subgraph = ''subgraph''"
| "node_type_name Type_human_approval = ''human_approval''"
| "node_type_name Type_external = ''external''"
| "node_type_name Type_tool = ''tool''"
| "node_type_name Type_loop = ''loop''"

definition all_node_types :: "node_type list" where
  "all_node_types = [Type_llm, Type_router, Type_passthrough, Type_state_transform, Type_join,
     Type_parallel, Type_subgraph, Type_human_approval, Type_external, Type_tool, Type_loop]"

definition node_type_of_value :: "value \<Rightarrow> node_type option" where
  "node_type_of_value v = Option.bind (variant_name v) (\<lambda>s. find (\<lambda>t. node_type_name t = s) all_node_types)"

fun reducer_name :: "reducer_kind \<Rightarrow> string" where
  "reducer_name Kind_last_write_wins = ''last_write_wins''"
| "reducer_name Kind_append = ''append''"
| "reducer_name Kind_add = ''add''"
| "reducer_name Kind_merge = ''merge''"

definition reducer_of_value :: "value \<Rightarrow> reducer_kind option" where
  "reducer_of_value v = Option.bind (variant_name v) (\<lambda>s.
     find (\<lambda>k. reducer_name k = s) [Kind_last_write_wins, Kind_append, Kind_add, Kind_merge])"

section \<open>Structs\<close>

definition node_fields :: "string list" where
  "node_fields = [''id'', ''type'', ''prompt'', ''model'', ''json_mode'', ''evidence_required'',
     ''max_tokens'', ''routes'', ''config'']"

definition node_of_value :: "value \<Rightarrow> node_spec option" where
  "node_of_value v =
     Option.bind (struct_fields node_fields v) (\<lambda>look.
     Option.bind (required look ''id'' as_str) (\<lambda>node_id.
     Option.bind (required look ''type'' node_type_of_value) (\<lambda>ty.
     Option.bind (defaulted look ''prompt'' (nullable as_str) None) (\<lambda>prompt.
     Option.bind (defaulted look ''model'' (nullable as_str) None) (\<lambda>model.
     Option.bind (defaulted look ''json_mode'' as_bool False) (\<lambda>json_mode.
     Option.bind (defaulted look ''evidence_required'' as_bool False) (\<lambda>evidence.
     Option.bind (defaulted look ''max_tokens'' (nullable as_u64) None) (\<lambda>max_tokens.
     Option.bind (defaulted look ''routes'' (nullable (map_of_value as_str)) None) (\<lambda>routes.
     Option.bind (defaulted look ''config'' Some Null) (\<lambda>config.
       Some \<lparr>ns_id = node_id, ns_type = ty, ns_prompt = prompt, ns_model = model,
         ns_json_mode = json_mode, ns_evidence_required = evidence, ns_max_tokens = max_tokens,
         ns_routes = routes, ns_config = config\<rparr>))))))))))"

definition node_value :: "node_spec \<Rightarrow> value" where
  "node_value n = json_object
     [(''id'', String (ns_id n)), (''type'', String (node_type_name (ns_type n))),
      (''prompt'', value_of_option String (ns_prompt n)), (''model'', value_of_option String (ns_model n)),
      (''json_mode'', Bool (ns_json_mode n)), (''evidence_required'', Bool (ns_evidence_required n)),
      (''max_tokens'', value_of_option json_u64 (ns_max_tokens n)),
      (''routes'', value_of_option (\<lambda>m. Object (map (\<lambda>(k, s). (k, String s)) m)) (ns_routes n)),
      (''config'', ns_config n)]"

definition edge_of_value :: "value \<Rightarrow> edge_spec option" where
  "edge_of_value v =
     Option.bind (struct_fields [''from'', ''to''] v) (\<lambda>look.
     Option.bind (required look ''from'' as_str) (\<lambda>source.
     Option.bind (required look ''to'' as_str) (\<lambda>target.
       Some \<lparr>es_from = source, es_to = target\<rparr>)))"

definition edge_value :: "edge_spec \<Rightarrow> value" where
  "edge_value e = json_object [(''from'', String (es_from e)), (''to'', String (es_to e))]"

definition spec_fields :: "string list" where
  "spec_fields = [''spec_version'', ''name'', ''entry'', ''output_key'', ''nodes'', ''edges'',
     ''max_iterations'', ''max_parallelism'', ''reducers'']"

definition spec_of_value :: "value \<Rightarrow> graph_spec option" where
  "spec_of_value v =
     Option.bind (struct_fields spec_fields v) (\<lambda>look.
     Option.bind (defaulted look ''spec_version'' as_str ''1'') (\<lambda>version.
     Option.bind (required look ''name'' as_str) (\<lambda>name.
     Option.bind (required look ''entry'' as_str) (\<lambda>start.
     Option.bind (defaulted look ''output_key'' (nullable as_str) None) (\<lambda>output_key.
     Option.bind (required look ''nodes'' (list_of_value node_of_value)) (\<lambda>nodes.
     Option.bind (defaulted look ''edges'' (list_of_value edge_of_value) []) (\<lambda>edges.
     Option.bind (aliased look ''max_iterations'' ''recursion_limit'' (nullable as_u64) None) (\<lambda>iterations.
     Option.bind (defaulted look ''max_parallelism'' (nullable as_u64) None) (\<lambda>parallelism.
     Option.bind (defaulted look ''reducers'' (map_of_value reducer_of_value) []) (\<lambda>reducers.
       Some \<lparr>gs_spec_version = version, gs_name = name, gs_entry = start, gs_output_key = output_key,
         gs_nodes = nodes, gs_edges = edges, gs_max_iterations = iterations,
         gs_max_parallelism = parallelism, gs_reducers = reducers\<rparr>))))))))))"

definition spec_value :: "graph_spec \<Rightarrow> value" where
  "spec_value s = json_object
     [(''spec_version'', String (gs_spec_version s)), (''name'', String (gs_name s)),
      (''entry'', String (gs_entry s)), (''output_key'', value_of_option String (gs_output_key s)),
      (''nodes'', Array (map node_value (gs_nodes s))), (''edges'', Array (map edge_value (gs_edges s))),
      (''max_iterations'', value_of_option json_u64 (gs_max_iterations s)),
      (''max_parallelism'', value_of_option json_u64 (gs_max_parallelism s)),
      (''reducers'', Object (map (\<lambda>(k, r). (k, String (reducer_name r))) (gs_reducers s)))]"

text \<open>The parser that \<open>parse_and_validate\<close> is given; \<open>why\<close> makes up the text of an error.\<close>

definition serde_spec :: "(value \<Rightarrow> string) \<Rightarrow> value \<Rightarrow> string + graph_spec" where
  "serde_spec why v = (case spec_of_value v of None \<Rightarrow> Inl (why v) | Some s \<Rightarrow> Inr s)"

section \<open>What is written is read back\<close>

lemma those_map_Some: "(\<And>x. x \<in> set xs \<Longrightarrow> f x = Some (g x)) \<Longrightarrow> those (map f xs) = Some (map g xs)"
  by (induction xs) auto

lemma node_type_read [simp]: "node_type_of_value (String (node_type_name t)) = Some t"
  by (cases t) (simp_all add: node_type_of_value_def variant_name_def all_node_types_def)

lemma reducer_read [simp]: "reducer_of_value (String (reducer_name r)) = Some r"
  by (cases r) (simp_all add: reducer_of_value_def variant_name_def)

lemma nullable_read [simp]:
  "(\<And>a. x = Some a \<Longrightarrow> decode (encode a) = Some a \<and> \<not> is_null (encode a)) \<Longrightarrow>
   nullable decode (value_of_option encode x) = Some x"
  by (cases x) (auto simp: nullable_def value_of_option_def)

lemma json_u64_read: "n < 2 ^ 64 \<Longrightarrow> as_u64 (json_u64 n) = Some n \<and> \<not> is_null (json_u64 n)"
  by (simp add: json_u64_def unat_of_nat take_bit_nat_eq_self)

definition fits :: "nat option \<Rightarrow> bool" where
  "fits x \<longleftrightarrow> (case x of None \<Rightarrow> True | Some n \<Rightarrow> n < 2 ^ 64)"

lemma fits_read: "fits x \<Longrightarrow> nullable as_u64 (value_of_option json_u64 x) = Some x"
  by (rule nullable_read) (auto simp: fits_def json_u64_read)

lemma entries_read:
  "(\<And>a. decode (encode a) = Some a) \<Longrightarrow>
   map_of_value decode (Object (map (\<lambda>(k, x). (k, encode x)) m)) = Some m"
  by (induction m) (auto simp: map_of_value_def)

lemma routes_read:
  "nullable (map_of_value as_str) (value_of_option (\<lambda>m. Object (map (\<lambda>(k, s). (k, String s)) m)) x) = Some x"
  by (rule nullable_read) (simp add: entries_read)

lemma object_fields: "struct_fields names (json_object kvs) = Some (map_of (fold (\<lambda>(k, v). bt_insert k v) kvs []))"
  by (simp add: struct_fields_def json_object_def)

lemma object_field:
  "distinct (map fst kvs) \<Longrightarrow> map_of (fold (\<lambda>(k, v). bt_insert k v) kvs []) k = map_of kvs (k :: string)"
  for kvs :: "(string \<times> value) list"
  using get_key_json_object [of kvs k] by (simp add: json_object_def)

lemmas field_reads = required_def defaulted_def aliased_def object_fields object_field

lemma node_read: "fits (ns_max_tokens n) \<Longrightarrow> node_of_value (node_value n) = Some n"
  by (simp add: node_of_value_def node_value_def field_reads fits_read routes_read)

lemma edge_read: "edge_of_value (edge_value e) = Some e"
  by (simp add: edge_of_value_def edge_value_def field_reads)

definition spec_fits :: "graph_spec \<Rightarrow> bool" where
  "spec_fits s \<longleftrightarrow> fits (gs_max_iterations s) \<and> fits (gs_max_parallelism s)
     \<and> list_all (\<lambda>n. fits (ns_max_tokens n)) (gs_nodes s)"

lemma spec_read:
  assumes "spec_fits s"
  shows "spec_of_value (spec_value s) = Some s"
proof -
  have "list_of_value node_of_value (Array (map node_value (gs_nodes s))) = Some (gs_nodes s)"
    using assms those_map_Some [of "gs_nodes s" "node_of_value \<circ> node_value" id]
    by (simp add: list_of_value_def spec_fits_def list_all_iff node_read)
  moreover have "list_of_value edge_of_value (Array (map edge_value (gs_edges s))) = Some (gs_edges s)"
    using those_map_Some [of "gs_edges s" "edge_of_value \<circ> edge_value" id]
    by (simp add: list_of_value_def edge_read)
  ultimately show ?thesis
    using assms
    by (simp add: spec_of_value_def spec_value_def field_reads fits_read spec_fits_def entries_read)
qed

end
