(* ===== verification/Graph_Templates.thy ===== *)
theory Graph_Templates
  imports Spec_Codec
begin

text \<open>
  \<open>agent-graph-mcp/src/templates.rs\<close>: the catalog of built-in templates and the
  specifications they instantiate to, as the literals of the code. Text is a list of UTF-8
  bytes.
\<close>

definition newline :: string where "newline = [char_of (10 :: nat)]"

definition utf8 :: "nat list \<Rightarrow> string" where "utf8 bytes = map char_of bytes"

definition arrow :: string where "arrow = utf8 [226, 134, 146]"

definition dash :: string where "dash = utf8 [226, 128, 148]"

section \<open>Catalog\<close>

definition template_list :: "value" where
  "template_list = json_object [(''available'', Array [
           json_object [(''id'', String ''council_deliberation''), (''version'', String ''2''),
             (''description'', String (''Three-analyst parallel council: coordinator splits work into workstreams, ''
                 @ ''parallel analysts each consume their assigned workstream, join synthesizes, ''
                 @ ''final report produced.'')), (''params'', Array [String ''name'']),
             (''storage_class'', String ''server_builtin''), (''executable'', Bool True)],
           json_object [(''id'', String ''parallel_council''), (''version'', String ''1''),
             (''description'', String ''Two-perspective debate: optimist vs skeptic with judge synthesis.''),
             (''params'', Array [String ''name'']), (''storage_class'', String ''server_builtin''),
             (''executable'', Bool True)],
           json_object [(''id'', String ''plan_critique_refine''), (''version'', String ''1''),
             (''description'', String (''Sequential plan''
                 @ arrow
                 @ ''critique''
                 @ arrow
                 @ ''refine pipeline.'')), (''params'', Array [String ''name'']),
             (''storage_class'', String ''server_builtin''), (''executable'', Bool True)],
           json_object [(''id'', String ''analysis_pipeline''), (''version'', String ''1''),
             (''description'', String (''Structured LLM analysis: planner''
                 @ arrow
                 @ ''researcher''
                 @ arrow
                 @ ''extractor''
                 @ arrow
                 @ ''synthesizer''
                 @ arrow
                 @ ''validator with conditional correction loop. This is model-knowledge synthesis, ''
                 @ ''NOT web research or source verification.'')), (''params'', Array [String ''name'']),
             (''storage_class'', String ''server_builtin''), (''executable'', Bool True)],
           json_object [(''id'', String ''classifier_router''), (''version'', String ''2''),
             (''description'', String (''LLM classifier routes input to category-specific handlers ''
                 @ ''(bug/feature/question). Original input is preserved separately from the ''
                 @ ''classification label.'')), (''params'', Array [String ''name'']),
             (''storage_class'', String ''server_builtin''), (''executable'', Bool True)],
           json_object [(''id'', String ''code_audit''), (''version'', String ''1''),
             (''description'', String (''Three-auditor parallel code audit: architecture, security, and quality auditors ''
                 @ ''analyze in parallel, join findings, synthesize a ranked report with severity ''
                 @ ''levels.'')), (''params'', Array [String ''name'']),
             (''storage_class'', String ''server_builtin''), (''executable'', Bool True)],
           json_object [(''id'', String ''release_verification''), (''version'', String ''1''),
             (''description'', String (''Release verification pipeline: planner defines checks, executor runs them, ''
                 @ ''validator judges pass/fail, conditional routing to reporter or formatter based ''
                 @ ''on outcome.'')), (''params'', Array [String ''name'']),
             (''storage_class'', String ''server_builtin''), (''executable'', Bool True)]]),
       (''unavailable'', Array [
           json_object [(''id'', String ''approval_gated_action''),
             (''reason'', String (''requires authenticated human approval (HITL) which is not available until the ''
                 @ ''operator authority subsystem is installed and verified''))],
           json_object [(''id'', String ''research_pipeline''),
             (''reason'', String (''renamed to analysis_pipeline; true web research requires source-witness ''
                 @ ''contracts and external tool integration not yet implemented''))],
           json_object [(''id'', String ''map_reduce''),
             (''reason'', String ''requires dynamic parallel branch count from input data'')]])]"

section \<open>Specifications\<close>

definition plan_critique_refine_spec :: "string \<Rightarrow> value" where
  "plan_critique_refine_spec name = json_object [(''spec_version'', String ''2''), (''name'', String name),
       (''entry'', String ''plan''), (''output_key'', String ''final''),
       (''max_iterations'', json_u64 12), (''nodes'', Array [
           json_object [(''id'', String ''plan''), (''type'', String ''llm''),
             (''prompt'', String ''Create a concise plan for: {input}''),
             (''config'', json_object [(''output_key'', String ''draft'')])],
           json_object [(''id'', String ''critique''), (''type'', String ''llm''),
             (''prompt'', String ''Critique this plan: {input}''),
             (''config'', json_object [(''input_key'', String ''draft''), (''output_key'', String ''critique'')])],
           json_object [(''id'', String ''refine''), (''type'', String ''llm''),
             (''prompt'', String ''Refine using this critique: {input}''),
             (''config'', json_object [(''input_key'', String ''critique''), (''output_key'', String ''final'')])]]),
       (''edges'', Array [
           json_object [(''from'', String ''plan''), (''to'', String ''critique'')],
           json_object [(''from'', String ''critique''), (''to'', String ''refine'')],
           json_object [(''from'', String ''refine''), (''to'', String ''END'')]])]"

definition parallel_council_spec :: "string \<Rightarrow> value" where
  "parallel_council_spec name = json_object [(''spec_version'', String ''2''), (''name'', String name),
       (''entry'', String ''fanout''), (''output_key'', String ''decision''),
       (''max_iterations'', json_u64 8), (''max_parallelism'', json_u64 2), (''nodes'', Array [
           json_object [(''id'', String ''fanout''), (''type'', String ''passthrough'')],
           json_object [(''id'', String ''optimist''), (''type'', String ''llm''),
             (''prompt'', String ''Give the strongest case for: {input}''),
             (''config'', json_object [(''output_key'', String ''optimist'')])],
           json_object [(''id'', String ''skeptic''), (''type'', String ''llm''),
             (''prompt'', String ''Give the strongest critique of: {input}''),
             (''config'', json_object [(''output_key'', String ''skeptic'')])],
           json_object [(''id'', String ''join''), (''type'', String ''join''),
             (''config'', json_object [(''inputs'', Array [String ''optimist'', String ''skeptic'']),
                 (''output'', String ''council''), (''mode'', String ''collect_array'')])],
           json_object [(''id'', String ''judge''), (''type'', String ''llm''),
             (''prompt'', String ''Judge these ordered views and produce a decision: {input}''),
             (''config'', json_object [(''input_key'', String ''council''), (''output_key'', String ''decision'')])]]),
       (''edges'', Array [
           json_object [(''from'', String ''fanout''), (''to'', String ''optimist'')],
           json_object [(''from'', String ''fanout''), (''to'', String ''skeptic'')],
           json_object [(''from'', String ''optimist''), (''to'', String ''join'')],
           json_object [(''from'', String ''skeptic''), (''to'', String ''join'')],
           json_object [(''from'', String ''join''), (''to'', String ''judge'')],
           json_object [(''from'', String ''judge''), (''to'', String ''END'')]])]"

definition council_deliberation_spec :: "string \<Rightarrow> value" where
  "council_deliberation_spec name = json_object [(''spec_version'', String ''2''), (''name'', String name),
       (''entry'', String ''coordinator''), (''output_key'', String ''final_report''),
       (''max_iterations'', json_u64 16), (''max_parallelism'', json_u64 3),
       (''reducers'', json_object [(''workstreams'', String ''last_write_wins'')]), (''nodes'', Array [
           json_object [(''id'', String ''coordinator''), (''type'', String ''llm''),
             (''prompt'', String (''You are a research coordinator. Break this question into 3 distinct research ''
                 @ ''workstreams. Output JSON: {\"workstreams\": ''
                 @ ''[{\"id\":\"ws0\",\"query\":\"...\"}, {\"id\":\"ws1\",\"query\":\"...\"}, ''
                 @ ''{\"id\":\"ws2\",\"query\":\"...\"}]}''
                 @ newline
                 @ newline
                 @ ''Question: {input}'')), (''json_mode'', Bool True),
             (''config'', json_object [(''output_key'', String ''workstreams'')])],
           json_object [(''id'', String ''fanout''), (''type'', String ''passthrough''),
             (''config'', json_object [(''input_key'', String ''workstreams'')])],
           json_object [(''id'', String ''analyst_0''), (''type'', String ''llm''),
             (''prompt'', String (''Research this workstream thoroughly: {input}''
                 @ newline
                 @ newline
                 @ ''The workstreams JSON is available. Find the workstream with id \\'ws0\\' and ''
                 @ ''address its query.'')),
             (''config'', json_object [(''input_key'', String ''workstreams''),
                 (''output_key'', String ''ws0_result'')])],
           json_object [(''id'', String ''analyst_1''), (''type'', String ''llm''),
             (''prompt'', String (''Research this workstream thoroughly: {input}''
                 @ newline
                 @ newline
                 @ ''The workstreams JSON is available. Find the workstream with id \\'ws1\\' and ''
                 @ ''address its query.'')),
             (''config'', json_object [(''input_key'', String ''workstreams''),
                 (''output_key'', String ''ws1_result'')])],
           json_object [(''id'', String ''analyst_2''), (''type'', String ''llm''),
             (''prompt'', String (''Research this workstream thoroughly: {input}''
                 @ newline
                 @ newline
                 @ ''The workstreams JSON is available. Find the workstream with id \\'ws2\\' and ''
                 @ ''address its query.'')),
             (''config'', json_object [(''input_key'', String ''workstreams''),
                 (''output_key'', String ''ws2_result'')])],
           json_object [(''id'', String ''join''), (''type'', String ''join''),
             (''config'', json_object [(''inputs'', Array [String ''ws0_result'', String ''ws1_result'', String ''ws2_result'']),
                 (''output'', String ''findings''), (''mode'', String ''collect_array'')])],
           json_object [(''id'', String ''synthesize''), (''type'', String ''llm''),
             (''prompt'', String (''Synthesize these three research findings into a unified report with ''
                 @ ''recommendations: {input}'')),
             (''config'', json_object [(''input_key'', String ''findings''),
                 (''output_key'', String ''final_report'')])]]), (''edges'', Array [
           json_object [(''from'', String ''coordinator''), (''to'', String ''fanout'')],
           json_object [(''from'', String ''fanout''), (''to'', String ''analyst_0'')],
           json_object [(''from'', String ''fanout''), (''to'', String ''analyst_1'')],
           json_object [(''from'', String ''fanout''), (''to'', String ''analyst_2'')],
           json_object [(''from'', String ''analyst_0''), (''to'', String ''join'')],
           json_object [(''from'', String ''analyst_1''), (''to'', String ''join'')],
           json_object [(''from'', String ''analyst_2''), (''to'', String ''join'')],
           json_object [(''from'', String ''join''), (''to'', String ''synthesize'')],
           json_object [(''from'', String ''synthesize''), (''to'', String ''END'')]])]"

definition analysis_pipeline_spec :: "string \<Rightarrow> value" where
  "analysis_pipeline_spec name = json_object [(''spec_version'', String ''2''), (''name'', String name),
       (''entry'', String ''planner''), (''output_key'', String ''final''),
       (''max_iterations'', json_u64 20), (''nodes'', Array [
           json_object [(''id'', String ''planner''), (''type'', String ''llm''),
             (''prompt'', String ''Create a research plan for: {input}. Output JSON with \\'steps\\' array.''),
             (''json_mode'', Bool True), (''config'', json_object [(''output_key'', String ''plan'')])],
           json_object [(''id'', String ''researcher''), (''type'', String ''llm''),
             (''prompt'', String ''Execute this research step using your knowledge (no web access): {input}''),
             (''config'', json_object [(''input_key'', String ''plan''), (''output_key'', String ''research'')])],
           json_object [(''id'', String ''extractor''), (''type'', String ''llm''),
             (''prompt'', String ''Extract key claims and evidence from: {input}''),
             (''config'', json_object [(''input_key'', String ''research''), (''output_key'', String ''claims'')])],
           json_object [(''id'', String ''synthesizer''), (''type'', String ''llm''),
             (''prompt'', String ''Synthesize these claims into a coherent summary: {input}''),
             (''config'', json_object [(''input_key'', String ''claims''), (''output_key'', String ''summary'')])],
           json_object [(''id'', String ''validator''), (''type'', String ''llm''),
             (''prompt'', String (''Validate this summary. Is it accurate and complete? Respond with JSON: ''
                 @ ''{\"valid\": true/false, \"issues\": [...]}'')), (''json_mode'', Bool True),
             (''config'', json_object [(''input_key'', String ''summary''), (''output_key'', String ''validation'')])],
           json_object [(''id'', String ''validation_router''), (''type'', String ''router''),
             (''config'', json_object [(''rules'', Array [
                     json_object [(''path'', String ''validation.valid''), (''op'', String ''eq''),
                       (''value'', Bool True), (''targets'', Array [String ''formatter''])],
                     json_object [(''path'', String ''validation.valid''), (''op'', String ''eq''),
                       (''value'', Bool False), (''targets'', Array [String ''corrector''])]]),
                 (''default'', Array [String ''formatter''])])],
           json_object [(''id'', String ''corrector''), (''type'', String ''llm''),
             (''prompt'', String (''The validator found these issues: {input}. Revise the summary to address them. ''
                 @ ''Previous claims: {claims}'')),
             (''config'', json_object [(''input_key'', String ''validation''), (''output_key'', String ''summary'')])],
           json_object [(''id'', String ''formatter''), (''type'', String ''llm''),
             (''prompt'', String ''Format the final output. Summary: {summary}. Validation: {validation}''),
             (''config'', json_object [(''output_key'', String ''final'')])]]), (''edges'', Array [
           json_object [(''from'', String ''planner''), (''to'', String ''researcher'')],
           json_object [(''from'', String ''researcher''), (''to'', String ''extractor'')],
           json_object [(''from'', String ''extractor''), (''to'', String ''synthesizer'')],
           json_object [(''from'', String ''synthesizer''), (''to'', String ''validator'')],
           json_object [(''from'', String ''validator''), (''to'', String ''validation_router'')],
           json_object [(''from'', String ''validation_router''), (''to'', String ''formatter''),
             (''condition'', String ''valid'')],
           json_object [(''from'', String ''validation_router''), (''to'', String ''corrector''),
             (''condition'', String ''invalid'')],
           json_object [(''from'', String ''corrector''), (''to'', String ''validator'')],
           json_object [(''from'', String ''formatter''), (''to'', String ''END'')]])]"

definition classifier_router_spec :: "string \<Rightarrow> value" where
  "classifier_router_spec name = json_object [(''spec_version'', String ''2''), (''name'', String name),
       (''entry'', String ''classifier''), (''output_key'', String ''response''),
       (''max_iterations'', json_u64 8),
       (''reducers'', json_object [(''original_input'', String ''last_write_wins'')]),
       (''nodes'', Array [
           json_object [(''id'', String ''classifier''), (''type'', String ''llm''),
             (''prompt'', String (''Classify this input. Respond with exactly one word: \\'bug\\', \\'feature\\', ''
                 @ ''or \\'question\\'.''
                 @ newline
                 @ newline
                 @ ''Input: {input}'')),
             (''config'', json_object [(''output_key'', String ''classification.label'')])],
           json_object [(''id'', String ''router''), (''type'', String ''router''),
             (''config'', json_object [(''rules'', Array [
                     json_object [(''path'', String ''classification.label''),
                       (''op'', String ''contains''), (''value'', String ''bug''),
                       (''targets'', Array [String ''bug_handler''])],
                     json_object [(''path'', String ''classification.label''),
                       (''op'', String ''contains''), (''value'', String ''feature''),
                       (''targets'', Array [String ''feature_handler''])],
                     json_object [(''path'', String ''classification.label''),
                       (''op'', String ''contains''), (''value'', String ''question''),
                       (''targets'', Array [String ''question_handler''])]]),
                 (''default'', Array [String ''general_handler''])])],
           json_object [(''id'', String ''bug_handler''), (''type'', String ''llm''),
             (''prompt'', String ''Analyze this bug report and suggest a fix: {input}''),
             (''config'', json_object [(''output_key'', String ''response'')])],
           json_object [(''id'', String ''feature_handler''), (''type'', String ''llm''),
             (''prompt'', String ''Evaluate this feature request: {input}''),
             (''config'', json_object [(''output_key'', String ''response'')])],
           json_object [(''id'', String ''question_handler''), (''type'', String ''llm''),
             (''prompt'', String ''Answer this question thoroughly: {input}''),
             (''config'', json_object [(''output_key'', String ''response'')])],
           json_object [(''id'', String ''general_handler''), (''type'', String ''llm''),
             (''prompt'', String ''Handle this general input: {input}''),
             (''config'', json_object [(''output_key'', String ''response'')])]]), (''edges'', Array [
           json_object [(''from'', String ''classifier''), (''to'', String ''router'')],
           json_object [(''from'', String ''bug_handler''), (''to'', String ''END'')],
           json_object [(''from'', String ''feature_handler''), (''to'', String ''END'')],
           json_object [(''from'', String ''question_handler''), (''to'', String ''END'')],
           json_object [(''from'', String ''general_handler''), (''to'', String ''END'')]])]"

definition code_audit_spec :: "string \<Rightarrow> value" where
  "code_audit_spec name = json_object [(''spec_version'', String ''2''), (''name'', String name),
       (''entry'', String ''coordinator''), (''output_key'', String ''audit_report''),
       (''max_iterations'', json_u64 16), (''max_parallelism'', json_u64 3),
       (''reducers'', json_object [(''audit_dimensions'', String ''last_write_wins'')]),
       (''nodes'', Array [
           json_object [(''id'', String ''coordinator''), (''type'', String ''llm''),
             (''prompt'', String (''You are a code audit coordinator. Analyze this codebase or description and ''
                 @ ''identify 3 audit dimensions: architecture, security, and quality. Output JSON: ''
                 @ ''{\"dimensions\": [{\"id\":\"dim0\",\"query\":\"architecture audit focus\"}, ''
                 @ ''{\"id\":\"dim1\",\"query\":\"security audit focus\"}, ''
                 @ ''{\"id\":\"dim2\",\"query\":\"quality audit focus\"}]}''
                 @ newline
                 @ newline
                 @ ''Target: {input}'')), (''json_mode'', Bool True),
             (''config'', json_object [(''output_key'', String ''audit_dimensions'')])],
           json_object [(''id'', String ''fanout''), (''type'', String ''passthrough''),
             (''config'', json_object [(''input_key'', String ''audit_dimensions'')])],
           json_object [(''id'', String ''arch_auditor''), (''type'', String ''llm''),
             (''prompt'', String (''You are a Rust architecture auditor. Analyze module boundaries, ownership ''
                 @ ''patterns, error propagation, trait design, and separation of concerns. Identify ''
                 @ ''concrete defects with severity (critical/high/medium/low), affected surface, ''
                 @ ''evidence, and fix direction.''
                 @ newline
                 @ newline
                 @ ''Audit focus: {input}''
                 @ newline
                 @ ''The dimensions JSON is available. Find dimension \\'dim0\\' and address its ''
                 @ ''query.'')), (''config'', json_object [(''input_key'', String ''audit_dimensions''),
                 (''output_key'', String ''arch_result'')])],
           json_object [(''id'', String ''security_auditor''), (''type'', String ''llm''),
             (''prompt'', String (''You are a security auditor. Check input validation, secret handling, path ''
                 @ ''traversal, egress control, and unsafe code. Identify concrete defects with ''
                 @ ''severity (critical/high/medium/low), affected surface, evidence, and fix ''
                 @ ''direction.''
                 @ newline
                 @ newline
                 @ ''Audit focus: {input}''
                 @ newline
                 @ ''The dimensions JSON is available. Find dimension \\'dim1\\' and address its ''
                 @ ''query.'')), (''config'', json_object [(''input_key'', String ''audit_dimensions''),
                 (''output_key'', String ''security_result'')])],
           json_object [(''id'', String ''quality_auditor''), (''type'', String ''llm''),
             (''prompt'', String (''You are a code quality auditor. Evaluate test coverage, documentation, error ''
                 @ ''handling, dead code, and lint cleanliness. Identify concrete defects with ''
                 @ ''severity (critical/high/medium/low), affected surface, evidence, and fix ''
                 @ ''direction.''
                 @ newline
                 @ newline
                 @ ''Audit focus: {input}''
                 @ newline
                 @ ''The dimensions JSON is available. Find dimension \\'dim2\\' and address its ''
                 @ ''query.'')), (''config'', json_object [(''input_key'', String ''audit_dimensions''),
                 (''output_key'', String ''quality_result'')])],
           json_object [(''id'', String ''join''), (''type'', String ''join''),
             (''config'', json_object [(''inputs'', Array [String ''arch_result'', String ''security_result'', String ''quality_result'']),
                 (''output'', String ''findings''), (''mode'', String ''collect_array'')])],
           json_object [(''id'', String ''synthesize''), (''type'', String ''llm''),
             (''prompt'', String (''Synthesize these three audit findings into a unified ranked report. Order by ''
                 @ ''severity (critical first). For each finding include: severity, category ''
                 @ ''(architecture/security/quality), affected surface, evidence, fix direction, and ''
                 @ ''acceptance test.''
                 @ newline
                 @ newline
                 @ ''Findings: {input}'')),
             (''config'', json_object [(''input_key'', String ''findings''),
                 (''output_key'', String ''audit_report'')])]]), (''edges'', Array [
           json_object [(''from'', String ''coordinator''), (''to'', String ''fanout'')],
           json_object [(''from'', String ''fanout''), (''to'', String ''arch_auditor'')],
           json_object [(''from'', String ''fanout''), (''to'', String ''security_auditor'')],
           json_object [(''from'', String ''fanout''), (''to'', String ''quality_auditor'')],
           json_object [(''from'', String ''arch_auditor''), (''to'', String ''join'')],
           json_object [(''from'', String ''security_auditor''), (''to'', String ''join'')],
           json_object [(''from'', String ''quality_auditor''), (''to'', String ''join'')],
           json_object [(''from'', String ''join''), (''to'', String ''synthesize'')],
           json_object [(''from'', String ''synthesize''), (''to'', String ''END'')]])]"

definition release_verification_spec :: "string \<Rightarrow> value" where
  "release_verification_spec name = json_object [(''spec_version'', String ''2''), (''name'', String name),
       (''entry'', String ''planner''), (''output_key'', String ''verification_report''),
       (''max_iterations'', json_u64 12), (''nodes'', Array [
           json_object [(''id'', String ''planner''), (''type'', String ''llm''),
             (''prompt'', String (''Create a release verification plan for: {input}. List all checks needed: build, ''
                 @ ''tests, formatting, lints, documentation, changelog, version consistency, ''
                 @ ''dependency audit. Output JSON: {\"checks\": [\"check1\", \"check2\", ...]}'')),
             (''json_mode'', Bool True), (''config'', json_object [(''output_key'', String ''plan'')])],
           json_object [(''id'', String ''executor''), (''type'', String ''llm''),
             (''prompt'', String (''Execute each verification check from the plan and report pass/fail with ''
                 @ ''evidence. For each check, state: check name, status (pass/fail/skip), evidence ''
                 @ ''(command or file reference), and notes.''
                 @ newline
                 @ newline
                 @ ''Plan: {input}'')),
             (''config'', json_object [(''input_key'', String ''plan''), (''output_key'', String ''results'')])],
           json_object [(''id'', String ''validator''), (''type'', String ''llm''),
             (''prompt'', String (''Review these verification results. Are all critical checks passing? Respond ''
                 @ ''with JSON: {\"verified\": true/false, \"blockers\": [\"...\"], \"warnings\": ''
                 @ ''[\"...\"]}''
                 @ newline
                 @ newline
                 @ ''Results: {input}'')), (''json_mode'', Bool True),
             (''config'', json_object [(''input_key'', String ''results''), (''output_key'', String ''validation'')])],
           json_object [(''id'', String ''validation_router''), (''type'', String ''router''),
             (''config'', json_object [(''rules'', Array [
                     json_object [(''path'', String ''validation.verified''), (''op'', String ''eq''),
                       (''value'', Bool True), (''targets'', Array [String ''formatter''])],
                     json_object [(''path'', String ''validation.verified''), (''op'', String ''eq''),
                       (''value'', Bool False), (''targets'', Array [String ''reporter''])]]),
                 (''default'', Array [String ''reporter''])])],
           json_object [(''id'', String ''reporter''), (''type'', String ''llm''),
             (''prompt'', String (''Document the release verification failures and provide remediation steps. ''
                 @ ''Include blockers and warnings.''
                 @ newline
                 @ newline
                 @ ''Validation: {input}''
                 @ newline
                 @ ''Results: {results}'')),
             (''config'', json_object [(''input_key'', String ''validation''),
                 (''output_key'', String ''verification_report'')])],
           json_object [(''id'', String ''formatter''), (''type'', String ''llm''),
             (''prompt'', String (''Format the final release verification report confirming all checks passed. ''
                 @ ''Include summary and evidence.''
                 @ newline
                 @ newline
                 @ ''Validation: {input}''
                 @ newline
                 @ ''Results: {results}'')),
             (''config'', json_object [(''input_key'', String ''validation''),
                 (''output_key'', String ''verification_report'')])]]), (''edges'', Array [
           json_object [(''from'', String ''planner''), (''to'', String ''executor'')],
           json_object [(''from'', String ''executor''), (''to'', String ''validator'')],
           json_object [(''from'', String ''validator''), (''to'', String ''validation_router'')],
           json_object [(''from'', String ''validation_router''), (''to'', String ''formatter''),
             (''condition'', String ''verified'')],
           json_object [(''from'', String ''validation_router''), (''to'', String ''reporter''),
             (''condition'', String ''failed'')],
           json_object [(''from'', String ''reporter''), (''to'', String ''END'')],
           json_object [(''from'', String ''formatter''), (''to'', String ''END'')]])]"
section \<open>Instantiation\<close>

definition approval_unavailable :: string where
  "approval_unavailable = ''template \\'approval_gated_action\\' is unavailable: requires authenticated ''
     @ ''human approval (HITL) which is not yet implemented. See ADR for operator authority subsystem.''"

text \<open>The old name of a template: the specification is the new one's, with the name put in again.\<close>

definition rename_spec :: "string \<Rightarrow> value \<Rightarrow> value" where
  "rename_spec name spec = (case spec of Object m \<Rightarrow> Object (bt_insert ''name'' (String name) m) | v \<Rightarrow> v)"

definition instantiate :: "string \<Rightarrow> string \<Rightarrow> string + value" where
  "instantiate i name =
     (if i = ''plan_critique_refine'' then Inr (plan_critique_refine_spec name)
      else if i = ''parallel_council'' then Inr (parallel_council_spec name)
      else if i = ''council_deliberation'' then Inr (council_deliberation_spec name)
      else if i = ''analysis_pipeline'' then Inr (analysis_pipeline_spec name)
      else if i = ''classifier_router'' then Inr (classifier_router_spec name)
      else if i = ''approval_gated_action'' then Inl approval_unavailable
      else if i = ''research_pipeline'' then Inr (rename_spec name (analysis_pipeline_spec name))
      else if i = ''code_audit'' then Inr (code_audit_spec name)
      else if i = ''release_verification'' then Inr (release_verification_spec name)
      else Inl (''template '' @ quoted i @ '' is unavailable''))"

end
