(* ===== verification/Template_Properties.thy ===== *)
theory Template_Properties
  imports Graph_Templates Spec_Nodes "HOL-Library.Code_Target_Nat"
begin

text \<open>
  Which of the built-in templates the server's own validation accepts, what their routers
  do, and that a specification is read back as it was written.
\<close>

section \<open>The catalog and the specifications\<close>

definition executable_templates :: "string list" where
  "executable_templates = List.map_filter (\<lambda>t.
     if get_key t ''executable'' = Some (Bool True) then str_at t ''id'' else None)
     (items_at template_list ''available'')"

lemma executable_templates_are: "executable_templates =
    [''council_deliberation'', ''parallel_council'', ''plan_critique_refine'', ''analysis_pipeline'',
     ''classifier_router'', ''code_audit'', ''release_verification'']"
  by code_simp

definition unordered_reports :: string where
  "unordered_reports = ''state key \\'verification_report\\' is written by unordered parallel nodes ''
     @ ''\\'reporter\\' and \\'formatter\\'; declare reducers.''"

text \<open>What is checked of a template; the name only has to be a valid one.\<close>

definition template_check :: "value \<Rightarrow> (string \<times> bool \<times> (string + unit)) option" where
  "template_check v = map_option (\<lambda>s. (gs_name s, gs_output_key s \<noteq> None, validate (s\<lparr>gs_name := ''t''\<rparr>)))
     (spec_of_value v)"

lemma check_council_deliberation: "template_check (council_deliberation_spec name) = Some (name, True, Inr ())"
  by code_simp

lemma check_parallel_council: "template_check (parallel_council_spec name) = Some (name, True, Inr ())"
  by code_simp

lemma check_plan_critique_refine: "template_check (plan_critique_refine_spec name) = Some (name, True, Inr ())"
  by code_simp

lemma check_analysis_pipeline: "template_check (analysis_pipeline_spec name) = Some (name, True, Inr ())"
  by code_simp

lemma check_classifier_router: "template_check (classifier_router_spec name) = Some (name, True, Inr ())"
  by code_simp

lemma check_code_audit: "template_check (code_audit_spec name) = Some (name, True, Inr ())"
  by code_simp

lemma check_release_verification:
  "template_check (release_verification_spec name) = Some (name, True, Inl unordered_reports)"
  by code_simp

lemma template_keys:
  "reject_dangerous_keys (council_deliberation_spec name) = Inr ()"
  "reject_dangerous_keys (parallel_council_spec name) = Inr ()"
  "reject_dangerous_keys (plan_critique_refine_spec name) = Inr ()"
  "reject_dangerous_keys (analysis_pipeline_spec name) = Inr ()"
  "reject_dangerous_keys (classifier_router_spec name) = Inr ()"
  "reject_dangerous_keys (code_audit_spec name) = Inr ()"
  "reject_dangerous_keys (release_verification_spec name) = Inr ()"
  by code_simp+

lemma validate_renamed:
  "valid_id name \<Longrightarrow> valid_id (gs_name s) \<Longrightarrow> validate (s\<lparr>gs_name := name\<rparr>) = validate s"
  by (simp add: validate_def validate_state_write_conflicts_def node_ids_def)

text \<open>The outcome of a template that is instantiated under a valid name and sent back.\<close>

definition instantiation_outcome :: "(value \<Rightarrow> nat) \<Rightarrow> (value \<Rightarrow> string) \<Rightarrow> string \<Rightarrow> string \<Rightarrow> (string + unit) \<Rightarrow> bool" where
  "instantiation_outcome json_len why i name verdict \<longleftrightarrow> (\<exists>v spec. instantiate i name = Inr v
     \<and> spec_of_value v = Some spec \<and> gs_name spec = name \<and> gs_output_key spec \<noteq> None
     \<and> parse_and_validate json_len (serde_spec why) v = bind_result verdict (\<lambda>_. Inr (normalize spec)))"

lemma instantiation_outcomeI:
  assumes "valid_id name" and inst: "instantiate i name = Inr v"
    and check: "template_check v = Some (name, True, verdict)" and keys: "reject_dangerous_keys v = Inr ()"
    and size: "\<And>v. instantiate i name = Inr v \<Longrightarrow> json_len v \<le> MAX_GRAPH_BYTES"
  shows "instantiation_outcome json_len why i name verdict"
proof -
  obtain s where s: "spec_of_value v = Some s" "gs_name s = name" "gs_output_key s \<noteq> None"
      "validate (s\<lparr>gs_name := ''t''\<rparr>) = verdict"
    using check by (auto simp: template_check_def)
  have "valid_id ''t''" by code_simp
  with s assms(1) have "validate s = verdict" by (simp add: validate_renamed)
  then have "parse_and_validate json_len (serde_spec why) v = bind_result verdict (\<lambda>_. Inr (normalize s))"
    using size [OF inst] keys s(1)
    by (simp add: parse_and_validate_def ensure_size_def serde_spec_def reject_if_def)
  then show ?thesis using inst s by (auto simp: instantiation_outcome_def)
qed

lemma instantiated:
  "instantiate ''council_deliberation'' name = Inr (council_deliberation_spec name)"
  "instantiate ''parallel_council'' name = Inr (parallel_council_spec name)"
  "instantiate ''plan_critique_refine'' name = Inr (plan_critique_refine_spec name)"
  "instantiate ''analysis_pipeline'' name = Inr (analysis_pipeline_spec name)"
  "instantiate ''classifier_router'' name = Inr (classifier_router_spec name)"
  "instantiate ''code_audit'' name = Inr (code_audit_spec name)"
  "instantiate ''release_verification'' name = Inr (release_verification_spec name)"
  by (simp_all add: instantiate_def)

lemma executable_instantiation_outcome:
  assumes "valid_id name"
  shows "list_all (\<lambda>i. (\<forall>v. instantiate i name = Inr v \<longrightarrow> json_len v \<le> MAX_GRAPH_BYTES) \<longrightarrow>
    instantiation_outcome json_len why i name (if i = ''release_verification'' then Inl unordered_reports else Inr ()))
    executable_templates"
proof -
  note outcome = instantiation_outcomeI [OF assms, where json_len = json_len and why = why]
  note a1 = outcome [OF instantiated(1) check_council_deliberation template_keys(1)]
  note b1 = outcome [OF instantiated(2) check_parallel_council template_keys(2)]
  note c1 = outcome [OF instantiated(3) check_plan_critique_refine template_keys(3)]
  note d1 = outcome [OF instantiated(4) check_analysis_pipeline template_keys(4)]
  note e1 = outcome [OF instantiated(5) check_classifier_router template_keys(5)]
  note f1 = outcome [OF instantiated(6) check_code_audit template_keys(6)]
  note g1 = outcome [OF instantiated(7) check_release_verification template_keys(7)]
  show ?thesis unfolding executable_templates_are by (simp add: a1 b1 c1 d1 e1 f1 g1)
qed

text \<open>
  C28: Of the templates that the catalog calls executable, all but one are accepted by the
  server's validation under every valid name, decode to a specification of that name and
  declare their output; the specification of \<open>release_verification\<close> is refused, because its
  reporter and formatter both write the report and its edges make them parallel.
\<close>

theorem executable_templates_are_accepted_but_one:
  assumes "i \<in> set executable_templates" and "valid_id name"
    and "\<And>v. instantiate i name = Inr v \<Longrightarrow> json_len v \<le> MAX_GRAPH_BYTES"
  shows "\<exists>v spec. instantiate i name = Inr v \<and> spec_of_value v = Some spec \<and> gs_name spec = name
    \<and> gs_output_key spec \<noteq> None
    \<and> parse_and_validate json_len (serde_spec why) v = (if i = ''release_verification'' then Inl unordered_reports
        else Inr (normalize spec))"
proof -
  have "instantiation_outcome json_len why i name (if i = ''release_verification'' then Inl unordered_reports else Inr ())"
    using executable_instantiation_outcome [OF assms(2), of json_len why] assms(1,3) by (simp add: list_all_iff)
  then show ?thesis
    by (cases "i = ''release_verification''") (auto simp: instantiation_outcome_def)
qed

theorem executable_templates_are_accepted_but_one_witness:
  "\<exists>v spec. instantiate ''release_verification'' ''t'' = Inr v \<and> spec_of_value v = Some spec
    \<and> parse_and_validate (\<lambda>_. 0) (serde_spec (\<lambda>_. [])) v = Inl unordered_reports"
proof -
  have "''release_verification'' \<in> set executable_templates" unfolding executable_templates_are by simp
  moreover have "valid_id ''t''" by code_simp
  ultimately show ?thesis
    using executable_templates_are_accepted_but_one [of "''release_verification''" "''t''" "\<lambda>_. 0" "\<lambda>_. []"]
    by auto
qed

section \<open>Routers\<close>

definition template_routers :: "(string \<Rightarrow> value) \<Rightarrow> router_config option list" where
  "template_routers t = (case spec_of_value (t ''t'') of None \<Rightarrow> []
     | Some s \<Rightarrow> map (parse_router_config \<circ> ns_config) (filter (\<lambda>n. ns_type n = Type_router) (gs_nodes s)))"

lemma validation_router:
  "template_routers analysis_pipeline_spec = [Some \<lparr>rc_rules =
     [\<lparr>rl_path = ''validation.valid'', rl_op = ''eq'', rl_value = Bool True, rl_targets = [''formatter'']\<rparr>,
      \<lparr>rl_path = ''validation.valid'', rl_op = ''eq'', rl_value = Bool False, rl_targets = [''corrector'']\<rparr>],
     rc_default = [''formatter'']\<rparr>]"
  by code_simp

lemma verification_router:
  "template_routers release_verification_spec = [Some \<lparr>rc_rules =
     [\<lparr>rl_path = ''validation.verified'', rl_op = ''eq'', rl_value = Bool True, rl_targets = [''formatter'']\<rparr>,
      \<lparr>rl_path = ''validation.verified'', rl_op = ''eq'', rl_value = Bool False, rl_targets = [''reporter'']\<rparr>],
     rc_default = [''reporter'']\<rparr>]"
  by code_simp

definition template_writes :: "(string \<Rightarrow> value) \<Rightarrow> string list" where
  "template_writes t = (case spec_of_value (t ''t'') of None \<Rightarrow> []
     | Some s \<Rightarrow> concat (map write_keys (gs_nodes s)))"

lemma validation_writes:
  "template_writes analysis_pipeline_spec
     = [''plan'', ''research'', ''claims'', ''summary'', ''validation'', ''summary'', ''final'']"
  by code_simp

text \<open>
  The correction loop of \<open>analysis_pipeline\<close> is never entered: its router reads the state
  key \<open>validation.valid\<close>, which no node of the template writes, and finds nothing there
  whatever the validator answered under \<open>validation\<close>, so that it always goes to the
  formatter.
\<close>

theorem analysis_pipeline_never_corrects:
  assumes "get_opt_value s ''validation.valid'' = Inr None"
  shows "''validation.valid'' \<notin> set (template_writes analysis_pipeline_spec)
    \<and> map (map_option (\<lambda>c. route nw c s)) (template_routers analysis_pipeline_spec)
      = [Some (Inr (Node_command \<lparr>cmd_update = Some [(''__route__'', String ''formatter'')],
          cmd_goto = Goto_node ''formatter''\<rparr>))]"
  unfolding validation_router validation_writes
  using assms by (simp add: route_def value_at_def rule_matches_def goto_of_def)

theorem analysis_pipeline_never_corrects_witness:
  "\<exists>s. get_opt_value s ''validation'' = Inr (Some (json_object [(''valid'', Bool False)]))
    \<and> (\<forall>nw :: unit node_world. map (map_option (\<lambda>c. route nw c s)) (template_routers analysis_pipeline_spec)
      = [Some (Inr (Node_command \<lparr>cmd_update = Some [(''__route__'', String ''formatter'')],
          cmd_goto = Goto_node ''formatter''\<rparr>))])"
proof -
  define s where "s = with_data_and_limits [(''validation'', json_object [(''valid'', Bool False)])] default_limits"
  have answer: "get_opt_value s ''validation'' = Inr (Some (json_object [(''valid'', Bool False)]))"
    and none: "get_opt_value s ''validation.valid'' = Inr None"
    by (simp_all add: s_def get_opt_def read_data_def with_data_and_limits_def default_limits_def)
  show ?thesis
    by (rule exI [of _ s], rule conjI [OF answer], rule allI)
      (rule analysis_pipeline_never_corrects [OF none, THEN conjunct2])
qed

section \<open>Specifications are read back\<close>

text \<open>
  C31: A specification whose numbers fit their 64-bit fields is read back from the value it is
  written as, with every node, edge, route and reducer.
\<close>

theorem written_specification_is_read_back:
  assumes "spec_fits s"
  shows "serde_spec why (spec_value s) = Inr s"
  using assms by (simp add: serde_spec_def spec_read)

theorem written_specification_is_read_back_witness:
  "\<exists>s. spec_of_value (analysis_pipeline_spec ''t'') = Some s \<and> serde_spec (\<lambda>_. []) (spec_value s) = Inr s"
proof -
  have "map_option spec_fits (spec_of_value (analysis_pipeline_spec ''t'')) = Some True" by code_simp
  then show ?thesis using written_specification_is_read_back by auto
qed

end
