(* ===== verification/Tool_Outputs.thy ===== *)
theory Tool_Outputs
  imports Durable_Checkpoints Spec_Codec Run_Registry
begin

text \<open>
  \<open>agent-graph-mcp/src/tools.rs\<close> and the first part of \<open>server.rs\<close>: the parameters of the
  tools, the envelope of their answers with its derived serialization, and how records of
  the store are shown. A parameter that is not given is \<open>None\<close>.
\<close>

section \<open>Parameters\<close>

record graph_create_params =
  gc_spec :: "value option"
  gc_action :: "string option"
  gc_graph_id :: "string option"
  gc_idempotency_key :: "string option"
  gc_template :: "value option"
  gc_overwrite :: "bool option"

record graph_list_params =
  gl_query :: "string option"
  gl_limit :: "nat option"

record graph_execute_params =
  ge_graph_id :: string
  ge_input :: "value option"
  ge_graph_version :: "string option"
  ge_thread_id :: "string option"
  ge_mode :: "string option"
  ge_idempotency_key :: "string option"

record graph_status_params =
  gq_resource :: "string option"
  gq_graph_id :: "string option"
  gq_run_id :: "string option"
  gq_cursor :: "nat option"
  gq_limit :: "nat option"

record approval_request_params =
  ap_checkpoint_id :: string
  ap_audience :: string
  ap_prompt :: string
  ap_allowed_decisions :: "string list"
  ap_expiration :: string

record approval_list_params =
  al_run_id :: "string option"
  al_status :: "string option"
  al_limit :: "nat option"

record run_start_params =
  rs_graph_id :: string
  rs_input :: "value option"
  rs_graph_version :: "string option"
  rs_thread_id :: "string option"
  rs_idempotency_key :: "string option"
  rs_budgets :: "value option"
  rs_checkpoint :: "bool option"

record witness_capture_params =
  wp_locator :: string
  wp_content :: string
  wp_media_type :: string
  wp_authority_class :: string
  wp_retrieved_at :: "string option"

section \<open>The envelope\<close>

record structured_output =
  so_ok :: bool
  so_status :: "string option"
  so_data :: "value option"
  so_error :: "string option"
  so_error_code :: "string option"
  so_graph_id :: "string option"
  so_graph_version :: "string option"
  so_run_id :: "string option"

definition output_fields :: "string list" where
  "output_fields = [''ok'', ''status'', ''data'', ''error'', ''error_code'', ''graph_id'',
     ''graph_version'', ''run_id'']"

definition output_of_value :: "value \<Rightarrow> structured_output option" where
  "output_of_value v =
     Option.bind (struct_fields output_fields v) (\<lambda>look.
     Option.bind (required look ''ok'' as_bool) (\<lambda>good.
     Option.bind (defaulted look ''status'' (nullable as_str) None) (\<lambda>status.
     Option.bind (defaulted look ''data'' (nullable Some) None) (\<lambda>data.
     Option.bind (defaulted look ''error'' (nullable as_str) None) (\<lambda>error.
     Option.bind (defaulted look ''error_code'' (nullable as_str) None) (\<lambda>code.
     Option.bind (defaulted look ''graph_id'' (nullable as_str) None) (\<lambda>graph_id.
     Option.bind (defaulted look ''graph_version'' (nullable as_str) None) (\<lambda>graph_version.
     Option.bind (defaulted look ''run_id'' (nullable as_str) None) (\<lambda>run_id.
       Some \<lparr>so_ok = good, so_status = status, so_data = data, so_error = error, so_error_code = code,
         so_graph_id = graph_id, so_graph_version = graph_version, so_run_id = run_id\<rparr>)))))))))"

text \<open>The members of the serialized envelope, in the order of the fields.\<close>

definition output_members :: "structured_output \<Rightarrow> (string \<times> value) list" where
  "output_members out =
     [(''ok'', Bool (so_ok out)), (''status'', value_of_option String (so_status out)),
      (''data'', value_of_option id (so_data out)), (''error'', value_of_option String (so_error out)),
      (''error_code'', value_of_option String (so_error_code out)),
      (''graph_id'', value_of_option String (so_graph_id out)),
      (''graph_version'', value_of_option String (so_graph_version out)),
      (''run_id'', value_of_option String (so_run_id out))]"

definition output_value :: "structured_output \<Rightarrow> value" where
  "output_value out = json_object (output_members out)"

definition output_text :: "crypto \<Rightarrow> structured_output \<Rightarrow> string" where
  "output_text cr out = ''{'' @ join_with '',''
     (map (\<lambda>(k, v). json_text cr (String k) @ '':'' @ json_text cr v) (output_members out)) @ ''}''"

definition structured :: "value \<Rightarrow> structured_output" where
  "structured v = \<lparr>so_ok = True, so_status = None, so_data = Some v, so_error = None,
     so_error_code = None, so_graph_id = None, so_graph_version = None, so_run_id = None\<rparr>"

definition error_output :: "string \<Rightarrow> string \<Rightarrow> structured_output" where
  "error_output message code = \<lparr>so_ok = False, so_status = None, so_data = None, so_error = Some message,
     so_error_code = Some code, so_graph_id = None, so_graph_version = None, so_run_id = None\<rparr>"

definition output_with_meta ::
    "value \<Rightarrow> string option \<Rightarrow> string option \<Rightarrow> string option \<Rightarrow> structured_output" where
  "output_with_meta v graph_id graph_version run_id = \<lparr>so_ok = True, so_status = None, so_data = Some v,
     so_error = None, so_error_code = None, so_graph_id = graph_id, so_graph_version = graph_version,
     so_run_id = run_id\<rparr>"

definition checkpoint_error_output :: "checkpoint_error \<Rightarrow> structured_output" where
  "checkpoint_error_output e = error_output (checkpoint_message e) (checkpoint_code e)"

definition approval_error_output :: "approval_error \<Rightarrow> structured_output" where
  "approval_error_output e = error_output (approval_message e) (approval_code e)"

definition witness_error_output :: "witness_error \<Rightarrow> structured_output" where
  "witness_error_output e = error_output (we_message e) (we_code e)"

text \<open>
  What an envelope says after it was written and read again: a member that is \<open>null\<close> is one
  that is not there.
\<close>

definition reread :: "structured_output \<Rightarrow> structured_output" where
  "reread out = out\<lparr>so_data := (case so_data out of None \<Rightarrow> None | Some v \<Rightarrow> if is_null v then None else Some v)\<rparr>"

lemma nullable_text: "nullable as_str (value_of_option String x) = Some x"
  by (rule nullable_read) simp

lemma output_read: "output_of_value (output_value out) = Some (reread out)"
proof -
  have "nullable Some (value_of_option id (so_data out)) = Some (so_data (reread out))"
    by (cases "so_data out") (simp_all add: nullable_def value_of_option_def reread_def)
  moreover have "\<lparr>so_ok = so_ok out, so_status = so_status out, so_data = so_data (reread out),
      so_error = so_error out, so_error_code = so_error_code out, so_graph_id = so_graph_id out,
      so_graph_version = so_graph_version out, so_run_id = so_run_id out\<rparr> = reread out"
    by (cases out) (simp add: reread_def)
  ultimately show ?thesis
    by (simp add: output_of_value_def output_value_def output_members_def field_reads nullable_text)
qed

lemma reread_with_data:
  "so_data out = None \<Longrightarrow> reread out = out"
  "so_data out = Some v \<Longrightarrow> \<not> is_null v \<Longrightarrow> reread out = out"
  by (simp_all add: reread_def)

lemma json_object_not_null [simp]: "\<not> is_null (json_object kvs)"
  by (simp add: json_object_def)

section \<open>Records as values\<close>

definition approval_value :: "approval_record \<Rightarrow> value" where
  "approval_value a = json_object
     [(''approval_id'', String (av_approval_id a)), (''checkpoint_id'', String (av_checkpoint_id a)),
      (''run_id'', String (av_run_id a)), (''graph_id'', String (av_graph_id a)),
      (''graph_version'', String (av_graph_version a)),
      (''checkpoint_digest'', String (av_checkpoint_digest a)), (''audience'', String (av_audience a)),
      (''prompt_digest'', String (av_prompt_digest a)),
      (''allowed_decisions'', strings_value (av_allowed_decisions a)),
      (''approval_digest'', String (av_approval_digest a)), (''status'', String (av_status a)),
      (''decision'', value_of_option String (av_decision a)),
      (''decided_by'', value_of_option String (av_decided_by a)),
      (''decided_at'', value_of_option String (av_decided_at a)),
      (''expires_at'', String (av_expires_at a)), (''created_at'', String (av_created_at a))]"

definition checkpoint_value :: "checkpoint_record \<Rightarrow> value" where
  "checkpoint_value c = json_object
     [(''checkpoint_id'', String (cp_checkpoint_id c)), (''run_id'', String (cp_run_id c)),
      (''graph_id'', String (cp_graph_id c)), (''graph_version'', String (cp_graph_version c)),
      (''next_node_cursor'', String (cp_next_node_cursor c)), (''state'', cp_state c),
      (''state_digest'', String (cp_state_digest c)), (''budgets'', cp_budgets c),
      (''budget_counters'', cp_budget_counters c), (''dependency_summary'', cp_dependency_summary c),
      (''dependency_digest'', String (cp_dependency_digest c)),
      (''terminal_cursor'', Number (PosInt (cp_terminal_cursor c))),
      (''event_cursor'', Number (PosInt (cp_event_cursor c))),
      (''checkpoint_digest'', String (cp_checkpoint_digest c)),
      (''created_at'', String (cp_created_at c)),
      (''consumed_at'', value_of_option String (cp_consumed_at c)),
      (''status'', String (if cp_consumed_at c = None then ''available'' else ''consumed'')),
      (''resume_capability'', String ''deterministic_local_resume'')]"

end
