(* ===== verification/Tool_Server.thy ===== *)
theory Tool_Server
  imports Tool_Outputs Durable_Store Graph_Templates Run_Execution Write_Conflicts
begin

text \<open>
  \<open>agent-graph-mcp/src/server.rs\<close>: the state of the server, its start from the database,
  idempotency keys, the registered graphs with their historical versions, and the tool
  that creates, validates and deletes them. A handler is a step on the server: \<open>return\<close>
  and \<open>?\<close> are exits on the left. The locks of the server are taken by one handler at a
  time, so that a handler is a step of its own; a poisoned lock is not modelled.
\<close>

section \<open>The server\<close>

definition MAX_GRAPHS :: nat where "MAX_GRAPHS = 64"
definition MAX_INPUT_BYTES :: nat where "MAX_INPUT_BYTES = 64 * 1024"

record registered_graph =
  gr_spec :: graph_spec
  gr_normalized :: "value"
  gr_version :: string
  gr_warnings :: "string list"

text \<open>A thread that was started for a run, in the order of their start.\<close>

record run_launch =
  la_run_id :: string
  la_spec :: graph_spec
  la_resumed_from :: "string option"

record server =
  sv_graphs :: "(string, registered_graph) hash_map"
  sv_runs :: run_registry
  sv_store :: "connection option"
  sv_launched :: "run_launch list"

text \<open>
  What the server is configured with, and what it gets from libraries: the length of a
  serialized value, the texts of decoding errors, JSON pointers and the serialization of
  an event.
\<close>

record server_env =
  sn_store :: store_env
  sn_len :: "value \<Rightarrow> nat"
  sn_spec_error :: "value \<Rightarrow> string"
  sn_output_error :: "value \<Rightarrow> string"
  sn_pointer :: "value \<Rightarrow> string \<Rightarrow> value option"
  sn_event_json :: "graph_event \<Rightarrow> value"
  sn_base_url :: string
  sn_default_model :: string

abbreviation sn_crypto :: "server_env \<Rightarrow> crypto" where
  "sn_crypto env \<equiv> se_crypto (sn_store env)"

text \<open>The readings of the clocks during a handler: the n-th of each kind.\<close>

record readings =
  rd_millis :: nat
  rd_sql :: "nat \<Rightarrow> string"
  rd_time :: "nat \<Rightarrow> int"

section \<open>Handlers\<close>

datatype error_data = Internal_error string | Invalid_params string

datatype reply = Replies structured_output | Fails error_data | Panics

type_synonym 'a handler = "(server, reply, 'a) step"

definition or_fail :: "('e \<Rightarrow> 'x) \<Rightarrow> ('s, 'e, 'a) step \<Rightarrow> ('s, 'x, 'a) step" where
  "or_fail f m s = (case m s of (Inl e, s') \<Rightarrow> (Inl (f e), s') | (Inr x, s') \<Rightarrow> (Inr x, s'))"

definition observe :: "(server \<Rightarrow> 'a) \<Rightarrow> (server, 'e, 'a) step" where
  "observe f s = (Inr (f s), s)"

definition modify :: "(server \<Rightarrow> server) \<Rightarrow> (server, 'e, unit) step" where
  "modify f s = (Inr (), f s)"

text \<open>\<open>if let Some(store) = &self.store\<close>; without a store there is no result.\<close>

definition in_store :: "('e, 'a) sql \<Rightarrow> (server, 'x, ('e + 'a) option) step" where
  "in_store m s = (case sv_store s of
       None \<Rightarrow> (Inr None, s)
     | Some con \<Rightarrow> (case m con of (r, con') \<Rightarrow> (Inr (Some r), s\<lparr>sv_store := Some con'\<rparr>)))"

text \<open>\<open>let Some(store) = self.store.as_ref() else { return Ok(out) }\<close>, then an operation on it.\<close>

definition must_store :: "structured_output \<Rightarrow> ('e, 'a) sql \<Rightarrow> ('e + 'a) handler" where
  "must_store out m = bind_step (in_store m) (\<lambda>r. case r of
       None \<Rightarrow> refuse (Replies out) | Some r \<Rightarrow> give r)"

definition need_store :: "structured_output \<Rightarrow> unit handler" where
  "need_store out = bind_step (observe sv_store) (\<lambda>store.
     if store = None then refuse (Replies out) else give ())"

definition on_runs :: "(run_registry \<Rightarrow> 'r \<times> run_registry) \<Rightarrow> (server, 'e, 'r) step" where
  "on_runs f s = (case f (sv_runs s) of (r, g) \<Rightarrow> (Inr r, s\<lparr>sv_runs := g\<rparr>))"

text \<open>\<open>map_err(internal_error)?\<close> and \<open>Err(e) => return Ok(error_output(e, code))\<close>.\<close>

definition or_internal :: "string + 'a \<Rightarrow> 'a handler" where
  "or_internal r = (case r of Inl e \<Rightarrow> refuse (Fails (Internal_error e)) | Inr x \<Rightarrow> give x)"

definition or_output :: "('e \<Rightarrow> structured_output) \<Rightarrow> 'e + 'a \<Rightarrow> 'a handler" where
  "or_output f r = (case r of Inl e \<Rightarrow> refuse (Replies (f e)) | Inr x \<Rightarrow> give x)"

definition with_code :: "string \<Rightarrow> string \<Rightarrow> structured_output" where
  "with_code code message = error_output message code"

definition answer_if :: "bool \<Rightarrow> structured_output \<Rightarrow> unit handler" where
  "answer_if b out = (if b then refuse (Replies out) else give ())"

definition served :: "structured_output handler \<Rightarrow> server \<Rightarrow> reply \<times> server" where
  "served h s = (case h s of (Inl r, s') \<Rightarrow> (r, s') | (Inr out, s') \<Rightarrow> (Replies out, s'))"

section \<open>Start\<close>

definition empty_server :: "connection option \<Rightarrow> server" where
  "empty_server store = \<lparr>sv_graphs = [], sv_runs = empty_registry, sv_store = store, sv_launched = []\<rparr>"

definition restored_graph :: "string \<Rightarrow> graph_spec \<Rightarrow> registered_graph" where
  "restored_graph version spec = \<lparr>gr_spec = spec, gr_normalized = spec_value spec,
     gr_version = version, gr_warnings = []\<rparr>"

text \<open>A graph whose row cannot be read is skipped.\<close>

definition restore_graph :: "server_env \<Rightarrow> string \<times> string \<times> string \<Rightarrow> server \<Rightarrow> server" where
  "restore_graph env row s = (case row of (name, version, _) \<Rightarrow>
     (case in_store (load_graph name) s of
        (Inr (Some (Inr (Some (text, _)))), s') \<Rightarrow>
          (case Option.bind (parsed (sn_store env) text) spec_of_value of
             None \<Rightarrow> s'
           | Some spec \<Rightarrow> s'\<lparr>sv_graphs := AList.update name (restored_graph version spec) (sv_graphs s')\<rparr>)
      | (_ :: unit + _, s') \<Rightarrow> s'))"

definition new_server :: "server_env \<Rightarrow> readings \<Rightarrow> connection option \<Rightarrow> string + server" where
  "new_server env rd store = (case in_store (recover_incomplete_executions (rd_sql rd 0)) (empty_server store) of
       (Inr (Some (Inl e)), _) \<Rightarrow> Inl e
     | (_ :: unit + _, s) \<Rightarrow> (case in_store list_graphs s of
           (Inr (Some (Inr rows)), s') \<Rightarrow> Inr (fold (restore_graph env) rows s')
         | (_ :: unit + _, s') \<Rightarrow> Inr s'))"

section \<open>Idempotency keys\<close>

text \<open>A parameter may be a value or the text of one.\<close>

definition canonical_request_value :: "server_env \<Rightarrow> value \<Rightarrow> value" where
  "canonical_request_value env v = (case v of
       String raw \<Rightarrow> or_else (parsed (sn_store env) raw) v | _ \<Rightarrow> v)"

definition structured_from_value :: "server_env \<Rightarrow> value \<Rightarrow> string + structured_output" where
  "structured_from_value env v = (case output_of_value v of
       None \<Rightarrow> Inl (''cached idempotency decode: '' @ sn_output_error env v) | Some out \<Rightarrow> Inr out)"

definition idempotency_conflict :: structured_output where
  "idempotency_conflict = error_output ''idempotency key is already bound to different request material''
     ''IDEMPOTENCY_CONFLICT''"

definition cached_reply :: "server_env \<Rightarrow> string option \<Rightarrow> string \<Rightarrow> structured_output option handler" where
  "cached_reply env key request_digest = (case key of
       None \<Rightarrow> give None
     | Some key \<Rightarrow> bind_step (in_store (check_idempotency (sn_store env) key)) (\<lambda>r.
         case r of
           None \<Rightarrow> give None
         | Some r \<Rightarrow> bind_step (or_internal r) (\<lambda>found.
             case found of
               None \<Rightarrow> give None
             | Some (stored_digest, cached) \<Rightarrow>
                 if stored_digest = Some request_digest
                 then bind_step (or_internal (structured_from_value env cached)) (\<lambda>out. give (Some out))
                 else give (Some idempotency_conflict))))"

definition persist_reply ::
    "server_env \<Rightarrow> string \<Rightarrow> string \<Rightarrow> structured_output \<Rightarrow> structured_output option handler" where
  "persist_reply env key request_digest out =
     bind_step (in_store (save_idempotency key request_digest (output_text (sn_crypto env) out))) (\<lambda>r.
     case r of
       None \<Rightarrow> give None
     | Some r \<Rightarrow> bind_step (or_internal r) (\<lambda>inserted.
         if inserted then give None else cached_reply env (Some key) request_digest))"

text \<open>How the keyed tools begin and end: a reply that is already bound to the key is given again.\<close>

definition replay :: "server_env \<Rightarrow> string option \<Rightarrow> string \<Rightarrow> unit handler" where
  "replay env key request_digest = bind_step (cached_reply env key request_digest) (\<lambda>cached.
     case cached of None \<Rightarrow> give () | Some out \<Rightarrow> refuse (Replies out))"

definition bind_reply ::
    "server_env \<Rightarrow> string option \<Rightarrow> string \<Rightarrow> structured_output \<Rightarrow> structured_output handler" where
  "bind_reply env key request_digest out = (case key of
       None \<Rightarrow> give out
     | Some key \<Rightarrow> bind_step (persist_reply env key request_digest out) (\<lambda>cached. give (or_else cached out)))"

section \<open>Graphs and their versions\<close>

definition graph_not_found :: "string \<Rightarrow> error_data" where
  "graph_not_found graph_id = Invalid_params (''graph '' @ quoted graph_id @ '' not found'')"

definition find_graph :: "string \<Rightarrow> (server, error_data, registered_graph) step" where
  "find_graph graph_id = bind_step (observe (\<lambda>s. map_of (sv_graphs s) graph_id)) (\<lambda>g.
     case g of None \<Rightarrow> refuse (graph_not_found graph_id) | Some g \<Rightarrow> give g)"

definition graph_of_spec :: "server_env \<Rightarrow> graph_spec \<Rightarrow> registered_graph" where
  "graph_of_spec env spec = \<lparr>gr_spec = spec, gr_normalized = spec_value spec,
     gr_version = digest (sn_crypto env) (spec_value spec), gr_warnings = spec_warnings spec\<rparr>"

definition validated_spec :: "server_env \<Rightarrow> value \<Rightarrow> string + graph_spec" where
  "validated_spec env raw = parse_and_validate (sn_len env) (serde_spec (sn_spec_error env)) raw"

definition stored_version :: "server_env \<Rightarrow> string \<Rightarrow> string \<Rightarrow> error_data + registered_graph" where
  "stored_version env version text = (case se_parse (sn_store env) text of
       Inl e \<Rightarrow> Inl (Internal_error (''stored graph version JSON error: '' @ e))
     | Inr normalized \<Rightarrow> (case validated_spec env normalized of
           Inl e \<Rightarrow> Inl (Internal_error (''stored graph version validation error: '' @ e))
         | Inr spec \<Rightarrow>
             if gr_version (graph_of_spec env spec) \<noteq> version
             then Inl (Internal_error ''stored graph version digest does not match its normalized specification'')
             else Inr (graph_of_spec env spec)))"

definition resolve_graph ::
    "server_env \<Rightarrow> string \<Rightarrow> string option \<Rightarrow> (server, error_data, registered_graph) step" where
  "resolve_graph env graph_id requested =
     bind_step (find_graph graph_id) (\<lambda>current.
     case requested of
       None \<Rightarrow> give current
     | Some version \<Rightarrow>
         if version = gr_version current then give current
         else bind_step (in_store (load_graph_version graph_id version)) (\<lambda>r.
           case r of
             None \<Rightarrow> refuse (Invalid_params ''historical graph versions require SQLite persistence'')
           | Some (Inl e) \<Rightarrow> refuse (Internal_error e)
           | Some (Inr None) \<Rightarrow> refuse (Invalid_params ''requested graph version was not found'')
           | Some (Inr (Some text)) \<Rightarrow> pure_result (stored_version env version text)))"

definition mermaid :: "graph_spec \<Rightarrow> string" where
  "mermaid spec = ''graph TD'' @ newline @
     concat (map (\<lambda>e. ''  '' @ es_from e @ '' --> '' @ es_to e @ newline) (gs_edges spec))"

definition graph_requires_witness_store :: "graph_spec \<Rightarrow> bool" where
  "graph_requires_witness_store spec \<longleftrightarrow> list_ex ns_evidence_required (gs_nodes spec)"

definition witness_store_required :: structured_output where
  "witness_store_required = error_output ''evidence-required graphs require SQLite witness persistence''
     ''WITNESS_STORE_REQUIRED''"

definition need_witness_store :: "graph_spec \<Rightarrow> unit handler" where
  "need_witness_store spec =
     (if graph_requires_witness_store spec then need_store witness_store_required else give ())"

section \<open>Deleting\<close>

definition missing_graph_output :: "string \<Rightarrow> structured_output" where
  "missing_graph_output graph_id =
     error_output (''graph '' @ quoted graph_id @ '' not found'') ''GRAPH_NOT_FOUND''"

definition referenced_output :: "string \<Rightarrow> structured_output" where
  "referenced_output graph_id = error_output
     (''graph '' @ quoted graph_id @ '' is referenced by a durable execution'') ''GRAPH_REFERENCED''"

definition mismatch_output :: "string \<Rightarrow> structured_output" where
  "mismatch_output graph_id = error_output (''graph '' @ quoted graph_id
     @ '' is present in memory but missing from durable storage'') ''GRAPH_PERSISTENCE_MISMATCH''"

definition forget_graph :: "string \<Rightarrow> structured_output handler" where
  "forget_graph graph_id =
     bind_step (modify (\<lambda>s. s\<lparr>sv_graphs := AList.delete graph_id (sv_graphs s)\<rparr>)) (\<lambda>_.
     give (output_with_meta (json_object [(''status'', String ''deleted'')]) (Some graph_id) None None))"

definition delete_registered_graph :: "string \<Rightarrow> structured_output handler" where
  "delete_registered_graph graph_id =
     bind_step (observe (\<lambda>s. contains_key (sv_graphs s) graph_id)) (\<lambda>exists.
     if \<not> exists then give (missing_graph_output graph_id)
     else bind_step (in_store (delete_graph graph_id)) (\<lambda>r.
       case r of
         None \<Rightarrow> forget_graph graph_id
       | Some r \<Rightarrow> bind_step (or_internal r) (\<lambda>result.
           case result of
             Graph_deleted \<Rightarrow> forget_graph graph_id
           | Graph_referenced \<Rightarrow> refuse (Replies (referenced_output graph_id))
           | Graph_absent \<Rightarrow> refuse (Replies (mismatch_output graph_id)))))"

end
