(* ===== verification/Graph_Tools.thy ===== *)
theory Graph_Tools
  imports Tool_Server
begin

text \<open>
  \<open>agent-graph-mcp/src/server.rs\<close>: the tools on graphs. Creating and validating share the
  way to a normalized, versioned graph; listing, inspecting, rendering and the preflight
  only read; templates and witnesses are handed to their modules.
\<close>

section \<open>Creating and validating\<close>

definition create_action :: "graph_create_params \<Rightarrow> string" where
  "create_action p = or_else (gc_action p) ''create''"

definition create_digest :: "server_env \<Rightarrow> graph_create_params \<Rightarrow> string" where
  "create_digest env p = digest (sn_crypto env) (json_object
     [(''operation'', String ''graph_create''), (''action'', String (create_action p)),
      (''spec'', opt_value (canonical_request_value env) (gc_spec p)),
      (''template'', opt_value (canonical_request_value env) (gc_template p)),
      (''graph_id'', opt_value String (gc_graph_id p)),
      (''overwrite'', Bool (or_else (gc_overwrite p) False))])"

definition template_spec :: "server_env \<Rightarrow> graph_create_params \<Rightarrow> value \<Rightarrow> error_data + value" where
  "template_spec env p template =
     (let v = canonical_request_value env template in
      case str_at v ''id'' of
        None \<Rightarrow> Inl (Invalid_params ''template.id required'')
      | Some i \<Rightarrow>
          let name = or_else (coalesce (str_at v ''name'') (gc_graph_id p)) i in
          (case instantiate i name of
             Inl e \<Rightarrow> Inl (Internal_error (''template error: '' @ e)) | Inr spec \<Rightarrow> Inr spec))"

definition raw_spec :: "server_env \<Rightarrow> graph_create_params \<Rightarrow> error_data + value" where
  "raw_spec env p = (case gc_template p of
       Some template \<Rightarrow> template_spec env p template
     | None \<Rightarrow> (case gc_spec p of
           None \<Rightarrow> Inl (Invalid_params ''missing spec for create/validate'')
         | Some (String s) \<Rightarrow> (case se_parse (sn_store env) s of
               Inl e \<Rightarrow> Inl (Invalid_params (''spec string parse error: '' @ e)) | Inr v \<Rightarrow> Inr v)
         | Some v \<Rightarrow> Inr v))"

text \<open>Warnings of a legacy specification are those of what was sent, not of what is kept.\<close>

definition preview_warnings :: "value \<Rightarrow> string list" where
  "preview_warnings raw = (case spec_of_value raw of None \<Rightarrow> [] | Some s \<Rightarrow> spec_warnings s)"

definition unsupported_node :: "graph_spec \<Rightarrow> node_spec option" where
  "unsupported_node spec = find (\<lambda>n. isl (executable_node_type (ns_type n))) (gs_nodes spec)"

definition unsupported_output :: "node_spec \<Rightarrow> structured_output" where
  "unsupported_output n = error_output
     (''node '' @ quoted (ns_id n) @ '' declares an unsupported executable type'') ''UNSUPPORTED_NODE_TYPE''"

definition graph_of_raw :: "server_env \<Rightarrow> value \<Rightarrow> reply + registered_graph" where
  "graph_of_raw env raw = (case validated_spec env raw of
       Inl e \<Rightarrow> Inl (Fails (Invalid_params (''invalid spec: '' @ e)))
     | Inr spec \<Rightarrow> (case unsupported_node spec of
           Some n \<Rightarrow> Inl (Replies (unsupported_output n))
         | None \<Rightarrow> Inr ((graph_of_spec env spec)\<lparr>gr_warnings :=
             (if or_else (str_at raw ''spec_version'') ''1'' = ''1'' then preview_warnings raw
              else spec_warnings spec)\<rparr>)))"

definition graph_output :: "registered_graph \<Rightarrow> string \<Rightarrow> structured_output" where
  "graph_output g status = output_with_meta (json_object
     [(''graph_id'', String (gs_name (gr_spec g))), (''graph_version'', String (gr_version g)),
      (''digest'', String (gr_version g)), (''normalized_spec_version'', String ''2''),
      (''warnings'', strings_value (gr_warnings g)), (''storage_class'', String ''volatile''),
      (''status'', String status)]) (Some (gs_name (gr_spec g))) (Some (gr_version g)) None"

definition limit_output :: structured_output where
  "limit_output = error_output (''graph limit ('' @ show_nat MAX_GRAPHS @ '') reached'') ''LIMIT_EXCEEDED''"

definition register_graph :: "server_env \<Rightarrow> readings \<Rightarrow> bool \<Rightarrow> registered_graph \<Rightarrow> unit handler" where
  "register_graph env rd overwrite g =
     (let name = gs_name (gr_spec g) in
      bind_step (observe sv_graphs) (\<lambda>graphs.
      bind_step (answer_if (\<not> overwrite \<and> \<not> contains_key graphs name \<and> MAX_GRAPHS \<le> length graphs) limit_output) (\<lambda>_.
      bind_step (in_store (save_graph (rd_sql rd 0) name (se_text (sn_store env) (gr_normalized g))
          (gr_version g) overwrite)) (\<lambda>r.
      bind_step (case r of None \<Rightarrow> give () | Some r \<Rightarrow> or_output (with_code ''GRAPH_VERSION_CONFLICT'') r) (\<lambda>_.
      modify (\<lambda>s. s\<lparr>sv_graphs := AList.update name g (sv_graphs s)\<rparr>))))))"

definition create_or_validate ::
    "server_env \<Rightarrow> readings \<Rightarrow> graph_create_params \<Rightarrow> structured_output handler" where
  "create_or_validate env rd p =
     bind_step (or_fail Fails (pure_result (raw_spec env p))) (\<lambda>raw.
     bind_step (pure_result (graph_of_raw env raw)) (\<lambda>g.
     if create_action p = ''validate''
     then bind_reply env (gc_idempotency_key p) (create_digest env p) (graph_output g ''valid'')
     else bind_step (need_witness_store (gr_spec g)) (\<lambda>_.
       bind_step (register_graph env rd (or_else (gc_overwrite p) False) g) (\<lambda>_.
       bind_reply env (gc_idempotency_key p) (create_digest env p) (graph_output g ''created'')))))"

definition invalid_action_output :: "string \<Rightarrow> structured_output" where
  "invalid_action_output action =
     error_output (''unsupported graph_create action '' @ quoted action) ''INVALID_ACTION''"

definition graph_create :: "server_env \<Rightarrow> readings \<Rightarrow> graph_create_params \<Rightarrow> structured_output handler" where
  "graph_create env rd p =
     (if create_action p = ''delete''
      then (case gc_graph_id p of
          None \<Rightarrow> refuse (Fails (Invalid_params ''missing graph_id for delete action''))
        | Some i \<Rightarrow> delete_registered_graph i)
      else bind_step (replay env (gc_idempotency_key p) (create_digest env p)) (\<lambda>_.
        if create_action p \<notin> set [''create'', ''validate'']
        then refuse (Replies (invalid_action_output (create_action p)))
        else create_or_validate env rd p))"

section \<open>Reading graphs\<close>

definition version_history :: "string \<Rightarrow> registered_graph \<Rightarrow> (server, 'e, string list) step" where
  "version_history name g = bind_step (in_store (list_graph_versions name)) (\<lambda>r. give (case r of
     Some (Inr versions) \<Rightarrow> versions | _ \<Rightarrow> [gr_version g]))"

definition has_store :: "server \<Rightarrow> bool" where
  "has_store s \<longleftrightarrow> sv_store s \<noteq> None"

definition list_entry :: "string \<times> registered_graph \<Rightarrow> (server, 'e, string \<times> value) step" where
  "list_entry ng = (case ng of (name, g) \<Rightarrow>
     bind_step (version_history name g) (\<lambda>versions.
     bind_step (observe has_store) (\<lambda>historical.
     give (name, json_object
       [(''name'', String name), (''version'', String (gr_version g)),
        (''current_version'', String (gr_version g)), (''version_history'', strings_value versions),
        (''historical_specs'', Bool historical), (''node_count'', json_u64 (length (gs_nodes (gr_spec g)))),
        (''edge_count'', json_u64 (length (gs_edges (gr_spec g)))),
        (''entry'', String (gs_entry (gr_spec g))), (''warnings'', strings_value (gr_warnings g))]))))"

fun each_step :: "('a \<Rightarrow> ('s, 'e, 'b) step) \<Rightarrow> 'a list \<Rightarrow> ('s, 'e, 'b list) step" where
  "each_step f [] = give []"
| "each_step f (x # xs) = bind_step (f x) (\<lambda>y. bind_step (each_step f xs) (\<lambda>ys. give (y # ys)))"

text \<open>The limit is applied in the order of the hash map, before the entries are sorted by name.\<close>

definition listed_graphs :: "graph_list_params \<Rightarrow> server \<Rightarrow> (string \<times> registered_graph) list" where
  "listed_graphs p s = take (or_else (gl_limit p) 50) (filter (\<lambda>(name, _).
     case gl_query p of None \<Rightarrow> True | Some q \<Rightarrow> contains_str name q) (sv_graphs s))"

definition graph_list :: "graph_list_params \<Rightarrow> structured_output handler" where
  "graph_list p =
     bind_step (observe (listed_graphs p)) (\<lambda>graphs.
     bind_step (each_step list_entry graphs) (\<lambda>entries.
     give (structured (json_object
       [(''graphs'', Array (map snd (sort_key fst entries))), (''count'', json_u64 (length entries))]))))"

definition inspected_node :: "node_spec \<Rightarrow> value" where
  "inspected_node n = json_object [(''id'', String (ns_id n)),
     (''type'', String (node_type_name (ns_type n))), (''config'', ns_config n)]"

definition reducers_value :: "graph_spec \<Rightarrow> value" where
  "reducers_value spec = Object (map (\<lambda>(k, r). (k, String (reducer_name r))) (gs_reducers spec))"

definition inspection :: "string \<Rightarrow> registered_graph \<Rightarrow> string list \<Rightarrow> bool \<Rightarrow> value" where
  "inspection graph_id g versions historical = (let spec = gr_spec g in json_object
     [(''name'', String graph_id), (''version'', String (gr_version g)),
      (''current_version'', String (gr_version g)), (''version_history'', strings_value versions),
      (''historical_specs'', Bool historical), (''entry'', String (gs_entry spec)),
      (''max_iterations'', opt_value json_u64 (gs_max_iterations spec)),
      (''max_parallelism'', opt_value json_u64 (gs_max_parallelism spec)),
      (''nodes'', Array (map inspected_node (gs_nodes spec))),
      (''node_count'', json_u64 (length (gs_nodes spec))),
      (''edges'', Array (map edge_value (gs_edges spec))),
      (''edge_count'', json_u64 (length (gs_edges spec))), (''mermaid'', String (mermaid spec)),
      (''topology_hash'', String (gr_version g)), (''reducers'', reducers_value spec),
      (''warnings'', strings_value (gr_warnings g))])"

definition graph_inspect :: "string \<Rightarrow> structured_output handler" where
  "graph_inspect graph_id =
     bind_step (or_fail Fails (find_graph graph_id)) (\<lambda>g.
     bind_step (version_history graph_id g) (\<lambda>versions.
     bind_step (observe has_store) (\<lambda>historical.
     give (output_with_meta (inspection graph_id g versions historical)
       (Some graph_id) (Some (gr_version g)) None))))"

definition graph_policy_check :: "server_env \<Rightarrow> string \<Rightarrow> structured_output handler" where
  "graph_policy_check env graph_id =
     bind_step (or_fail Fails (find_graph graph_id)) (\<lambda>g.
     let spec = gr_spec g; issues = [] in
     give (structured (json_object
       [(''graph_id'', String graph_id), (''passed'', Bool (issues = [])),
        (''issues'', strings_value issues),
        (''stats'', json_object
          [(''node_count'', json_u64 (length (gs_nodes spec))),
           (''edge_count'', json_u64 (length (gs_edges spec))),
           (''max_iterations'', opt_value json_u64 (gs_max_iterations spec)),
           (''max_parallelism'', opt_value json_u64 (gs_max_parallelism spec))]),
        (''capabilities'', json_object
          [(''models'', Array [String (sn_default_model env)]), (''tools'', Array [])])])))"

definition graph_render :: "string \<Rightarrow> string option \<Rightarrow> structured_output handler" where
  "graph_render graph_id format =
     bind_step (or_fail Fails (find_graph graph_id)) (\<lambda>g.
     give (output_with_meta
       (if or_else format ''mermaid'' = ''json''
        then json_object
          [(''name'', String graph_id),
           (''nodes'', Array (map (\<lambda>n. json_object [(''id'', String (ns_id n)),
              (''type'', String (node_type_name (ns_type n)))]) (gs_nodes (gr_spec g)))),
           (''edges'', Array (map edge_value (gs_edges (gr_spec g))))]
        else json_object
          [(''mermaid'', String (mermaid (gr_spec g))), (''name'', String graph_id)])
       (Some graph_id) (Some (gr_version g)) None))"

section \<open>Templates\<close>

definition graph_template_list :: "structured_output handler" where
  "graph_template_list = give (structured template_list)"

definition graph_template_instantiate :: "string \<Rightarrow> string \<Rightarrow> structured_output handler" where
  "graph_template_instantiate template_id name = give (case instantiate template_id name of
       Inl e \<Rightarrow> error_output e ''GRAPH_INVALID''
     | Inr spec \<Rightarrow> structured (json_object
         [(''template_id'', String template_id), (''name'', String name), (''spec'', spec)]))"

definition graph_template_candidates :: "structured_output handler" where
  "graph_template_candidates = give (structured (json_object [(''candidates'', Array [])]))"

definition graph_template_outcomes :: "string \<Rightarrow> structured_output handler" where
  "graph_template_outcomes template_id = give (structured (json_object
     [(''template_id'', String template_id), (''outcomes'', Array [])]))"

section \<open>Source witnesses\<close>

definition need_witness_tool_store :: "string \<Rightarrow> structured_output" where
  "need_witness_tool_store what =
     error_output (''SQLite persistence is required for source witness '' @ what) ''WITNESS_STORE_REQUIRED''"

text \<open>The capture is validated before the store is looked for.\<close>

definition graph_source_witness_capture ::
    "server_env \<Rightarrow> readings \<Rightarrow> witness_capture_params \<Rightarrow> structured_output handler" where
  "graph_source_witness_capture env rd p =
     (let capture = \<lparr>wc_locator = wp_locator p, wc_content = wp_content p,
          wc_media_type = wp_media_type p, wc_authority_class = wp_authority_class p,
          wc_retrieved_at = or_else (wp_retrieved_at p) (se_show_time (sn_store env) (rd_time rd 0))\<rparr> in
      bind_step (or_output witness_error_output
        (validate_witness_capture (sn_crypto env) (is_rfc3339 (sn_store env)) None capture)) (\<lambda>_.
      bind_step (must_store (need_witness_tool_store ''capture'') (capture_witness (sn_store env) capture)) (\<lambda>r.
      bind_step (or_output witness_error_output r) (\<lambda>w.
      give (structured (json_object
        [(''witness_id'', String (wr_witness_id w)), (''digest'', String (wr_digest w)),
         (''locator_digest'', String (digest (sn_crypto env) (String (wc_locator w)))),
         (''media_type'', String (wc_media_type w)), (''authority_class'', String (wc_authority_class w)),
         (''retrieved_at'', String (wc_retrieved_at w)), (''content_bytes'', json_u64 (length (wc_content w))),
         (''storage_class'', String ''sqlite_source_witness'')]))))))"

definition witness_not_found :: structured_output where
  "witness_not_found = error_output ''source witness was not found'' ''WITNESS_NOT_FOUND''"

definition graph_source_witness_get :: "server_env \<Rightarrow> string \<Rightarrow> structured_output handler" where
  "graph_source_witness_get env witness_id =
     bind_step (must_store (need_witness_tool_store ''reads'') (get_witness (sn_store env) witness_id)) (\<lambda>r.
     bind_step (or_output witness_error_output r) (\<lambda>found.
     give (case found of
         None \<Rightarrow> witness_not_found
       | Some w \<Rightarrow> structured (json_object
           [(''witness_id'', String (wr_witness_id w)), (''digest'', String (wr_digest w)),
            (''locator'', String (wc_locator w)),
            (''locator_digest'', String (digest (sn_crypto env) (String (wc_locator w)))),
            (''content'', String (wc_content w)), (''media_type'', String (wc_media_type w)),
            (''authority_class'', String (wc_authority_class w)),
            (''retrieved_at'', String (wc_retrieved_at w)),
            (''storage_class'', String ''sqlite_source_witness'')]))))"

end
