(* ===== verification/Run_Tools.thy ===== *)
theory Run_Tools
  imports Graph_Tools
begin

text \<open>
  \<open>agent-graph-mcp/src/server.rs\<close>: the what starts, ends and records an execution.
  A thread is started here (\<open>sv_launched\<close>) and ends in \<open>finish_launch\<close>.
\<close>

section \<open>Terminal records\<close>

definition reduced_event :: "value" where
  "reduced_event = json_object [(''receipt'', String ''terminal event persisted with reduced fidelity'')]"

definition event_kind :: "value \<Rightarrow> string" where
  "event_kind event = (case event of Object ((k, _) # _) \<Rightarrow> k | _ \<Rightarrow> ''run_event'')"

definition terminal_event :: "crypto \<Rightarrow> value \<Rightarrow> nat \<times> string \<times> string" where
  "terminal_event cr item =
     (let event = or_else (get_key item ''event'') reduced_event
      in (or_else (u64_at item ''cursor'') 0, event_kind event, json_text cr event))"

definition durable_receipt :: "run_record \<Rightarrow> value" where
  "durable_receipt r = set_member ''persistence_status'' (String ''durable_terminal'') (rr_receipt r)"

definition persist_terminal :: "store_env \<Rightarrow> string \<Rightarrow> run_record \<Rightarrow> (string, string) sql" where
  "persist_terminal env now r = persist_terminal_projection env now (rr_run_id r) (rr_status r)
     (se_text env (rr_final_state r)) (length (rr_steps r)) (map (terminal_event (se_crypto env)) (rr_events r))
     (se_text env (durable_receipt r))
     (se_text env (run_bundle (se_crypto env) (rr_run_id r) (rr_graph_version r) (rr_input r) (rr_state r)
        (durable_receipt r)))"

definition persist_terminal_and_mark :: "server_env \<Rightarrow> string \<Rightarrow> run_record \<Rightarrow> server \<Rightarrow> server" where
  "persist_terminal_and_mark env now r s =
     (case in_store (persist_terminal (sn_store env) now r) s of
        (Inr outcome, s') \<Rightarrow>
          let (status, error) = (case outcome of
            None \<Rightarrow> (''volatile_no_store'', None)
          | Some (Inr _) \<Rightarrow> (''durable_terminal'', None)
          | Some (Inl e) \<Rightarrow> (''volatile_persistence_failed'', Some e))
          in s'\<lparr>sv_runs := mark_persistence (sn_crypto env) (rr_run_id r) status error (sv_runs s')\<rparr>
      | (Inl (u :: unit), s') \<Rightarrow> s')"

section \<open>Threads\<close>

definition start_thread :: "string \<Rightarrow> graph_spec \<Rightarrow> string option \<Rightarrow> unit handler" where
  "start_thread run_id spec from = modify (\<lambda>s. s\<lparr>sv_launched := sv_launched s
     @ [\<lparr>la_run_id = run_id, la_spec = spec, la_resumed_from = from\<rparr>]\<rparr>)"

definition no_counters :: budget_counters where
  "no_counters = \<lparr>bc_nodes = 0, bc_llm_calls = 0, bc_wall_clock_ms = 0\<rparr>"

text \<open>
  The end of a thread: the execution failed before or after the engine ran, or it ended and
  is settled. \<open>witnesses\<close> is what the execution finds in the store.
\<close>

definition finish_launch ::
    "server_env \<Rightarrow> string \<Rightarrow> witness_lookup option \<Rightarrow> run_launch \<Rightarrow> run_record
      \<Rightarrow> string + execution_end \<Rightarrow> server \<Rightarrow> server" where
  "finish_launch env now witnesses l started outcome s =
     (let i = la_run_id l;
          settled = (case outcome of
              Inl e \<Rightarrow> (Inl e, sv_runs s)
            | Inr x \<Rightarrow> settle_execution (sn_crypto env) (sn_len env) (sn_event_json env) (sn_base_url env)
                (sn_default_model env) witnesses (la_spec l) started no_counters x (sv_runs s));
          g = (case settled of (Inl e, g) \<Rightarrow> fail_execution i e g | (Inr _, g) \<Rightarrow> g);
          s' = s\<lparr>sv_runs := g\<rparr>
      in case get_run i g of None \<Rightarrow> s' | Some r \<Rightarrow> persist_terminal_and_mark env now r s')"

section \<open>Executing\<close>

definition run_not_found :: "string \<Rightarrow> string" where
  "run_not_found run_id = ''run '' @ quoted run_id @ '' not found''"

definition input_of :: "value option \<Rightarrow> value" where
  "input_of v = or_else v Null"

definition check_input :: "server_env \<Rightarrow> value \<Rightarrow> unit handler" where
  "check_input env input = or_fail (\<lambda>e. Fails (Invalid_params e))
     (pure_result (ensure_size (sn_len env) input MAX_INPUT_BYTES ''execution input''))"

definition execute_digest :: "server_env \<Rightarrow> graph_execute_params \<Rightarrow> registered_graph \<Rightarrow> string" where
  "execute_digest env p g = digest (sn_crypto env) (json_object
     [(''operation'', String ''graph_execute''), (''graph_id'', String (ge_graph_id p)),
      (''graph_spec'', gr_normalized g), (''graph_version'', String (gr_version g)),
      (''input'', input_of (ge_input p)), (''mode'', String (or_else (ge_mode p) ''sync'')),
      (''thread_id'', opt_value String (ge_thread_id p))])"

text \<open>Allocating and admitting a run; a run that is not admitted is removed again.\<close>

definition admit_run :: "string \<Rightarrow> unit handler" where
  "admit_run run_id = bind_step (on_runs (admit_async run_id)) (\<lambda>r. case r of
       Inr _ \<Rightarrow> give ()
     | Inl e \<Rightarrow> bind_step (on_runs (remove_run run_id)) (\<lambda>_.
         refuse (Replies (error_output e ''RUN_CAPACITY''))))"

text \<open>\<open>let _ = store.save_execution(..)\<close>: an error is ignored.\<close>

definition note_execution ::
    "server_env \<Rightarrow> string \<Rightarrow> string \<Rightarrow> string \<Rightarrow> string \<Rightarrow> string \<Rightarrow> value \<Rightarrow> unit handler" where
  "note_execution env now run_id graph_id version status input = bind_step
     (in_store (save_execution now run_id graph_id version status (se_text (sn_store env) input)))
     (\<lambda>_. give ())"

definition begin_run ::
    "server_env \<Rightarrow> readings \<Rightarrow> string \<Rightarrow> registered_graph \<Rightarrow> value \<Rightarrow> run_budgets option \<Rightarrow> string handler" where
  "begin_run env rd graph_id g input budgets =
     bind_step (on_runs (allocate_with_budgets (rd_millis rd) graph_id (gr_version g) input budgets)) (\<lambda>r.
     bind_step (or_internal r) (\<lambda>run_id.
     bind_step (admit_run run_id) (\<lambda>_.
     bind_step (note_execution env (rd_sql rd 0) run_id graph_id (gr_version g) ''running'' input) (\<lambda>_.
     bind_step (start_thread run_id (gr_spec g) None) (\<lambda>_.
     give run_id)))))"

definition accepted_output ::
    "graph_execute_params \<Rightarrow> registered_graph \<Rightarrow> string \<Rightarrow> structured_output" where
  "accepted_output p g run_id = output_with_meta (json_object
     [(''run_id'', String run_id), (''status'', String ''accepted''),
      (''thread_id'', opt_value String (ge_thread_id p)), (''storage_class'', String ''volatile''),
      (''cancellation'', String ''provider_future_best_effort_drop; underlying_request_may_continue'')])
     (Some (ge_graph_id p)) (Some (gr_version g)) (Some run_id)"

definition overdue_output ::
    "graph_execute_params \<Rightarrow> registered_graph \<Rightarrow> string \<Rightarrow> run_record \<Rightarrow> string + value \<Rightarrow> structured_output" where
  "overdue_output p g run_id r cancelled = output_with_meta (json_object
     [(''run_id'', String run_id), (''status'', String (rr_status r)), (''timed_out'', Bool True),
      (''completion_unknown'', Bool True), (''cancellation'', String ''requested''),
      (''cancellation_result'', (case cancelled of Inr v \<Rightarrow> v
         | Inl _ \<Rightarrow> json_object [(''run_id'', String run_id), (''status'', String ''cancellation_requested'')]))])
     (Some (ge_graph_id p)) (Some (gr_version g)) (Some run_id)"

text \<open>What a synchronous execution writes to the store afterwards; errors are ignored.\<close>

definition note_result ::
    "server_env \<Rightarrow> readings \<Rightarrow> graph_execute_params \<Rightarrow> registered_graph \<Rightarrow> string \<Rightarrow> structured_output \<Rightarrow> unit handler" where
  "note_result env rd p g run_id out =
     (let data = so_data out;
          status = or_else (Option.bind data (\<lambda>v. str_at v ''status'')) ''failed'';
          final_state = map_option (se_text (sn_store env)) (Option.bind data (\<lambda>v. get_key v ''final_state'')) in
      bind_step (note_execution env (rd_sql rd 1) run_id (ge_graph_id p) (gr_version g) status (input_of (ge_input p))) (\<lambda>_.
      bind_step (in_store (update_execution_status (rd_sql rd 2) run_id status final_state None None)) (\<lambda>_.
      give ())))"

text \<open>The part of \<open>graph_execute\<close> before the thread runs.\<close>

definition execute_setup ::
    "server_env \<Rightarrow> readings \<Rightarrow> graph_execute_params \<Rightarrow> (registered_graph \<times> string) handler" where
  "execute_setup env rd p =
     bind_step (check_input env (input_of (ge_input p))) (\<lambda>_.
     bind_step (or_fail Fails (resolve_graph env (ge_graph_id p) (ge_graph_version p))) (\<lambda>g.
     bind_step (need_witness_store (gr_spec g)) (\<lambda>_.
     bind_step (replay env (ge_idempotency_key p) (execute_digest env p g)) (\<lambda>_.
     bind_step (begin_run env rd (ge_graph_id p) g (input_of (ge_input p)) None) (\<lambda>run_id.
     give (g, run_id))))))"

end
