(* ===== verification/Resume_Tools.thy ===== *)
theory Resume_Tools
  imports Run_Tools
begin

text \<open>
  \<open>agent-graph-mcp/src/server.rs\<close>: starting a run, with or without a checkpoint before it,
  resuming from a checkpoint, and the approvals that hold a checkpoint back.
\<close>

section \<open>Starting\<close>

definition integrity_output :: structured_output where
  "integrity_output = checkpoint_error_output Ck_integrity"

definition checkpoint_store_required :: "string \<Rightarrow> structured_output" where
  "checkpoint_store_required what =
     error_output (''SQLite persistence is required for '' @ what) ''CHECKPOINT_STORE_REQUIRED''"

definition budgets_value :: "run_budgets option \<Rightarrow> value" where
  "budgets_value b = opt_value requested_value b"

text \<open>\<open>resume_eligibility\<close> panics on a graph that was not validated.\<close>

definition need_eligibility :: "(string \<Rightarrow> reply) \<Rightarrow> graph_spec \<Rightarrow> resume_eligibility handler" where
  "need_eligibility f spec = (case resume_eligible spec of
       None \<Rightarrow> refuse Panics | Some (Inl e) \<Rightarrow> refuse (f e) | Some (Inr el) \<Rightarrow> give el)"

definition start_digest ::
    "server_env \<Rightarrow> run_start_params \<Rightarrow> registered_graph \<Rightarrow> run_budgets option \<Rightarrow> string" where
  "start_digest env p g budgets = digest (sn_crypto env) (json_object
     [(''operation'', String ''graph_run_start''), (''graph_id'', String (rs_graph_id p)),
      (''graph_spec'', gr_normalized g), (''graph_version'', String (gr_version g)),
      (''input'', input_of (rs_input p)), (''thread_id'', opt_value String (rs_thread_id p)),
      (''budgets'', budgets_value budgets), (''checkpoint'', Bool (or_else (rs_checkpoint p) False))])"

definition checkpointed_output ::
    "run_start_params \<Rightarrow> registered_graph \<Rightarrow> string \<Rightarrow> checkpoint_record \<Rightarrow> structured_output" where
  "checkpointed_output p g run_id c = output_with_meta (json_object
     [(''run_id'', String run_id), (''status'', String ''checkpointed''),
      (''thread_id'', opt_value String (rs_thread_id p)),
      (''checkpoint_id'', String (cp_checkpoint_id c)),
      (''checkpoint_digest'', String (cp_checkpoint_digest c)), (''checkpoint'', checkpoint_value c),
      (''resume_capability'', String ''deterministic_local_resume'')])
     (Some (rs_graph_id p)) (Some (gr_version g)) (Some run_id)"

definition drop_run :: "string \<Rightarrow> structured_output \<Rightarrow> 'a handler" where
  "drop_run run_id out = bind_step (on_runs (remove_run run_id)) (\<lambda>_. refuse (Replies out))"

text \<open>The run is recorded as checkpointed, then the checkpoint is written.\<close>

definition start_checkpoint ::
    "server_env \<Rightarrow> readings \<Rightarrow> run_start_params \<Rightarrow> registered_graph \<Rightarrow> run_budgets option
      \<Rightarrow> resume_eligibility \<Rightarrow> (string \<times> checkpoint_record) handler" where
  "start_checkpoint env rd p g budgets el =
     (let out = checkpoint_store_required ''deterministic checkpoints''; input = input_of (rs_input p);
          text = se_text (sn_store env) in
      bind_step (need_store out) (\<lambda>_.
      bind_step (on_runs (allocate_with_budgets (rd_millis rd) (rs_graph_id p) (gr_version g) input budgets)) (\<lambda>r.
      bind_step (or_internal r) (\<lambda>run_id.
      bind_step (must_store out (save_execution_with_budgets (rd_sql rd 0) run_id (rs_graph_id p) (gr_version g)
          ''checkpointed'' (text input) (Some (text (budgets_value budgets))))) (\<lambda>r.
      bind_step (case r of Inr _ \<Rightarrow> give ()
        | Inl e \<Rightarrow> drop_run run_id (error_output e ''CHECKPOINT_PERSISTENCE_FAILURE'')) (\<lambda>_.
      bind_step (must_store out (create_resume_checkpoint (sn_store env) (rd_time rd 0) run_id (rs_graph_id p)
          (gr_version g) (next_node_cursor el) (initial_state_for_input input) (budgets_value budgets)
          (counters_value no_counters) (dependency_summary el) 0 0)) (\<lambda>r.
      bind_step (case r of Inr c \<Rightarrow> give c
        | Inl e \<Rightarrow> bind_step (in_store (update_execution_status (rd_sql rd 1) run_id ''failed'' None None None)) (\<lambda>_.
            drop_run run_id (checkpoint_error_output e))) (\<lambda>c.
      bind_step (on_runs (mark_checkpointed run_id (cp_checkpoint_id c) (cp_checkpoint_digest c))) (\<lambda>r.
      bind_step (or_internal r) (\<lambda>_.
      give (run_id, c)))))))))))"

definition started_output :: "run_start_params \<Rightarrow> registered_graph \<Rightarrow> string \<Rightarrow> structured_output" where
  "started_output p g run_id = output_with_meta (json_object
     [(''run_id'', String run_id), (''status'', String ''running''),
      (''thread_id'', opt_value String (rs_thread_id p))])
     (Some (rs_graph_id p)) (Some (gr_version g)) (Some run_id)"

definition start_eligibility :: "run_start_params \<Rightarrow> graph_spec \<Rightarrow> resume_eligibility option handler" where
  "start_eligibility p spec =
     (if or_else (rs_checkpoint p) False
      then bind_step (need_eligibility (\<lambda>e. Replies (error_output e ''RESUME_INELIGIBLE'')) spec) (\<lambda>el. give (Some el))
      else give None)"

definition graph_run_start :: "server_env \<Rightarrow> readings \<Rightarrow> run_start_params \<Rightarrow> structured_output handler" where
  "graph_run_start env rd p =
     bind_step (or_output (with_code ''INVALID_BUDGETS'') (parse_budgets (rs_budgets p))) (\<lambda>budgets.
     bind_step (check_input env (input_of (rs_input p))) (\<lambda>_.
     bind_step (or_fail Fails (resolve_graph env (rs_graph_id p) (rs_graph_version p))) (\<lambda>g.
     bind_step (need_witness_store (gr_spec g)) (\<lambda>_.
     bind_step (start_eligibility p (gr_spec g)) (\<lambda>eligibility.
     bind_step (replay env (rs_idempotency_key p) (start_digest env p g budgets)) (\<lambda>_.
     bind_step (case eligibility of
         Some el \<Rightarrow> bind_step (start_checkpoint env rd p g budgets el) (\<lambda>(run_id, c).
           give (checkpointed_output p g run_id c))
       | None \<Rightarrow> bind_step (begin_run env rd (rs_graph_id p) g (input_of (rs_input p)) budgets) (\<lambda>run_id.
           give (started_output p g run_id))) (\<lambda>out.
     bind_reply env (rs_idempotency_key p) (start_digest env p g budgets) out)))))))"

section \<open>Reading a checkpoint\<close>

definition invalid_params_output :: "string \<Rightarrow> structured_output" where
  "invalid_params_output message = error_output message ''INVALID_PARAMS''"

definition found_checkpoint :: "checkpoint_record option \<Rightarrow> checkpoint_record handler" where
  "found_checkpoint c = (case c of
       None \<Rightarrow> refuse (Replies (checkpoint_error_output Ck_not_found)) | Some c \<Rightarrow> give c)"

definition graph_run_checkpoint :: "server_env \<Rightarrow> string option \<Rightarrow> string option \<Rightarrow> structured_output handler" where
  "graph_run_checkpoint env run_id checkpoint_id =
     (let out = checkpoint_store_required ''checkpoint reads'' in
      bind_step (need_store out) (\<lambda>_.
      bind_step (answer_if (run_id = None \<and> checkpoint_id = None)
        (invalid_params_output ''run_id or checkpoint_id is required for checkpoint reads'')) (\<lambda>_.
      bind_step (must_store out (load_resume_checkpoint (sn_store env) checkpoint_id run_id)) (\<lambda>r.
      bind_step (or_output checkpoint_error_output r) (\<lambda>found.
      bind_step (found_checkpoint found) (\<lambda>c.
      bind_step (answer_if (run_id \<noteq> None \<and> run_id \<noteq> Some (cp_run_id c)) integrity_output) (\<lambda>_.
      give (output_with_meta (checkpoint_value c) (Some (cp_graph_id c)) (Some (cp_graph_version c))
        (Some (cp_run_id c))))))))))"

section \<open>What a checkpoint must agree with\<close>

definition same_contract :: "checkpoint_record \<Rightarrow> execution_contract \<Rightarrow> bool" where
  "same_contract c k \<longleftrightarrow> xc_graph_id k = cp_graph_id c \<and> xc_graph_version k = cp_graph_version c
     \<and> cp_terminal_cursor c = 0 \<and> cp_event_cursor c = 0"

definition same_material ::
    "crypto \<Rightarrow> checkpoint_record \<Rightarrow> execution_contract \<Rightarrow> resume_eligibility \<Rightarrow> bool" where
  "same_material cr c k el \<longleftrightarrow> cp_next_node_cursor c = next_node_cursor el
     \<and> cp_dependency_summary c = dependency_summary el
     \<and> cp_dependency_digest c = digest cr (dependency_summary el)
     \<and> cp_state c = initial_state_for_input (xc_input k) \<and> cp_budgets c = xc_budgets k
     \<and> cp_budget_counters c = counters_value no_counters"

definition ineligible_message :: string where
  "ineligible_message = ''checkpoint graph is no longer in the deterministic local resume subset''"

section \<open>Resuming\<close>

definition release_and_refuse :: "structured_output \<Rightarrow> 'a handler" where
  "release_and_refuse out = bind_step (on_runs (\<lambda>g. ((), release_async_slot g))) (\<lambda>_. refuse (Replies out))"

definition resumed_output :: "checkpoint_record \<Rightarrow> value option \<Rightarrow> string \<Rightarrow> structured_output" where
  "resumed_output c approval run_id = output_with_meta (json_object
     [(''run_id'', String run_id), (''status'', String ''running''), (''checkpoint'', checkpoint_value c),
      (''resume_capability'', String ''deterministic_local_resume''), (''approval'', opt_value id approval)])
     (Some (cp_graph_id c)) (Some (cp_graph_version c)) (Some run_id)"

text \<open>A record of the run that is still there is removed, unless it is running.\<close>

definition remove_previous :: "string \<Rightarrow> unit handler" where
  "remove_previous run_id = bind_step (observe (\<lambda>s. get_run run_id (sv_runs s))) (\<lambda>previous.
     if previous = None then give () else bind_step (on_runs (remove_run run_id)) (\<lambda>_. give ()))"

text \<open>Up to the point where the run counts as running, in the registry and in the store.\<close>

definition admit_resumed ::
    "server_env \<Rightarrow> readings \<Rightarrow> checkpoint_record \<Rightarrow> execution_contract \<Rightarrow> run_budgets option
      \<Rightarrow> value option \<Rightarrow> string handler" where
  "admit_resumed env rd c k budgets approval =
     bind_step (remove_previous (cp_run_id c)) (\<lambda>_.
     bind_step (on_runs (allocate_resumed (rd_millis rd) (cp_run_id c) (cp_graph_id c) (cp_graph_version c)
         (xc_input k) (cp_state c) budgets (cp_checkpoint_id c) (cp_checkpoint_digest c) approval)) (\<lambda>r.
     bind_step (case r of Inr run_id \<Rightarrow> give run_id
       | Inl e \<Rightarrow> release_and_refuse (error_output e ''RUN_CAPACITY'')) (\<lambda>run_id.
     bind_step (on_runs (admit_reserved_async run_id)) (\<lambda>r.
     bind_step (case r of Inr _ \<Rightarrow> give ()
       | Inl e \<Rightarrow> bind_step (on_runs (remove_run run_id)) (\<lambda>_.
           release_and_refuse (error_output e ''RUN_CAPACITY''))) (\<lambda>_.
     bind_step (in_store (update_execution_status (rd_sql rd 0) run_id ''running'' None None None)) (\<lambda>r.
     bind_step (case r of None \<Rightarrow> refuse Panics | Some r \<Rightarrow> or_internal r) (\<lambda>_.
     give run_id)))))))"

definition launch_resumed ::
    "server_env \<Rightarrow> readings \<Rightarrow> checkpoint_record \<Rightarrow> execution_contract \<Rightarrow> registered_graph
      \<Rightarrow> run_budgets option \<Rightarrow> value option \<Rightarrow> structured_output handler" where
  "launch_resumed env rd c k g budgets approval =
     bind_step (admit_resumed env rd c k budgets approval) (\<lambda>run_id.
     bind_step (start_thread run_id (gr_spec g) (Some (cp_checkpoint_id c))) (\<lambda>_.
     give (resumed_output c approval run_id)))"

definition pending_output :: structured_output where
  "pending_output = error_output ''checkpoint resume is pending its durable approval decision'' ''APPROVAL_PENDING''"

text \<open>The checkpoint to resume, loaded and checked up to its approval and its consumption.\<close>

definition resumable_checkpoint ::
    "server_env \<Rightarrow> string option \<Rightarrow> string option \<Rightarrow> checkpoint_record handler" where
  "resumable_checkpoint env checkpoint_id run_id =
     (let out = checkpoint_store_required ''deterministic resume'' in
      bind_step (need_store out) (\<lambda>_.
      bind_step (answer_if (checkpoint_id = None \<and> run_id = None)
        (invalid_params_output ''checkpoint_id or run_id is required for resume'')) (\<lambda>_.
      bind_step (must_store out (load_resume_checkpoint (sn_store env) checkpoint_id run_id)) (\<lambda>r.
      bind_step (or_output checkpoint_error_output r) (\<lambda>found.
      bind_step (found_checkpoint found) (\<lambda>c.
      bind_step (must_store out (checkpoint_approval_status (cp_checkpoint_id c))) (\<lambda>r.
      bind_step (case r of Inl e \<Rightarrow> refuse (Fails (Internal_error (approval_message e))) | Inr status \<Rightarrow> give status) (\<lambda>status.
      bind_step (answer_if (status = Some ''pending'') pending_output) (\<lambda>_.
      bind_step (answer_if (cp_consumed_at c \<noteq> None) (checkpoint_error_output Ck_consumed)) (\<lambda>_.
      bind_step (answer_if (run_id \<noteq> None \<and> run_id \<noteq> Some (cp_run_id c)) integrity_output) (\<lambda>_.
      give c)))))))))))"

text \<open>What the checkpoint is resumed with: the stored contract, the pinned graph, the budgets.\<close>

definition resume_contract ::
    "server_env \<Rightarrow> checkpoint_record \<Rightarrow> (execution_contract \<times> registered_graph \<times> run_budgets option) handler" where
  "resume_contract env c =
     bind_step (must_store integrity_output (load_execution_contract (sn_store env) (cp_run_id c))) (\<lambda>r.
     bind_step (or_internal r) (\<lambda>found.
     bind_step (case found of None \<Rightarrow> refuse (Replies integrity_output) | Some k \<Rightarrow> give k) (\<lambda>k.
     bind_step (answer_if (\<not> same_contract c k) integrity_output) (\<lambda>_.
     bind_step (or_fail (\<lambda>_. Replies integrity_output)
       (resolve_graph env (cp_graph_id c) (Some (cp_graph_version c)))) (\<lambda>g.
     bind_step (answer_if (gr_version g \<noteq> cp_graph_version c) integrity_output) (\<lambda>_.
     bind_step (need_eligibility (\<lambda>_. Replies (error_output ineligible_message ''RESUME_INELIGIBLE''))
       (gr_spec g)) (\<lambda>el.
     bind_step (answer_if (\<not> same_material (sn_crypto env) c k el) integrity_output) (\<lambda>_.
     bind_step (or_output (\<lambda>_. integrity_output) (parse_budgets (Some (cp_budgets c)))) (\<lambda>budgets.
     give (k, g, budgets))))))))))"

text \<open>A slot is reserved before the checkpoint is consumed; the store is there by then.\<close>

definition reserve_and_consume :: "server_env \<Rightarrow> readings \<Rightarrow> string \<Rightarrow> checkpoint_record handler" where
  "reserve_and_consume env rd checkpoint_id =
     (let out = checkpoint_store_required ''deterministic resume'' in
      bind_step (need_store out) (\<lambda>_.
      bind_step (on_runs reserve_async_slot) (\<lambda>r.
      bind_step (or_output (with_code ''RUN_CAPACITY'') r) (\<lambda>_.
      bind_step (must_store out (consume_resume_checkpoint (sn_store env) (rd_time rd 0) checkpoint_id)) (\<lambda>r.
      case r of Inr c \<Rightarrow> give c | Inl e \<Rightarrow> release_and_refuse (checkpoint_error_output e))))))"

definition resume_tail ::
    "server_env \<Rightarrow> readings \<Rightarrow> string \<Rightarrow> execution_contract \<Rightarrow> registered_graph \<Rightarrow> run_budgets option
      \<Rightarrow> structured_output handler" where
  "resume_tail env rd i k g budgets = bind_step (reserve_and_consume env rd i)
     (\<lambda>c. launch_resumed env rd c k g budgets None)"

definition graph_run_resume ::
    "server_env \<Rightarrow> readings \<Rightarrow> string option \<Rightarrow> string option \<Rightarrow> structured_output handler" where
  "graph_run_resume env rd checkpoint_id run_id =
     bind_step (resumable_checkpoint env checkpoint_id run_id) (\<lambda>c.
     bind_step (resume_contract env c) (\<lambda>(k, g, budgets).
     resume_tail env rd (cp_checkpoint_id c) k g budgets))"

section \<open>Approvals\<close>

definition approval_store_required :: structured_output where
  "approval_store_required =
     error_output ''SQLite persistence is required for durable approvals'' ''APPROVAL_STORE_REQUIRED''"

text \<open>The errors of \<open>validate_resume_checkpoint\<close> are a message with a code.\<close>

definition validate_resume_checkpoint ::
    "server_env \<Rightarrow> checkpoint_record \<Rightarrow> (execution_contract \<times> registered_graph \<times> run_budgets option) handler" where
  "validate_resume_checkpoint env c =
     (let failure = with_code ''CHECKPOINT_INTEGRITY_FAILURE'' in
      bind_step (must_store approval_store_required (load_execution_contract (sn_store env) (cp_run_id c))) (\<lambda>r.
      bind_step (or_output (with_code ''CHECKPOINT_PERSISTENCE_FAILURE'') r) (\<lambda>found.
      bind_step (case found of Some k \<Rightarrow> give k
        | None \<Rightarrow> refuse (Replies (failure ''checkpoint execution contract was not found''))) (\<lambda>k.
      bind_step (answer_if (\<not> same_contract c k) (failure ''checkpoint integrity validation failed'')) (\<lambda>_.
      bind_step (or_fail (\<lambda>_. Replies (failure ''checkpoint graph version is unavailable''))
        (resolve_graph env (cp_graph_id c) (Some (cp_graph_version c)))) (\<lambda>g.
      bind_step (need_eligibility (\<lambda>_. Replies (error_output ineligible_message ''RESUME_INELIGIBLE''))
        (gr_spec g)) (\<lambda>el.
      bind_step (answer_if (gr_version g \<noteq> cp_graph_version c \<or> \<not> same_material (sn_crypto env) c k el)
        (failure ''checkpoint integrity validation failed'')) (\<lambda>_.
      bind_step (or_output (\<lambda>_. failure ''checkpoint budgets failed validation'')
        (parse_budgets (Some (cp_budgets c)))) (\<lambda>budgets.
      give (k, g, budgets))))))))))"

definition check_request :: "store_env \<Rightarrow> approval_request_params \<Rightarrow> string + unit" where
  "check_request env p =
     bind_result (reject_if (blank (ap_audience p) \<or> 256 < length (ap_audience p))
       ''audience must be non-empty and at most 256 bytes'') (\<lambda>_.
     bind_result (reject_if (ap_allowed_decisions p = []
         \<or> list_ex (\<lambda>d. d \<notin> set [''approve'', ''reject'']) (ap_allowed_decisions p))
       ''allowed_decisions must be a non-empty subset of approve and reject'') (\<lambda>_.
     bind_result (reject_if (\<not> is_rfc3339 env (ap_expiration p)) ''expiration must be RFC3339'') (\<lambda>_.
     reject_if (16 * 1024 < length (ap_prompt p)) ''prompt exceeds the bounded approval prompt size'')))"

definition approval_output :: "approval_record \<Rightarrow> structured_output" where
  "approval_output a = output_with_meta (approval_value a) (Some (av_graph_id a)) (Some (av_graph_version a))
     (Some (av_run_id a))"

definition expectation_of :: "checkpoint_record \<Rightarrow> expected_checkpoint" where
  "expectation_of c = \<lparr>ec_graph_id = cp_graph_id c, ec_graph_version = cp_graph_version c,
     ec_next_node_cursor = cp_next_node_cursor c, ec_state = cp_state c, ec_budgets = cp_budgets c,
     ec_budget_counters = cp_budget_counters c, ec_dependency_summary = cp_dependency_summary c\<rparr>"

definition graph_approval_request ::
    "server_env \<Rightarrow> readings \<Rightarrow> approval_request_params \<Rightarrow> structured_output handler" where
  "graph_approval_request env rd p =
     (let out = approval_store_required in
      bind_step (need_store out) (\<lambda>_.
      bind_step (or_output invalid_params_output (check_request (sn_store env) p)) (\<lambda>_.
      bind_step (must_store out (load_resume_checkpoint (sn_store env) (Some (ap_checkpoint_id p)) None)) (\<lambda>r.
      bind_step (or_output checkpoint_error_output r) (\<lambda>found.
      bind_step (found_checkpoint found) (\<lambda>c.
      bind_step (answer_if (cp_consumed_at c \<noteq> None) (checkpoint_error_output Ck_consumed)) (\<lambda>_.
      bind_step (validate_resume_checkpoint env c) (\<lambda>_.
      bind_step (must_store out (create_checkpoint_approval (sn_store env) (rd_time rd 0) (rd_time rd 1)
          (cp_checkpoint_id c) (expectation_of c) (ap_audience p)
          (digest (sn_crypto env) (String (ap_prompt p))) (ap_allowed_decisions p) (ap_expiration p))) (\<lambda>r.
      bind_step (or_output approval_error_output r) (\<lambda>a.
      give (approval_output a)))))))))))"

definition graph_approval_list :: "server_env \<Rightarrow> approval_list_params \<Rightarrow> structured_output handler" where
  "graph_approval_list env p =
     bind_step (must_store approval_store_required (list_checkpoint_approvals (sn_store env)
       (al_run_id p) (al_status p) (or_else (al_limit p) 50))) (\<lambda>r.
     case r of
       Inl e \<Rightarrow> refuse (Fails (Internal_error (approval_message e)))
     | Inr approvals \<Rightarrow> give (structured (json_object
         [(''approvals'', Array (map approval_value approvals)), (''count'', json_u64 (length approvals)),
          (''storage_class'', String ''sqlite_durable_approval_metadata'')])))"

definition graph_approval_get :: "server_env \<Rightarrow> string \<Rightarrow> structured_output handler" where
  "graph_approval_get env approval_id =
     bind_step (must_store approval_store_required (get_checkpoint_approval (sn_store env) approval_id)) (\<lambda>r.
     case r of
       Inl e \<Rightarrow> refuse (Fails (Internal_error (approval_message e)))
     | Inr (Some a) \<Rightarrow> give (approval_output a)
     | Inr None \<Rightarrow> give (approval_error_output Av_not_found))"

end
