(* ===== verification/Status_Tools.thy ===== *)
theory Status_Tools
  imports Resume_Tools
begin

text \<open>
  \<open>agent-graph-mcp/src/server.rs\<close>: the tools that read and cancel runs, and the status
  tool.
\<close>

section \<open>Cancelling\<close>

definition not_cancellable_output :: structured_output where
  "not_cancellable_output =
     error_output ''terminal or checkpointed runs cannot be cancelled'' ''RUN_NOT_CANCELLABLE''"

definition stored_as_ended :: "(string + value option) option \<Rightarrow> bool" where
  "stored_as_ended r = (case r of
       Some (Inr (Some v)) \<Rightarrow> (case str_at v ''status'' of
           Some status \<Rightarrow> status \<in> set [''completed'', ''failed'', ''cancelled'', ''checkpointed'']
         | None \<Rightarrow> False)
     | _ \<Rightarrow> False)"

definition graph_run_cancel :: "server_env \<Rightarrow> string \<Rightarrow> structured_output handler" where
  "graph_run_cancel env run_id =
     bind_step (on_runs (cancel_run run_id)) (\<lambda>r.
     case r of
       Inr _ \<Rightarrow> give (output_with_meta (cancel_response run_id) None None (Some run_id))
     | Inl e \<Rightarrow>
         if e = ''RUN_NOT_CANCELLABLE'' then refuse (Replies not_cancellable_output)
         else if e = ''run not found''
         then bind_step (in_store (load_execution (sn_store env) run_id)) (\<lambda>r.
           if stored_as_ended r then refuse (Replies not_cancellable_output)
           else refuse (Fails (Invalid_params e)))
         else refuse (Fails (Invalid_params e)))"

section \<open>Reading a run\<close>

definition with_receipt :: "value \<Rightarrow> value \<Rightarrow> value" where
  "with_receipt receipt record = set_member ''receipt'' receipt
     (fold (\<lambda>key v. case get_key receipt key of None \<Rightarrow> v | Some x \<Rightarrow> set_member key x v)
       [''budgets'', ''budget_counters'', ''budget_exhausted''] record)"

definition stored_run :: "server_env \<Rightarrow> string \<Rightarrow> value option handler" where
  "stored_run env run_id =
     bind_step (in_store (load_execution (sn_store env) run_id)) (\<lambda>r.
     case r of
       None \<Rightarrow> give None
     | Some r \<Rightarrow> bind_step (or_internal r) (\<lambda>found.
         case found of
           None \<Rightarrow> give None
         | Some record \<Rightarrow> bind_step (in_store (load_terminal_receipt (sn_store env) run_id)) (\<lambda>r.
             case r of
               None \<Rightarrow> give (Some record)
             | Some r \<Rightarrow> bind_step (or_internal r) (\<lambda>terminal.
                 give (Some (case Option.bind terminal (\<lambda>v. get_key v ''receipt'') of
                   None \<Rightarrow> record | Some receipt \<Rightarrow> with_receipt receipt record))))))"

definition the_run :: "string \<Rightarrow> run_record handler" where
  "the_run run_id = bind_step (observe (\<lambda>s. get_run run_id (sv_runs s))) (\<lambda>r. case r of
       None \<Rightarrow> refuse (Fails (Invalid_params (run_not_found run_id))) | Some r \<Rightarrow> give r)"

definition graph_run_get :: "server_env \<Rightarrow> string \<Rightarrow> structured_output handler" where
  "graph_run_get env run_id =
     bind_step (observe (\<lambda>s. get_run run_id (sv_runs s))) (\<lambda>r. case r of
       Some r \<Rightarrow> give (output_with_meta (public_value r) None None (Some run_id))
     | None \<Rightarrow> bind_step (stored_run env run_id) (\<lambda>found. case found of
           Some record \<Rightarrow> give (output_with_meta record None None (Some run_id))
         | None \<Rightarrow> refuse (Fails (Invalid_params (run_not_found run_id)))))"

definition graph_run_state :: "server_env \<Rightarrow> string \<Rightarrow> string option \<Rightarrow> structured_output handler" where
  "graph_run_state env run_id json_pointer =
     bind_step (the_run run_id) (\<lambda>r.
     let shown = (case json_pointer of
         None \<Rightarrow> rr_state r
       | Some p \<Rightarrow> if p = [] then rr_state r else or_else (sn_pointer env (rr_state r) p) Null) in
     give (output_with_meta (json_object
       [(''state'', shown), (''run_id'', String run_id), (''status'', String (rr_status r))])
       None None (Some run_id)))"

text \<open>The store is asked only for a run that the registry does not have.\<close>

definition events_of_run :: "server_env \<Rightarrow> string \<Rightarrow> nat \<Rightarrow> nat \<Rightarrow> (server, 'e, string + value) step" where
  "events_of_run env run_id cursor limit =
     bind_step (observe sv_runs) (\<lambda>g.
     case get_run run_id g of
       Some _ \<Rightarrow> give (run_events (Inr None) run_id cursor limit g)
     | None \<Rightarrow> bind_step (in_store (load_events (sn_store env) run_id cursor limit)) (\<lambda>r.
         give (run_events (case r of None \<Rightarrow> Inr None | Some stored \<Rightarrow> stored) run_id cursor limit g)))"

definition graph_run_events :: "server_env \<Rightarrow> string \<Rightarrow> nat option \<Rightarrow> nat option \<Rightarrow> structured_output handler" where
  "graph_run_events env run_id cursor limit =
     bind_step (events_of_run env run_id (or_else cursor 0) (or_else limit 100)) (\<lambda>r.
     case r of
       Inl e \<Rightarrow> refuse (Fails (Invalid_params e))
     | Inr page \<Rightarrow> give (output_with_meta page None None (Some run_id)))"

definition receipt_failure :: "string \<Rightarrow> reply" where
  "receipt_failure e =
     (if e = ''RECEIPT_INTEGRITY_FAILURE''
      then Replies (error_output ''terminal receipt integrity validation failed'' e)
      else if e = ''INTEGRITY_KEY_REQUIRED''
      then Replies (error_output ''an external integrity key is required for terminal receipt reads'' e)
      else Fails (Internal_error e))"

definition graph_run_receipt :: "server_env \<Rightarrow> string \<Rightarrow> structured_output handler" where
  "graph_run_receipt env run_id =
     bind_step (observe (\<lambda>s. get_run run_id (sv_runs s))) (\<lambda>r. case r of
       Some r \<Rightarrow> give (output_with_meta (rr_receipt r) None None (Some run_id))
     | None \<Rightarrow> bind_step (in_store (load_terminal_receipt (sn_store env) run_id)) (\<lambda>r. case r of
           Some (Inl e) \<Rightarrow> refuse (receipt_failure e)
         | Some (Inr (Some receipt)) \<Rightarrow> give (output_with_meta receipt None None (Some run_id))
         | _ \<Rightarrow> give (error_output (run_not_found run_id) ''RUN_NOT_FOUND'')))"

section \<open>Status\<close>

definition storage_class :: "server_env \<Rightarrow> bool \<Rightarrow> string" where
  "storage_class env stored =
     (if \<not> stored then ''process_local''
      else if has_integrity_key (sn_store env) then ''persisted_integrity_verified''
      else ''persisted_unverified'')"

definition capabilities_value :: "bool \<Rightarrow> bool \<Rightarrow> value" where
  "capabilities_value stored integrity = json_object
     [(''runtime'', String ''agent_graph''), (''async_start'', Bool True),
      (''cancellation'', String ''provider_future_best_effort_drop; underlying_request_may_continue''),
      (''durable_resume'', if integrity then String ''deterministic_local_resume_only'' else Bool False),
      (''terminal_persistence'', String (if integrity then ''sqlite_projection_only''
         else ''disabled_without_integrity_key'')),
      (''checkpointing'', String (if integrity then ''deterministic_local_pre_execution'' else ''unavailable'')),
      (''events'', String (if stored then ''terminal_persisted_projection_with_sqlite_fallback''
         else ''volatile_in_memory_only'')),
      (''event_replay'', String ''not_replayable_execution''),
      (''restart_recovery'', String ''interrupted_non_resumable''),
      (''budgets'', json_object
         [(''max_wall_clock_ms'', String ''enforced''),
          (''max_nodes'', String ''enforced_at_engine_superstep_boundary''),
          (''max_llm_calls'', String ''rejected_INVALID_BUDGETS_no_invocation_hook'')]),
      (''state_write_conflicts'', String ''rejected_without_explicit_reducer''),
      (''evidence'', String
         ''witness_bound_local_capture_only; locators_not_fetched; source_authority_not_verified''),
      (''evidence_authority'', String ''caller_supplied_unverified_or_local_primary_capture''),
      (''hitl'', String (if integrity then ''checkpoint_bound_durable_approval_only'' else ''unavailable'')),
      (''replay'', String ''integrity_only'')]"

definition server_status :: "server_env \<Rightarrow> server \<Rightarrow> value" where
  "server_status env s =
     (let runs = length (registry_values (sv_runs s)); stored = has_store s;
          integrity = (stored \<and> has_integrity_key (sn_store env)) in json_object
     [(''graphs'', strings_value (map fst (sv_graphs s))),
      (''graph_count'', json_u64 (length (sv_graphs s))), (''execution_count'', json_u64 runs),
      (''retained_execution_count'', json_u64 runs), (''total_execution_count'', json_u64 runs),
      (''base_url'', String (safe_provider_label (sn_base_url env))),
      (''default_model'', String (sn_default_model env)),
      (''storage_class'', String (storage_class env stored)),
      (''capabilities'', capabilities_value stored integrity),
      (''limits'', json_object [(''graphs'', json_u64 MAX_GRAPHS)])])"

definition graph_details :: "string \<Rightarrow> registered_graph \<Rightarrow> value" where
  "graph_details i g = json_object
     [(''graph_id'', String i), (''graph_version'', String (gr_version g)),
      (''normalized_spec'', gr_normalized g), (''mermaid'', String (mermaid (gr_spec g))),
      (''warnings'', strings_value (gr_warnings g)), (''storage_class'', String ''volatile'')]"

definition required_param :: "string \<Rightarrow> 'a option \<Rightarrow> 'a handler" where
  "required_param message x = (case x of
       None \<Rightarrow> refuse (Fails (Invalid_params message)) | Some a \<Rightarrow> give a)"

definition unknown_resource :: "string \<Rightarrow> structured_output" where
  "unknown_resource r = error_output (''unknown status resource '' @ quoted r) ''INVALID_RESOURCE''"

definition graph_status :: "server_env \<Rightarrow> graph_status_params \<Rightarrow> structured_output handler" where
  "graph_status env q =
     (let resource = or_else (gq_resource q) ''server'' in
      if resource = ''server'' then bind_step (observe (server_status env)) (\<lambda>v. give (structured v))
      else if resource = ''templates'' then graph_template_list
      else if resource = ''graph''
      then bind_step (required_param ''missing graph_id'' (gq_graph_id q)) (\<lambda>i.
        bind_step (or_fail Fails (find_graph i)) (\<lambda>g.
        give (output_with_meta (graph_details i g) (Some i) (Some (gr_version g)) None)))
      else if resource = ''run''
      then (case gq_run_id q of
          None \<Rightarrow> bind_step (observe (\<lambda>s. registry_values (sv_runs s))) (\<lambda>vs.
            give (structured (json_object [(''runs'', Array vs)])))
        | Some i \<Rightarrow> bind_step (the_run i) (\<lambda>r. give (structured (public_value r))))
      else if resource = ''events''
      then bind_step (required_param ''missing run_id for events'' (gq_run_id q)) (\<lambda>i.
        graph_run_events env i (gq_cursor q) (gq_limit q))
      else if resource = ''receipt''
      then bind_step (required_param ''missing run_id for receipt'' (gq_run_id q)) (\<lambda>i.
        bind_step (the_run i) (\<lambda>r. give (output_with_meta (rr_receipt r) None None (Some i))))
      else if resource = ''bundle''
      then bind_step (required_param ''missing run_id for bundle'' (gq_run_id q)) (\<lambda>i.
        bind_step (the_run i) (\<lambda>r. give (output_with_meta (rr_bundle r) None None (Some i))))
      else give (unknown_resource resource))"

section \<open>Tools that are not in the router\<close>

definition graph_delete :: "string \<Rightarrow> structured_output handler" where
  "graph_delete graph_id = delete_registered_graph graph_id"

definition graph_approval_decide :: "string \<Rightarrow> string \<Rightarrow> string \<Rightarrow> structured_output handler" where
  "graph_approval_decide approval_id decision claimed_actor_label = give (error_output
     ''approval decisions require authenticated operator transport'' ''AUTHENTICATED_OPERATOR_REQUIRED'')"

end
