(* ===== verification/Tool_Router.thy ===== *)
theory Tool_Router
  imports Status_Tools
begin

text \<open>
  \<open>agent-graph-mcp/src/server.rs\<close>: the router of the tools, the moves of a server, and the
  two tools that wait. A call that does not wait is a move, as are the begin and the end of
  a thread; while a tool waits, other moves are made. A waiting loop returns \<open>None\<close> only
  when its fuel is used up.
\<close>

section \<open>The router\<close>

datatype direct_call =
    Call_graph_create graph_create_params
  | Call_witness_capture witness_capture_params
  | Call_witness_get string
  | Call_graph_status graph_status_params
  | Call_graph_list graph_list_params
  | Call_graph_inspect string
  | Call_approval_request approval_request_params
  | Call_approval_list approval_list_params
  | Call_approval_get string
  | Call_run_start run_start_params
  | Call_run_checkpoint "string option" "string option"
  | Call_run_resume "string option" "string option"
  | Call_run_cancel string
  | Call_run_get string
  | Call_run_state string "string option"
  | Call_run_events string "nat option" "nat option"
  | Call_run_receipt string
  | Call_policy_check string
  | Call_render string "string option"
  | Call_template_list
  | Call_template_instantiate string string
  | Call_template_candidates
  | Call_template_outcomes string

fun tool_handler :: "server_env \<Rightarrow> readings \<Rightarrow> direct_call \<Rightarrow> structured_output handler" where
  "tool_handler env rd (Call_graph_create p) = graph_create env rd p"
| "tool_handler env rd (Call_witness_capture p) = graph_source_witness_capture env rd p"
| "tool_handler env rd (Call_witness_get i) = graph_source_witness_get env i"
| "tool_handler env rd (Call_graph_status q) = graph_status env q"
| "tool_handler env rd (Call_graph_list p) = graph_list p"
| "tool_handler env rd (Call_graph_inspect i) = graph_inspect i"
| "tool_handler env rd (Call_approval_request p) = graph_approval_request env rd p"
| "tool_handler env rd (Call_approval_list p) = graph_approval_list env p"
| "tool_handler env rd (Call_approval_get i) = graph_approval_get env i"
| "tool_handler env rd (Call_run_start p) = graph_run_start env rd p"
| "tool_handler env rd (Call_run_checkpoint r c) = graph_run_checkpoint env r c"
| "tool_handler env rd (Call_run_resume c r) = graph_run_resume env rd c r"
| "tool_handler env rd (Call_run_cancel i) = graph_run_cancel env i"
| "tool_handler env rd (Call_run_get i) = graph_run_get env i"
| "tool_handler env rd (Call_run_state i p) = graph_run_state env i p"
| "tool_handler env rd (Call_run_events i c l) = graph_run_events env i c l"
| "tool_handler env rd (Call_run_receipt i) = graph_run_receipt env i"
| "tool_handler env rd (Call_policy_check i) = graph_policy_check env i"
| "tool_handler env rd (Call_render i f) = graph_render i f"
| "tool_handler env rd Call_template_list = graph_template_list"
| "tool_handler env rd (Call_template_instantiate i n) = graph_template_instantiate i n"
| "tool_handler env rd Call_template_candidates = graph_template_candidates"
| "tool_handler env rd (Call_template_outcomes i) = graph_template_outcomes i"

section \<open>Moves\<close>

text \<open>
  A thread begins and ends at any time; what it read when it began is given to its end. A
  tool that waits is the moves of its parts, with other moves between them.
\<close>

datatype server_move =
    Serves readings direct_call
  | Execute_begins readings graph_execute_params
  | Execute_cancels string
  | Execute_ends readings graph_execute_params registered_graph string structured_output
  | Execute_answers graph_execute_params registered_graph structured_output
  | Wait_ends string run_record
  | Thread_begins string
  | Thread_ends string "witness_lookup option" run_launch run_record "string + execution_end"

text \<open>
  What a synchronous execution writes to the store afterwards, and the reply that it binds
  to its key.
\<close>

definition execute_tail ::
    "server_env \<Rightarrow> readings \<Rightarrow> graph_execute_params \<Rightarrow> registered_graph \<Rightarrow> string \<Rightarrow> structured_output
      \<Rightarrow> structured_output handler" where
  "execute_tail env rd p g run_id out = bind_step (note_result env rd p g run_id out) (\<lambda>_.
     bind_reply env (ge_idempotency_key p) (execute_digest env p g) out)"

definition execute_answer ::
    "server_env \<Rightarrow> graph_execute_params \<Rightarrow> registered_graph \<Rightarrow> structured_output \<Rightarrow> structured_output handler" where
  "execute_answer env p g out = bind_reply env (ge_idempotency_key p) (execute_digest env p g) out"

fun make_move :: "server_env \<Rightarrow> server_move \<Rightarrow> server \<Rightarrow> server" where
  "make_move env (Serves rd c) s = snd (served (tool_handler env rd c) s)"
| "make_move env (Execute_begins rd p) s = snd (execute_setup env rd p s)"
| "make_move env (Execute_cancels i) s = s\<lparr>sv_runs := snd (cancel_run i (sv_runs s))\<rparr>"
| "make_move env (Execute_ends rd p g i out) s = snd (served (execute_tail env rd p g i out) s)"
| "make_move env (Execute_answers p g out) s = snd (served (execute_answer env p g out) s)"
| "make_move env (Wait_ends now r) s = persist_terminal_and_mark env now r s"
| "make_move env (Thread_begins i) s = s\<lparr>sv_runs := snd (begin_execution i (sv_runs s))\<rparr>"
| "make_move env (Thread_ends now witnesses l started outcome) s =
     finish_launch env now witnesses l started outcome s"

definition make_moves :: "server_env \<Rightarrow> server_move list \<Rightarrow> server \<Rightarrow> server" where
  "make_moves env moves s = fold (make_move env) moves s"

lemma make_moves_simps [simp]:
  "make_moves env [] s = s" "make_moves env (m # ms) s = make_moves env ms (make_move env m s)"
  by (simp_all add: make_moves_def)

lemma make_moves_invariant:
  assumes "P s" and "\<And>m s. m \<in> set ms \<Longrightarrow> P s \<Longrightarrow> P (make_move env m s)"
  shows "P (make_moves env ms s)"
  using assms by (induction ms arbitrary: s) auto

section \<open>Waiting\<close>

text \<open>
  What surrounds a waiting handler: the moves of threads and of other handlers before its
  n-th look, and the milliseconds on the clock since it began.
\<close>

record wait_trace =
  wt_moves :: "nat \<Rightarrow> server_move list"
  wt_elapsed :: "nat \<Rightarrow> nat"

definition timed_out_output :: "string \<Rightarrow> run_record \<Rightarrow> structured_output" where
  "timed_out_output run_id r = output_with_meta (json_object
     [(''run_id'', String run_id), (''status'', String (rr_status r)), (''timed_out'', Bool True)])
     None None (Some run_id)"

definition public_of :: "string \<Rightarrow> run_record \<Rightarrow> run_registry \<Rightarrow> value" where
  "public_of run_id r g = (case get_run run_id g of None \<Rightarrow> public_value r | Some r' \<Rightarrow> public_value r')"

definition finish_wait :: "server_env \<Rightarrow> string \<Rightarrow> string \<Rightarrow> run_record \<Rightarrow> server \<Rightarrow> reply \<times> server" where
  "finish_wait env now run_id r s = (let s' = persist_terminal_and_mark env now r s in
     (Replies (output_with_meta (public_of run_id r (sv_runs s')) None None (Some run_id)), s'))"

fun wait_loop ::
    "server_env \<Rightarrow> string \<Rightarrow> wait_trace \<Rightarrow> string \<Rightarrow> nat \<Rightarrow> nat \<Rightarrow> nat \<Rightarrow> server
      \<Rightarrow> (reply \<times> server) option" where
  "wait_loop env now w run_id timeout n 0 s = None"
| "wait_loop env now w run_id timeout n (Suc fuel) s =
     (let s' = make_moves env (wt_moves w n) s in
      case get_run run_id (sv_runs s') of
        None \<Rightarrow> Some (Fails (Invalid_params (run_not_found run_id)), s')
      | Some r \<Rightarrow>
          if final_status (rr_status r) then Some (finish_wait env now run_id r s')
          else if timeout \<le> wt_elapsed w n then Some (Replies (timed_out_output run_id r), s')
          else wait_loop env now w run_id timeout (n + 1) fuel s')"

definition graph_run_wait ::
    "server_env \<Rightarrow> string \<Rightarrow> wait_trace \<Rightarrow> string \<Rightarrow> nat option \<Rightarrow> nat \<Rightarrow> server
      \<Rightarrow> (reply \<times> server) option" where
  "graph_run_wait env now w run_id timeout_ms fuel s =
     wait_loop env now w run_id (or_else timeout_ms 300000) 0 fuel s"

section \<open>Executing\<close>

text \<open>The loop of a synchronous execution, with its deadline of five minutes.\<close>

fun execute_loop ::
    "server_env \<Rightarrow> graph_execute_params \<Rightarrow> registered_graph \<Rightarrow> wait_trace \<Rightarrow> string \<Rightarrow> nat \<Rightarrow> nat \<Rightarrow> server
      \<Rightarrow> ((reply + structured_output) \<times> server) option" where
  "execute_loop env p g w run_id n 0 s = None"
| "execute_loop env p g w run_id n (Suc fuel) s =
     (let s' = make_moves env (wt_moves w n) s in
      case get_run run_id (sv_runs s') of
        None \<Rightarrow> Some (Inl (Fails (Internal_error (run_not_found run_id))), s')
      | Some r \<Rightarrow>
          if final_status (rr_status r)
          then Some (Inr (output_with_meta (public_value r) (Some (ge_graph_id p)) (Some (gr_version g))
            (Some run_id)), s')
          else if 300000 \<le> wt_elapsed w n
          then (case cancel_run run_id (sv_runs s') of (c, runs) \<Rightarrow>
            Some (Inr (overdue_output p g run_id r c), s'\<lparr>sv_runs := runs\<rparr>))
          else execute_loop env p g w run_id (n + 1) fuel s')"

definition graph_execute ::
    "server_env \<Rightarrow> readings \<Rightarrow> wait_trace \<Rightarrow> nat \<Rightarrow> graph_execute_params \<Rightarrow> server
      \<Rightarrow> (reply \<times> server) option" where
  "graph_execute env rd w fuel p s = (case execute_setup env rd p s of
       (Inl r, s') \<Rightarrow> Some (r, s')
     | (Inr (g, run_id), s') \<Rightarrow>
         if ge_mode p = Some ''async''
         then Some (served (execute_answer env p g (accepted_output p g run_id)) s')
         else (case execute_loop env p g w run_id 0 fuel s' of
             None \<Rightarrow> None
           | Some (Inl r, s'') \<Rightarrow> Some (r, s'')
           | Some (Inr out, s'') \<Rightarrow> Some (served (execute_tail env rd p g run_id out) s'')))"

section \<open>Calls\<close>

datatype tool_call =
    Direct direct_call
  | Call_graph_execute graph_execute_params
  | Call_run_wait string "nat option"

fun call_tool ::
    "server_env \<Rightarrow> readings \<Rightarrow> wait_trace \<Rightarrow> nat \<Rightarrow> tool_call \<Rightarrow> server \<Rightarrow> (reply \<times> server) option" where
  "call_tool env rd w fuel (Direct c) s = Some (served (tool_handler env rd c) s)"
| "call_tool env rd w fuel (Call_graph_execute p) s = graph_execute env rd w fuel p s"
| "call_tool env rd w fuel (Call_run_wait i t) s = graph_run_wait env (rd_sql rd 0) w i t fuel s"

text \<open>Every call that returns is a sequence of moves.\<close>

lemma make_moves_append: "make_moves env (ms @ ns) s = make_moves env ns (make_moves env ms s)"
  by (simp add: make_moves_def)

definition some_moves :: "server_env \<Rightarrow> server \<Rightarrow> server \<Rightarrow> bool" where
  "some_moves env s s' \<longleftrightarrow> (\<exists>ms. s' = make_moves env ms s)"

lemma some_moves_steps:
  "some_moves env s (make_moves env ms s)" "some_moves env s (make_move env m s)"
  "some_moves env s t \<Longrightarrow> some_moves env t u \<Longrightarrow> some_moves env s u"
  by (auto simp: some_moves_def) (metis make_moves_simps, metis make_moves_append)

lemma finish_wait_moves: "some_moves env s (snd (finish_wait env now i r s))"
  using some_moves_steps(2) [of env s "Wait_ends now r"] by (simp add: finish_wait_def Let_def)

lemma wait_loop_moves:
  "wait_loop env now w i timeout n fuel s = Some (r, s') \<Longrightarrow> some_moves env s s'"
proof (induction env now w i timeout n fuel s rule: wait_loop.induct)
  case (2 env now w i timeout n fuel s)
  let ?s = "make_moves env (wt_moves w n) s"
  have "some_moves env ?s s'"
    using 2 some_moves_steps(1) [of env ?s "[]"] finish_wait_moves [of env ?s now i]
    by (auto simp: Let_def split: option.splits if_splits) (metis snd_conv)
  with some_moves_steps(1) show ?case by (rule some_moves_steps(3))
qed simp

lemma execute_loop_moves:
  "execute_loop env p g w i n fuel s = Some (r, s') \<Longrightarrow> some_moves env s s'"
proof (induction env p g w i n fuel s rule: execute_loop.induct)
  case (2 env p g w i n fuel s)
  let ?s = "make_moves env (wt_moves w n) s"
  have "some_moves env ?s s'"
    using 2 some_moves_steps(1) [of env ?s "[]"] some_moves_steps(2) [of env ?s "Execute_cancels i"]
    by (auto simp: Let_def split: option.splits if_splits prod.splits)
  with some_moves_steps(1) show ?case by (rule some_moves_steps(3))
qed simp

lemma execute_moves:
  assumes "graph_execute env rd w fuel p s = Some (r, s')"
  shows "some_moves env s s'"
proof -
  obtain v t where v: "execute_setup env rd p s = (v, t)" by fastforce
  then have "some_moves env s t"
    using some_moves_steps(2) [of env s "Execute_begins rd p"] by simp
  moreover have "some_moves env t s'"
  proof (cases v)
    case (Inl e)
    then show ?thesis using assms v some_moves_steps(1) [of env t "[]"] by (simp add: graph_execute_def)
  next
    case (Inr x)
    obtain g i where x: "x = (g, i)" by (cases x)
    note tail = some_moves_steps(2) [of env _ "Execute_ends rd p g i out" for out]
      and answer = some_moves_steps(2) [of env t "Execute_answers p g (accepted_output p g i)"]
    show ?thesis
    proof (cases "ge_mode p = Some ''async''")
      case True
      then show ?thesis using assms v Inr x answer by (simp add: graph_execute_def)
    next
      case False
      then obtain y u where y: "execute_loop env p g w i 0 fuel t = Some (y, u)"
        using assms v Inr x by (auto simp: graph_execute_def split: option.splits)
      have "some_moves env u s'"
        using assms v Inr x False y some_moves_steps(1) [of env u "[]"] tail [of u]
        by (cases y) (auto simp: graph_execute_def, metis snd_conv)
      with execute_loop_moves [OF y] show ?thesis by (rule some_moves_steps(3))
    qed
  qed
  ultimately show ?thesis by (rule some_moves_steps(3))
qed

lemma call_moves: "call_tool env rd w fuel c s = Some (r, s') \<Longrightarrow> some_moves env s s'"
proof (induction c)
  case (Direct c)
  then show ?case using some_moves_steps(2) [of env s "Serves rd c"] by simp
qed (simp_all add: execute_moves graph_run_wait_def wait_loop_moves)

end
