(* ===== verification/Tool_Laws.thy ===== *)
theory Tool_Laws
  imports Tool_Router Store_Runs Registry_Laws
begin

text \<open>
  A relation between the server before and after a handler is shown once: for a relation
  that is reflexive and transitive, and that the few ways a handler touches the server
  respect, the handlers of all tools respect it. The locale is interpreted for the
  invariants of the server.
\<close>

section \<open>The operations of the store that the server uses\<close>

lemma reads_case_option [reads_intros]:
  "reads_only m \<Longrightarrow> (\<And>x. reads_only (f x)) \<Longrightarrow> reads_only (case v of None \<Rightarrow> m | Some x \<Rightarrow> f x)"
  by (cases v) auto

lemma reads_case_sum [reads_intros]:
  "(\<And>e. reads_only (f e)) \<Longrightarrow> (\<And>x. reads_only (g x)) \<Longrightarrow> reads_only (case v of Inl e \<Rightarrow> f e | Inr x \<Rightarrow> g x)"
  by (cases v) auto

lemma reads_case_prod [reads_intros]:
  "(\<And>x y. reads_only (f x y)) \<Longrightarrow> reads_only (case v of (x, y) \<Rightarrow> f x y)"
  by (cases v) auto

lemma reads_statement:
  assumes "\<And>t x t'. f t = Inr (x, t') \<Longrightarrow> t' = t"
  shows "reads_only (statement err f)"
  unfolding reads_only_def
proof
  fix con
  obtain r con' where r: "statement err f con = (r, con')" by (cases "statement err f con")
  from statement_cases [OF r] assms show "db_tables (snd (statement err f con)) = db_tables con"
    using r by auto
qed

lemma next_seq_reads: "next_seq i t = Inr (n, t') \<Longrightarrow> t' = t"
  by (auto simp: next_seq_def Let_def split: if_splits)

lemma load_events_reads: "reads_only (load_events env i c n)"
  unfolding load_events_def
  by (intro reads_only_bind reads_only_if reads_only_give reads_only_query reads_statement)
    (auto simp: next_seq_reads split: if_splits)

lemmas store_reads =
  load_graph_def load_graph_version_def list_graphs_def list_graph_versions_def load_execution_def
  load_execution_contract_def load_terminal_receipt_def load_resume_checkpoint_def
  checkpoint_approval_status_def get_checkpoint_approval_def list_checkpoint_approvals_def
  check_idempotency_def

lemma store_reads_only [reads_intros]:
  "reads_only (load_graph name)" "reads_only (load_graph_version name hash)" "reads_only list_graphs"
  "reads_only (list_graph_versions name)" "reads_only (load_execution env i)"
  "reads_only (load_execution_contract env i)" "reads_only (load_terminal_receipt env i)"
  "reads_only (load_resume_checkpoint env c o')" "reads_only (checkpoint_approval_status j)"
  "reads_only (get_checkpoint_approval env j)" "reads_only (list_checkpoint_approvals env o' st n)"
  "reads_only (check_idempotency env key)" "reads_only (load_events env i cu n)"
  "reads_only (get_witness env i)"
  unfolding store_reads by (intro reads_intros get_witness_reads load_events_reads)+

lemma save_execution_changes: "changes (save_execution now i name hash status input)"
  unfolding save_execution_def by (rule upsert_execution_changes)

lemma persist_terminal_record_changes: "changes (persist_terminal env now r)"
  unfolding persist_terminal_def by (rule persist_terminal_changes)

lemmas tool_changes [change_intros] =
  save_graph_changes delete_graph_changes upsert_execution_changes save_execution_changes
  update_execution_changes persist_terminal_record_changes create_checkpoint_changes
  consume_checkpoint_changes create_approval_changes save_idempotency_changes capture_witness_changes
  recover_changes store_reads_only [THEN changes_reads]

section \<open>Handlers that go on\<close>

named_theorems goes_on \<open>when a step does not leave the handler\<close>

lemmas bind_goes_on [goes_on] = bind_step_Inr_iff

lemma steps_go_on [goes_on]:
  "give y s = (Inr x, s') \<longleftrightarrow> x = y \<and> s' = s" "refuse e s \<noteq> (Inr x, s')"
  "pure_result v s = (Inr x, s') \<longleftrightarrow> v = Inr x \<and> s' = s"
  "observe f s = (Inr x, s') \<longleftrightarrow> x = f s \<and> s' = s"
  "modify h s = (Inr u, s') \<longleftrightarrow> s' = h s"
  "or_internal w s = (Inr x, s') \<longleftrightarrow> w = Inr x \<and> s' = s"
  "or_output k z s = (Inr x, s') \<longleftrightarrow> z = Inr x \<and> s' = s"
  "answer_if b out s = (Inr u, s') \<longleftrightarrow> \<not> b \<and> s' = s"
  "need_store out s = (Inr u, s') \<longleftrightarrow> sv_store s \<noteq> None \<and> s' = s"
  "or_fail g m s = (Inr x, s') \<longleftrightarrow> m s = (Inr x, s')"
  "on_runs q s = (Inr x, s') \<longleftrightarrow> (\<exists>g. q (sv_runs s) = (x, g) \<and> s' = s\<lparr>sv_runs := g\<rparr>)"
  by (auto simp: observe_def modify_def or_internal_def or_output_def answer_if_def need_store_def
      or_fail_def on_runs_def bind_step_def split: sum.splits prod.splits)

lemma store_goes_on [goes_on]:
  "in_store m s = (Inr x, s') \<longleftrightarrow> (case sv_store s of None \<Rightarrow> x = None \<and> s' = s
     | Some con \<Rightarrow> \<exists>r con'. m con = (r, con') \<and> x = Some r \<and> s' = s\<lparr>sv_store := Some con'\<rparr>)"
  "must_store out m s = (Inr r, s') \<longleftrightarrow>
     (\<exists>con con'. sv_store s = Some con \<and> m con = (r, con') \<and> s' = s\<lparr>sv_store := Some con'\<rparr>)"
  by (auto simp: in_store_def must_store_def bind_step_def split: option.splits prod.splits)

lemma refusals [goes_on]:
  "release_and_refuse out s \<noteq> (Inr x, s')" "drop_run i out s \<noteq> (Inr x, s')"
  by (auto simp: release_and_refuse_def drop_run_def bind_step_def on_runs_def split: prod.splits)

lemma case_goes_on [goes_on]:
  "(case v of Inl e \<Rightarrow> f e | Inr x \<Rightarrow> g x) s = (Inr y, s') \<longleftrightarrow>
     (\<exists>e. v = Inl e \<and> f e s = (Inr y, s')) \<or> (\<exists>x. v = Inr x \<and> g x s = (Inr y, s'))"
  "(case o' of None \<Rightarrow> n | Some a \<Rightarrow> h a) s = (Inr y, s') \<longleftrightarrow>
     o' = None \<and> n s = (Inr y, s') \<or> (\<exists>a. o' = Some a \<and> h a s = (Inr y, s'))"
  by (auto split: sum.splits option.splits)

section \<open>Steps and relations\<close>

definition keeps :: "('s \<Rightarrow> 's \<Rightarrow> bool) \<Rightarrow> ('s, 'e, 'a) step \<Rightarrow> bool" where
  "keeps R m \<longleftrightarrow> (\<forall>s. R s (snd (m s)))"

named_theorems keep_intros \<open>steps that respect a relation\<close>

lemma keepsD: "keeps R m \<Longrightarrow> m s = (r, s') \<Longrightarrow> R s s'"
  by (metis keeps_def snd_conv)

lemma keeps_or_fail [keep_intros]: "keeps R m \<Longrightarrow> keeps R (or_fail f m)"
  by (auto simp: keeps_def or_fail_def split: prod.splits sum.splits) (metis snd_conv)+

lemma keeps_if [keep_intros]: "keeps R m \<Longrightarrow> keeps R n \<Longrightarrow> keeps R (if b then m else n)"
  by simp

lemma keeps_let [keep_intros]: "(\<And>x. keeps R (f x)) \<Longrightarrow> keeps R (let x = v in f x)"
  by simp

lemma keeps_case_option [keep_intros]:
  "keeps R m \<Longrightarrow> (\<And>x. keeps R (f x)) \<Longrightarrow> keeps R (case v of None \<Rightarrow> m | Some x \<Rightarrow> f x)"
  by (cases v) auto

lemma keeps_case_sum [keep_intros]:
  "(\<And>e. keeps R (f e)) \<Longrightarrow> (\<And>x. keeps R (g x)) \<Longrightarrow> keeps R (case v of Inl e \<Rightarrow> f e | Inr x \<Rightarrow> g x)"
  by (cases v) auto

lemma keeps_case_prod [keep_intros]:
  "(\<And>x y. keeps R (f x y)) \<Longrightarrow> keeps R (case v of (x, y) \<Rightarrow> f x y)"
  by (cases v) auto

lemma keeps_case_delete [keep_intros]:
  "keeps R a \<Longrightarrow> keeps R b \<Longrightarrow> keeps R c \<Longrightarrow>
   keeps R (case v of Graph_deleted \<Rightarrow> a | Graph_absent \<Rightarrow> b | Graph_referenced \<Rightarrow> c)"
  by (cases v) auto

text \<open>What an operation of the store does to the tables, as a relation.\<close>

definition effect :: "(tables \<Rightarrow> tables \<Rightarrow> bool) \<Rightarrow> ('e, 'a) sql \<Rightarrow> bool" where
  "effect S m \<longleftrightarrow> (\<forall>con. S (db_tables con) (db_tables (snd (m con))))"

lemma effect_changes [keep_intros]: "changes m \<Longrightarrow> effect store_change\<^sup>*\<^sup>* m"
  by (simp add: effect_def changes_def)

lemma effect_reads [keep_intros]: "reads_only m \<Longrightarrow> effect (=) m"
  by (simp add: effect_def reads_only_def)

locale server_relation =
  fixes R :: "server \<Rightarrow> server \<Rightarrow> bool" and S :: "tables \<Rightarrow> tables \<Rightarrow> bool"
  assumes same: "R s s"
    and after: "R s t \<Longrightarrow> R t u \<Longrightarrow> R s u"
    and store: "sv_store s = Some con \<Longrightarrow> S (db_tables con) (db_tables con') \<Longrightarrow>
      R s (s\<lparr>sv_store := Some con'\<rparr>)"
begin

lemma bind [keep_intros]:
  assumes "keeps R m" and "\<And>x. keeps R (f x)"
  shows "keeps R (bind_step m f)"
  unfolding keeps_def
proof
  fix s
  obtain r s1 where m: "m s = (r, s1)" by (cases "m s")
  have "R s s1" using assms(1) m by (rule keepsD)
  then show "R s (snd (bind_step m f s))"
    using m assms(2) after by (cases r) (auto simp: bind_step_def keeps_def)
qed

lemma still [keep_intros]:
  "keeps R (give x)" "keeps R (refuse e)" "keeps R (pure_result r)" "keeps R (observe f)"
  "keeps R (or_internal v)" "keeps R (or_output g w)" "keeps R (answer_if b out)"
  "keeps R (need_store out)"
  by (auto simp: keeps_def observe_def or_internal_def or_output_def answer_if_def need_store_def
      bind_step_def same split: sum.splits)

lemma bind_pure: "(\<And>x. v = Inr x \<Longrightarrow> keeps R (f x)) \<Longrightarrow> keeps R (bind_step (pure_result v) f)"
  by (cases v) (auto simp: keeps_def bind_step_def same)

lemma stored [keep_intros]: "effect S m \<Longrightarrow> keeps R (in_store m)"
  by (auto simp: keeps_def effect_def in_store_def same split: option.splits prod.splits intro!: store)
    (metis snd_conv)

lemma must [keep_intros]: "effect S m \<Longrightarrow> keeps R (must_store out m)"
  unfolding must_store_def by (intro keep_intros)

lemma on_runs: "(\<And>s. R s (s\<lparr>sv_runs := snd (f (sv_runs s))\<rparr>)) \<Longrightarrow> keeps R (on_runs f)"
  by (auto simp: keeps_def on_runs_def split: prod.splits) (metis snd_conv)

lemma modifies: "(\<And>s. R s (f s)) \<Longrightarrow> keeps R (modify f)"
  by (simp add: keeps_def modify_def)

lemma each [keep_intros]: "(\<And>x. keeps R (f x)) \<Longrightarrow> keeps R (each_step f xs)"
  by (induction xs) (auto intro: keep_intros)

end

section \<open>Triples\<close>

text \<open>What holds after a step that goes on, with its value, and after one that leaves the handler.\<close>

definition triple ::
    "('s \<Rightarrow> bool) \<Rightarrow> ('s, 'e, 'a) step \<Rightarrow> ('a \<Rightarrow> 's \<Rightarrow> bool) \<Rightarrow> ('e \<Rightarrow> 's \<Rightarrow> bool) \<Rightarrow> bool" where
  "triple P m Q E \<longleftrightarrow> (\<forall>s. P s \<longrightarrow> (case m s of (Inl e, s') \<Rightarrow> E e s' | (Inr x, s') \<Rightarrow> Q x s'))"

named_theorems triple_intros \<open>triples of the steps\<close>

lemma triple_bind [triple_intros]:
  assumes "triple P m Q E" and "\<And>x. triple (Q x) (f x) Z E"
  shows "triple P (bind_step m f) Z E"
  using assms by (fastforce simp: triple_def bind_step_def split: prod.splits sum.splits)

lemma triple_weaken:
  assumes "triple P m Q E" and "\<And>s. P' s \<Longrightarrow> P s" and "\<And>x s. Q x s \<Longrightarrow> Q' x s" and "\<And>e s. E e s \<Longrightarrow> E' e s"
  shows "triple P' m Q' E'"
  using assms by (fastforce simp: triple_def split: prod.splits sum.splits)

lemma triple_keeps:
  "keeps (\<lambda>s s'. P s \<longrightarrow> P s') m \<Longrightarrow> (\<And>e s. P s \<Longrightarrow> E e s) \<Longrightarrow> triple P m (\<lambda>_. P) E"
  by (fastforce simp: triple_def keeps_def split: prod.splits sum.splits dest: spec)

lemma tripleD:
  "triple P m Q E \<Longrightarrow> P s \<Longrightarrow> m s = (Inl e, s') \<Longrightarrow> E e s'"
  "triple P m Q E \<Longrightarrow> P s \<Longrightarrow> m s = (Inr x, s') \<Longrightarrow> Q x s'"
  by (auto simp: triple_def dest!: spec [of _ s])

lemma triple_give [triple_intros]: "(\<And>s. P s \<Longrightarrow> Q x s) \<Longrightarrow> triple P (give x) Q E"
  by (simp add: triple_def)

lemma triple_refuse [triple_intros]: "(\<And>s. P s \<Longrightarrow> E e s) \<Longrightarrow> triple P (refuse e) Q E"
  by (simp add: triple_def)

lemma triple_on_runs:
  "(\<And>s r g. P s \<Longrightarrow> f (sv_runs s) = (r, g) \<Longrightarrow> Q r (s\<lparr>sv_runs := g\<rparr>)) \<Longrightarrow> triple P (on_runs f) Q E"
  by (auto simp: triple_def on_runs_def split: prod.splits)

lemma triple_sum [triple_intros]:
  "(\<And>e. v = Inl e \<Longrightarrow> triple P (f e) Q E) \<Longrightarrow> (\<And>x. v = Inr x \<Longrightarrow> triple P (g x) Q E) \<Longrightarrow>
   triple P (case v of Inl e \<Rightarrow> f e | Inr x \<Rightarrow> g x) Q E"
  by (cases v) auto

lemma triple_option [triple_intros]:
  "(v = None \<Longrightarrow> triple P m Q E) \<Longrightarrow> (\<And>x. v = Some x \<Longrightarrow> triple P (f x) Q E) \<Longrightarrow>
   triple P (case v of None \<Rightarrow> m | Some x \<Rightarrow> f x) Q E"
  by (cases v) auto

section \<open>Handlers\<close>

text \<open>The overwriting of graphs that a call asks for.\<close>

fun overwriting :: "direct_call \<Rightarrow> bool set" where
  "overwriting (Call_graph_create p) = {or_else (gc_overwrite p) False}"
| "overwriting c = {}"

text \<open>
  The ways the handlers touch the graphs, the runs and the threads. \<open>M\<close> are the modes of
  overwriting for which the relation is claimed.
\<close>

locale tool_relation = server_relation R "store_change\<^sup>*\<^sup>*" for R :: "server \<Rightarrow> server \<Rightarrow> bool" +
  fixes env :: server_env and M :: "bool set"
  assumes registers: "overwrite \<in> M \<Longrightarrow> graph_of_raw env raw = Inr g \<Longrightarrow> keeps R (register_graph env rd overwrite g)"
    and forgets: "R s (s\<lparr>sv_graphs := AList.delete name (sv_graphs s)\<rparr>)"
    and cancels: "R s (s\<lparr>sv_runs := snd (cancel_run i (sv_runs s))\<rparr>)"
    and begins_run: "keeps R (begin_run env rd name g input budgets)"
    and starts_checkpoint: "keeps R (start_checkpoint env rd p g budgets el)"
    and resumes: "keeps R (resume_tail env rd i k g budgets)"
begin

lemma replies [keep_intros]:
  "keeps R (cached_reply env key d)" "keeps R (persist_reply env k d out)" "keeps R (replay env key d)"
  "keeps R (bind_reply env key d out)"
  unfolding cached_reply_def persist_reply_def replay_def bind_reply_def
  by (intro keep_intros change_intros)+

lemma graphs_read [keep_intros]:
  "keeps R (find_graph name)" "keeps R (resolve_graph env name v)" "keeps R (need_witness_store spec)"
  "keeps R (need_eligibility f spec)" "keeps R (version_history name g)" "keeps R (list_entry ng)"
  unfolding find_graph_def resolve_graph_def need_witness_store_def need_eligibility_def
    version_history_def list_entry_def
  by (intro keep_intros change_intros)+

lemma deletes [keep_intros]: "keeps R (delete_registered_graph name)"
proof -
  have "keeps R (modify (\<lambda>s. s\<lparr>sv_graphs := AList.delete name (sv_graphs s)\<rparr>))"
    by (rule modifies) (rule forgets)
  then show ?thesis
    unfolding delete_registered_graph_def forget_graph_def by (intro keep_intros change_intros)
qed

lemma creates:
  assumes "or_else (gc_overwrite p) False \<in> M"
  shows "keeps R (graph_create env rd p)"
proof -
  have creation: "keeps R (bind_step (pure_result (graph_of_raw env raw)) (\<lambda>g. if v then m g
      else bind_step (need_witness_store (gr_spec g)) (\<lambda>_. bind_step (register_graph env rd o' g) (\<lambda>_. m' g))))"
    if "\<And>g. keeps R (m g)" "\<And>g. keeps R (m' g)" "o' \<in> M"
    for raw v o' and m m' :: "registered_graph \<Rightarrow> structured_output handler"
    using that by (intro bind_pure keep_intros registers)
  have "keeps R (create_or_validate env rd p)"
    unfolding create_or_validate_def
    by (rule bind) (intro keep_intros, rule creation, (intro keep_intros assms)+)
  then show ?thesis
    unfolding graph_create_def by (intro keep_intros)
qed

lemma graph_tools [keep_intros]:
  "keeps R (graph_list q)" "keeps R (graph_inspect name)"
  "keeps R (graph_policy_check env name)" "keeps R (graph_render name format)"
  "keeps R (graph_source_witness_capture env rd w)" "keeps R (graph_source_witness_get env i)"
  "keeps R graph_template_list" "keeps R (graph_template_instantiate i name)"
  "keeps R graph_template_candidates" "keeps R (graph_template_outcomes i)"
proof -
  show "keeps R (graph_source_witness_capture env rd w)" "keeps R (graph_source_witness_get env i)"
    unfolding graph_source_witness_capture_def graph_source_witness_get_def
    by (intro keep_intros change_intros)+
qed (unfold graph_list_def graph_inspect_def graph_policy_check_def graph_render_def graph_template_list_def
    graph_template_instantiate_def graph_template_candidates_def graph_template_outcomes_def,
    (intro keep_intros)+)

lemma run_tools [keep_intros]:
  "keeps R (graph_run_start env rd p)" "keeps R (graph_run_checkpoint env o' c)"
  "keeps R (graph_run_resume env rd c o')" "keeps R (graph_approval_request env rd q)"
  "keeps R (graph_approval_list env l)" "keeps R (graph_approval_get env i)"
proof -
  show "keeps R (graph_run_start env rd p)"
    unfolding graph_run_start_def start_eligibility_def check_input_def
    by (intro keep_intros begins_run starts_checkpoint)
  have found: "keeps R (found_checkpoint x)" for x
    unfolding found_checkpoint_def by (intro keep_intros)
  show "keeps R (graph_run_checkpoint env o' c)" "keeps R (graph_run_resume env rd c o')"
      "keeps R (graph_approval_request env rd q)"
    unfolding graph_run_checkpoint_def graph_run_resume_def resumable_checkpoint_def resume_contract_def
      graph_approval_request_def validate_resume_checkpoint_def
    by (intro keep_intros change_intros resumes found)+
  show "keeps R (graph_approval_list env l)" "keeps R (graph_approval_get env i)"
    unfolding graph_approval_list_def graph_approval_get_def
    by (intro keep_intros change_intros)+
qed

lemma status_tools [keep_intros]:
  "keeps R (graph_run_cancel env i)" "keeps R (graph_run_get env i)" "keeps R (graph_run_state env i ptr)"
  "keeps R (graph_run_events env i cu li)" "keeps R (graph_run_receipt env i)" "keeps R (graph_status env q)"
proof -
  have "keeps R (on_runs (cancel_run i))"
    by (rule on_runs) (rule cancels)
  then show "keeps R (graph_run_cancel env i)"
    unfolding graph_run_cancel_def by (intro keep_intros change_intros)
  have run: "keeps R (the_run j)" for j
    unfolding the_run_def by (intro keep_intros)
  then show "keeps R (graph_run_state env i ptr)"
    unfolding graph_run_state_def by (intro keep_intros)
  show "keeps R (graph_run_get env i)" "keeps R (graph_run_receipt env i)"
    unfolding graph_run_get_def stored_run_def graph_run_receipt_def by (intro keep_intros change_intros)+
  have events: "keeps R (graph_run_events env j cu' li')" for j cu' li'
    unfolding graph_run_events_def events_of_run_def by (intro keep_intros change_intros)
  then show "keeps R (graph_run_events env i cu li)" .
  show "keeps R (graph_status env q)"
    unfolding graph_status_def required_param_def by (intro keep_intros run events)
qed

lemma execute_parts:
  "keeps R (execute_setup env rd p)" "keeps R (execute_tail env rd p g i out)" "keeps R (execute_answer env p g out)"
  unfolding execute_setup_def check_input_def execute_tail_def execute_answer_def note_result_def
    note_execution_def Let_def
  by (intro keep_intros change_intros begins_run)+

lemma handler: "overwriting c \<subseteq> M \<Longrightarrow> keeps R (tool_handler env rd c)"
  by (cases c) (simp_all add: keep_intros creates)

lemma served_keeps: "keeps R h \<Longrightarrow> R s (snd (served h s))"
  by (auto simp: keeps_def served_def split: prod.splits sum.splits) (metis snd_conv)+

lemma call: "overwriting c \<subseteq> M \<Longrightarrow> R s (make_move env (Serves rd c) s)"
  using served_keeps [OF handler] by simp

lemma execute_part_moves:
  "R s (make_move env (Execute_begins rd p) s)" "R s (make_move env (Execute_cancels i) s)"
  "R s (make_move env (Execute_ends rd p g i out) s)" "R s (make_move env (Execute_answers p g out) s)"
  using execute_parts cancels served_keeps by (simp_all add: keeps_def)

end

end
