(* ===== verification/Tool_Invariants.thy ===== *)
theory Tool_Invariants
  imports Tool_Laws
begin

text \<open>
  Invariants of the server under all moves: the resumed threads have distinct checkpoints,
  all of them consumed; reserved slots are given back; every registered graph is valid and
  carries the digest of its own specification; every run is running or has ended.
\<close>

section \<open>Resumed threads\<close>

definition resumed_ids :: "server \<Rightarrow> string list" where
  "resumed_ids s = List.map_filter la_resumed_from (sv_launched s)"

definition store_tables :: "server \<Rightarrow> tables" where
  "store_tables s = (case sv_store s of None \<Rightarrow> no_tables | Some con \<Rightarrow> db_tables con)"

text \<open>\<open>C\<close> are checkpoints that were consumed before the server started.\<close>

definition launches_ok :: "string set \<Rightarrow> server \<Rightarrow> bool" where
  "launches_ok C s \<longleftrightarrow> store_ok (store_tables s) \<and> distinct (resumed_ids s)
     \<and> C \<inter> set (resumed_ids s) = {} \<and> (\<forall>i \<in> C \<union> set (resumed_ids s). consumed i (store_tables s))"

text \<open>The checkpoint has been taken for this resumption, and no thread has it yet.\<close>

definition taken :: "string set \<Rightarrow> string \<Rightarrow> server \<Rightarrow> bool" where
  "taken C i s \<longleftrightarrow> launches_ok C s \<and> i \<notin> C \<union> set (resumed_ids s) \<and> consumed i (store_tables s)"

lemma resumed_ids_simps [simp]:
  "resumed_ids (s\<lparr>sv_graphs := gs\<rparr>) = resumed_ids s" "resumed_ids (s\<lparr>sv_runs := g\<rparr>) = resumed_ids s"
  "resumed_ids (s\<lparr>sv_store := c\<rparr>) = resumed_ids s"
  by (simp_all add: resumed_ids_def)

lemma store_tables_simps [simp]:
  "store_tables (s\<lparr>sv_graphs := gs\<rparr>) = store_tables s" "store_tables (s\<lparr>sv_runs := g\<rparr>) = store_tables s"
  "store_tables (s\<lparr>sv_store := Some con\<rparr>) = db_tables con"
  "store_tables (s\<lparr>sv_launched := ls\<rparr>) = store_tables s"
  by (simp_all add: store_tables_def)

lemma resumed_ids_append [simp]:
  "resumed_ids (s\<lparr>sv_launched := sv_launched s @ [\<lparr>la_run_id = i, la_spec = spec, la_resumed_from = j\<rparr>]\<rparr>)
     = resumed_ids s @ (case j of None \<Rightarrow> [] | Some c \<Rightarrow> [c])"
  by (simp add: resumed_ids_def map_filter_append List.map_filter_simps split: option.splits)

definition taken_step :: "string set \<Rightarrow> string \<Rightarrow> server \<Rightarrow> server \<Rightarrow> bool" where
  "taken_step C i s s' \<longleftrightarrow> (taken C i s \<longrightarrow> taken C i s')"

definition launch_step :: "string set \<Rightarrow> server \<Rightarrow> server \<Rightarrow> bool" where
  "launch_step C s s' \<longleftrightarrow> (launches_ok C s \<longrightarrow> launches_ok C s')"

lemma launches_ok_store:
  assumes "launches_ok C s" and "sv_store s = Some con"
    and "store_change\<^sup>*\<^sup>* (db_tables con) (db_tables con')"
  shows "launches_ok C (s\<lparr>sv_store := Some con'\<rparr>)"
  using assms store_ok_changes [OF assms(3)] consumed_changes [OF assms(3)]
  by (auto simp: launches_ok_def store_tables_def)

interpretation taken: server_relation "taken_step C i" "store_change\<^sup>*\<^sup>*" for C i
proof
  fix s :: server and con con' :: connection
  assume "sv_store s = Some con" and "store_change\<^sup>*\<^sup>* (db_tables con) (db_tables con')"
  then show "taken_step C i s (s\<lparr>sv_store := Some con'\<rparr>)"
    using launches_ok_store consumed_changes
    by (auto simp: taken_step_def taken_def store_tables_def)
qed (auto simp: taken_step_def)

interpretation launch: server_relation "launch_step C" "store_change\<^sup>*\<^sup>*" for C
  by unfold_locales (auto simp: launch_step_def intro: launches_ok_store)

lemma taken_blind:
  "taken_step C i s (s\<lparr>sv_runs := g\<rparr>)" "launch_step C s (s\<lparr>sv_runs := g\<rparr>)"
  "launch_step C s (s\<lparr>sv_graphs := gs\<rparr>)"
  by (simp_all add: taken_step_def taken_def launch_step_def launches_ok_def)

lemmas blind_intros = keep_intros change_intros taken.on_runs launch.on_runs launch.modifies taken_blind

lemma admit_resumed_taken: "keeps (taken_step C i) (admit_resumed env rd c k budgets approval)"
  unfolding admit_resumed_def remove_previous_def release_and_refuse_def
  by (intro blind_intros)

lemma consume_taken:
  assumes "launches_ok C s" and "sv_store s = Some con"
    and "consume_resume_checkpoint env now i con = (Inr c, con')"
  shows "cp_checkpoint_id c = i" "taken C i (s\<lparr>sv_store := Some con'\<rparr>)"
proof -
  note grant = consume_grant [OF assms(3)]
  then show "cp_checkpoint_id c = i" by simp
  have keys: "keys_ok (db_tables con)"
    using assms(1,2) by (simp add: launches_ok_def store_tables_def store_ok_def)
  from grant obtain k where "k \<in> set (tb_checkpoints (db_tables con))" "unconsumed i k" by blast
  from unconsumed_not_consumed [OF keys this] have "\<not> consumed i (db_tables con)" .
  then have "i \<notin> C \<union> set (resumed_ids s)"
    using assms(1,2) by (auto simp: launches_ok_def store_tables_def)
  moreover have "launches_ok C (s\<lparr>sv_store := Some con'\<rparr>)"
    using launches_ok_store [OF assms(1,2)] changesD [OF consume_checkpoint_changes assms(3)] by blast
  ultimately show "taken C i (s\<lparr>sv_store := Some con'\<rparr>)"
    using grant by (simp add: taken_def)
qed

lemma launch_taken:
  assumes "taken C (cp_checkpoint_id c) s"
  shows "launches_ok C (snd (launch_resumed env rd c k g budgets approval s))"
proof -
  obtain r s1 where r: "admit_resumed env rd c k budgets approval s = (r, s1)"
    by (cases "admit_resumed env rd c k budgets approval s")
  have "taken C (cp_checkpoint_id c) s1"
    using keepsD [OF admit_resumed_taken r] assms by (simp add: taken_step_def)
  then show ?thesis
    using r by (cases r) (auto simp: launch_resumed_def bind_step_def start_thread_def modify_def
        taken_def launches_ok_def)
qed

lemma resume_tail_launches: "keeps (launch_step C) (resume_tail env rd i k g budgets)"
  unfolding keeps_def launch_step_def
proof (intro allI impI)
  fix s
  assume ok: "launches_ok C s"
  let ?m = "reserve_and_consume env rd i"
  obtain r s1 where r: "?m s = (r, s1)" by (cases "?m s")
  show "launches_ok C (snd (resume_tail env rd i k g budgets s))"
  proof (cases r)
    case (Inl e)
    have "keeps (launch_step C) ?m"
      unfolding reserve_and_consume_def release_and_refuse_def Let_def by (intro blind_intros)
    from keepsD [OF this r] show ?thesis
      using r Inl ok by (simp add: resume_tail_def bind_step_def launch_step_def)
  next
    case (Inr c)
    from r Inr obtain s0 con con' where "s0 = s\<lparr>sv_runs := snd (reserve_async_slot (sv_runs s))\<rparr>"
      and "sv_store s0 = Some con"
      and c: "consume_resume_checkpoint (sn_store env) (rd_time rd 0) i con = (Inr c, con')"
      and s1: "s1 = s0\<lparr>sv_store := Some con'\<rparr>"
      by (auto simp: reserve_and_consume_def Let_def goes_on)
    moreover from this have "launches_ok C s0"
      using ok taken_blind(2) by (simp add: launch_step_def)
    ultimately have "cp_checkpoint_id c = i" "taken C i s1"
      using consume_taken by blast+
    then show ?thesis
      using r Inr launch_taken by (simp add: resume_tail_def bind_step_def)
  qed
qed

lemma launch_blind:
  "launch_step C s (s\<lparr>sv_launched := sv_launched s @ [\<lparr>la_run_id = i, la_spec = spec, la_resumed_from = None\<rparr>]\<rparr>)"
  by (simp add: launch_step_def launches_ok_def)

interpretation launch: tool_relation "launch_step C" env UNIV for C env
proof
  fix rd name g input budgets p el
  show "keeps (launch_step C) (begin_run env rd name g input budgets)"
    unfolding begin_run_def admit_run_def note_execution_def start_thread_def
    by (intro blind_intros launch_blind)
  show "keeps (launch_step C) (start_checkpoint env rd p g budgets el)"
    unfolding start_checkpoint_def drop_run_def Let_def by (intro blind_intros)
next
  fix raw g rd overwrite
  show "keeps (launch_step C) (register_graph env rd overwrite g)"
    unfolding register_graph_def Let_def by (intro blind_intros)
qed (simp_all add: taken_blind resume_tail_launches)

lemma persist_and_mark_launches: "launch_step C s (persist_terminal_and_mark env now r s)"
proof -
  obtain w s' where w: "(in_store (persist_terminal (sn_store env) now r) :: (server, unit, _) step) s = (w, s')"
    by fastforce
  have "keeps (launch_step C) (in_store (persist_terminal (sn_store env) now r) :: (server, unit, _) step)"
    by (intro blind_intros)
  from keepsD [OF this w] show ?thesis
    using w launch.after [OF _ taken_blind(2)]
    by (auto simp: persist_terminal_and_mark_def Let_def split: prod.splits sum.splits option.splits)
qed

lemma finish_launches: "launch_step C s (finish_launch env now witnesses l started outcome s)"
  using launch.after [OF taken_blind(2) persist_and_mark_launches] taken_blind(2)
  by (auto simp: finish_launch_def Let_def split: option.splits)

lemma move_launches: "launch_step C s (make_move env m s)"
  by (cases m)
    (simp_all add: launch.call [unfolded make_move.simps] launch.execute_part_moves [unfolded make_move.simps]
      taken_blind finish_launches persist_and_mark_launches)

lemma moves_launches: "launches_ok C s \<Longrightarrow> launches_ok C (make_moves env ms s)"
  by (rule make_moves_invariant) (auto intro: move_launches [unfolded launch_step_def, rule_format])

text \<open>
  The checkpoints of the threads that were resumed by the servers that ran on a database
  one after another, each with its faults, its start and its moves.
\<close>

fun sessions :: "server_env \<Rightarrow> (fault_schedule \<times> readings \<times> server_move list) list \<Rightarrow> tables \<Rightarrow> string list" where
  "sessions env [] t = []"
| "sessions env ((faults, rd, ms) # rest) t = (case new_server env rd (Some (opened faults t)) of
     Inl e \<Rightarrow> sessions env rest t
   | Inr s \<Rightarrow> (let s' = make_moves env ms s in resumed_ids s' @ sessions env rest (store_tables s')))"

lemma restore_launches: "launch_step C s (restore_graph env row s)"
proof -
  obtain name version created where row: "row = (name, version, created)" by (cases row)
  obtain r s' where r: "(in_store (load_graph name) :: (server, unit, _) step) s = (r, s')" by fastforce
  have "keeps (launch_step C) (in_store (load_graph name) :: (server, unit, _) step)"
    by (intro blind_intros)
  from keepsD [OF this r] show ?thesis
    using r launch.after [OF _ taken_blind(3)] row
    by (auto simp: restore_graph_def split: sum.splits option.splits)
qed

lemma fold_restore_launches: "launches_ok C s \<Longrightarrow> launches_ok C (fold (restore_graph env) rows s)"
  by (induction rows arbitrary: s) (auto intro: restore_launches [unfolded launch_step_def, rule_format])

lemma new_server_launches:
  assumes "new_server env rd (Some con) = Inr s" and "store_ok (db_tables con)"
    and "\<And>i. i \<in> C \<Longrightarrow> consumed i (db_tables con)"
  shows "launches_ok C s"
proof -
  have ok: "launches_ok C (empty_server (Some con))"
    using assms(2,3) by (simp add: launches_ok_def empty_server_def resumed_ids_def store_tables_def
        List.map_filter_simps)
  have k: "keeps (launch_step C) (in_store (recover_incomplete_executions now) :: (server, unit, _) step)"
    "keeps (launch_step C) (in_store list_graphs :: (server, unit, _) step)" for now
    by (intro blind_intros)+
  show ?thesis
    using assms(1) ok keepsD [OF k(1)] keepsD [OF k(2)] fold_restore_launches
    by (auto simp: new_server_def launch_step_def split: prod.splits sum.splits option.splits)
qed

lemma sessions_distinct:
  "store_ok t \<Longrightarrow> (\<And>i. i \<in> C \<Longrightarrow> consumed i t) \<Longrightarrow>
   distinct (sessions env ss t) \<and> C \<inter> set (sessions env ss t) = {}"
proof (induction ss arbitrary: t C)
  case Nil
  then show ?case by simp
next
  case (Cons x ss)
  obtain faults rd ms where x: "x = (faults, rd, ms)" by (cases x)
  show ?case
  proof (cases "new_server env rd (Some (opened faults t))")
    case (Inl e)
    then show ?thesis using Cons.IH [OF Cons.prems] x by simp
  next
    case (Inr s)
    let ?s = "make_moves env ms s"
    have "launches_ok C ?s"
      using new_server_launches [OF Inr] moves_launches Cons.prems by simp
    then have ok: "store_ok (store_tables ?s)" "distinct (resumed_ids ?s)" "C \<inter> set (resumed_ids ?s) = {}"
      and consumed: "\<And>i. i \<in> C \<union> set (resumed_ids ?s) \<Longrightarrow> consumed i (store_tables ?s)"
      by (simp_all add: launches_ok_def)
    from Cons.IH [OF ok(1) consumed] show ?thesis
      using x Inr ok by (auto simp: Let_def)
  qed
qed

section \<open>Reserved slots\<close>

definition slot_step :: "server \<Rightarrow> server \<Rightarrow> bool" where
  "slot_step s s' \<longleftrightarrow> rg_reserved (sv_runs s') = rg_reserved (sv_runs s)"

lemma insert_record_reserved [simp]: "rg_reserved (snd (insert_record r g)) = rg_reserved g"
  by (auto simp: insert_record_def put_record_def evict_def split: option.splits)

lemma update_record_reserved [simp]: "rg_reserved (snd (update_record i f g)) = rg_reserved g"
  by (auto simp: update_record_def split: option.splits)

lemma registry_reserved [simp]:
  "rg_reserved (snd (allocate_with_budgets ms name version input b g)) = rg_reserved g"
  "rg_reserved (snd (allocate_resumed ms i name version input st b c d a g)) = rg_reserved g"
  "rg_reserved (snd (remove_run i g)) = rg_reserved g" "rg_reserved (snd (admit i g)) = rg_reserved g"
  "rg_reserved (snd (admit_async i g)) = rg_reserved g" "rg_reserved (snd (cancel_run i g)) = rg_reserved g"
  "rg_reserved (snd (mark_checkpointed i c d g)) = rg_reserved g"
  "rg_reserved (snd (begin_execution i g)) = rg_reserved g" "rg_reserved (fail_execution i e g) = rg_reserved g"
  "rg_reserved (mark_persistence cr i status o' g) = rg_reserved g"
  by (auto simp: allocate_with_budgets_def allocate_resumed_def remove_run_def evict_def admit_def
      admit_async_def cancel_run_def mark_checkpointed_def begin_execution_def fail_execution_def
      mark_persistence_def Let_def split: option.splits prod.splits sum.splits)
    (metis snd_conv update_record_reserved)+

interpretation slot: server_relation slot_step "store_change\<^sup>*\<^sup>*"
  by unfold_locales (simp_all add: slot_step_def)

lemmas slot_intros = keep_intros change_intros slot.on_runs slot.modifies

lemma release_and_refuse_eq:
  "release_and_refuse out s = (Inl (Replies out), s\<lparr>sv_runs := release_async_slot (sv_runs s)\<rparr>)"
  by (simp add: release_and_refuse_def bind_step_def on_runs_def)

definition without_previous :: "string \<Rightarrow> run_registry \<Rightarrow> run_registry" where
  "without_previous i g = (if get_run i g = None then g else snd (remove_run i g))"

lemma remove_previous_eq:
  "remove_previous i s = (Inr (), s\<lparr>sv_runs := without_previous i (sv_runs s)\<rparr>)"
  by (simp add: remove_previous_def without_previous_def bind_step_def observe_def on_runs_def split: prod.splits)

text \<open>The registry after the admission of a resumed run, and whether it was admitted.\<close>

definition resumed_registry ::
    "readings \<Rightarrow> checkpoint_record \<Rightarrow> execution_contract \<Rightarrow> run_budgets option \<Rightarrow> value option \<Rightarrow> run_registry
      \<Rightarrow> (string + string) \<times> run_registry" where
  "resumed_registry rd c k budgets approval g =
     (case allocate_resumed (rd_millis rd) (cp_run_id c) (cp_graph_id c) (cp_graph_version c) (xc_input k)
         (cp_state c) budgets (cp_checkpoint_id c) (cp_checkpoint_digest c) approval
         (without_previous (cp_run_id c) g) of
        (Inl e, g1) \<Rightarrow> (Inl e, release_async_slot g1)
      | (Inr i, g1) \<Rightarrow> (case admit_reserved_async i g1 of
            (Inl e, g2) \<Rightarrow> (Inl e, release_async_slot (snd (remove_run i g2)))
          | (Inr _, g2) \<Rightarrow> (Inr i, g2)))"

lemma admit_resumed_eq:
  "admit_resumed env rd c k budgets approval s =
     (case resumed_registry rd c k budgets approval (sv_runs s) of
        (Inl e, g) \<Rightarrow> (Inl (Replies (error_output e ''RUN_CAPACITY'')), s\<lparr>sv_runs := g\<rparr>)
      | (Inr i, g) \<Rightarrow> bind_step (in_store (update_execution_status (rd_sql rd 0) i ''running'' None None None)) (\<lambda>r.
          bind_step (case r of None \<Rightarrow> refuse Panics | Some r \<Rightarrow> or_internal r) (\<lambda>_. give i)) (s\<lparr>sv_runs := g\<rparr>))"
  unfolding admit_resumed_def resumed_registry_def
  by (simp add: bind_step_def [of "remove_previous i" for i] bind_step_def [of "on_runs f" for f]
      bind_step_def [of "give x" for x] bind_step_def [of "release_and_refuse x" for x]
      bind_step_def [of "bind_step x y" for x y]
      remove_previous_eq on_runs_def release_and_refuse_eq split: prod.splits sum.splits)

lemma without_previous_reserved [simp]: "rg_reserved (without_previous i g) = rg_reserved g"
  by (simp add: without_previous_def)

lemma admit_reserved_count:
  "rg_reserved (snd (admit_reserved_async i g)) = (if isl (fst (admit_reserved_async i g))
     then rg_reserved g else rg_reserved g - 1)"
  by (auto simp: admit_reserved_async_def admit_def split: option.splits)

lemma resumed_registry_reserved: "rg_reserved (snd (resumed_registry rd c k budgets approval g)) = rg_reserved g - 1"
proof -
  obtain r g1 where a: "allocate_resumed (rd_millis rd) (cp_run_id c) (cp_graph_id c) (cp_graph_version c)
      (xc_input k) (cp_state c) budgets (cp_checkpoint_id c) (cp_checkpoint_digest c) approval
      (without_previous (cp_run_id c) g) = (r, g1)" by fastforce
  have g1: "rg_reserved g1 = rg_reserved g"
    using a registry_reserved(2) [of "rd_millis rd" "cp_run_id c" "cp_graph_id c" "cp_graph_version c"
      "xc_input k" "cp_state c" budgets "cp_checkpoint_id c" "cp_checkpoint_digest c" approval
      "without_previous (cp_run_id c) g"] by simp
  show ?thesis
  proof (cases r)
    case (Inl e)
    then show ?thesis using a g1 by (simp add: resumed_registry_def release_async_slot_def)
  next
    case (Inr i)
    then show ?thesis
      using a g1 admit_reserved_count [of i g1]
      by (cases "admit_reserved_async i g1") (auto simp: resumed_registry_def release_async_slot_def split: sum.splits)
  qed
qed

lemma reserve_and_consume_eq:
  "reserve_and_consume env rd i s = (case sv_store s of
     None \<Rightarrow> (Inl (Replies (checkpoint_store_required ''deterministic resume'')), s)
   | Some con \<Rightarrow> (case reserve_async_slot (sv_runs s) of
       (Inl e, g) \<Rightarrow> (Inl (Replies (error_output e ''RUN_CAPACITY'')), s\<lparr>sv_runs := g\<rparr>)
     | (Inr _, g) \<Rightarrow> (case consume_resume_checkpoint (sn_store env) (rd_time rd 0) i con of
           (Inl e, con') \<Rightarrow> (Inl (Replies (checkpoint_error_output e)),
             s\<lparr>sv_runs := release_async_slot g, sv_store := Some con'\<rparr>)
         | (Inr c, con') \<Rightarrow> (Inr c, s\<lparr>sv_runs := g, sv_store := Some con'\<rparr>))))"
  by (simp add: reserve_and_consume_def Let_def need_store_def observe_def bind_step_def on_runs_def
      or_output_def must_store_def in_store_def release_and_refuse_eq with_code_def
      split: option.splits prod.splits sum.splits)

lemma reserve_pair:
  "reserve_async_slot g = (Inr u, g') \<Longrightarrow> g' = g\<lparr>rg_reserved := rg_reserved g + 1\<rparr>
     \<and> active_runs g + rg_reserved g < MAX_ACTIVE_RUNS"
  "reserve_async_slot g = (Inl e, g') \<Longrightarrow> g' = g"
  by (auto simp: reserve_async_slot_def split: if_splits)

text \<open>What a resumption does to the registry is done before the store is asked again.\<close>

definition same_runs :: "server \<Rightarrow> server \<Rightarrow> bool" where
  "same_runs s s' \<longleftrightarrow> sv_runs s' = sv_runs s"

lemma effect_any [keep_intros]: "effect (\<lambda>_ _. True) m"
  by (simp add: effect_def)

interpretation runs: server_relation same_runs "\<lambda>_ _. True"
  by unfold_locales (simp_all add: same_runs_def)

lemma launch_resumed_runs:
  "sv_runs (snd (launch_resumed env rd c k g budgets approval s)) =
     snd (resumed_registry rd c k budgets approval (sv_runs s))"
proof -
  obtain w g' where reg: "resumed_registry rd c k budgets approval (sv_runs s) = (w, g')" by fastforce
  show ?thesis
  proof (cases w)
    case (Inl e)
    then show ?thesis
      using reg by (simp add: launch_resumed_def bind_step_def [of "admit_resumed env rd c k budgets approval"] admit_resumed_eq)
  next
    case (Inr i)
    let ?tail = "bind_step (in_store (update_execution_status (rd_sql rd 0) i ''running'' None None None)) (\<lambda>r.
          bind_step (case r of None \<Rightarrow> refuse Panics | Some r \<Rightarrow> or_internal r) (\<lambda>_. give i)) :: string handler"
    have "keeps same_runs (bind_step ?tail (\<lambda>j. bind_step (start_thread j spec p) (\<lambda>_. give (f j))))"
      for spec p and f :: "string \<Rightarrow> structured_output"
      unfolding start_thread_def by (intro keep_intros runs.modifies) (simp add: same_runs_def)
    then have "same_runs (s\<lparr>sv_runs := g'\<rparr>) (snd (launch_resumed env rd c k g budgets approval s))"
      using reg Inr by (simp add: launch_resumed_def bind_step_def [of "admit_resumed env rd c k budgets approval"]
        admit_resumed_eq keeps_def bind_step_def [of ?tail])
    then show ?thesis using reg by (simp add: same_runs_def)
  qed
qed

lemma launch_resumed_slots:
  "rg_reserved (sv_runs (snd (launch_resumed env rd c k g budgets approval s))) = rg_reserved (sv_runs s) - 1"
  by (simp add: launch_resumed_runs resumed_registry_reserved)

lemma resume_tail_slots: "keeps slot_step (resume_tail env rd i k g budgets)"
  unfolding keeps_def slot_step_def resume_tail_def
  by (auto simp: bind_step_def reserve_and_consume_eq launch_resumed_slots release_async_slot_def
      split: option.splits prod.splits sum.splits dest!: reserve_pair)

interpretation slot: tool_relation slot_step env UNIV for env
proof
  fix rd name g input budgets p el
  show "keeps slot_step (begin_run env rd name g input budgets)"
    unfolding begin_run_def admit_run_def note_execution_def start_thread_def
    by (intro slot_intros) (simp_all add: slot_step_def)
  show "keeps slot_step (start_checkpoint env rd p g budgets el)"
    unfolding start_checkpoint_def drop_run_def Let_def by (intro slot_intros) (simp_all add: slot_step_def)
next
  fix raw g rd overwrite
  show "keeps slot_step (register_graph env rd overwrite g)"
    unfolding register_graph_def Let_def by (intro slot_intros) (simp add: slot_step_def)
qed (simp_all add: resume_tail_slots slot_step_def)

lemma settle_execution_reserved:
  "settle_execution cr len ej url model st spec started initial x g = (r, g') \<Longrightarrow> rg_reserved g' = rg_reserved g"
  by (auto simp: settle_execution_def Let_def split: sum.splits)

lemma persist_and_mark_runs:
  "\<exists>status error. sv_runs (persist_terminal_and_mark env now r s) =
     mark_persistence (sn_crypto env) (rr_run_id r) status error (sv_runs s)"
  by (cases "sv_store s") (auto simp: persist_terminal_and_mark_def in_store_def Let_def split: prod.splits sum.splits)

text \<open>The registry after the execution of a thread, before it is recorded in the store.\<close>

definition settled_runs ::
    "server_env \<Rightarrow> witness_lookup option \<Rightarrow> run_launch \<Rightarrow> run_record \<Rightarrow> string + execution_end \<Rightarrow> run_registry
      \<Rightarrow> run_registry" where
  "settled_runs env witnesses l started outcome g =
     (case (case outcome of
              Inl e \<Rightarrow> (Inl e, g)
            | Inr x \<Rightarrow> settle_execution (sn_crypto env) (sn_len env) (sn_event_json env) (sn_base_url env)
                (sn_default_model env) witnesses (la_spec l) started no_counters x g) of
        (Inl e, g') \<Rightarrow> fail_execution (la_run_id l) e g' | (Inr _, g') \<Rightarrow> g')"

lemma finish_launch_eq:
  "finish_launch env now witnesses l started outcome s =
     (let g = settled_runs env witnesses l started outcome (sv_runs s); s' = s\<lparr>sv_runs := g\<rparr> in
      case get_run (la_run_id l) g of None \<Rightarrow> s' | Some r \<Rightarrow> persist_terminal_and_mark env now r s')"
  by (simp add: finish_launch_def settled_runs_def Let_def)

lemma settled_runs_reserved [simp]:
  "rg_reserved (settled_runs env witnesses l started outcome g) = rg_reserved g"
  by (auto simp: settled_runs_def split: sum.splits prod.splits dest: settle_execution_reserved)

lemma move_slots: "slot_step s (make_move env m s)"
proof (cases m)
  case (Serves rd c)
  then show ?thesis using slot.call by simp
next
  case (Wait_ends now r)
  then show ?thesis using persist_and_mark_runs [of env now r s] by (auto simp: slot_step_def)
next
  case (Thread_ends now witnesses l started outcome)
  let ?g = "settled_runs env witnesses l started outcome (sv_runs s)"
  show ?thesis
  proof (cases "get_run (la_run_id l) ?g")
    case None
    then show ?thesis using Thread_ends by (simp add: finish_launch_eq Let_def slot_step_def)
  next
    case (Some r)
    obtain status error where "sv_runs (persist_terminal_and_mark env now r (s\<lparr>sv_runs := ?g\<rparr>)) =
        mark_persistence (sn_crypto env) (rr_run_id r) status error ?g"
      using persist_and_mark_runs [of env now r "s\<lparr>sv_runs := ?g\<rparr>"] by auto
    then show ?thesis using Some Thread_ends by (simp add: finish_launch_eq Let_def slot_step_def)
  qed
qed (use slot.execute_part_moves in \<open>simp_all add: slot_step_def\<close>)

section \<open>Registered graphs\<close>

definition typed_graph :: "server_env \<Rightarrow> string \<Rightarrow> registered_graph \<Rightarrow> bool" where
  "typed_graph env name g \<longleftrightarrow> gs_name (gr_spec g) = name \<and> validate (gr_spec g) = Inr ()
     \<and> normalize (gr_spec g) = gr_spec g \<and> unsupported_node (gr_spec g) = None
     \<and> gr_normalized g = spec_value (gr_spec g) \<and> gr_version g = digest (sn_crypto env) (gr_normalized g)"

definition typed_server :: "server_env \<Rightarrow> server \<Rightarrow> bool" where
  "typed_server env s \<longleftrightarrow> hm_wf (sv_graphs s) \<and> (\<forall>(name, g) \<in> set (sv_graphs s). typed_graph env name g)"

definition typed_step :: "server_env \<Rightarrow> server \<Rightarrow> server \<Rightarrow> bool" where
  "typed_step env s s' \<longleftrightarrow> (typed_server env s \<longrightarrow> typed_server env s')"

lemma normalize_fields [simp]:
  "gs_nodes (normalize s) = gs_nodes s" "gs_edges (normalize s) = gs_edges s"
  "gs_name (normalize s) = gs_name s" "gs_entry (normalize s) = gs_entry s"
  "gs_reducers (normalize s) = gs_reducers s" "gs_output_key (normalize s) = gs_output_key s"
  "node_ids (normalize s) = node_ids s" "normalize (normalize s) = normalize s"
  by (simp_all add: normalize_def node_ids_def)

lemma validate_normalize: "validate s = Inr () \<Longrightarrow> validate (normalize s) = Inr ()"
  by (simp add: validate_def validate_state_write_conflicts_def Let_def normalize_def node_ids_def MAX_ITERATIONS_def)

lemma validated_spec_typed:
  assumes "validated_spec env raw = Inr spec"
  shows "validate spec = Inr ()" "normalize spec = spec"
proof -
  from assms obtain s where "validate s = Inr ()" "spec = normalize s"
    by (auto simp: validated_spec_def parse_and_validate_def bind_result_Inr_iff)
  then show "validate spec = Inr ()" "normalize spec = spec"
    using validate_normalize by simp_all
qed

lemma graph_of_raw_typed:
  assumes "graph_of_raw env raw = Inr g"
  shows "typed_graph env (gs_name (gr_spec g)) g"
  using assms validated_spec_typed
  by (auto simp: graph_of_raw_def graph_of_spec_def typed_graph_def split: sum.splits option.splits)

lemma typed_register:
  "typed_server env s \<Longrightarrow> typed_graph env name g \<Longrightarrow>
   typed_server env (s\<lparr>sv_graphs := AList.update name g (sv_graphs s)\<rparr>)"
  using set_update_subset [of name g "sv_graphs s"] by (auto simp: typed_server_def)

lemma delete_subset: "set (AList.delete k m) \<subseteq> set m"
  by (auto simp: AList.delete_eq)

lemma typed_forget: "typed_server env s \<Longrightarrow> typed_server env (s\<lparr>sv_graphs := AList.delete name (sv_graphs s)\<rparr>)"
  using delete_subset [of name "sv_graphs s"] by (auto simp: typed_server_def)

lemma typed_blind [simp]:
  "typed_server env (s\<lparr>sv_runs := g\<rparr>) = typed_server env s"
  "typed_server env (s\<lparr>sv_store := c\<rparr>) = typed_server env s"
  "typed_server env (s\<lparr>sv_launched := ls\<rparr>) = typed_server env s"
  by (simp_all add: typed_server_def)

interpretation typed: server_relation "typed_step env" "store_change\<^sup>*\<^sup>*" for env
  by unfold_locales (simp_all add: typed_step_def)

lemmas typed_intros = keep_intros change_intros typed.on_runs typed.modifies

interpretation typed: tool_relation "typed_step env" env UNIV for env
proof
  fix rd name g input budgets p el i k
  show "keeps (typed_step env) (begin_run env rd name g input budgets)"
    unfolding begin_run_def admit_run_def note_execution_def start_thread_def
    by (intro typed_intros) (simp_all add: typed_step_def)
  show "keeps (typed_step env) (start_checkpoint env rd p g budgets el)"
    unfolding start_checkpoint_def drop_run_def Let_def by (intro typed_intros) (simp_all add: typed_step_def)
  show "keeps (typed_step env) (resume_tail env rd i k g budgets)"
    unfolding resume_tail_def reserve_and_consume_def launch_resumed_def admit_resumed_def remove_previous_def
      release_and_refuse_def start_thread_def Let_def
    by (intro typed_intros) (simp_all add: typed_step_def)
next
  fix raw g rd overwrite
  assume "graph_of_raw env raw = Inr g"
  from typed_register [OF _ graph_of_raw_typed [OF this]]
  have "typed_step env s (s\<lparr>sv_graphs := AList.update (gs_name (gr_spec g)) g (sv_graphs s)\<rparr>)" for s
    by (simp add: typed_step_def)
  then show "keeps (typed_step env) (register_graph env rd overwrite g)"
    unfolding register_graph_def Let_def by (intro typed_intros)
qed (simp_all add: typed_step_def typed_forget)

lemma persist_and_mark_fields [simp]:
  "sv_graphs (persist_terminal_and_mark env now r s) = sv_graphs s"
  "sv_launched (persist_terminal_and_mark env now r s) = sv_launched s"
  by (cases "sv_store s"; auto simp: persist_terminal_and_mark_def in_store_def Let_def split: prod.splits sum.splits)+

lemma finish_launch_fields [simp]:
  "sv_graphs (finish_launch env now witnesses l started outcome s) = sv_graphs s"
  "sv_launched (finish_launch env now witnesses l started outcome s) = sv_launched s"
  by (auto simp: finish_launch_eq Let_def split: option.splits)

lemma typed_same_graphs: "sv_graphs s' = sv_graphs s \<Longrightarrow> typed_step env s s'"
  by (simp add: typed_step_def typed_server_def)

lemma move_typed: "typed_step env s (make_move env m s)"
  by (cases m)
    (simp_all only: typed.call typed.execute_part_moves subset_UNIV, simp_all add: typed_same_graphs)

section \<open>The number of graphs\<close>

definition few_graphs :: "server \<Rightarrow> bool" where
  "few_graphs s \<longleftrightarrow> length (sv_graphs s) \<le> MAX_GRAPHS"

definition few_step :: "server \<Rightarrow> server \<Rightarrow> bool" where
  "few_step s s' \<longleftrightarrow> (few_graphs s \<longrightarrow> few_graphs s')"

lemma few_blind [simp]:
  "few_graphs (s\<lparr>sv_runs := g\<rparr>) = few_graphs s" "few_graphs (s\<lparr>sv_store := c\<rparr>) = few_graphs s"
  "few_graphs (s\<lparr>sv_launched := ls\<rparr>) = few_graphs s"
  by (simp_all add: few_graphs_def)

interpretation few: server_relation few_step "store_change\<^sup>*\<^sup>*"
  by unfold_locales (simp_all add: few_step_def)

lemmas few_intros = keep_intros change_intros few.on_runs few.modifies

lemma register_few: "keeps few_step (register_graph env rd False g)"
  unfolding keeps_def few_step_def
proof (intro allI impI)
  fix s
  let ?name = "gs_name (gr_spec g)"
  assume few: "few_graphs s"
  obtain r s' where r: "register_graph env rd False g s = (r, s')" by fastforce
  show "few_graphs (snd (register_graph env rd False g s))"
  proof (cases "\<not> contains_key (sv_graphs s) ?name \<and> MAX_GRAPHS \<le> length (sv_graphs s)")
    case True
    then show ?thesis
      using few by (simp add: register_graph_def Let_def bind_step_def observe_def answer_if_def)
  next
    case False
    then have "length (AList.update ?name g (sv_graphs s)) \<le> MAX_GRAPHS"
      using few length_update [of ?name g "sv_graphs s"] by (auto simp: few_graphs_def)
    then show ?thesis
      using few False
      by (cases "sv_store s")
        (auto simp: register_graph_def Let_def bind_step_def observe_def answer_if_def modify_def in_store_def
          or_output_def few_graphs_def split: prod.splits sum.splits)
  qed
qed

interpretation few: tool_relation few_step env "{False}" for env
proof
  fix rd name g input budgets p el i k
  show "keeps few_step (begin_run env rd name g input budgets)"
    unfolding begin_run_def admit_run_def note_execution_def start_thread_def
    by (intro few_intros) (simp_all add: few_step_def)
  show "keeps few_step (start_checkpoint env rd p g budgets el)"
    unfolding start_checkpoint_def drop_run_def Let_def by (intro few_intros) (simp_all add: few_step_def)
  show "keeps few_step (resume_tail env rd i k g budgets)"
    unfolding resume_tail_def reserve_and_consume_def launch_resumed_def admit_resumed_def remove_previous_def
      release_and_refuse_def start_thread_def Let_def
    by (intro few_intros) (simp_all add: few_step_def)
next
  fix s name
  show "few_step s (s\<lparr>sv_graphs := AList.delete name (sv_graphs s)\<rparr>)"
    using AList.length_delete_le [of name "sv_graphs s"] by (simp add: few_step_def few_graphs_def)
qed (simp_all add: few_step_def register_few)

lemma few_same_graphs: "sv_graphs s' = sv_graphs s \<Longrightarrow> few_step s s'"
  by (simp add: few_step_def few_graphs_def)

lemma move_few:
  assumes "\<And>rd c. m = Serves rd c \<Longrightarrow> overwriting c \<subseteq> {False}"
  shows "few_step s (make_move env m s)"
proof (cases m)
  case (Serves rd c)
  then show ?thesis using few.call [OF assms [OF Serves]] by simp
qed (simp_all only: few.execute_part_moves, simp_all add: few_same_graphs)

end
