(* ===== verification/Tool_Capacity.thy ===== *)
theory Tool_Capacity
  imports Tool_Invariants
begin

text \<open>
  Runs and slots under the moves of the server: between two calls every run is running or
  has ended, so that a full registry always has a run to evict, and a resumption that has
  its slot is admitted.
\<close>

section \<open>Runs that wait for admission\<close>

definition settled :: "run_record \<Rightarrow> bool" where
  "settled r \<longleftrightarrow> is_running r \<or> terminal_status (rr_status r)"

definition calm_but :: "string set \<Rightarrow> run_registry \<Rightarrow> bool" where
  "calm_but X g \<longleftrightarrow> registry_ok g \<and> slots_ok g \<and> (\<forall>i r. map_of (rg_runs g) i = Some r \<longrightarrow> i \<in> X \<or> settled r)"

abbreviation calm :: "run_registry \<Rightarrow> bool" where "calm \<equiv> calm_but {}"

definition awaiting :: "string \<Rightarrow> run_registry \<Rightarrow> bool" where
  "awaiting i g \<longleftrightarrow> calm_but {i} g \<and> (\<exists>r. map_of (rg_runs g) i = Some r \<and> rr_status r = ''accepted'')"

lemma calm_empty: "calm empty_registry"
  by (simp add: calm_but_def registry_ok_empty) (simp add: empty_registry_def)

lemma settled_status: "rr_status r' = rr_status r \<Longrightarrow> settled r' = settled r"
  by (simp add: settled_def is_running_def)

lemma accepted_unsettled: "rr_status r = ''accepted'' \<Longrightarrow> \<not> settled r \<and> \<not> is_running r"
  by (simp add: settled_def is_running_def terminal_status_def)

lemma running_settled: "rr_status r = ''running'' \<Longrightarrow> settled r"
  by (simp add: settled_def is_running_def)

lemma calm_fields [simp]:
  "calm_but X (g\<lparr>rg_counter := n\<rparr>) = calm_but X g"
  by (simp add: calm_but_def)

lemma calm_evict: "calm_but X g \<Longrightarrow> calm_but (X - {i}) (evict i g)"
  by (auto simp: calm_but_def evict_ok evict_slots) (auto simp: evict_def split: if_splits)

lemma calm_weaken: "calm_but X g \<Longrightarrow> X \<subseteq> Y \<Longrightarrow> calm_but Y g"
  by (auto simp: calm_but_def)

lemma calm_insert:
  assumes "calm g" and "rr_status r = ''accepted''" and "insert_record r g = (v, g')"
  shows "(\<exists>e. v = Inl e \<and> g' = g) \<or> v = Inr (rr_run_id r) \<and> awaiting (rr_run_id r) g'"
proof -
  have ok: "registry_ok g'" "slots_ok g'"
    using insert_record_ok [of g r] insert_record_slots [of g r] accepted_unsettled [OF assms(2)] assms(1,3)
    by (simp_all add: calm_but_def)
  have old: "settled r'" if "map_of (rg_runs g) i = Some r'" for i r'
    using assms(1) that by (simp add: calm_but_def)
  show ?thesis
  proof (cases rule: insert_record_cases [of r g])
    case full
    then show ?thesis using assms(3) by simp
  next
    case (evicted j t)
    then have g': "g' = put_record r (evict j g)" "v = Inr (rr_run_id r)" using assms(3) by simp_all
    have "calm_but {rr_run_id r} g'"
      using ok old by (auto simp: calm_but_def g' put_record_def evict_def split: if_splits)
    then show ?thesis using g' assms(2) by (simp add: awaiting_def put_record_def)
  next
    case room
    then have g': "g' = put_record r g" "v = Inr (rr_run_id r)" using assms(3) by simp_all
    have "calm_but {rr_run_id r} g'"
      using ok old by (auto simp: calm_but_def g' put_record_def split: if_splits)
    then show ?thesis using g' assms(2) by (simp add: awaiting_def put_record_def)
  qed
qed

lemma calm_allocate:
  assumes "calm g" and "allocate_with_budgets ms name version input b g = (v, g')"
  shows "(\<exists>e. v = Inl e \<and> calm g') \<or> (\<exists>i. v = Inr i \<and> awaiting i g')"
  using assms calm_insert [of "g\<lparr>rg_counter := n\<rparr>" "accepted_record i t name version input b" v g' for n i t]
  by (fastforce simp: allocate_with_budgets_def Let_def accepted_record_def)

lemma calm_allocate_resumed:
  assumes "calm g" and "allocate_resumed ms i name version input st b c d a g = (v, g')"
  shows "(\<exists>e. v = Inl e \<and> g' = g) \<or> v = Inr i \<and> awaiting i g'"
  using calm_insert [OF assms(1) _ assms(2) [unfolded allocate_resumed_def]]
  by (simp add: accepted_record_def)

lemma awaiting_admit:
  assumes "awaiting i g"
  shows "\<exists>r. map_of (rg_runs g) i = Some r \<and> admit i g = (Inr (), set_record i (r\<lparr>rr_status := ''running''\<rparr>) g)"
  using assms by (auto simp: awaiting_def admit_def set_record_def)

lemma awaiting_set:
  assumes "awaiting i g" and "map_of (rg_runs g) i = Some r" and "settled r'" and "rr_run_id r' = rr_run_id r"
    and "slots_ok g'" and "g' = set_record i r' g \<or> g' = (set_record i r' g)\<lparr>rg_reserved := n\<rparr>"
  shows "calm g'"
proof -
  have "registry_ok (set_record i r' g)"
    using assms(1,2,4) set_record_ok by (auto simp: awaiting_def calm_but_def)
  then show ?thesis
    using assms by (auto simp: awaiting_def calm_but_def split: if_splits) blast+
qed

lemma awaiting_admit_async:
  assumes "awaiting i g" and "admit_async i g = (v, g')"
  shows "(\<exists>e. v = Inl e \<and> g' = g) \<or> v = Inr () \<and> calm g'"
proof -
  obtain r where r: "map_of (rg_runs g) i = Some r"
      "admit i g = (Inr (), set_record i (r\<lparr>rr_status := ''running''\<rparr>) g)"
    using awaiting_admit [OF assms(1)] by blast
  have "slots_ok g'"
    using admit_async_slots [of g i] assms by (simp add: awaiting_def calm_but_def)
  from awaiting_set [OF assms(1) r(1) _ _ this, of "r\<lparr>rr_status := ''running''\<rparr>"] show ?thesis
    using assms(2) r by (auto simp: admit_async_def running_settled split: if_splits)
qed

lemma awaiting_admit_reserved:
  assumes "awaiting i g" and "admit_reserved_async i g = (v, g')"
  shows "rg_reserved g = 0 \<and> g' = g \<or> v = Inr () \<and> calm g'"
proof -
  obtain r where r: "map_of (rg_runs g) i = Some r"
      "admit i g = (Inr (), set_record i (r\<lparr>rr_status := ''running''\<rparr>) g)"
    using awaiting_admit [OF assms(1)] by blast
  have "slots_ok g'"
    using admit_reserved_slots [of g i] assms by (simp add: awaiting_def calm_but_def)
  from awaiting_set [OF assms(1) r(1) _ _ this, of "r\<lparr>rr_status := ''running''\<rparr>"] show ?thesis
    using assms(2) r by (auto simp: admit_reserved_async_def running_settled split: if_splits)
qed

lemma awaiting_remove: "awaiting i g \<Longrightarrow> remove_run i g = (v, g') \<Longrightarrow> calm g'"
  using calm_evict [of "{i}" g i] by (auto simp: awaiting_def remove_run_def split: if_splits)

lemma awaiting_mark:
  assumes "awaiting i g" and "mark_checkpointed i c d g = (v, g')"
  shows "v = Inr () \<and> calm g'"
proof -
  obtain r where r: "map_of (rg_runs g) i = Some r" "rr_status r = ''accepted''"
    using assms(1) by (auto simp: awaiting_def)
  let ?r = "r\<lparr>rr_status := ''checkpointed'', rr_checkpoint_id := Some c, rr_checkpoint_digest := Some d\<rparr>"
  have g': "v = Inr ()" "g' = set_record i ?r g"
    using assms(2) r by (auto simp: mark_checkpointed_def update_record_def set_record_def)
  have "slots_ok g'"
    using assms(1) r g' set_record_slots [of g i r ?r] by (simp add: awaiting_def calm_but_def is_running_def)
  from awaiting_set [OF assms(1) r(1) _ _ this, of ?r] show ?thesis
    using g' by (simp add: settled_def terminal_status_def)
qed

lemma calm_set:
  assumes "calm g" and "map_of (rg_runs g) i = Some r" and "settled r'" and "rr_run_id r' = rr_run_id r"
    and "is_running r' \<Longrightarrow> is_running r"
  shows "calm (set_record i r' g)"
  using assms set_record_ok [of g i r r'] set_record_slots [of g i r r']
  by (auto simp: calm_but_def)

lemma calm_cancel:
  assumes "calm g"
  shows "calm (snd (cancel_run i g))"
proof (cases "map_of (rg_runs g) i")
  case None
  then show ?thesis using assms by (simp add: cancel_run_def)
next
  case (Some r)
  then have "settled r" using assms by (simp add: calm_but_def)
  then have "calm (set_record i (r\<lparr>rr_cancelled := True\<rparr>) g)"
    using calm_set [OF assms Some, of "r\<lparr>rr_cancelled := True\<rparr>"]
    by (simp add: settled_status [of "r\<lparr>rr_cancelled := True\<rparr>" r] is_running_def)
  then show ?thesis using Some assms by (simp add: cancel_run_def set_record_def)
qed

lemma calm_remove: "calm g \<Longrightarrow> calm (snd (remove_run i g))"
  using calm_evict [of "{}" g i] by (auto simp: remove_run_def split: option.splits)

lemma calm_without_previous: "calm g \<Longrightarrow> calm (without_previous i g)"
  by (simp add: without_previous_def calm_remove)

lemma calm_reserve: "calm g \<Longrightarrow> calm (snd (reserve_async_slot g))"
  by (auto simp: reserve_async_slot_def calm_but_def slots_ok_def active_runs_def)

lemma calm_release: "calm g \<Longrightarrow> calm (release_async_slot g)"
  by (auto simp: release_async_slot_def calm_but_def slots_ok_def active_runs_def)

lemma awaiting_release: "awaiting i g \<Longrightarrow> awaiting i (release_async_slot g)"
  by (auto simp: release_async_slot_def awaiting_def calm_but_def slots_ok_def active_runs_def)

lemma calm_resumed_registry:
  assumes "calm g"
  shows "calm (snd (resumed_registry rd c k budgets approval g))"
proof -
  obtain v g1 where a: "allocate_resumed (rd_millis rd) (cp_run_id c) (cp_graph_id c) (cp_graph_version c)
      (xc_input k) (cp_state c) budgets (cp_checkpoint_id c) (cp_checkpoint_digest c) approval
      (without_previous (cp_run_id c) g) = (v, g1)" by fastforce
  note alloc = calm_allocate_resumed [OF calm_without_previous [OF assms] a]
  show ?thesis
  proof (cases v)
    case (Inl e)
    then show ?thesis
      using alloc a calm_release [OF calm_without_previous [OF assms]] by (simp add: resumed_registry_def)
  next
    case (Inr i)
    then have i: "awaiting i g1" using alloc by simp
    obtain w g2 where w: "admit_reserved_async i g1 = (w, g2)" by fastforce
    obtain w' g3 where rm: "remove_run i g2 = (w', g3)" by fastforce
    show ?thesis
    proof (cases w)
      case err: (Inl e)
      then have "g2 = g1" using awaiting_admit_reserved [OF i w] by auto
      then have "calm g3" using awaiting_remove [OF i] rm by simp
      then show ?thesis using a Inr w err rm calm_release by (simp add: resumed_registry_def)
    next
      case ok: (Inr u)
      then have "calm g2" using awaiting_admit_reserved [OF i w] w by (auto simp: admit_reserved_async_def)
      then show ?thesis using a Inr w ok by (simp add: resumed_registry_def)
    qed
  qed
qed

section \<open>The server\<close>

definition calm_step :: "server \<Rightarrow> server \<Rightarrow> bool" where
  "calm_step s s' \<longleftrightarrow> (calm (sv_runs s) \<longrightarrow> calm (sv_runs s'))"

interpretation calm: server_relation calm_step "store_change\<^sup>*\<^sup>*"
  by unfold_locales (simp_all add: calm_step_def)

definition runs_hold :: "(run_registry \<Rightarrow> bool) \<Rightarrow> server \<Rightarrow> bool" where
  [simp]: "runs_hold P s = P (sv_runs s)"

lemma triple_same_runs: "keeps same_runs m \<Longrightarrow> (\<And>e g. P g \<Longrightarrow> E e g) \<Longrightarrow>
    triple (runs_hold P) m (\<lambda>_. runs_hold P) (\<lambda>e. runs_hold (E e))"
  by (rule triple_keeps) (auto simp: keeps_def same_runs_def)

lemma triple_runs:
  "(\<And>g r g'. P g \<Longrightarrow> f g = (r, g') \<Longrightarrow> Q r g') \<Longrightarrow>
   triple (runs_hold P) (on_runs f) (\<lambda>r. runs_hold (Q r)) E"
  by (rule triple_on_runs) simp

definition allocated :: "string + string \<Rightarrow> run_registry \<Rightarrow> bool" where
  [simp]: "allocated r g = (case r of Inl _ \<Rightarrow> calm g | Inr i \<Rightarrow> awaiting i g)"

lemma allocate_triple:
  "triple (runs_hold calm) (on_runs (allocate_with_budgets ms name version input b))
     (\<lambda>r. runs_hold (allocated r)) (\<lambda>_. runs_hold calm)"
proof (rule triple_runs)
  fix g r g'
  assume "calm g" and "allocate_with_budgets ms name version input b g = (r, g')"
  from calm_allocate [OF this] show "allocated r g'" by auto
qed

lemma or_internal_triple:
  "triple (runs_hold (allocated r)) (or_internal r) (\<lambda>i. runs_hold (awaiting i)) (\<lambda>_. runs_hold calm)"
  unfolding or_internal_def by (cases r) (auto intro!: triple_intros)

lemma keeps_of_triple:
  assumes "triple (runs_hold calm) m (\<lambda>_. runs_hold calm) (\<lambda>_. runs_hold calm)"
  shows "keeps calm_step m"
  unfolding keeps_def calm_step_def
proof (intro allI impI)
  fix s :: server
  assume "calm (sv_runs s)"
  then have start: "runs_hold calm s" by simp
  obtain r s' where m: "m s = (r, s')" by fastforce
  have "runs_hold calm s'"
  proof (cases r)
    case (Inl e)
    then show ?thesis using tripleD(1) [OF assms start] m by simp
  next
    case (Inr x)
    then show ?thesis using tripleD(2) [OF assms start] m by simp
  qed
  then show "calm (sv_runs (snd (m s)))" using m by simp
qed

lemma remove_triple:
  "triple (runs_hold (awaiting i)) (on_runs (remove_run i)) (\<lambda>_. runs_hold calm) (\<lambda>_. runs_hold calm)"
  by (rule triple_runs) (rule awaiting_remove)

lemma admit_run_triple:
  "triple (runs_hold (awaiting i)) (admit_run i) (\<lambda>_. runs_hold calm) (\<lambda>_. runs_hold calm)"
  unfolding admit_run_def
proof (rule triple_bind)
  show "triple (runs_hold (awaiting i)) (on_runs (admit_async i))
      (\<lambda>r. runs_hold (\<lambda>g. case r of Inl _ \<Rightarrow> awaiting i g | Inr _ \<Rightarrow> calm g)) (\<lambda>_. runs_hold calm)"
    by (rule triple_runs) (use awaiting_admit_async in fastforce)
next
  fix r :: "string + unit"
  show "triple (runs_hold (\<lambda>g. case r of Inl _ \<Rightarrow> awaiting i g | Inr _ \<Rightarrow> calm g))
      (case r of Inr _ \<Rightarrow> give () | Inl e \<Rightarrow> bind_step (on_runs (remove_run i))
        (\<lambda>_. refuse (Replies (error_output e ''RUN_CAPACITY''))))
      (\<lambda>_. runs_hold calm) (\<lambda>_. runs_hold calm)"
  proof (cases r)
    case (Inl e)
    show ?thesis
      unfolding Inl sum.case by (rule triple_bind [OF remove_triple]) (rule triple_refuse)
  next
    case (Inr u)
    show ?thesis
      unfolding Inr sum.case by (rule triple_give)
  qed
qed

lemma drop_run_triple:
  "triple (runs_hold (awaiting i)) (drop_run i out) Q (\<lambda>_. runs_hold calm)"
  unfolding drop_run_def by (rule triple_bind [OF remove_triple]) (rule triple_refuse)

lemma begin_run_calm: "keeps calm_step (begin_run env rd name g input budgets)"
proof -
  have tail: "keeps same_runs (bind_step (note_execution env (rd_sql rd 0) i name (gr_version g) ''running'' input)
      (\<lambda>_. bind_step (start_thread i (gr_spec g) None) (\<lambda>_. give i)))" for i
    unfolding note_execution_def start_thread_def
    by (intro keep_intros runs.modifies) (simp add: same_runs_def)
  have "triple (runs_hold calm) (begin_run env rd name g input budgets) (\<lambda>_. runs_hold calm) (\<lambda>_. runs_hold calm)"
    unfolding begin_run_def
    by (rule triple_bind [OF allocate_triple], rule triple_bind [OF or_internal_triple],
        rule triple_bind [OF admit_run_triple], rule triple_same_runs [OF tail])
  then show ?thesis by (rule keeps_of_triple)
qed

text \<open>The same with the store that the handler has found.\<close>

definition held :: "(run_registry \<Rightarrow> bool) \<Rightarrow> server \<Rightarrow> bool" where
  "held P s \<longleftrightarrow> P (sv_runs s) \<and> sv_store s \<noteq> None"

lemma held_runs:
  "(\<And>g r g'. P g \<Longrightarrow> f g = (r, g') \<Longrightarrow> Q r g') \<Longrightarrow> triple (held P) (on_runs f) (\<lambda>r. held (Q r)) E"
  by (rule triple_on_runs) (auto simp: held_def)

lemma held_store: "triple (held P) (must_store out m) (\<lambda>_. held P) E"
  by (auto simp: triple_def held_def must_store_def in_store_def bind_step_def split: prod.splits option.splits)

lemma held_in_store: "triple (held P) (in_store m) (\<lambda>_. held P) E"
  by (auto simp: triple_def held_def in_store_def split: prod.splits)

lemma need_store_held: "triple (runs_hold P) (need_store out) (\<lambda>_. held P) (\<lambda>_. runs_hold P)"
  by (simp add: triple_def held_def need_store_def bind_step_def observe_def)

lemma held_runs_hold: "held P s \<Longrightarrow> runs_hold P s"
  by (simp add: held_def)

lemma held_allocate:
  "triple (held calm) (on_runs (allocate_with_budgets ms name version input b)) (\<lambda>r. held (allocated r)) E"
proof (rule held_runs)
  fix g r g'
  assume "calm g" and "allocate_with_budgets ms name version input b g = (r, g')"
  from calm_allocate [OF this] show "allocated r g'" by auto
qed

lemma held_or_internal:
  "triple (held (allocated r)) (or_internal r) (\<lambda>i. held (awaiting i)) (\<lambda>_. runs_hold calm)"
proof (cases r)
  case (Inl e)
  show ?thesis unfolding Inl or_internal_def sum.case by (rule triple_refuse) (simp add: held_def)
next
  case (Inr i)
  show ?thesis unfolding Inr or_internal_def sum.case by (rule triple_give) (simp add: held_def)
qed

lemma held_drop: "triple (held (awaiting i)) (drop_run i out) Q (\<lambda>_. runs_hold calm)"
  by (rule triple_weaken [OF drop_run_triple]) (simp_all add: held_def)

lemma held_mark:
  "triple (held (awaiting i)) (on_runs (mark_checkpointed i c d)) (\<lambda>r. held (\<lambda>g. r = Inr () \<and> calm g)) E"
  by (rule held_runs) (rule awaiting_mark)

lemma held_marked:
  "triple (held (\<lambda>g. r = Inr () \<and> calm g)) (or_internal r) (\<lambda>_. runs_hold calm) (\<lambda>_. runs_hold calm)"
  by (auto simp: triple_def held_def or_internal_def split: sum.splits)

lemma start_checkpoint_calm: "keeps calm_step (start_checkpoint env rd p g budgets el)"
proof (rule keeps_of_triple, unfold start_checkpoint_def Let_def, rule triple_bind [OF need_store_held],
    rule triple_bind [OF held_allocate], rule triple_bind [OF held_or_internal], rule triple_bind [OF held_store])
  fix i and r :: "string + unit"
  let ?cp = "must_store (checkpoint_store_required ''deterministic checkpoints'')
     (create_resume_checkpoint (sn_store env) (rd_time rd 0) i (rs_graph_id p) (gr_version g) (next_node_cursor el)
        (initial_state_for_input (input_of (rs_input p))) (budgets_value budgets) (counters_value no_counters)
        (dependency_summary el) 0 0)"
  have saved: "triple (held (awaiting i)) (case r of Inl e \<Rightarrow> drop_run i (error_output e ''CHECKPOINT_PERSISTENCE_FAILURE'')
      | Inr _ \<Rightarrow> give ()) (\<lambda>_. held (awaiting i)) (\<lambda>_. runs_hold calm)"
    by (rule triple_sum [OF held_drop]) (rule triple_give)
  have created: "triple (held (awaiting i)) (case x of Inl e \<Rightarrow>
        bind_step (in_store (update_execution_status (rd_sql rd 1) i ''failed'' None None None))
          (\<lambda>_. drop_run i (checkpoint_error_output e))
      | Inr c \<Rightarrow> give c) (\<lambda>_. held (awaiting i)) (\<lambda>_. runs_hold calm)"
    for x :: "checkpoint_error + checkpoint_record"
    by (rule triple_sum [OF triple_bind [OF held_in_store held_drop]]) (rule triple_give)
  show "triple (held (awaiting i)) (bind_step (case r of Inl e \<Rightarrow> drop_run i (error_output e ''CHECKPOINT_PERSISTENCE_FAILURE'')
      | Inr _ \<Rightarrow> give ()) (\<lambda>_. bind_step ?cp (\<lambda>r. bind_step (case r of Inl e \<Rightarrow>
        bind_step (in_store (update_execution_status (rd_sql rd 1) i ''failed'' None None None))
          (\<lambda>_. drop_run i (checkpoint_error_output e))
      | Inr c \<Rightarrow> give c) (\<lambda>c. bind_step (on_runs (mark_checkpointed i (cp_checkpoint_id c) (cp_checkpoint_digest c)))
          (\<lambda>r. bind_step (or_internal r) (\<lambda>_. give (i, c))))))) (\<lambda>_. runs_hold calm) (\<lambda>_. runs_hold calm)"
    by (rule triple_bind [OF saved], rule triple_bind [OF held_store], rule triple_bind [OF created],
        rule triple_bind [OF held_mark], rule triple_bind [OF held_marked], rule triple_give)
qed

lemma resume_tail_calm: "keeps calm_step (resume_tail env rd i k g budgets)"
  unfolding keeps_def calm_step_def
proof (intro allI impI)
  fix s :: server
  assume calm: "calm (sv_runs s)"
  obtain v s1 where v: "reserve_and_consume env rd i s = (v, s1)" by fastforce
  have reserved: "calm (sv_runs s1)"
    using v calm calm_reserve [OF calm] calm_release
    by (auto simp: reserve_and_consume_eq split: option.splits prod.splits sum.splits)
  show "calm (sv_runs (snd (resume_tail env rd i k g budgets s)))"
  proof (cases v)
    case (Inl e)
    then show ?thesis using v reserved by (simp add: resume_tail_def bind_step_def)
  next
    case (Inr c)
    then show ?thesis
      using v calm_resumed_registry [OF reserved] by (simp add: resume_tail_def bind_step_def launch_resumed_runs)
  qed
qed

lemma register_calm: "keeps calm_step (register_graph env rd overwrite g)"
proof -
  have "keeps same_runs (register_graph env rd overwrite g)"
    unfolding register_graph_def Let_def
    by (intro keep_intros runs.modifies) (simp add: same_runs_def)
  then show ?thesis by (simp add: keeps_def same_runs_def calm_step_def)
qed

interpretation calm: tool_relation calm_step env UNIV for env
  by unfold_locales (simp_all add: begin_run_calm start_checkpoint_calm resume_tail_calm register_calm
      calm_step_def calm_cancel)

lemma settle_record_settled: "settled (settle_record cr ej spec started initial e rc gv x r)"
  by (simp add: settle_record_def terminal_outcome_def settled_def terminal_status_def Let_def)

lemma settle_execution_calm:
  assumes "calm g" and "settle_execution cr len ej url model st spec started initial x g = (v, g')"
  shows "calm g'"
proof -
  have "calm (set_record i (settle_record cr ej spec started initial e rc gv x now) g)"
    if "map_of (rg_runs g) i = Some now" for i e rc gv now
    using that by (rule calm_set [OF assms(1)]) (simp_all add: settle_record_settled)
  then show ?thesis
    using assms by (auto simp: settle_execution_def Let_def get_run_def set_record_def bind_result_Inr_iff
        split: sum.splits option.splits)
qed

lemma update_record_calm:
  assumes "calm g" and "\<And>r. settled r \<Longrightarrow> settled (f r)" and "\<And>r. rr_run_id (f r) = rr_run_id r"
    and "\<And>r. is_running (f r) \<Longrightarrow> is_running r"
  shows "calm (snd (update_record i f g))"
proof (cases "map_of (rg_runs g) i")
  case None
  then show ?thesis using assms(1) by (simp add: update_record_def)
next
  case (Some r)
  then have "settled r" using assms(1) by (simp add: calm_but_def)
  then show ?thesis
    using calm_set [OF assms(1) Some, of "f r"] assms Some by (simp add: update_record_def set_record_def)
qed

lemma fail_execution_calm: "calm g \<Longrightarrow> calm (fail_execution i e g)"
  unfolding fail_execution_def
  by (rule update_record_calm) (simp_all add: settled_def is_running_def terminal_status_def)

lemma mark_persistence_calm: "calm g \<Longrightarrow> calm (mark_persistence cr i status e g)"
  unfolding mark_persistence_def Let_def
  by (rule update_record_calm) (simp_all add: settled_def is_running_def)

lemma settled_runs_calm: "calm g \<Longrightarrow> calm (settled_runs env witnesses l started outcome g)"
  by (auto simp: settled_runs_def fail_execution_calm split: sum.splits prod.splits
      intro: settle_execution_calm fail_execution_calm)

lemma finish_launch_calm:
  assumes "calm (sv_runs s)"
  shows "calm (sv_runs (finish_launch env now witnesses l started outcome s))"
proof -
  let ?g = "settled_runs env witnesses l started outcome (sv_runs s)"
  have g: "calm ?g" using assms by (rule settled_runs_calm)
  have "calm (sv_runs (persist_terminal_and_mark env now r (s\<lparr>sv_runs := ?g\<rparr>)))" for r
    using persist_and_mark_runs [of env now r "s\<lparr>sv_runs := ?g\<rparr>"] mark_persistence_calm [OF g] by auto
  then show ?thesis
    using g by (simp add: finish_launch_eq Let_def split: option.splits)
qed

text \<open>A thread begins an execution that was admitted before it was started.\<close>

fun admitted_move :: "server_move \<Rightarrow> server \<Rightarrow> bool" where
  "admitted_move (Thread_begins i) s = begins_admitted (Do_begin i) (sv_runs s)"
| "admitted_move _ s = True"

lemma move_calm:
  assumes "calm (sv_runs s)" and "admitted_move m s"
  shows "calm (sv_runs (make_move env m s))"
proof (cases m)
  case (Serves rd c)
  then show ?thesis using calm.call [of c s env rd] assms(1) by (simp add: calm_step_def)
next
  case (Thread_begins i)
  have "calm (set_record i (r\<lparr>rr_status := ''running''\<rparr>) (sv_runs s))"
    if "map_of (rg_runs (sv_runs s)) i = Some r" "is_running r" for r
    using that by (intro calm_set [OF assms(1)]) (simp_all add: running_settled)
  then show ?thesis
    using assms Thread_begins by (auto simp: begin_execution_effect split: option.splits)
next
  case (Wait_ends now r)
  then show ?thesis
    using persist_and_mark_runs [of env now r s] mark_persistence_calm [OF assms(1)] by auto
next
  case (Thread_ends now witnesses l started outcome)
  then show ?thesis using finish_launch_calm [OF assms(1)] by simp
qed (use calm.execute_part_moves assms(1) in \<open>simp_all add: calm_step_def\<close>)

section \<open>A resumption with a slot is admitted\<close>

lemma calm_has_terminal:
  assumes "calm g" and "distinct (rg_order g)" and "length (rg_order g) = MAX_RUNS"
  shows "oldest_terminal g \<noteq> None"
proof
  assume none: "oldest_terminal g = None"
  have keys: "fst ` set (rg_runs g) = set (rg_order g)" and wf: "hm_wf (rg_runs g)"
    using assms(1) by (auto simp: calm_but_def registry_ok_def)
  have run: "is_running r" if "(i, r) \<in> set (rg_runs g)" for i r
  proof -
    have "map_of (rg_runs g) i = Some r" using that wf by (simp add: hm_wf_def)
    moreover have "i \<in> set (rg_order g)" using that keys by force
    ultimately have "\<not> terminal_status (rr_status r)" "settled r"
      using none assms(1) by (auto simp: oldest_terminal_def find_None_iff calm_but_def split: option.splits)
    then show ?thesis by (simp add: settled_def)
  qed
  have "active_runs g = length (rg_runs g)"
    using run by (auto simp: active_runs_count running_count_def filter_id_conv intro!: arg_cong [of _ _ length])
  moreover have "length (rg_runs g) = MAX_RUNS"
  proof -
    have "length (rg_runs g) = card (set (map fst (rg_runs g)))"
      using wf distinct_card [of "map fst (rg_runs g)"] by (simp add: hm_wf_def del: set_map)
    also have "\<dots> = MAX_RUNS"
      using keys assms(2,3) by (simp add: distinct_card)
    finally show ?thesis .
  qed
  moreover have "active_runs g \<le> MAX_ACTIVE_RUNS"
    using assms(1) by (simp add: calm_but_def slots_ok_def)
  ultimately show False by (simp add: MAX_RUNS_def MAX_ACTIVE_RUNS_def)
qed

lemma distinct_without_previous: "distinct (rg_order g) \<Longrightarrow> distinct (rg_order (without_previous i g))"
  by (auto simp: without_previous_def remove_run_def evict_def split: option.splits)

lemma resumed_registry_admits:
  assumes "calm g" and "distinct (rg_order g)" and "rg_reserved g \<noteq> 0"
  shows "\<exists>g'. resumed_registry rd c k budgets approval g = (Inr (cp_run_id c), g')"
proof -
  let ?g = "without_previous (cp_run_id c) g"
  obtain v g1 where a: "allocate_resumed (rd_millis rd) (cp_run_id c) (cp_graph_id c) (cp_graph_version c)
      (xc_input k) (cp_state c) budgets (cp_checkpoint_id c) (cp_checkpoint_digest c) approval ?g = (v, g1)"
    by fastforce
  have calm: "calm ?g" and d: "distinct (rg_order ?g)"
    using assms calm_without_previous distinct_without_previous by blast+
  have "v \<noteq> Inl e" for e
    using a calm_has_terminal [OF calm d]
    by (auto simp: allocate_resumed_def insert_record_def split: if_splits option.splits)
  then have v: "v = Inr (cp_run_id c)" and i: "awaiting (cp_run_id c) g1"
    using calm_allocate_resumed [OF calm a] by auto
  have "rg_reserved g1 = rg_reserved g"
    using a registry_reserved(2) [of "rd_millis rd" "cp_run_id c" "cp_graph_id c" "cp_graph_version c"
      "xc_input k" "cp_state c" budgets "cp_checkpoint_id c" "cp_checkpoint_digest c" approval ?g] by simp
  then show ?thesis
    using a v assms(3) awaiting_admit_reserved [OF i]
    by (cases "admit_reserved_async (cp_run_id c) g1") (auto simp: resumed_registry_def)
qed

end
