(* ===== verification/Tool_Keys.thy ===== *)
theory Tool_Keys
  imports Tool_Capacity Store_Claims
begin

text \<open>
  Idempotency keys of the tools: a call that completes under a key has bound the key, for
  all later moves of the server, and a call whose key is bound does nothing but answer.
\<close>

section \<open>Keys stay bound\<close>

text \<open>Every row can be given again: none was quarantined by a migration of the database.\<close>

definition replies_valid :: "tables \<Rightarrow> bool" where
  "replies_valid t \<longleftrightarrow> list_all (\<lambda>r. it_valid r \<and> it_request_digest r \<noteq> None) (tb_idempotency t)"

definition key_bound :: "string \<Rightarrow> server \<Rightarrow> bool" where
  "key_bound key s \<longleftrightarrow> (\<exists>d text. reply_under key (store_tables s) = Some (Some d, text, True))"

lemma replies_valid_change: "store_change t t' \<Longrightarrow> replies_valid t \<Longrightarrow> replies_valid t'"
proof (induction rule: store_change.induct)
  case (ch_reply t k d js)
  then show ?case by (auto simp: replies_valid_def insert_reply_def insert_or_ignore_def)
qed (auto simp: replies_valid_def insert_graph_version_def upsert_graph_def drop_graph_def
    upsert_execution_def upsert_receipt_def insert_witness_def insert_checkpoint_def consume_rows_def
    insert_approval_def decide_rows_def split: if_splits)

definition stored_step :: "server \<Rightarrow> server \<Rightarrow> bool" where
  "stored_step s s' \<longleftrightarrow> (sv_store s' = None \<longleftrightarrow> sv_store s = None)
     \<and> store_change\<^sup>*\<^sup>* (store_tables s) (store_tables s')"

interpretation stored: server_relation stored_step "store_change\<^sup>*\<^sup>*"
  by unfold_locales (auto simp: stored_step_def store_tables_def)

lemmas stored_intros = keep_intros change_intros stored.on_runs stored.modifies

lemma stored_blind [simp]:
  "stored_step s (s\<lparr>sv_runs := g\<rparr>)" "stored_step s (s\<lparr>sv_graphs := gs\<rparr>)" "stored_step s (s\<lparr>sv_launched := ls\<rparr>)"
  by (simp_all add: stored_step_def)

interpretation stored: tool_relation stored_step env UNIV for env
proof
  fix rd name g input budgets p el i k overwrite
  show "keeps stored_step (begin_run env rd name g input budgets)"
    unfolding begin_run_def admit_run_def note_execution_def start_thread_def
    by (intro stored_intros) simp_all
  show "keeps stored_step (start_checkpoint env rd p g budgets el)"
    unfolding start_checkpoint_def drop_run_def Let_def by (intro stored_intros) simp_all
  show "keeps stored_step (resume_tail env rd i k g budgets)"
    unfolding resume_tail_def reserve_and_consume_def launch_resumed_def admit_resumed_def remove_previous_def
      release_and_refuse_def start_thread_def Let_def
    by (intro stored_intros) simp_all
  show "keeps stored_step (register_graph env rd overwrite g)"
    unfolding register_graph_def Let_def by (intro stored_intros) simp
qed simp_all

lemma key_bound_stored: "stored_step s s' \<Longrightarrow> key_bound key s \<Longrightarrow> key_bound key s'"
  by (auto simp: stored_step_def key_bound_def dest: reply_kept_by_changes)

lemma replies_valid_changes: "store_change\<^sup>*\<^sup>* t t' \<Longrightarrow> replies_valid t \<Longrightarrow> replies_valid t'"
  by (induction rule: rtranclp_induct) (auto intro: replies_valid_change)

lemma replies_valid_stored: "stored_step s s' \<Longrightarrow> replies_valid (store_tables s) \<Longrightarrow> replies_valid (store_tables s')"
  using replies_valid_changes by (auto simp: stored_step_def)

lemma persist_and_mark_stored: "stored_step s (persist_terminal_and_mark env now r s)"
proof -
  obtain w s' where w: "(in_store (persist_terminal (sn_store env) now r) :: (server, unit, _) step) s = (w, s')"
    by fastforce
  have "keeps stored_step (in_store (persist_terminal (sn_store env) now r) :: (server, unit, _) step)"
    by (intro stored_intros)
  from keepsD [OF this w] show ?thesis
    using w stored.after [OF _ stored_blind(1)]
    by (auto simp: persist_terminal_and_mark_def Let_def split: prod.splits sum.splits option.splits)
qed

lemma finish_stored: "stored_step s (finish_launch env now witnesses l started outcome s)"
  using stored.after [OF stored_blind(1) persist_and_mark_stored] stored_blind(1)
  by (auto simp: finish_launch_eq Let_def split: option.splits)

lemma move_stored: "stored_step s (make_move env m s)"
  by (cases m) (simp_all only: stored.call stored.execute_part_moves subset_UNIV,
    simp_all add: finish_stored persist_and_mark_stored)

lemma moves_stored: "stored_step s (make_moves env ms s)"
  by (rule make_moves_invariant [where P = "stored_step s"]) (auto intro: stored.same stored.after move_stored)

section \<open>A completed call has bound its key\<close>

lemma valid_row_found:
  assumes "replies_valid t" and "list_ex (\<lambda>r. it_key r = key) (tb_idempotency t)"
  shows "\<exists>d text. reply_under key t = Some (Some d, text, True)"
proof -
  obtain r where r: "find (\<lambda>r. it_key r = key) (tb_idempotency t) = Some r"
    using assms(2) by (metis find_None_iff_list_ex not_None_eq)
  then have "it_valid r" "it_request_digest r \<noteq> None"
    using find_Some_in [OF r] assms(1) by (auto simp: replies_valid_def list_all_iff)
  then show ?thesis using r by (auto simp: reply_under_def)
qed

lemma saved_row:
  assumes "save_idempotency key d text con = (Inr inserted, con')"
  shows "list_ex (\<lambda>r. it_key r = key) (tb_idempotency (db_tables con'))"
  using assms
  by (auto simp: save_idempotency_def statement_def insert_reply_def insert_or_ignore_def
      split: list.splits option.splits)

lemma bind_reply_binds:
  assumes "bind_reply env (Some key) d out s = (Inr out', s')" and "sv_store s \<noteq> None"
    and "replies_valid (store_tables s)"
  shows "key_bound key s'"
proof -
  obtain con where con: "sv_store s = Some con" using assms(2) by blast
  obtain v con' where v: "save_idempotency key d (output_text (sn_crypto env) out) con = (v, con')" by fastforce
  let ?s = "s\<lparr>sv_store := Some con'\<rparr>"
  have "stored_step s ?s"
    using stored.store [OF con changesD [OF save_idempotency_changes v]] .
  then have valid: "replies_valid (store_tables ?s)" using replies_valid_stored assms(3) by blast
  obtain b where b: "v = Inr b"
    using assms(1) con v by (cases v) (auto simp: bind_reply_def persist_reply_def bind_step_def in_store_def or_internal_def)
  have bound: "key_bound key ?s"
    using valid_row_found [OF valid] saved_row v b by (auto simp: key_bound_def)
  show ?thesis
  proof (cases b)
    case True
    then show ?thesis
      using assms(1) con v b bound
      by (simp add: bind_reply_def persist_reply_def bind_step_def in_store_def or_internal_def)
  next
    case False
    obtain w s2 where w: "cached_reply env (Some key) d ?s = (w, s2)" by fastforce
    have "key_bound key s2"
      using key_bound_stored [OF keepsD [OF stored.replies(1) w] bound] .
    moreover have "s' = s2"
      using assms(1) con v b False w
      by (cases w) (simp_all add: bind_reply_def persist_reply_def bind_step_def in_store_def or_internal_def)
    ultimately show ?thesis by simp
  qed
qed

lemma triple_prefix:
  assumes "keeps R m" and "\<And>s t. I s \<Longrightarrow> R s t \<Longrightarrow> I t" and "\<And>x. triple I (f x) Q E" and "\<And>e s. I s \<Longrightarrow> E e s"
  shows "triple I (bind_step m f) Q E"
proof (rule triple_bind [OF triple_keeps assms(3)])
  show "keeps (\<lambda>s s'. I s \<longrightarrow> I s') m"
    using assms(1,2) by (auto simp: keeps_def)
qed (use assms(4) in simp)

definition replied :: "server_env \<Rightarrow> string option \<Rightarrow> server \<Rightarrow> structured_output \<Rightarrow> server \<Rightarrow> bool" where
  "replied env key s out s' \<longleftrightarrow> (\<exists>d out' t. stored_step s t \<and> bind_reply env key d out' t = (Inr out, s'))"

lemma reply_at_end:
  "triple (stored_step s) (bind_reply env key d out) (replied env key s) (\<lambda>_ _. True)"
  by (fastforce simp: triple_def replied_def split: prod.splits sum.splits)

lemma start_replied:
  "triple (stored_step s) (graph_run_start env rd p) (replied env (rs_idempotency_key p) s) (\<lambda>_ _. True)"
proof -
  have prefix: "triple (stored_step s) (bind_step m f) Q (\<lambda>_ _. True)"
    if "keeps stored_step m" "\<And>x. triple (stored_step s) (f x) Q (\<lambda>_ _. True)"
    for m :: "'x handler" and f :: "'x \<Rightarrow> structured_output handler" and Q
    using triple_prefix [OF that(1) stored.after that(2)] by simp
  show ?thesis
    unfolding graph_run_start_def start_eligibility_def check_input_def
    by (rule prefix, (intro keep_intros stored.begins_run stored.starts_checkpoint) [])+ (rule reply_at_end)
qed

lemma start_binds:
  assumes "graph_run_start env rd p s = (Inr out, s')" and "rs_idempotency_key p = Some key"
    and "sv_store s \<noteq> None" and "replies_valid (store_tables s)"
  shows "key_bound key s'"
proof -
  have "replied env (Some key) s out s'"
    using tripleD(2) [OF start_replied stored.same assms(1)] assms(2) by simp
  then obtain d out' t where t: "stored_step s t" "bind_reply env (Some key) d out' t = (Inr out, s')"
    by (auto simp: replied_def)
  from t(2) show ?thesis
    by (rule bind_reply_binds) (use t(1) assms(3) replies_valid_stored [OF t(1) assms(4)] in \<open>simp_all add: stored_step_def\<close>)
qed

section \<open>A bound key\<close>

text \<open>A server whose database has no error to give is left exactly as it is by what only reads.\<close>

definition answering :: "server \<Rightarrow> bool" where
  "answering s \<longleftrightarrow> (case sv_store s of None \<Rightarrow> True | Some con \<Rightarrow> db_faults con = [])"

definition idle_step :: "server \<Rightarrow> server \<Rightarrow> bool" where
  "idle_step s s' \<longleftrightarrow> (answering s \<longrightarrow> s' = s)"

interpretation idle: server_relation idle_step "\<lambda>_ _. False"
  by unfold_locales (auto simp: idle_step_def)

lemma query_answers: "db_faults con = [] \<Longrightarrow> query err f con = (Inr (f (db_tables con)), con)"
  by (simp add: query_def statement_def)

lemma idle_version [keep_intros]: "keeps idle_step (in_store (load_graph_version name v))"
  by (auto simp: keeps_def idle_step_def answering_def in_store_def load_graph_version_def row_ok_def query_answers
      split: option.splits)

lemma idle_reads [keep_intros]:
  "keeps idle_step (resolve_graph env name v)" "keeps idle_step (need_witness_store spec)"
  "keeps idle_step (start_eligibility p spec)" "keeps idle_step (check_input env input)"
  unfolding resolve_graph_def find_graph_def need_witness_store_def start_eligibility_def
    need_eligibility_def check_input_def
  by (intro keep_intros)+

lemma bound_row:
  assumes "reply_under key t = Some (Some d, text, True)"
  shows "stored_reply key t = Some (Some d, text)"
proof -
  obtain r where r: "find (\<lambda>r. it_key r = key) (tb_idempotency t) = Some r"
      "it_request_digest r = Some d" "it_result_json r = text" "it_valid r"
    using assms by (auto simp: reply_under_def)
  have "find (replayable key) (tb_idempotency t) = Some r"
    using r(1) by (rule find_stronger) (use r find_Some_in [OF r(1)] in \<open>simp_all add: replayable_def\<close>)
  then show ?thesis using r by (simp add: stored_reply_def)
qed

lemma bound_replay:
  assumes "key_bound key s" and "sv_store s = Some con" and "db_faults con = []"
  shows "\<exists>r. replay env (Some key) d s = (Inl r, s)"
proof -
  obtain d' js where row: "stored_reply key (db_tables con) = Some (Some d', js)"
    using assms(1,2) bound_row by (auto simp: key_bound_def store_tables_def)
  then have "check_idempotency (sn_store env) key con = (case se_parse (sn_store env) js of
      Inl e \<Rightarrow> (Inl (prefixed ''json parse error'' e), con) | Inr v \<Rightarrow> (Inr (Some (Some d', v)), con))"
    using assms(3) by (simp add: check_idempotency_def bind_step_def row_ok_def query_answers split: sum.splits)
  then show ?thesis
    using assms(2)
    by (auto simp: replay_def cached_reply_def bind_step_def in_store_def or_internal_def split: sum.splits option.splits)
qed

text \<open>A tool whose steps before the replay only read ends there.\<close>

definition only_answers :: "server \<Rightarrow> (server, reply, 'a) step \<Rightarrow> bool" where
  "only_answers s m \<longleftrightarrow> (\<exists>r. m s = (Inl r, s))"

lemma only_answers_bind:
  assumes "keeps idle_step m" and "answering s" and "\<And>x. only_answers s (f x)"
  shows "only_answers s (bind_step m f)"
proof -
  obtain r s' where m: "m s = (r, s')" by fastforce
  then have "s' = s" using keepsD [OF assms(1) m] assms(2) by (simp add: idle_step_def)
  then show ?thesis using m assms(3) by (cases r) (auto simp: only_answers_def bind_step_def)
qed

lemma only_answers_end: "only_answers s m \<Longrightarrow> only_answers s (bind_step m f)"
  by (auto simp: only_answers_def bind_step_def)

lemma bound_tools:
  assumes "key_bound key s" and "sv_store s = Some con" and "db_faults con = []"
  shows "rs_idempotency_key p = Some key \<Longrightarrow> only_answers s (graph_run_start env rd p)"
    and "ge_idempotency_key q = Some key \<Longrightarrow> only_answers s (execute_setup env rd q)"
proof -
  have ok: "answering s" using assms(2,3) by (simp add: answering_def)
  have replay: "only_answers s (replay env (Some key) d)" for d
    using bound_replay [OF assms] by (simp add: only_answers_def)
  show "only_answers s (graph_run_start env rd p)" if "rs_idempotency_key p = Some key"
    unfolding graph_run_start_def that
    by (rule only_answers_bind [OF _ ok], (intro keep_intros) [])+ (intro only_answers_end replay)
  show "only_answers s (execute_setup env rd q)" if "ge_idempotency_key q = Some key"
    unfolding execute_setup_def that
    by (rule only_answers_bind [OF _ ok], (intro keep_intros) [])+ (intro only_answers_end replay)
qed

end
