(* ===== verification/Tool_Properties.thy ===== *)
theory Tool_Properties
  imports Tool_Capacity Tool_Keys Store_Claims "HOL-Library.Code_Target_Nat"
begin

text \<open>
  The properties of the server and its tools: over the sequences of moves, over the servers
  that run on one database after another, and over a call that waits.
\<close>

section \<open>Samples\<close>

definition quiet_env :: server_env where
  "quiet_env = \<lparr>sn_store = sample_env, sn_len = (\<lambda>_. 0), sn_spec_error = (\<lambda>_. []), sn_output_error = (\<lambda>_. []),
     sn_pointer = (\<lambda>_ _. None), sn_event_json = (\<lambda>_. Null), sn_base_url = [], sn_default_model = []\<rparr>"

definition first_readings :: readings where
  "first_readings = \<lparr>rd_millis = 1, rd_sql = (\<lambda>_. ''t''), rd_time = (\<lambda>_. 1)\<rparr>"

definition creating :: "string \<Rightarrow> server_move" where
  "creating mode = Serves first_readings (Call_graph_create \<lparr>gc_spec = Some (Object []), gc_action = Some mode,
     gc_graph_id = Some ''g'', gc_idempotency_key = None, gc_template = None, gc_overwrite = None\<rparr>)"

text \<open>
  A server on a database whose texts are the four values that it writes: a chain of one node
  is created and a run of it is started with a checkpoint.
\<close>

definition chain_graph :: graph_spec where
  "chain_graph = normalize \<lparr>gs_spec_version = ''2'', gs_name = ''g'', gs_entry = ''n'', gs_output_key = None,
     gs_nodes = [\<lparr>ns_id = ''n'', ns_type = Type_passthrough, ns_prompt = None, ns_model = None,
       ns_json_mode = False, ns_evidence_required = False, ns_max_tokens = None, ns_routes = None,
       ns_config = Object []\<rparr>],
     gs_edges = [\<lparr>es_from = ''n'', es_to = ''END''\<rparr>], gs_max_iterations = None,
     gs_max_parallelism = None, gs_reducers = []\<rparr>"

definition written_values :: "value list" where
  "written_values = [Null, initial_state_for_input Null, counters_value no_counters,
     dependency_summary (eligibility_of chain_graph [''n''])]"

definition write_value :: "value \<Rightarrow> string" where
  "write_value v = (case find (\<lambda>i. written_values ! i = v) [0, 1, 2, 3] of
     None \<Rightarrow> ''?'' | Some i \<Rightarrow> replicate i (CHR ''i''))"

definition read_value :: "string \<Rightarrow> string + value" where
  "read_value t = (if set t \<subseteq> {CHR ''i''} \<and> length t < 4 then Inr (written_values ! length t) else Inl ''unreadable'')"

definition book_server :: server_env where
  "book_server = quiet_env\<lparr>sn_store := sample_env\<lparr>se_crypto := \<lparr>sha256 = (\<lambda>_. []), json_text = write_value\<rparr>,
     se_parse := read_value\<rparr>\<rparr>"

definition checkpoint_moves :: "server_move list" where
  "checkpoint_moves = [Serves first_readings (Call_graph_create \<lparr>gc_spec = Some (spec_value chain_graph),
       gc_action = None, gc_graph_id = None, gc_idempotency_key = None, gc_template = None, gc_overwrite = None\<rparr>),
     Serves first_readings (Call_run_start \<lparr>rs_graph_id = ''g'', rs_input = None, rs_graph_version = None,
       rs_thread_id = None, rs_idempotency_key = None, rs_budgets = None, rs_checkpoint = Some True\<rparr>)]"

definition checkpointed :: server where
  "checkpointed = make_moves book_server checkpoint_moves (empty_server (Some (opened [] no_tables)))"

definition resuming :: "structured_output handler" where
  "resuming = graph_run_resume book_server first_readings (Some (resume_checkpoint_id ''run-1-1'' ''n'')) None"

lemma checkpointed_calm: "calm (sv_runs checkpointed)"
  unfolding checkpointed_def
  by (rule make_moves_invariant)
    (auto simp: empty_server_def calm_empty checkpoint_moves_def simp del: make_move.simps intro!: move_calm)

definition created :: server where
  "created = make_moves book_server (take 1 checkpoint_moves) (empty_server (Some (opened [] no_tables)))"

definition keyed_params :: run_start_params where
  "keyed_params = \<lparr>rs_graph_id = ''g'', rs_input = None, rs_graph_version = None, rs_thread_id = None,
     rs_idempotency_key = Some ''k'', rs_budgets = None, rs_checkpoint = None\<rparr>"

definition keyed_start :: "structured_output handler" where
  "keyed_start = graph_run_start book_server first_readings keyed_params"

lemma checkpointed_resumes:
  "resumed_ids (make_moves book_server [Serves first_readings (Call_run_resume (Some ''checkpoint-run-1-1-n'') None)]
     checkpointed) = [''checkpoint-run-1-1-n'']"
  by code_simp

section \<open>The state of the server\<close>

text \<open>
  C6: No two threads of execution are ever resumed from the same checkpoint: the checkpoints
  of the resumed threads are distinct over all the servers that ran on one database one after
  another, whatever calls they served, whatever order the threads began and ended in, and
  whatever statements of the store failed.
\<close>

theorem resumed_threads_have_distinct_checkpoints:
  "distinct (sessions env ss no_tables)"
  using sessions_distinct [OF store_ok_no_tables, of "{}" env ss] by simp

text \<open>
  C17: The slots that are reserved for resumptions are the same before and after any sequence
  of moves: a resumption gives its slot to the run that it admits, or releases it on each of
  its ways out.
\<close>

theorem every_reserved_slot_is_given_back:
  "rg_reserved (sv_runs (make_moves env ms s)) = rg_reserved (sv_runs s)"
proof -
  have "slot_step s (make_moves env ms s)"
    by (rule make_moves_invariant [where P = "slot_step s"]) (auto intro: slot.same slot.after move_slots)
  then show ?thesis by (simp add: slot_step_def)
qed


definition leaves_graphs :: "server_move \<Rightarrow> bool" where
  "leaves_graphs m \<longleftrightarrow> (case m of Serves _ c \<Rightarrow> True \<notin> overwriting c | _ \<Rightarrow> True)"

text \<open>
  C25: A server with at most 64 graphs keeps at most 64 graphs, as long as no call asks to
  overwrite one.
\<close>

theorem graphs_stay_bounded:
  assumes "length (sv_graphs s) \<le> MAX_GRAPHS" and "list_all leaves_graphs ms"
  shows "length (sv_graphs (make_moves env ms s)) \<le> MAX_GRAPHS"
proof -
  have "few_step s' (make_move env m s')" if "leaves_graphs m" for m s'
    using that by (intro move_few) (auto simp: leaves_graphs_def)
  then show ?thesis
    using assms make_moves_invariant [of few_graphs s ms env]
    by (auto simp: list_all_iff few_step_def few_graphs_def)
qed

theorem graphs_stay_bounded_witness:
  "length (sv_graphs (make_moves quiet_env [creating ''create''] (empty_server None))) \<le> 64"
  using graphs_stay_bounded [of "empty_server None" "[creating ''create'']" quiet_env]
  by (simp add: MAX_GRAPHS_def empty_server_def leaves_graphs_def creating_def or_else_def)

section \<open>Waiting\<close>

text \<open>The looks that a call takes before its deadline, one every 100 milliseconds.\<close>

fun looks :: "tool_call \<Rightarrow> nat" where
  "looks (Direct c) = 0"
| "looks (Call_graph_execute p) = 3001"
| "looks (Call_run_wait i t) = (or_else t 300000 + 99) div 100 + 1"

lemma wait_loop_returns:
  assumes "\<And>n. 100 * n \<le> wt_elapsed w n" and "timeout \<le> 100 * (n + fuel)"
  shows "wait_loop env now w i timeout n (Suc fuel) s \<noteq> None"
  using assms(2)
proof (induction fuel arbitrary: n s)
  case 0
  then have "timeout \<le> wt_elapsed w n" using assms(1) [of n] by simp
  then show ?case by (auto simp: Let_def split: option.splits)
next
  case (Suc fuel)
  then show ?case
    by (subst wait_loop.simps(2)) (simp only: Let_def split: option.splits if_splits, simp)
qed

lemma execute_loop_returns:
  assumes "\<And>n. 100 * n \<le> wt_elapsed w n" and "300000 \<le> 100 * (n + fuel)"
  shows "execute_loop env p g w i n (Suc fuel) s \<noteq> None"
  using assms(2)
proof (induction fuel arbitrary: n s)
  case 0
  then have "300000 \<le> wt_elapsed w n" using assms(1) [of n] by simp
  then show ?case by (auto simp: Let_def split: option.splits prod.splits)
next
  case (Suc fuel)
  then show ?case
    by (subst execute_loop.simps(2)) (simp only: Let_def split: option.splits if_splits prod.splits, simp)
qed



section \<open>Resuming\<close>

text \<open>What is read before a resumption leaves the server as it is.\<close>

definition quiet_step :: "server \<Rightarrow> server \<Rightarrow> bool" where
  "quiet_step s s' \<longleftrightarrow> sv_runs s' = sv_runs s \<and> sv_launched s' = sv_launched s \<and> store_tables s' = store_tables s"

interpretation quiet: server_relation quiet_step "(=)"
  by unfold_locales (auto simp: quiet_step_def store_tables_def)

lemma resume_reads:
  "keeps quiet_step (resumable_checkpoint env i j)" "keeps quiet_step (resume_contract env c)"
  unfolding resumable_checkpoint_def resume_contract_def found_checkpoint_def need_eligibility_def
    resolve_graph_def find_graph_def Let_def
  by (intro keep_intros reads_intros)+

lemma resumed_registry_runs:
  assumes "resumed_registry rd c k budgets approval g = (Inr i, g')"
  shows "\<exists>r. get_run i g' = Some r \<and> is_running r"
  using assms
  by (auto simp: resumed_registry_def admit_reserved_async_def admit_def get_run_def is_running_def
      split: prod.splits sum.splits if_splits option.splits)

text \<open>The end of a resumption whose run was admitted is decided by the update of its status.\<close>

lemma launch_resumed_eq:
  assumes "resumed_registry rd c k budgets approval (sv_runs s) = (Inr i, g')" and "sv_store s = Some con"
    and "update_execution_status (rd_sql rd 0) i ''running'' None None None con = (u, con')"
  shows "launch_resumed env rd c k g budgets approval s = (case u of
      Inl e \<Rightarrow> (Inl (Fails (Internal_error e)), s\<lparr>sv_runs := g', sv_store := Some con'\<rparr>)
    | Inr _ \<Rightarrow> (Inr (resumed_output c approval i), s\<lparr>sv_runs := g', sv_store := Some con', sv_launched :=
        sv_launched s @ [\<lparr>la_run_id = i, la_spec = gr_spec g, la_resumed_from = Some (cp_checkpoint_id c)\<rparr>]\<rparr>))"
  using assms by (cases u) (simp_all add: launch_resumed_def bind_step_def admit_resumed_eq in_store_def
      or_internal_def start_thread_def modify_def)

definition started_or_failed :: "server \<Rightarrow> reply \<Rightarrow> server \<Rightarrow> bool" where
  "started_or_failed s r s' \<longleftrightarrow> (\<exists>i. consumed i (store_tables s') \<and> (case r of
       Replies out \<Rightarrow> so_ok out \<and> resumed_ids s' = resumed_ids s @ [i]
     | Fails e \<Rightarrow> (\<exists>m. e = Internal_error m) \<and> resumed_ids s' = resumed_ids s
     | Panics \<Rightarrow> False))"

lemma resume_tail_consumes:
  assumes "calm (sv_runs s)" and "distinct (rg_order (sv_runs s))"
    and "tb_checkpoints (store_tables (snd (served (resume_tail env rd i k g budgets) s)))
      \<noteq> tb_checkpoints (store_tables s)"
  shows "case served (resume_tail env rd i k g budgets) s of (r, s') \<Rightarrow> started_or_failed s r s'"
proof (cases "sv_store s")
  case None
  then show ?thesis
    using assms(3) by (simp add: served_def resume_tail_def bind_step_def reserve_and_consume_eq)
next
  case (Some con)
  obtain v g1 where v: "reserve_async_slot (sv_runs s) = (v, g1)" by fastforce
  obtain w con1 where w: "consume_resume_checkpoint (sn_store env) (rd_time rd 0) i con = (w, con1)" by fastforce
  show ?thesis
  proof (cases "isl v \<or> isl w")
    case True
    have "w = Inl e \<Longrightarrow> db_tables con1 = db_tables con" for e
      using consume_fails w by blast
    then show ?thesis
      using True Some v w assms(3)
      by (auto simp: served_def resume_tail_def bind_step_def reserve_and_consume_eq store_tables_def isl_def
          split: sum.splits)
  next
    case False
    then obtain u c where uc: "v = Inr u" "w = Inr c" by (metis isl_def sum.exhaust_sel)
    let ?s = "s\<lparr>sv_runs := g1, sv_store := Some con1\<rparr>"
    have g1: "g1 = sv_runs s\<lparr>rg_reserved := rg_reserved (sv_runs s) + 1\<rparr>"
      using reserve_pair(1) v uc(1) by blast
    then have "calm g1" "distinct (rg_order g1)" "rg_reserved g1 \<noteq> 0"
      using calm_reserve [OF assms(1)] v assms(2) by simp_all
    then obtain g2 where reg: "resumed_registry rd c k budgets None g1 = (Inr (cp_run_id c), g2)"
      using resumed_registry_admits by blast
    obtain x con2 where x: "update_execution_status (rd_sql rd 0) (cp_run_id c) ''running'' None None None con1 = (x, con2)"
      by fastforce
    have c: "cp_checkpoint_id c = i" "consumed i (db_tables con2)"
      using consume_grant w uc(2) consumed_changes [OF changesD [OF update_execution_changes x]] by blast+
    have "resume_tail env rd i k g budgets s = launch_resumed env rd c k g budgets None ?s"
      using Some v w uc by (simp add: resume_tail_def bind_step_def reserve_and_consume_eq)
    moreover have "so_ok (resumed_output c None (cp_run_id c))"
      by (simp add: resumed_output_def output_with_meta_def)
    ultimately show ?thesis
      using launch_resumed_eq [of rd c k budgets None ?s "cp_run_id c" g2 con1 x con2 env g] reg x c
      by (cases x) (auto simp: served_def started_or_failed_def resumed_ids_def store_tables_def
          map_filter_append List.map_filter_simps)
  qed
qed

text \<open>
  C7: No consumed checkpoint is lost to a capacity limit: a call that resumes a run and
  consumes a checkpoint answers with success and starts one thread from that checkpoint, or
  fails with an internal error of the store and starts none. It never answers that there
  is no capacity, since the slot was reserved before the checkpoint was consumed and a full
  registry has a finished run to drop.
\<close>

theorem consumed_checkpoint_is_started:
  assumes "calm (sv_runs s)" and "distinct (rg_order (sv_runs s))"
    and "served (graph_run_resume env rd checkpoint_id run_id) s = (r, s')"
    and "tb_checkpoints (store_tables s') \<noteq> tb_checkpoints (store_tables s)"
  shows "started_or_failed s r s'"
proof -
  obtain v s1 where v: "resumable_checkpoint env checkpoint_id run_id s = (v, s1)" by fastforce
  have q1: "quiet_step s s1" by (rule keepsD [OF resume_reads(1) v])
  then obtain c where c: "v = Inr c"
    using assms(3,4) v by (cases v) (auto simp: served_def graph_run_resume_def bind_step_def quiet_step_def)
  obtain w s2 where w: "resume_contract env c s1 = (w, s2)" by fastforce
  have q2: "quiet_step s s2" by (rule quiet.after [OF q1 keepsD [OF resume_reads(2) w]])
  then obtain k g budgets where kgb: "w = Inr (k, g, budgets)"
    using assms(3,4) v c w by (cases w) (auto simp: served_def graph_run_resume_def bind_step_def quiet_step_def)
  have tail: "served (resume_tail env rd (cp_checkpoint_id c) k g budgets) s2 = (r, s')"
    using v c w kgb assms(3) by (simp add: served_def graph_run_resume_def bind_step_def)
  have "started_or_failed s2 r s'"
    using resume_tail_consumes [of s2 env rd "cp_checkpoint_id c" k g budgets] tail q2 assms
    by (simp add: quiet_step_def)
  moreover have "resumed_ids s2 = resumed_ids s" using q2 by (simp add: quiet_step_def resumed_ids_def)
  ultimately show ?thesis
    by (cases r) (simp_all add: started_or_failed_def)
qed

theorem consumed_checkpoint_is_started_witness:
  "started_or_failed checkpointed (fst (served resuming checkpointed)) (snd (served resuming checkpointed))"
proof -
  have "distinct (rg_order (sv_runs checkpointed))"
    by code_simp
  moreover have "tb_checkpoints (store_tables (snd (served resuming checkpointed)))
      \<noteq> tb_checkpoints (store_tables checkpointed)"
    by code_simp
  ultimately show ?thesis
    using consumed_checkpoint_is_started [of checkpointed book_server first_readings
        "Some (resume_checkpoint_id ''run-1-1'' ''n'')" None] checkpointed_calm
    by (simp add: resuming_def)
qed

text \<open>
  C29: When the status of a resumed run cannot be written, the resumption fails after the
  run was admitted: the run stays in the registry as running, in one of the eight places,
  and no thread was started that could ever end it.
\<close>

theorem failed_status_update_strands_the_run:
  assumes "calm (sv_runs s)" and "distinct (rg_order (sv_runs s))" and "rg_reserved (sv_runs s) \<noteq> 0"
    and "sv_store s = Some con"
    and "update_execution_status (rd_sql rd 0) (cp_run_id c) ''running'' None None None con = (Inl e, con')"
  shows "\<exists>runs r. launch_resumed env rd c k g budgets approval s
      = (Inl (Fails (Internal_error e)), s\<lparr>sv_runs := runs, sv_store := Some con'\<rparr>)
    \<and> get_run (cp_run_id c) runs = Some r \<and> is_running r"
proof -
  obtain runs where runs: "resumed_registry rd c k budgets approval (sv_runs s) = (Inr (cp_run_id c), runs)"
    using resumed_registry_admits [OF assms(1,2,3)] by blast
  show ?thesis
    using launch_resumed_eq [OF runs assms(4,5), of env g] resumed_registry_runs [OF runs] by auto
qed

definition reserved_only :: server where
  "reserved_only = (empty_server (Some (opened [Some ''disk''] no_tables)))
     \<lparr>sv_runs := snd (reserve_async_slot empty_registry)\<rparr>"

theorem failed_status_update_strands_the_run_witness:
  "\<exists>runs r. launch_resumed quiet_env first_readings sample_checkpoint
      \<lparr>xc_graph_id = ''g'', xc_graph_version = ''v1'', xc_input = Null, xc_budgets = Null\<rparr>
      (restored_graph ''v1'' chain_graph) None None reserved_only
      = (Inl (Fails (Internal_error ''update_execution error: disk'')),
         reserved_only\<lparr>sv_runs := runs, sv_store := Some (opened [] no_tables)\<rparr>)
    \<and> get_run ''r'' runs = Some r \<and> is_running r"
proof -
  have "calm (sv_runs reserved_only)"
    using calm_reserve [OF calm_empty] by (simp add: reserved_only_def)
  moreover have "distinct (rg_order (sv_runs reserved_only))" "rg_reserved (sv_runs reserved_only) \<noteq> 0"
    by code_simp+
  moreover have "sv_store reserved_only = Some (opened [Some ''disk''] no_tables)"
    by (simp add: reserved_only_def empty_server_def)
  moreover have "update_execution_status (rd_sql first_readings 0) (cp_run_id sample_checkpoint) ''running'' None None None
      (opened [Some ''disk''] no_tables) = (Inl ''update_execution error: disk'', opened [] no_tables)"
    by code_simp
  ultimately show ?thesis
    using failed_status_update_strands_the_run [of reserved_only "opened [Some ''disk''] no_tables" first_readings
        sample_checkpoint "''update_execution error: disk''" "opened [] no_tables"] by simp
qed

section \<open>Keys\<close>



end
